(* ===== verification/Prelude.thy ===== *)
theory Prelude
  imports Main "HOL-Library.Multiset"
begin

text \<open>
  The generic part of the development: the outcome of a Go computation (it returns or it
  panics), the state passing combinators in which the handlers of the controllers are
  written, the proof rules for them, and the lemmas on lists and association lists that
  several components share.
\<close>

named_theorems go_wp "rules that push a postcondition through a Go computation"
named_theorems go_defs "definitions of the Go combinators"

section \<open>Go computations\<close>

text \<open>
  A call of a Go function either returns or panics. A computation over a state \<open>'s\<close> takes the
  state before the call and gives the outcome with the state after it. The state survives a
  panic, because deferred functions still run on it.
\<close>

datatype 'a outcome = Ret 'a | Panic string

type_synonym ('s, 'a) go = "'s \<Rightarrow> 'a outcome \<times> 's"

definition returnG :: "'a \<Rightarrow> ('s, 'a) go" where
  [go_defs]: "returnG a = (\<lambda>s. (Ret a, s))"

definition panicG :: "string \<Rightarrow> ('s, 'a) go" where
  [go_defs]: "panicG p = (\<lambda>s. (Panic p, s))"

definition bindG :: "('s, 'a) go \<Rightarrow> ('a \<Rightarrow> ('s, 'b) go) \<Rightarrow> ('s, 'b) go" where
  [go_defs]: "bindG m k = (\<lambda>s. case m s of (Ret a, s') \<Rightarrow> k a s' | (Panic p, s') \<Rightarrow> (Panic p, s'))"

text \<open>
  \<open>tryG m h k\<close> is the Go idiom \<open>x, err := m; if err != nil { h }; k\<close>.
\<close>

definition tryG ::
  "('s, 'e + 'a) go \<Rightarrow> ('e \<Rightarrow> ('s, 'b) go) \<Rightarrow> ('a \<Rightarrow> ('s, 'b) go) \<Rightarrow> ('s, 'b) go" where
  [go_defs]: "tryG m h k = bindG m (\<lambda>r. case r of Inl e \<Rightarrow> h e | Inr a \<Rightarrow> k a)"

text \<open>
  \<open>checkG m h k\<close> is \<open>if err := m; err != nil { h }; k\<close>, for a call that returns only an error.
\<close>

definition checkG ::
  "('s, 'e option) go \<Rightarrow> ('e \<Rightarrow> ('s, 'b) go) \<Rightarrow> ('s, 'b) go \<Rightarrow> ('s, 'b) go" where
  [go_defs]: "checkG m h k = bindG m (\<lambda>r. case r of Some e \<Rightarrow> h e | None \<Rightarrow> k)"

definition getG :: "('s \<Rightarrow> 'a) \<Rightarrow> ('s, 'a) go" where
  [go_defs]: "getG f = (\<lambda>s. (Ret (f s), s))"

definition modifyG :: "('s \<Rightarrow> 's) \<Rightarrow> ('s, unit) go" where
  [go_defs]: "modifyG f = (\<lambda>s. (Ret (), f s))"

definition thenG :: "('s, unit) go \<Rightarrow> ('s, 'b) go \<Rightarrow> ('s, 'b) go" where
  [go_defs]: "thenG m k = bindG m (\<lambda>_. k)"

text \<open>
  \<open>derefG p k\<close> reads through a pointer: a nil pointer panics.
\<close>

definition derefG :: "'a option \<Rightarrow> ('a \<Rightarrow> ('s, 'b) go) \<Rightarrow> ('s, 'b) go" where
  [go_defs]: "derefG p k = (case p of None \<Rightarrow> panicG ''nil pointer dereference'' | Some a \<Rightarrow> k a)"

text \<open>
  \<open>deferG m d z\<close> runs \<open>m\<close> and then the deferred \<open>d\<close>, which sees the named results and may
  change them. After a panic the deferred call still runs, on the zero results \<open>z\<close>, and the
  panic goes on.
\<close>

definition deferG :: "('s, 'a) go \<Rightarrow> ('a \<Rightarrow> ('s, 'a) go) \<Rightarrow> 'a \<Rightarrow> ('s, 'a) go" where
  [go_defs]: "deferG m d z = (\<lambda>s. case m s of
       (Ret a, s') \<Rightarrow> d a s'
     | (Panic p, s') \<Rightarrow> (Panic p, snd (d z s')))"

subsection \<open>Postconditions\<close>

text \<open>
  \<open>postG m s Q\<close>: if \<open>m\<close> started in \<open>s\<close> returns, then \<open>Q\<close> holds of the result and the state
  after it. \<open>safeG m s\<close>: it returns, that is, it does not panic.
\<close>

definition postG :: "('s, 'a) go \<Rightarrow> 's \<Rightarrow> ('a \<Rightarrow> 's \<Rightarrow> bool) \<Rightarrow> bool" where
  "postG m s Q \<longleftrightarrow> (case m s of (Ret a, s') \<Rightarrow> Q a s' | (Panic p, s') \<Rightarrow> True)"

definition safeG :: "('s, 'a) go \<Rightarrow> 's \<Rightarrow> bool" where
  "safeG m s \<longleftrightarrow> (case m s of (Ret a, s') \<Rightarrow> True | (Panic p, s') \<Rightarrow> False)"

lemma postG_return [go_wp]: "postG (returnG a) s Q = Q a s"
  by (simp add: postG_def go_defs)

lemma postG_panic [go_wp]: "postG (panicG p) s Q"
  by (simp add: postG_def go_defs)

lemma postG_bind [go_wp]:
  "postG (bindG m k) s Q = postG m s (\<lambda>a s'. postG (k a) s' Q)"
  by (auto simp: postG_def go_defs split: prod.splits outcome.splits)

lemma postG_try [go_wp]:
  "postG (tryG m h k) s Q =
     postG m s (\<lambda>r s'. case r of Inl e \<Rightarrow> postG (h e) s' Q | Inr a \<Rightarrow> postG (k a) s' Q)"
  by (auto simp: postG_def go_defs split: prod.splits outcome.splits sum.splits)

lemma postG_check [go_wp]:
  "postG (checkG m h k) s Q =
     postG m s (\<lambda>r s'. case r of Some e \<Rightarrow> postG (h e) s' Q | None \<Rightarrow> postG k s' Q)"
  by (auto simp: postG_def go_defs split: prod.splits outcome.splits option.splits)

lemma postG_get [go_wp]: "postG (getG f) s Q = Q (f s) s"
  by (simp add: postG_def go_defs)

lemma postG_modify [go_wp]: "postG (modifyG f) s Q = Q () (f s)"
  by (simp add: postG_def go_defs)

lemma postG_then [go_wp]: "postG (thenG m k) s Q = postG m s (\<lambda>_ s'. postG k s' Q)"
  by (auto simp: postG_def go_defs split: prod.splits outcome.splits)

lemma postG_deref [go_wp]:
  "postG (derefG p k) s Q = (\<forall>a. p = Some a \<longrightarrow> postG (k a) s Q)"
  by (auto simp: postG_def go_defs split: option.splits)

lemma postG_defer [go_wp]:
  "postG (deferG m d z) s Q = postG m s (\<lambda>a s'. postG (d a) s' Q)"
  by (auto simp: postG_def go_defs split: prod.splits outcome.splits)

lemma postG_if [go_wp]:
  "postG (if b then m else n) s Q = (if b then postG m s Q else postG n s Q)"
  by simp

lemma postG_case_prod [go_wp]:
  "postG (case p of (a, b) \<Rightarrow> m a b) s Q = (case p of (a, b) \<Rightarrow> postG (m a b) s Q)"
  by (simp add: case_prod_beta)

lemma postG_always: "(\<And>a s'. Q a s') \<Longrightarrow> postG m s Q"
  by (simp add: postG_def split: prod.splits outcome.splits)

lemma postG_mono:
  "postG m s P \<Longrightarrow> (\<And>a s'. P a s' \<Longrightarrow> Q a s') \<Longrightarrow> postG m s Q"
  by (auto simp: postG_def split: prod.splits outcome.splits)

lemma postG_conj: "postG m s (\<lambda>a s'. P a s' \<and> Q a s') = (postG m s P \<and> postG m s Q)"
  by (auto simp: postG_def split: prod.splits outcome.splits)

lemma postG_D: "postG m s Q \<Longrightarrow> m s = (Ret a, s') \<Longrightarrow> Q a s'"
  by (simp add: postG_def)

lemma postG_I: "(\<And>a s'. m s = (Ret a, s') \<Longrightarrow> Q a s') \<Longrightarrow> postG m s Q"
  by (auto simp: postG_def split: prod.splits outcome.splits)

lemma safeG_iff: "safeG m s \<longleftrightarrow> (\<exists>a s'. m s = (Ret a, s'))"
  by (auto simp: safeG_def split: prod.splits outcome.splits)

subsection \<open>Invariants\<close>

text \<open>
  \<open>invG I m\<close>: the computation keeps \<open>I\<close>, whether it returns or panics. The rules are for
  \<open>intro\<close>, so that the goal for a handler becomes one goal for each of its calls.
\<close>

definition invG :: "('s \<Rightarrow> bool) \<Rightarrow> ('s, 'a) go \<Rightarrow> bool" where
  "invG I m \<longleftrightarrow> (\<forall>s. I s \<longrightarrow> I (snd (m s)))"

named_theorems go_inv "rules that push an invariant through a Go computation"

lemma invG_return [go_inv]: "invG I (returnG a)"
  by (simp add: invG_def go_defs)

lemma invG_panic [go_inv]: "invG I (panicG p)"
  by (simp add: invG_def go_defs)

lemma invG_get [go_inv]: "invG I (getG f)"
  by (simp add: invG_def go_defs)

lemma invG_modify [go_inv]: "(\<And>s. I s \<Longrightarrow> I (f s)) \<Longrightarrow> invG I (modifyG f)"
  by (simp add: invG_def go_defs)

lemma invG_bind [go_inv]: "invG I m \<Longrightarrow> (\<And>a. invG I (k a)) \<Longrightarrow> invG I (bindG m k)"
  unfolding invG_def bindG_def by (auto split: prod.splits outcome.splits)

lemma invG_then [go_inv]: "invG I m \<Longrightarrow> invG I k \<Longrightarrow> invG I (thenG m k)"
  unfolding thenG_def by (rule invG_bind)

lemma invG_try [go_inv]:
  "invG I m \<Longrightarrow> (\<And>e. invG I (h e)) \<Longrightarrow> (\<And>a. invG I (k a)) \<Longrightarrow> invG I (tryG m h k)"
  unfolding tryG_def by (rule invG_bind) (auto split: sum.splits)

lemma invG_check [go_inv]:
  "invG I m \<Longrightarrow> (\<And>e. invG I (h e)) \<Longrightarrow> invG I k \<Longrightarrow> invG I (checkG m h k)"
  unfolding checkG_def by (rule invG_bind) (auto split: option.splits)

lemma invG_deref [go_inv]: "(\<And>a. p = Some a \<Longrightarrow> invG I (k a)) \<Longrightarrow> invG I (derefG p k)"
  by (auto simp: derefG_def invG_panic split: option.splits)

lemma invG_defer [go_inv]: "invG I m \<Longrightarrow> (\<And>a. invG I (d a)) \<Longrightarrow> invG I (deferG m d z)"
  unfolding invG_def deferG_def by (auto split: prod.splits outcome.splits)

lemma invG_if [go_inv]: "(b \<Longrightarrow> invG I m) \<Longrightarrow> (\<not> b \<Longrightarrow> invG I n) \<Longrightarrow> invG I (if b then m else n)"
  by simp

lemma invG_D: "invG I m \<Longrightarrow> I s \<Longrightarrow> m s = (r, s') \<Longrightarrow> I s'"
  unfolding invG_def by (metis snd_conv)

lemma outcome_cases [case_names Ret Panic]:
  obtains a s' where "x = (Ret a, s')" | p s' where "x = (Panic p, s')"
  by (metis outcome.exhaust surj_pair)

subsection \<open>Returning\<close>

text \<open>
  \<open>retG I m R\<close>: from every state with \<open>I\<close> the computation returns, without a panic, a result
  with \<open>R\<close> and keeps \<open>I\<close>. The rules are applied to the first goal, call by call, because the
  rule for a call gives the \<open>R\<close> that the rest of the handler may use.
\<close>

definition retG :: "('s \<Rightarrow> bool) \<Rightarrow> ('s, 'a) go \<Rightarrow> ('a \<Rightarrow> bool) \<Rightarrow> bool" where
  "retG I m R \<longleftrightarrow> (\<forall>s. I s \<longrightarrow> (\<exists>a s'. m s = (Ret a, s') \<and> I s' \<and> R a))"

abbreviation anyG :: "'a \<Rightarrow> bool" where "anyG \<equiv> (\<lambda>_. True)"

named_theorems go_ret "rules that prove that a Go computation returns"

lemma retG_D: "retG I m R \<Longrightarrow> I s \<Longrightarrow> \<exists>a s'. m s = (Ret a, s') \<and> I s' \<and> R a"
  by (simp add: retG_def)

lemma retG_weaken: "retG I m R \<Longrightarrow> (\<And>a. R a \<Longrightarrow> S a) \<Longrightarrow> retG I m S"
  unfolding retG_def by blast

lemma retG_return [go_ret]: "retG I (returnG a) anyG"
  by (simp add: retG_def go_defs)

lemma retG_get [go_ret]: "retG I (getG f) (\<lambda>a. \<exists>s. I s \<and> f s = a)"
  by (auto simp: retG_def go_defs)

lemma retG_modify [go_ret]: "(\<And>s. I s \<Longrightarrow> I (f s)) \<Longrightarrow> retG I (modifyG f) anyG"
  by (simp add: retG_def go_defs)

lemma retG_bind [go_ret]:
  "retG I m R \<Longrightarrow> (\<And>a. R a \<Longrightarrow> retG I (k a) S) \<Longrightarrow> retG I (bindG m k) S"
  unfolding retG_def bindG_def by fastforce

lemma retG_then [go_ret]: "retG I m R \<Longrightarrow> retG I k S \<Longrightarrow> retG I (thenG m k) S"
  unfolding thenG_def by (rule retG_bind)

lemma retG_try [go_ret]:
  "retG I m R \<Longrightarrow> (\<And>e. R (Inl e) \<Longrightarrow> retG I (h e) S) \<Longrightarrow> (\<And>a. R (Inr a) \<Longrightarrow> retG I (k a) S) \<Longrightarrow>
   retG I (tryG m h k) S"
  unfolding tryG_def by (erule retG_bind) (auto split: sum.split)

lemma retG_check [go_ret]:
  "retG I m R \<Longrightarrow> (\<And>e. retG I (h e) S) \<Longrightarrow> retG I k S \<Longrightarrow> retG I (checkG m h k) S"
  unfolding checkG_def by (erule retG_bind) (auto split: option.split)

lemma retG_deref [go_ret]:
  "p \<noteq> None \<Longrightarrow> (\<And>a. p = Some a \<Longrightarrow> retG I (k a) S) \<Longrightarrow> retG I (derefG p k) S"
  by (auto simp: derefG_def)

lemma retG_defer [go_ret]:
  "retG I m R \<Longrightarrow> (\<And>a. R a \<Longrightarrow> retG I (d a) S) \<Longrightarrow> retG I (deferG m d z) S"
  unfolding retG_def deferG_def by fastforce

lemma retG_if [go_ret]:
  "(b \<Longrightarrow> retG I m S) \<Longrightarrow> (\<not> b \<Longrightarrow> retG I n S) \<Longrightarrow> retG I (if b then m else n) S"
  by simp

lemma retG_case_option [go_ret]:
  "(p = None \<Longrightarrow> retG I m S) \<Longrightarrow> (\<And>a. p = Some a \<Longrightarrow> retG I (k a) S) \<Longrightarrow>
   retG I (case p of None \<Rightarrow> m | Some a \<Rightarrow> k a) S"
  by (simp split: option.split)

lemma retG_case_sum [go_ret]:
  "(\<And>e. p = Inl e \<Longrightarrow> retG I (h e) S) \<Longrightarrow> (\<And>a. p = Inr a \<Longrightarrow> retG I (k a) S) \<Longrightarrow>
   retG I (case p of Inl e \<Rightarrow> h e | Inr a \<Rightarrow> k a) S"
  by (simp split: sum.split)

lemma retG_case_prod [go_ret]:
  "(\<And>a b. p = (a, b) \<Longrightarrow> retG I (k a b) S) \<Longrightarrow> retG I (case p of (a, b) \<Rightarrow> k a b) S"
  by (simp split: prod.split)

lemma retG_case_list [go_ret]:
  "(p = [] \<Longrightarrow> retG I m S) \<Longrightarrow> (\<And>a as. p = a # as \<Longrightarrow> retG I (k a as) S) \<Longrightarrow>
   retG I (case p of [] \<Rightarrow> m | a # as \<Rightarrow> k a as) S"
  by (simp split: list.split)

section \<open>Association lists\<close>

text \<open>
  A Go map that the code ranges over is an association list with distinct keys: the order of
  the list is the iteration order, which the language leaves open, so what the code computes
  must not depend on it.
\<close>

lemma map_of_perm:
  assumes "distinct (map fst xs)" and "mset xs = mset ys"
  shows "map_of xs = map_of ys"
proof -
  have "mset (map fst xs) = mset (map fst ys)" using assms(2) by simp
  then have "distinct (map fst ys)" using assms(1) by (metis mset_eq_imp_distinct_iff)
  moreover have "set xs = set ys" using assms(2) by (metis set_mset_mset)
  ultimately show ?thesis using assms(1) by (simp add: map_of_inject_set)
qed

text \<open>Writing every pair of a list into a map, in list order.\<close>

definition put_all :: "('k \<times> 'v) list \<Rightarrow> ('k \<rightharpoonup> 'v) \<Rightarrow> ('k \<rightharpoonup> 'v)" where
  "put_all ps m = fold (\<lambda>(k, v) a. a(k \<mapsto> v)) ps m"

lemma put_all_simps [simp]:
  "put_all [] m = m"
  "put_all ((k, v) # ps) m = put_all ps (m(k \<mapsto> v))"
  by (simp_all add: put_all_def)

lemma put_all_notin: "k \<notin> fst ` set ps \<Longrightarrow> put_all ps m k = m k"
  by (induction ps arbitrary: m) auto

lemma put_all_distinct:
  "distinct (map fst ps) \<Longrightarrow> put_all ps m = m ++ map_of ps"
proof (induction ps arbitrary: m)
  case (Cons p ps)
  obtain k v where p: "p = (k, v)" by force
  from Cons.prems have k: "k \<notin> dom (map_of ps)" by (simp add: p dom_map_of_conv_image_fst)
  from Cons.prems have "distinct (map fst ps)" by simp
  then have "put_all (p # ps) m = m(k \<mapsto> v) ++ map_of ps"
    using Cons.IH [of "m(k \<mapsto> v)"] by (simp only: p put_all_simps)
  also have "\<dots> = m ++ map_of (p # ps)"
    using k by (auto simp: p map_add_def fun_eq_iff split: option.splits)
  finally show ?case .
qed simp

end
