(* ===== verification/GoErrors.thy ===== *)
theory GoErrors
  imports Prelude
begin

text \<open>
  Go error values as the code builds and inspects them: \<open>errors.New\<close>, \<open>fmt.Errorf\<close> with
  \<open>%w\<close>, \<open>errors.Join\<close>, the sentinels of \<open>internal/ocm/hash.go\<close>, the two error
  structs of \<open>internal/util/k8s.go\<close> and \<open>reconcile.TerminalError\<close>. A nil error is \<open>None\<close>
  of the option type, or the right side of a sum.
\<close>

datatype goerr =
    ErrorString string              \<comment> \<open>\<open>errors.New\<close> at a call site, \<open>fmt.Errorf\<close> without \<open>%w\<close>\<close>
  | Sentinel string                 \<comment> \<open>a package level \<open>var Err... = errors.New(...)\<close>\<close>
  | WrapError string "goerr list"   \<comment> \<open>\<open>fmt.Errorf\<close> with \<open>%w\<close>: the message, the wrapped errors\<close>
  | JoinError "goerr list"          \<comment> \<open>\<open>errors.Join\<close>\<close>
  | NotReadyError string            \<comment> \<open>\<open>util.NotReadyError{objectName}\<close>\<close>
  | DeletionError string            \<comment> \<open>\<open>util.DeletionError{objectName}\<close>\<close>
  | TerminalError goerr             \<comment> \<open>\<open>reconcile.TerminalError(err)\<close>\<close>
  | ExternalError string string     \<comment> \<open>an error of a library call: a tag for its kind, its message\<close>

fun join_lines :: "string list \<Rightarrow> string" where
  "join_lines [] = []"
| "join_lines [x] = x"
| "join_lines (x # y # xs) = x @ CHR 0x0A # join_lines (y # xs)"

text \<open>The method \<open>Error() string\<close>.\<close>

fun Error_msg :: "goerr \<Rightarrow> string" where
  "Error_msg (ErrorString m) = m"
| "Error_msg (Sentinel m) = m"
| "Error_msg (WrapError m es) = m"
| "Error_msg (JoinError es) = join_lines (map Error_msg es)"
| "Error_msg (NotReadyError n) = ''object is not ready: '' @ n"
| "Error_msg (DeletionError n) = ''object is being deleted: '' @ n"
| "Error_msg (TerminalError e) = ''terminal error: '' @ Error_msg e"
| "Error_msg (ExternalError k m) = m"

text \<open>\<open>fmt.Errorf("<prefix>: %w", err)\<close>.\<close>

definition Errorf :: "string \<Rightarrow> goerr \<Rightarrow> goerr" where
  "Errorf p e = WrapError (p @ '': '' @ Error_msg e) [e]"

text \<open>
  \<open>errors.Join\<close> drops the nil arguments and is nil when all are nil.
\<close>

definition errors_Join :: "goerr option list \<Rightarrow> goerr option" where
  "errors_Join es = (case map the (filter (\<lambda>e. e \<noteq> None) es) of
     [] \<Rightarrow> None | x # xs \<Rightarrow> Some (JoinError (x # xs)))"

lemma errors_Join_None [simp]: "errors_Join es = None \<longleftrightarrow> (\<forall>e \<in> set es. e = None)"
  by (auto simp: errors_Join_def filter_empty_conv split: list.splits dest: filter_eq_ConsD)

lemma errors_Join_Some:
  "errors_Join es = Some e \<Longrightarrow> e = JoinError (map the (filter (\<lambda>e. e \<noteq> None) es))"
  by (auto simp: errors_Join_def split: list.splits)

text \<open>
  Comparison of two error values with \<open>==\<close>. The two structs of \<open>internal/util\<close> are compared
  by value, a sentinel is equal to itself; the other errors are pointers made at each call and
  are never equal to a target the code asks for.
\<close>

fun err_eq :: "goerr \<Rightarrow> goerr \<Rightarrow> bool" where
  "err_eq (Sentinel a) (Sentinel b) = (a = b)"
| "err_eq (NotReadyError a) (NotReadyError b) = (a = b)"
| "err_eq (DeletionError a) (DeletionError b) = (a = b)"
| "err_eq _ _ = False"

text \<open>
  \<open>errors.Is(err, target)\<close>: the error or one in its tree, walked by \<open>Unwrap\<close>, equals the
  target. None of the error types of the code has an \<open>Is\<close> method.
\<close>

fun errors_Is :: "goerr \<Rightarrow> goerr \<Rightarrow> bool" where
  "errors_Is (WrapError m es) t = (\<exists>e \<in> set es. errors_Is e t)"
| "errors_Is (JoinError es) t = (\<exists>e \<in> set es. errors_Is e t)"
| "errors_Is (TerminalError e) t = errors_Is e t"
| "errors_Is (ErrorString m) t = err_eq (ErrorString m) t"
| "errors_Is (Sentinel m) t = err_eq (Sentinel m) t"
| "errors_Is (NotReadyError n) t = err_eq (NotReadyError n) t"
| "errors_Is (DeletionError n) t = err_eq (DeletionError n) t"
| "errors_Is (ExternalError k m) t = err_eq (ExternalError k m) t"

lemma errors_Is_Errorf [simp]: "errors_Is (Errorf p e) t = errors_Is e t"
  by (simp add: Errorf_def)

lemma errors_Is_Join:
  assumes "errors_Join es = Some e"
  shows "errors_Is e t \<longleftrightarrow> (\<exists>x. Some x \<in> set es \<and> errors_Is x t)"
proof -
  have "e = JoinError (map the (filter (\<lambda>e. e \<noteq> None) es))"
    using assms by (rule errors_Join_Some)
  then show ?thesis by force
qed

text \<open>
  The result \<open>ctrl.Result\<close> of a \<open>Reconcile\<close>: requeue at once with back-off, or after a
  duration in nanoseconds. \<open>ctrl.Result{}\<close> has both fields zero.
\<close>

record Result =
  Requeue :: bool
  RequeueAfter :: int

definition Result_zero :: Result where
  "Result_zero = \<lparr>Requeue = False, RequeueAfter = 0\<rparr>"

type_synonym reconcile_result = "Result \<times> goerr option"

end
