(* ===== verification/ApiTypes.thy ===== *)
theory ApiTypes
  imports GoErrors
begin

text \<open>
  The API types of \<open>api/v1alpha1\<close>: the specs and statuses of the five kinds, the common types
  they share, their methods, and the two Go interfaces the rest of the code takes them by
  (\<open>IdentifiableClientObject\<close> of \<open>internal/status\<close> and \<open>ConfigRefProvider\<close>).
  A Go interface value is a record of its methods; the laws every implementation keeps are the
  locales \<open>identifiable_client_object\<close> and \<open>config_ref_provider\<close>, interpreted for each kind.
\<close>

section \<open>Kubernetes object data\<close>

type_synonym bytes = string

text \<open>\<open>apiextensionsv1.JSON\<close>: raw bytes, \<open>None\<close> for a nil slice.\<close>

record JSON =
  Raw :: "bytes option"

text \<open>\<open>metav1.TypeMeta\<close>.\<close>

record TypeMeta =
  tm_Kind :: string
  tm_APIVersion :: string

record NamespacedName =
  nn_Namespace :: string
  nn_Name :: string

record GroupVersionKind =
  gvk_Group :: string
  gvk_Version :: string
  gvk_Kind :: string

record OwnerReference =
  or_APIVersion :: string
  or_Kind :: string
  or_Name :: string
  or_UID :: string
  or_Controller :: bool

text \<open>
  \<open>metav1.ObjectMeta\<close>. Labels and annotations are maps that may be nil; a deletion timestamp
  is a pointer to a time, the zero time being 0; the entries of the managed fields are opaque.
\<close>

record ObjectMeta =
  om_Name :: string
  om_GenerateName :: string
  om_Namespace :: string
  om_UID :: string
  om_ResourceVersion :: string
  om_Generation :: int
  om_CreationTimestamp :: int
  om_DeletionTimestamp :: "int option"
  om_DeletionGracePeriodSeconds :: "int option"
  om_Labels :: "(string \<rightharpoonup> string) option"
  om_Annotations :: "(string \<rightharpoonup> string) option"
  om_OwnerReferences :: "OwnerReference list"
  om_Finalizers :: "string list"
  om_ManagedFields :: "string list"

definition ObjectMeta_zero :: ObjectMeta where
  "ObjectMeta_zero = \<lparr>om_Name = [], om_GenerateName = [], om_Namespace = [], om_UID = [],
     om_ResourceVersion = [], om_Generation = 0, om_CreationTimestamp = 0,
     om_DeletionTimestamp = None, om_DeletionGracePeriodSeconds = None, om_Labels = None,
     om_Annotations = None, om_OwnerReferences = [], om_Finalizers = [], om_ManagedFields = []\<rparr>"

text \<open>\<open>(*metav1.Time).IsZero\<close>, the test of the deletion timestamp.\<close>

definition IsZero_time :: "int option \<Rightarrow> bool" where
  "IsZero_time t \<longleftrightarrow> t = None \<or> t = Some 0"

datatype ConditionStatus = ConditionTrue | ConditionFalse | ConditionUnknown

text \<open>\<open>metav1.Condition\<close>, without the time of its last transition.\<close>

record Condition =
  cond_Type :: string
  cond_Status :: ConditionStatus
  cond_ObservedGeneration :: int
  cond_Reason :: string
  cond_Message :: string

section \<open>Common types\<close>

definition ConfigurationPolicyPropagate :: string where
  "ConfigurationPolicyPropagate = ''Propagate''"

definition ConfigurationPolicyDoNotPropagate :: string where
  "ConfigurationPolicyDoNotPropagate = ''DoNotPropagate''"

record OCMConfiguration =
  cfg_APIVersion :: string
  cfg_Kind :: string
  cfg_Name :: string
  cfg_Namespace :: string
  cfg_Policy :: string

record ObjectKey =
  ok_Namespace :: string
  ok_Name :: string

record Verification =
  ver_Signature :: string
  ver_SecretRef_Name :: string
  ver_Value :: string

type_synonym Identity = "(string \<times> string) list"

record ResourceReference =
  rr_Resource :: Identity
  rr_ReferencePath :: "Identity list"

record ResourceID =
  ByReference :: ResourceReference

text \<open>\<open>ocmv1.DigestSpec\<close>.\<close>

record DigestSpec =
  ds_HashAlgorithm :: string
  ds_NormalisationAlgorithm :: string
  ds_Value :: string

record ComponentInfo =
  ci_RepositorySpec :: "JSON option"
  ci_Component :: string
  ci_Version :: string
  ci_Digest :: "DigestSpec option"

record MergeAlgorithmSpecification =
  ma_Algorithm :: string
  ma_Config :: JSON

record Label =
  lb_Name :: string
  lb_Value :: JSON
  lb_Version :: string
  lb_Signing :: bool
  lb_Merge :: "MergeAlgorithmSpecification option"

record ResourceInfo =
  ri_Name :: string
  ri_Type :: string
  ri_Version :: string
  ri_ExtraIdentity :: "(string \<times> string) list"
  ri_Access :: JSON
  ri_Digest :: string
  ri_Labels :: "Label list"

definition GroupVersion_Group :: string where
  "GroupVersion_Group = ''delivery.ocm.software''"

text \<open>The map with one entry that the \<open>GetVID\<close> methods build.\<close>

definition vid_map :: "string \<Rightarrow> string \<Rightarrow> string \<Rightarrow> (string \<rightharpoonup> string)" where
  "vid_map suffix a b = Map.empty(GroupVersion_Group @ ''/'' @ suffix \<mapsto> a @ '':'' @ b)"

section \<open>Constants\<close>

definition OCMConfigKey :: string where "OCMConfigKey = ''.ocmconfig''"

definition OCMLabelDowngradable :: string where
  "OCMLabelDowngradable = ''ocm.software/ocm-k8s-toolkit/downgradable''"

definition ResourceFinalizer :: string where
  "ResourceFinalizer = ''finalizers.ocm.software/resource''"

definition ComponentFinalizer :: string where
  "ComponentFinalizer = ''finalizers.ocm.software/component''"

definition RepositoryFinalizer :: string where
  "RepositoryFinalizer = ''finalizers.ocm.software/repository''"

definition KindRepository :: string where "KindRepository = ''Repository''"
definition KindComponent :: string where "KindComponent = ''Component''"
definition KindResource :: string where "KindResource = ''Resource''"
definition KindReplication :: string where "KindReplication = ''Replication''"
definition KindDeployer :: string where "KindDeployer = ''Deployer''"

text \<open>The reasons of a failed condition (\<open>condition_types.go\<close>).\<close>

datatype Reason =
    ConfigureContextFailedReason | CheckVersionFailedReason | ResourceIsNotAvailable
  | ReplicationFailedReason | GetRepositoryFailedReason | GetComponentVersionFailedReason
  | GetOCMResourceFailedReason | MarshalFailedReason | ApplyFailed | GetReferenceFailedReason
  | GetResourceFailedReason | StatusSetFailedReason | DeletionFailedReason | ResourceNotSynced

primrec reason_string :: "Reason \<Rightarrow> string" where
  "reason_string ConfigureContextFailedReason = ''ConfigureContextFailed''"
| "reason_string CheckVersionFailedReason = ''CheckVersionFailed''"
| "reason_string ResourceIsNotAvailable = ''ResourceIsNotAvailable''"
| "reason_string ReplicationFailedReason = ''ReplicationFailed''"
| "reason_string GetRepositoryFailedReason = ''GetRepositoryFailed''"
| "reason_string GetComponentVersionFailedReason = ''GetComponentVersionFailed''"
| "reason_string GetOCMResourceFailedReason = ''GetOCMResourceFailed''"
| "reason_string MarshalFailedReason = ''MarshalFailed''"
| "reason_string ApplyFailed = ''ApplyFailed''"
| "reason_string GetReferenceFailedReason = ''GetReferenceFailed''"
| "reason_string GetResourceFailedReason = ''GetResourceFailed''"
| "reason_string StatusSetFailedReason = ''StatusSetFailed''"
| "reason_string DeletionFailedReason = ''DeletionFailed''"
| "reason_string ResourceNotSynced = ''ResourceNotSynced''"

section \<open>Repository\<close>

record RepositorySpec =
  rs_RepositorySpec :: "JSON option"
  rs_OCMConfig :: "OCMConfiguration list"
  rs_Interval :: int
  rs_Suspend :: bool

record RepositoryStatus =
  rst_ObservedGeneration :: int
  rst_Conditions :: "Condition list"
  rst_EffectiveOCMConfig :: "OCMConfiguration list"

record Repository =
  repo_meta :: ObjectMeta
  repo_Spec :: RepositorySpec
  repo_Status :: RepositoryStatus

definition Repository_GetConditions :: "Repository \<Rightarrow> Condition list" where
  "Repository_GetConditions r = rst_Conditions (repo_Status r)"

definition Repository_SetConditions :: "Condition list \<Rightarrow> Repository \<Rightarrow> Repository" where
  "Repository_SetConditions cs r = r\<lparr>repo_Status := (repo_Status r)\<lparr>rst_Conditions := cs\<rparr>\<rparr>"

definition Repository_GetRequeueAfter :: "Repository \<Rightarrow> int" where
  "Repository_GetRequeueAfter r = rs_Interval (repo_Spec r)"

definition Repository_GetSpecifiedOCMConfig :: "Repository \<Rightarrow> OCMConfiguration list" where
  "Repository_GetSpecifiedOCMConfig r = rs_OCMConfig (repo_Spec r)"

definition Repository_GetEffectiveOCMConfig :: "Repository \<Rightarrow> OCMConfiguration list" where
  "Repository_GetEffectiveOCMConfig r = rst_EffectiveOCMConfig (repo_Status r)"

definition Repository_GetVID :: "Repository \<Rightarrow> (string \<rightharpoonup> string)" where
  "Repository_GetVID r =
     vid_map ''repository'' (om_Namespace (repo_meta r)) (om_Name (repo_meta r))"

definition Repository_SetObservedGeneration :: "int \<Rightarrow> Repository \<Rightarrow> Repository" where
  "Repository_SetObservedGeneration v r =
     r\<lparr>repo_Status := (repo_Status r)\<lparr>rst_ObservedGeneration := v\<rparr>\<rparr>"

section \<open>Component\<close>

definition DowngradePolicyAllow :: string where "DowngradePolicyAllow = ''Allow''"
definition DowngradePolicyDeny :: string where "DowngradePolicyDeny = ''Deny''"
definition DowngradePolicyEnforce :: string where "DowngradePolicyEnforce = ''Enforce''"

record ComponentSpec =
  cs_RepositoryRef_Name :: string
  cs_Component :: string
  cs_DowngradePolicy :: string
  cs_Semver :: string
  cs_SemverFilter :: string
  cs_Verify :: "Verification list"
  cs_OCMConfig :: "OCMConfiguration list"
  cs_Interval :: int
  cs_Suspend :: bool

record ComponentStatus =
  cst_ObservedGeneration :: int
  cst_Conditions :: "Condition list"
  cst_Component :: ComponentInfo
  cst_EffectiveOCMConfig :: "OCMConfiguration list"

record Component =
  comp_meta :: ObjectMeta
  comp_Spec :: ComponentSpec
  comp_Status :: ComponentStatus

definition Component_GetConditions :: "Component \<Rightarrow> Condition list" where
  "Component_GetConditions c = cst_Conditions (comp_Status c)"

definition Component_SetConditions :: "Condition list \<Rightarrow> Component \<Rightarrow> Component" where
  "Component_SetConditions cs c = c\<lparr>comp_Status := (comp_Status c)\<lparr>cst_Conditions := cs\<rparr>\<rparr>"

definition Component_GetVID :: "Component \<Rightarrow> (string \<rightharpoonup> string)" where
  "Component_GetVID c = vid_map ''component_version''
     (ci_Component (cst_Component (comp_Status c))) (ci_Version (cst_Component (comp_Status c)))"

definition Component_SetObservedGeneration :: "int \<Rightarrow> Component \<Rightarrow> Component" where
  "Component_SetObservedGeneration v c =
     c\<lparr>comp_Status := (comp_Status c)\<lparr>cst_ObservedGeneration := v\<rparr>\<rparr>"

definition Component_GetRequeueAfter :: "Component \<Rightarrow> int" where
  "Component_GetRequeueAfter c = cs_Interval (comp_Spec c)"

definition Component_GetSpecifiedOCMConfig :: "Component \<Rightarrow> OCMConfiguration list" where
  "Component_GetSpecifiedOCMConfig c = cs_OCMConfig (comp_Spec c)"

definition Component_GetEffectiveOCMConfig :: "Component \<Rightarrow> OCMConfiguration list" where
  "Component_GetEffectiveOCMConfig c = cst_EffectiveOCMConfig (comp_Status c)"

definition Component_GetVerifications :: "Component \<Rightarrow> Verification list" where
  "Component_GetVerifications c = cs_Verify (comp_Spec c)"

end
