(* ===== verification/ApiKinds.thy ===== *)
theory ApiKinds
  imports ApiTypes
begin

text \<open>
  The kinds Resource, Deployer and Replication of \<open>api/v1alpha1\<close>, and the interfaces the
  controllers take an object by: \<open>IdentifiableClientObject\<close> (conditions, generation,
  identifier), \<open>ConfigRefProvider\<close> (specified and effective configuration) and their union
  \<open>OCMK8SObject\<close>. Each interface is a record of methods with a locale of its laws, and each of
  the five kinds is an interpretation.
\<close>

section \<open>Resource\<close>

record ResourceSpec =
  rsp_ComponentRef_Name :: string
  rsp_Resource :: ResourceID
  rsp_OCMConfig :: "OCMConfiguration list"
  rsp_SkipVerify :: bool
  rsp_Interval :: int
  rsp_Suspend :: bool
  rsp_AdditionalStatusFields :: "(string \<times> string) list"

record ResourceStatus =
  rss_ObservedGeneration :: int
  rss_Conditions :: "Condition list"
  rss_Resource :: "ResourceInfo option"
  rss_Component :: "ComponentInfo option"
  rss_EffectiveOCMConfig :: "OCMConfiguration list"
  rss_Additional :: "(string \<rightharpoonup> JSON) option"

record Resource =
  res_meta :: ObjectMeta
  res_Spec :: ResourceSpec
  res_Status :: ResourceStatus

definition Resource_GetConditions :: "Resource \<Rightarrow> Condition list" where
  "Resource_GetConditions r = rss_Conditions (res_Status r)"

definition Resource_SetConditions :: "Condition list \<Rightarrow> Resource \<Rightarrow> Resource" where
  "Resource_SetConditions cs r = r\<lparr>res_Status := (res_Status r)\<lparr>rss_Conditions := cs\<rparr>\<rparr>"

definition Resource_GetVID :: "Resource \<Rightarrow> (string \<rightharpoonup> string)" where
  "Resource_GetVID r =
     vid_map ''resource_version'' (om_Namespace (res_meta r)) (om_Name (res_meta r))"

definition Resource_SetObservedGeneration :: "int \<Rightarrow> Resource \<Rightarrow> Resource" where
  "Resource_SetObservedGeneration v r =
     r\<lparr>res_Status := (res_Status r)\<lparr>rss_ObservedGeneration := v\<rparr>\<rparr>"

definition Resource_GetRequeueAfter :: "Resource \<Rightarrow> int" where
  "Resource_GetRequeueAfter r = rsp_Interval (res_Spec r)"

definition Resource_GetSpecifiedOCMConfig :: "Resource \<Rightarrow> OCMConfiguration list" where
  "Resource_GetSpecifiedOCMConfig r = rsp_OCMConfig (res_Spec r)"

definition Resource_GetEffectiveOCMConfig :: "Resource \<Rightarrow> OCMConfiguration list" where
  "Resource_GetEffectiveOCMConfig r = rss_EffectiveOCMConfig (res_Status r)"

section \<open>Deployer\<close>

record DeployedObjectReference =
  do_APIVersion :: string
  do_Kind :: string
  do_Name :: string
  do_Namespace :: string
  do_UID :: string

record DeployerSpec =
  dsp_ResourceRef :: ObjectKey
  dsp_OCMConfig :: "OCMConfiguration list"
  dsp_Suspend :: bool

record DeployerStatus =
  dst_ObservedGeneration :: int
  dst_Conditions :: "Condition list"
  dst_EffectiveOCMConfig :: "OCMConfiguration list"
  dst_Deployed :: "DeployedObjectReference list"

record Deployer =
  dep_meta :: ObjectMeta
  dep_Spec :: DeployerSpec
  dep_Status :: DeployerStatus

definition Deployer_GetConditions :: "Deployer \<Rightarrow> Condition list" where
  "Deployer_GetConditions d = dst_Conditions (dep_Status d)"

definition Deployer_SetConditions :: "Condition list \<Rightarrow> Deployer \<Rightarrow> Deployer" where
  "Deployer_SetConditions cs d = d\<lparr>dep_Status := (dep_Status d)\<lparr>dst_Conditions := cs\<rparr>\<rparr>"

definition Deployer_GetVID :: "Deployer \<Rightarrow> (string \<rightharpoonup> string)" where
  "Deployer_GetVID d =
     vid_map ''resource_version'' (om_Namespace (dep_meta d)) (om_Name (dep_meta d))"

definition Deployer_SetObservedGeneration :: "int \<Rightarrow> Deployer \<Rightarrow> Deployer" where
  "Deployer_SetObservedGeneration v d =
     d\<lparr>dep_Status := (dep_Status d)\<lparr>dst_ObservedGeneration := v\<rparr>\<rparr>"

definition Deployer_GetSpecifiedOCMConfig :: "Deployer \<Rightarrow> OCMConfiguration list" where
  "Deployer_GetSpecifiedOCMConfig d = dsp_OCMConfig (dep_Spec d)"

definition Deployer_GetEffectiveOCMConfig :: "Deployer \<Rightarrow> OCMConfiguration list" where
  "Deployer_GetEffectiveOCMConfig d = dst_EffectiveOCMConfig (dep_Status d)"

section \<open>Replication\<close>

text \<open>The history is a slice that may be nil; nil and empty behave alike and are both \<open>[]\<close>.\<close>

record TransferStatus =
  ts_Component :: string
  ts_Version :: string
  ts_SourceRepositorySpec :: string
  ts_TargetRepositorySpec :: string
  ts_StartTime :: int
  ts_EndTime :: int
  ts_Error :: string
  ts_Success :: bool

record ReplicationSpec =
  rpl_ComponentRef :: ObjectKey
  rpl_TargetRepositoryRef :: ObjectKey
  rpl_Interval :: int
  rpl_Suspend :: bool
  rpl_HistoryCapacity :: int
  rpl_Verify :: "Verification list"
  rpl_OCMConfig :: "OCMConfiguration list"

record ReplicationStatus =
  rpt_History :: "TransferStatus list"
  rpt_ObservedGeneration :: int
  rpt_Conditions :: "Condition list"
  rpt_EffectiveOCMConfig :: "OCMConfiguration list"

record Replication =
  repl_meta :: ObjectMeta
  repl_Spec :: ReplicationSpec
  repl_Status :: ReplicationStatus

definition Replication_GetConditions :: "Replication \<Rightarrow> Condition list" where
  "Replication_GetConditions r = rpt_Conditions (repl_Status r)"

definition Replication_SetConditions :: "Condition list \<Rightarrow> Replication \<Rightarrow> Replication" where
  "Replication_SetConditions cs r = r\<lparr>repl_Status := (repl_Status r)\<lparr>rpt_Conditions := cs\<rparr>\<rparr>"

definition Replication_GetRequeueAfter :: "Replication \<Rightarrow> int" where
  "Replication_GetRequeueAfter r = rpl_Interval (repl_Spec r)"

definition Replication_GetSpecifiedOCMConfig :: "Replication \<Rightarrow> OCMConfiguration list" where
  "Replication_GetSpecifiedOCMConfig r = rpl_OCMConfig (repl_Spec r)"

definition Replication_GetEffectiveOCMConfig :: "Replication \<Rightarrow> OCMConfiguration list" where
  "Replication_GetEffectiveOCMConfig r = rpt_EffectiveOCMConfig (repl_Status r)"

definition Replication_GetVID :: "Replication \<Rightarrow> (string \<rightharpoonup> string)" where
  "Replication_GetVID r =
     vid_map ''replication'' (om_Namespace (repl_meta r)) (om_Name (repl_meta r))"

definition Replication_SetObservedGeneration :: "int \<Rightarrow> Replication \<Rightarrow> Replication" where
  "Replication_SetObservedGeneration v r =
     r\<lparr>repl_Status := (repl_Status r)\<lparr>rpt_ObservedGeneration := v\<rparr>\<rparr>"

section \<open>The interfaces\<close>

text \<open>
  \<open>status.IdentifiableClientObject\<close>: what \<open>UpdateStatus\<close> and the condition setters use of
  an object.
\<close>

record 'o IdentifiableClientObject =
  ico_ObjectMeta :: "'o \<Rightarrow> ObjectMeta"
  ico_GetConditions :: "'o \<Rightarrow> Condition list"
  ico_SetConditions :: "Condition list \<Rightarrow> 'o \<Rightarrow> 'o"
  ico_GetVID :: "'o \<Rightarrow> (string \<rightharpoonup> string)"
  ico_SetObservedGeneration :: "int \<Rightarrow> 'o \<Rightarrow> 'o"

text \<open>\<open>v1alpha1.ConfigRefProvider\<close>.\<close>

record 'o ConfigRefProvider =
  crp_ObjectMeta :: "'o \<Rightarrow> ObjectMeta"
  crp_GetSpecifiedOCMConfig :: "'o \<Rightarrow> OCMConfiguration list"
  crp_GetEffectiveOCMConfig :: "'o \<Rightarrow> OCMConfiguration list"

definition Repository_ico :: "Repository IdentifiableClientObject" where
  "Repository_ico = \<lparr>ico_ObjectMeta = repo_meta, ico_GetConditions = Repository_GetConditions,
     ico_SetConditions = Repository_SetConditions, ico_GetVID = Repository_GetVID,
     ico_SetObservedGeneration = Repository_SetObservedGeneration\<rparr>"

definition Component_ico :: "Component IdentifiableClientObject" where
  "Component_ico = \<lparr>ico_ObjectMeta = comp_meta, ico_GetConditions = Component_GetConditions,
     ico_SetConditions = Component_SetConditions, ico_GetVID = Component_GetVID,
     ico_SetObservedGeneration = Component_SetObservedGeneration\<rparr>"

definition Resource_ico :: "Resource IdentifiableClientObject" where
  "Resource_ico = \<lparr>ico_ObjectMeta = res_meta, ico_GetConditions = Resource_GetConditions,
     ico_SetConditions = Resource_SetConditions, ico_GetVID = Resource_GetVID,
     ico_SetObservedGeneration = Resource_SetObservedGeneration\<rparr>"

definition Deployer_ico :: "Deployer IdentifiableClientObject" where
  "Deployer_ico = \<lparr>ico_ObjectMeta = dep_meta, ico_GetConditions = Deployer_GetConditions,
     ico_SetConditions = Deployer_SetConditions, ico_GetVID = Deployer_GetVID,
     ico_SetObservedGeneration = Deployer_SetObservedGeneration\<rparr>"

definition Replication_ico :: "Replication IdentifiableClientObject" where
  "Replication_ico = \<lparr>ico_ObjectMeta = repl_meta, ico_GetConditions = Replication_GetConditions,
     ico_SetConditions = Replication_SetConditions, ico_GetVID = Replication_GetVID,
     ico_SetObservedGeneration = Replication_SetObservedGeneration\<rparr>"

definition Repository_crp :: "Repository ConfigRefProvider" where
  "Repository_crp = \<lparr>crp_ObjectMeta = repo_meta,
     crp_GetSpecifiedOCMConfig = Repository_GetSpecifiedOCMConfig,
     crp_GetEffectiveOCMConfig = Repository_GetEffectiveOCMConfig\<rparr>"

definition Component_crp :: "Component ConfigRefProvider" where
  "Component_crp = \<lparr>crp_ObjectMeta = comp_meta,
     crp_GetSpecifiedOCMConfig = Component_GetSpecifiedOCMConfig,
     crp_GetEffectiveOCMConfig = Component_GetEffectiveOCMConfig\<rparr>"

definition Resource_crp :: "Resource ConfigRefProvider" where
  "Resource_crp = \<lparr>crp_ObjectMeta = res_meta,
     crp_GetSpecifiedOCMConfig = Resource_GetSpecifiedOCMConfig,
     crp_GetEffectiveOCMConfig = Resource_GetEffectiveOCMConfig\<rparr>"

definition Deployer_crp :: "Deployer ConfigRefProvider" where
  "Deployer_crp = \<lparr>crp_ObjectMeta = dep_meta,
     crp_GetSpecifiedOCMConfig = Deployer_GetSpecifiedOCMConfig,
     crp_GetEffectiveOCMConfig = Deployer_GetEffectiveOCMConfig\<rparr>"

definition Replication_crp :: "Replication ConfigRefProvider" where
  "Replication_crp = \<lparr>crp_ObjectMeta = repl_meta,
     crp_GetSpecifiedOCMConfig = Replication_GetSpecifiedOCMConfig,
     crp_GetEffectiveOCMConfig = Replication_GetEffectiveOCMConfig\<rparr>"

section \<open>Zero values\<close>

text \<open>The zero values of the five kinds: what \<open>&v1alpha1.Component{}\<close> and its likes make.\<close>

definition ComponentInfo_zero :: ComponentInfo where
  "ComponentInfo_zero =
     \<lparr>ci_RepositorySpec = None, ci_Component = [], ci_Version = [], ci_Digest = None\<rparr>"

definition ObjectKey_zero :: ObjectKey where
  "ObjectKey_zero = \<lparr>ok_Namespace = [], ok_Name = []\<rparr>"

definition Repository_zero :: Repository where
  "Repository_zero = \<lparr>repo_meta = ObjectMeta_zero,
     repo_Spec = \<lparr>rs_RepositorySpec = None, rs_OCMConfig = [], rs_Interval = 0, rs_Suspend = False\<rparr>,
     repo_Status = \<lparr>rst_ObservedGeneration = 0, rst_Conditions = [], rst_EffectiveOCMConfig = []\<rparr>\<rparr>"

definition Component_zero :: Component where
  "Component_zero = \<lparr>comp_meta = ObjectMeta_zero,
     comp_Spec = \<lparr>cs_RepositoryRef_Name = [], cs_Component = [], cs_DowngradePolicy = [],
       cs_Semver = [], cs_SemverFilter = [], cs_Verify = [], cs_OCMConfig = [], cs_Interval = 0,
       cs_Suspend = False\<rparr>,
     comp_Status = \<lparr>cst_ObservedGeneration = 0, cst_Conditions = [],
       cst_Component = ComponentInfo_zero, cst_EffectiveOCMConfig = []\<rparr>\<rparr>"

definition Resource_zero :: Resource where
  "Resource_zero = \<lparr>res_meta = ObjectMeta_zero,
     res_Spec = \<lparr>rsp_ComponentRef_Name = [],
       rsp_Resource = \<lparr>ByReference = \<lparr>rr_Resource = [], rr_ReferencePath = []\<rparr>\<rparr>,
       rsp_OCMConfig = [], rsp_SkipVerify = False, rsp_Interval = 0, rsp_Suspend = False,
       rsp_AdditionalStatusFields = []\<rparr>,
     res_Status = \<lparr>rss_ObservedGeneration = 0, rss_Conditions = [], rss_Resource = None,
       rss_Component = None, rss_EffectiveOCMConfig = [], rss_Additional = None\<rparr>\<rparr>"

definition Deployer_zero :: Deployer where
  "Deployer_zero = \<lparr>dep_meta = ObjectMeta_zero,
     dep_Spec = \<lparr>dsp_ResourceRef = ObjectKey_zero, dsp_OCMConfig = [], dsp_Suspend = False\<rparr>,
     dep_Status = \<lparr>dst_ObservedGeneration = 0, dst_Conditions = [], dst_EffectiveOCMConfig = [],
       dst_Deployed = []\<rparr>\<rparr>"

definition Replication_zero :: Replication where
  "Replication_zero = \<lparr>repl_meta = ObjectMeta_zero,
     repl_Spec = \<lparr>rpl_ComponentRef = ObjectKey_zero, rpl_TargetRepositoryRef = ObjectKey_zero,
       rpl_Interval = 0, rpl_Suspend = False, rpl_HistoryCapacity = 0, rpl_Verify = [],
       rpl_OCMConfig = []\<rparr>,
     repl_Status = \<lparr>rpt_History = [], rpt_ObservedGeneration = 0, rpt_Conditions = [],
       rpt_EffectiveOCMConfig = []\<rparr>\<rparr>"

lemmas zero_defs =
  ObjectMeta_zero_def ComponentInfo_zero_def ObjectKey_zero_def Repository_zero_def
  Component_zero_def Resource_zero_def Deployer_zero_def Replication_zero_def

end
