(* ===== verification/ApiInterfaces.thy ===== *)
theory ApiInterfaces
  imports ApiKinds
begin

text \<open>
  The contracts of the object interfaces as locales, and the five kinds as interpretations.
  The client lemmas proved here (frame conditions of the setters) are what the theory of the
  status package and the controllers use of an object.
\<close>

locale identifiable_client_object =
  fixes io :: "'o IdentifiableClientObject"
  assumes get_set_conditions:
      "ico_GetConditions io (ico_SetConditions io cs x) = cs"
    and set_set_conditions:
      "ico_SetConditions io cs (ico_SetConditions io ds x) = ico_SetConditions io cs x"
    and set_get_conditions:
      "ico_SetConditions io (ico_GetConditions io x) x = x"
    and meta_set_conditions:
      "ico_ObjectMeta io (ico_SetConditions io cs x) = ico_ObjectMeta io x"
    and meta_set_generation:
      "ico_ObjectMeta io (ico_SetObservedGeneration io v x) = ico_ObjectMeta io x"
    and conditions_set_generation:
      "ico_GetConditions io (ico_SetObservedGeneration io v x) = ico_GetConditions io x"
    and set_generation_conditions:
      "ico_SetObservedGeneration io v (ico_SetConditions io cs x) =
         ico_SetConditions io cs (ico_SetObservedGeneration io v x)"
    and vid_set_conditions:
      "ico_GetVID io (ico_SetConditions io cs x) = ico_GetVID io x"
begin

lemmas setter_frame =
  get_set_conditions set_set_conditions set_get_conditions meta_set_conditions
  meta_set_generation conditions_set_generation vid_set_conditions

text \<open>Two rounds of condition updates are one: only the last list of conditions is kept.\<close>

lemma conditions_update_compose:
  "ico_SetConditions io (f (ico_GetConditions io (ico_SetConditions io cs x)))
     (ico_SetConditions io cs x) = ico_SetConditions io (f cs) x"
  by (simp add: get_set_conditions set_set_conditions)

text \<open>An object is determined by its conditions and any other object that agrees with it elsewhere.\<close>

lemma set_conditions_inject:
  "ico_SetConditions io cs x = ico_SetConditions io ds x \<longleftrightarrow> cs = ds"
  by (metis get_set_conditions)

end

locale config_ref_provider =
  fixes cp :: "'o ConfigRefProvider"
    and setEff :: "OCMConfiguration list \<Rightarrow> 'o \<Rightarrow> 'o"
  assumes effective_set: "crp_GetEffectiveOCMConfig cp (setEff cfgs x) = cfgs"
    and specified_set: "crp_GetSpecifiedOCMConfig cp (setEff cfgs x) = crp_GetSpecifiedOCMConfig cp x"
    and meta_set_eff: "crp_ObjectMeta cp (setEff cfgs x) = crp_ObjectMeta cp x"
begin

lemmas provider_laws = effective_set specified_set meta_set_eff

end

text \<open>
  \<open>v1alpha1.OCMK8SObject\<close> embeds both interfaces; recording the effective configuration does
  not touch the conditions, and setting conditions does not touch the configuration.
\<close>

locale ocm_k8s_object =
  identifiable_client_object io + config_ref_provider cp setEff
  for io :: "'o IdentifiableClientObject"
    and cp :: "'o ConfigRefProvider"
    and setEff :: "OCMConfiguration list \<Rightarrow> 'o \<Rightarrow> 'o" +
  assumes same_meta: "crp_ObjectMeta cp x = ico_ObjectMeta io x"
    and conditions_set_eff: "ico_GetConditions io (setEff cfgs x) = ico_GetConditions io x"
    and effective_set_conditions:
      "crp_GetEffectiveOCMConfig cp (ico_SetConditions io cs x) = crp_GetEffectiveOCMConfig cp x"
    and specified_set_conditions:
      "crp_GetSpecifiedOCMConfig cp (ico_SetConditions io cs x) = crp_GetSpecifiedOCMConfig cp x"
    and effective_set_generation:
      "crp_GetEffectiveOCMConfig cp (ico_SetObservedGeneration io v x) = crp_GetEffectiveOCMConfig cp x"
begin

text \<open>Marking an object after its configuration was recorded keeps what was recorded.\<close>

lemma effective_survives_marking:
  "crp_GetEffectiveOCMConfig cp
     (ico_SetObservedGeneration io v (ico_SetConditions io cs (setEff cfgs x))) = cfgs"
  by (simp add: effective_set_generation effective_set_conditions effective_set)

end

text \<open>How each controller records the effective configuration in the status.\<close>

definition Repository_setEffective :: "OCMConfiguration list \<Rightarrow> Repository \<Rightarrow> Repository" where
  "Repository_setEffective cfgs r =
     r\<lparr>repo_Status := (repo_Status r)\<lparr>rst_EffectiveOCMConfig := cfgs\<rparr>\<rparr>"

definition Component_setEffective :: "OCMConfiguration list \<Rightarrow> Component \<Rightarrow> Component" where
  "Component_setEffective cfgs c =
     c\<lparr>comp_Status := (comp_Status c)\<lparr>cst_EffectiveOCMConfig := cfgs\<rparr>\<rparr>"

definition Resource_setEffective :: "OCMConfiguration list \<Rightarrow> Resource \<Rightarrow> Resource" where
  "Resource_setEffective cfgs r =
     r\<lparr>res_Status := (res_Status r)\<lparr>rss_EffectiveOCMConfig := cfgs\<rparr>\<rparr>"

definition Deployer_setEffective :: "OCMConfiguration list \<Rightarrow> Deployer \<Rightarrow> Deployer" where
  "Deployer_setEffective cfgs d =
     d\<lparr>dep_Status := (dep_Status d)\<lparr>dst_EffectiveOCMConfig := cfgs\<rparr>\<rparr>"

definition Replication_setEffective :: "OCMConfiguration list \<Rightarrow> Replication \<Rightarrow> Replication" where
  "Replication_setEffective cfgs r =
     r\<lparr>repl_Status := (repl_Status r)\<lparr>rpt_EffectiveOCMConfig := cfgs\<rparr>\<rparr>"

lemmas repository_method_defs =
  Repository_ico_def Repository_crp_def Repository_GetConditions_def Repository_SetConditions_def
  Repository_GetVID_def Repository_SetObservedGeneration_def Repository_GetSpecifiedOCMConfig_def
  Repository_GetEffectiveOCMConfig_def Repository_setEffective_def

lemmas component_method_defs =
  Component_ico_def Component_crp_def Component_GetConditions_def Component_SetConditions_def
  Component_GetVID_def Component_SetObservedGeneration_def Component_GetSpecifiedOCMConfig_def
  Component_GetEffectiveOCMConfig_def Component_setEffective_def

lemmas resource_method_defs =
  Resource_ico_def Resource_crp_def Resource_GetConditions_def Resource_SetConditions_def
  Resource_GetVID_def Resource_SetObservedGeneration_def Resource_GetSpecifiedOCMConfig_def
  Resource_GetEffectiveOCMConfig_def Resource_setEffective_def

lemmas deployer_method_defs =
  Deployer_ico_def Deployer_crp_def Deployer_GetConditions_def Deployer_SetConditions_def
  Deployer_GetVID_def Deployer_SetObservedGeneration_def Deployer_GetSpecifiedOCMConfig_def
  Deployer_GetEffectiveOCMConfig_def Deployer_setEffective_def

lemmas replication_method_defs =
  Replication_ico_def Replication_crp_def Replication_GetConditions_def
  Replication_SetConditions_def Replication_GetVID_def Replication_SetObservedGeneration_def
  Replication_GetSpecifiedOCMConfig_def Replication_GetEffectiveOCMConfig_def
  Replication_setEffective_def

interpretation repository_object:
  ocm_k8s_object Repository_ico Repository_crp Repository_setEffective
  by unfold_locales (simp_all add: repository_method_defs)

interpretation component_object:
  ocm_k8s_object Component_ico Component_crp Component_setEffective
  by unfold_locales (simp_all add: component_method_defs)

interpretation resource_object:
  ocm_k8s_object Resource_ico Resource_crp Resource_setEffective
  by unfold_locales (simp_all add: resource_method_defs)

interpretation deployer_object:
  ocm_k8s_object Deployer_ico Deployer_crp Deployer_setEffective
  by unfold_locales (simp_all add: deployer_method_defs)

interpretation replication_object:
  ocm_k8s_object Replication_ico Replication_crp Replication_setEffective
  by unfold_locales (simp_all add: replication_method_defs)

end
