(* ===== verification/K8sLib.thy ===== *)
theory K8sLib
  imports ApiInterfaces
begin

text \<open>
  What the code uses of the Kubernetes libraries, as parameters: the conditions package of
  Flux (\<open>github.com/fluxcd/pkg/runtime/conditions\<close>), the finalizer helpers of
  controller-runtime, \<open>types.NamespacedName.String\<close> and \<open>apierrors.IsNotFound\<close>. None of it
  is under \<open>src/\<close>: the definitions take a record of these functions, and the properties that
  rest on them name the documented behaviour as the hypothesis \<open>k8s_contract\<close>.
  \<open>sample_k8s\<close> is a concrete record that satisfies the contract; the witnesses use it.
\<close>

record k8s_lib =
  NamespacedName_String :: "NamespacedName \<Rightarrow> string"
  IsNotFound :: "goerr \<Rightarrow> bool"
  cond_MarkTrue :: "ObjectMeta \<Rightarrow> string \<Rightarrow> string \<Rightarrow> string \<Rightarrow> Condition list \<Rightarrow> Condition list"
  cond_MarkFalse :: "ObjectMeta \<Rightarrow> string \<Rightarrow> string \<Rightarrow> string \<Rightarrow> Condition list \<Rightarrow> Condition list"
  cond_MarkStalled :: "ObjectMeta \<Rightarrow> string \<Rightarrow> string \<Rightarrow> Condition list \<Rightarrow> Condition list"
  cond_Delete :: "string \<Rightarrow> Condition list \<Rightarrow> Condition list"
  cond_Set :: "ObjectMeta \<Rightarrow> Condition \<Rightarrow> Condition list \<Rightarrow> Condition list"
  cond_Get :: "Condition list \<Rightarrow> string \<Rightarrow> Condition option"
  cond_GetReason :: "Condition list \<Rightarrow> string \<Rightarrow> string"
  cond_IsReady :: "Condition list \<Rightarrow> bool"
  cond_IsReconciling :: "Condition list \<Rightarrow> bool"
  finalizer_Contains :: "string \<Rightarrow> string list \<Rightarrow> bool"
  finalizer_Add :: "string \<Rightarrow> string list \<Rightarrow> string list \<times> bool"
  finalizer_Remove :: "string \<Rightarrow> string list \<Rightarrow> string list \<times> bool"

text \<open>The condition types and reasons of \<open>github.com/fluxcd/pkg/apis/meta\<close>.\<close>

definition ReadyCondition :: string where "ReadyCondition = ''Ready''"
definition StalledCondition :: string where "StalledCondition = ''Stalled''"
definition ReconcilingCondition :: string where "ReconcilingCondition = ''Reconciling''"
definition SucceededReason :: string where "SucceededReason = ''Succeeded''"
definition ProgressingWithRetryReason :: string where
  "ProgressingWithRetryReason = ''ProgressingWithRetry''"

lemmas condition_type_defs = ReadyCondition_def StalledCondition_def ReconcilingCondition_def

lemma condition_types_distinct [simp]:
  "ReadyCondition \<noteq> StalledCondition" "StalledCondition \<noteq> ReadyCondition"
  "ReadyCondition \<noteq> ReconcilingCondition" "ReconcilingCondition \<noteq> ReadyCondition"
  "StalledCondition \<noteq> ReconcilingCondition" "ReconcilingCondition \<noteq> StalledCondition"
  by (simp_all add: condition_type_defs)

text \<open>\<open>cs\<close> carries the condition \<open>t\<close> with the given status and reason.\<close>

definition has_cond ::
  "k8s_lib \<Rightarrow> Condition list \<Rightarrow> string \<Rightarrow> ConditionStatus \<Rightarrow> string \<Rightarrow> string \<Rightarrow> bool" where
  "has_cond L cs t st r msg \<longleftrightarrow> (\<exists>c. cond_Get L cs t = Some c \<and>
     cond_Status c = st \<and> cond_Reason c = r \<and> cond_Message c = msg)"

definition k8s_contract :: "k8s_lib \<Rightarrow> bool" where
  "k8s_contract L \<longleftrightarrow>
     (\<forall>k. NamespacedName_String L k = nn_Namespace k @ ''/'' @ nn_Name k) \<and>
     (\<forall>m t r msg cs. has_cond L (cond_MarkTrue L m t r msg cs) t ConditionTrue r msg) \<and>
     (\<forall>m t r msg cs t'. t' \<noteq> t \<longrightarrow> cond_Get L (cond_MarkTrue L m t r msg cs) t' = cond_Get L cs t') \<and>
     (\<forall>m t r msg cs. has_cond L (cond_MarkFalse L m t r msg cs) t ConditionFalse r msg) \<and>
     (\<forall>m t r msg cs t'. t' \<noteq> t \<longrightarrow> cond_Get L (cond_MarkFalse L m t r msg cs) t' = cond_Get L cs t') \<and>
     (\<forall>m r msg cs. has_cond L (cond_MarkStalled L m r msg cs) StalledCondition ConditionTrue r msg) \<and>
     (\<forall>m r msg cs. cond_Get L (cond_MarkStalled L m r msg cs) ReadyCondition = cond_Get L cs ReadyCondition) \<and>
     (\<forall>t cs. cond_Get L (cond_Delete L t cs) t = None) \<and>
     (\<forall>t cs t'. t' \<noteq> t \<longrightarrow> cond_Get L (cond_Delete L t cs) t' = cond_Get L cs t') \<and>
     (\<forall>m c cs. has_cond L (cond_Set L m c cs) (cond_Type c) (cond_Status c) (cond_Reason c) (cond_Message c)) \<and>
     (\<forall>m c cs t'. t' \<noteq> cond_Type c \<longrightarrow> cond_Get L (cond_Set L m c cs) t' = cond_Get L cs t') \<and>
     (\<forall>cs t c. cond_Get L cs t = Some c \<longrightarrow> cond_Type c = t) \<and>
     (\<forall>cs t. cond_GetReason L cs t = (case cond_Get L cs t of None \<Rightarrow> [] | Some c \<Rightarrow> cond_Reason c)) \<and>
     (\<forall>cs. cond_IsReady L cs \<longrightarrow>
        (\<exists>c. cond_Get L cs ReadyCondition = Some c \<and> cond_Status c = ConditionTrue)) \<and>
     (\<forall>cs c. cond_Get L cs ReadyCondition = Some c \<and> cond_Status c = ConditionTrue \<and>
        cond_Get L cs ReconcilingCondition = None \<and> cond_Get L cs StalledCondition = None \<longrightarrow>
        cond_IsReady L cs) \<and>
     (\<forall>cs. cond_IsReconciling L cs \<longrightarrow>
        (\<exists>c. cond_Get L cs ReconcilingCondition = Some c \<and> cond_Status c = ConditionTrue)) \<and>
     (\<forall>f fs. finalizer_Contains L f fs \<longleftrightarrow> f \<in> set fs) \<and>
     (\<forall>f fs. snd (finalizer_Add L f fs) \<longleftrightarrow> f \<notin> set fs) \<and>
     (\<forall>f fs. set (fst (finalizer_Add L f fs)) = insert f (set fs)) \<and>
     (\<forall>f fs. snd (finalizer_Remove L f fs) \<longleftrightarrow> f \<in> set fs) \<and>
     (\<forall>f fs. set (fst (finalizer_Remove L f fs)) = set fs - {f})"

text \<open>The clauses of the contract as rules.\<close>

lemma k8s_key_string: "k8s_contract L \<Longrightarrow> NamespacedName_String L k = nn_Namespace k @ ''/'' @ nn_Name k"
  by (simp add: k8s_contract_def)

lemma k8s_MarkTrue: "k8s_contract L \<Longrightarrow> has_cond L (cond_MarkTrue L m t r msg cs) t ConditionTrue r msg"
  by (simp add: k8s_contract_def)

lemma k8s_MarkTrue_other:
  "k8s_contract L \<Longrightarrow> t' \<noteq> t \<Longrightarrow> cond_Get L (cond_MarkTrue L m t r msg cs) t' = cond_Get L cs t'"
  by (simp add: k8s_contract_def)

lemma k8s_MarkFalse: "k8s_contract L \<Longrightarrow> has_cond L (cond_MarkFalse L m t r msg cs) t ConditionFalse r msg"
  by (simp add: k8s_contract_def)

lemma k8s_MarkFalse_other:
  "k8s_contract L \<Longrightarrow> t' \<noteq> t \<Longrightarrow> cond_Get L (cond_MarkFalse L m t r msg cs) t' = cond_Get L cs t'"
  by (simp add: k8s_contract_def)

lemma k8s_MarkStalled:
  "k8s_contract L \<Longrightarrow> has_cond L (cond_MarkStalled L m r msg cs) StalledCondition ConditionTrue r msg"
  by (simp add: k8s_contract_def)

lemma k8s_MarkStalled_ready:
  "k8s_contract L \<Longrightarrow>
     cond_Get L (cond_MarkStalled L m r msg cs) ReadyCondition = cond_Get L cs ReadyCondition"
  by (simp add: k8s_contract_def)

lemma k8s_Delete [simp]: "k8s_contract L \<Longrightarrow> cond_Get L (cond_Delete L t cs) t = None"
  by (simp add: k8s_contract_def)

lemma k8s_Delete_other:
  "k8s_contract L \<Longrightarrow> t' \<noteq> t \<Longrightarrow> cond_Get L (cond_Delete L t cs) t' = cond_Get L cs t'"
  by (simp add: k8s_contract_def)

lemma k8s_Set:
  "k8s_contract L \<Longrightarrow>
     has_cond L (cond_Set L m c cs) (cond_Type c) (cond_Status c) (cond_Reason c) (cond_Message c)"
  by (simp add: k8s_contract_def)

lemma k8s_Set_other:
  "k8s_contract L \<Longrightarrow> t' \<noteq> cond_Type c \<Longrightarrow> cond_Get L (cond_Set L m c cs) t' = cond_Get L cs t'"
  by (simp add: k8s_contract_def)

lemma k8s_Get_Type: "k8s_contract L \<Longrightarrow> cond_Get L cs t = Some c \<Longrightarrow> cond_Type c = t"
  by (simp add: k8s_contract_def)

lemma k8s_GetReason:
  "k8s_contract L \<Longrightarrow>
     cond_GetReason L cs t = (case cond_Get L cs t of None \<Rightarrow> [] | Some c \<Rightarrow> cond_Reason c)"
  by (simp add: k8s_contract_def)

lemma k8s_IsReadyD:
  "k8s_contract L \<Longrightarrow> cond_IsReady L cs \<Longrightarrow>
     \<exists>c. cond_Get L cs ReadyCondition = Some c \<and> cond_Status c = ConditionTrue"
  by (simp add: k8s_contract_def)

lemma k8s_IsReadyI:
  "k8s_contract L \<Longrightarrow> cond_Get L cs ReadyCondition = Some c \<Longrightarrow> cond_Status c = ConditionTrue \<Longrightarrow>
     cond_Get L cs ReconcilingCondition = None \<Longrightarrow> cond_Get L cs StalledCondition = None \<Longrightarrow>
     cond_IsReady L cs"
  by (simp add: k8s_contract_def)

lemma k8s_IsReconcilingD:
  "k8s_contract L \<Longrightarrow> cond_IsReconciling L cs \<Longrightarrow>
     \<exists>c. cond_Get L cs ReconcilingCondition = Some c \<and> cond_Status c = ConditionTrue"
  by (simp add: k8s_contract_def)

lemma k8s_finalizers:
  assumes "k8s_contract L"
  shows "finalizer_Contains L f fs \<longleftrightarrow> f \<in> set fs"
    and "snd (finalizer_Add L f fs) \<longleftrightarrow> f \<notin> set fs"
    and "set (fst (finalizer_Add L f fs)) = insert f (set fs)"
    and "snd (finalizer_Remove L f fs) \<longleftrightarrow> f \<in> set fs"
    and "set (fst (finalizer_Remove L f fs)) = set fs - {f}"
  using assms by (simp_all add: k8s_contract_def)

section \<open>A record of functions that satisfies the contract\<close>

fun sample_Get :: "Condition list \<Rightarrow> string \<Rightarrow> Condition option" where
  "sample_Get [] t = None"
| "sample_Get (c # cs) t = (if cond_Type c = t then Some c else sample_Get cs t)"

definition sample_Delete :: "string \<Rightarrow> Condition list \<Rightarrow> Condition list" where
  "sample_Delete t cs = filter (\<lambda>c. cond_Type c \<noteq> t) cs"

definition sample_Set :: "ObjectMeta \<Rightarrow> Condition \<Rightarrow> Condition list \<Rightarrow> Condition list" where
  "sample_Set m c cs =
     c\<lparr>cond_ObservedGeneration := om_Generation m\<rparr> # sample_Delete (cond_Type c) cs"

definition sample_cond :: "string \<Rightarrow> ConditionStatus \<Rightarrow> string \<Rightarrow> string \<Rightarrow> Condition" where
  "sample_cond t st r msg = \<lparr>cond_Type = t, cond_Status = st, cond_ObservedGeneration = 0,
     cond_Reason = r, cond_Message = msg\<rparr>"

definition sample_true :: "Condition list \<Rightarrow> string \<Rightarrow> bool" where
  "sample_true cs t = (case sample_Get cs t of None \<Rightarrow> False | Some c \<Rightarrow> cond_Status c = ConditionTrue)"

definition sample_k8s :: k8s_lib where
  "sample_k8s = \<lparr>
     NamespacedName_String = (\<lambda>k. nn_Namespace k @ ''/'' @ nn_Name k),
     IsNotFound = (\<lambda>e. case e of ExternalError k _ \<Rightarrow> k = ''NotFound'' | _ \<Rightarrow> False),
     cond_MarkTrue = (\<lambda>m t r msg. sample_Set m (sample_cond t ConditionTrue r msg)),
     cond_MarkFalse = (\<lambda>m t r msg. sample_Set m (sample_cond t ConditionFalse r msg)),
     cond_MarkStalled = (\<lambda>m r msg. sample_Set m (sample_cond StalledCondition ConditionTrue r msg)),
     cond_Delete = sample_Delete,
     cond_Set = sample_Set,
     cond_Get = sample_Get,
     cond_GetReason = (\<lambda>cs t. case sample_Get cs t of None \<Rightarrow> [] | Some c \<Rightarrow> cond_Reason c),
     cond_IsReady = (\<lambda>cs. sample_true cs ReadyCondition \<and>
        sample_Get cs ReconcilingCondition = None \<and> sample_Get cs StalledCondition = None),
     cond_IsReconciling = (\<lambda>cs. sample_true cs ReconcilingCondition),
     finalizer_Contains = (\<lambda>f fs. List.member fs f),
     finalizer_Add = (\<lambda>f fs. if f \<in> set fs then (fs, False) else (fs @ [f], True)),
     finalizer_Remove = (\<lambda>f fs. (filter (\<lambda>g. g \<noteq> f) fs, f \<in> set fs))\<rparr>"

lemma sample_Get_Type: "sample_Get cs t = Some c \<Longrightarrow> cond_Type c = t"
  by (induction cs) (auto split: if_splits)

lemma sample_Get_Delete:
  "sample_Get (sample_Delete t cs) t' = (if t' = t then None else sample_Get cs t')"
  by (induction cs) (auto simp: sample_Delete_def)

lemma sample_Get_Set:
  "sample_Get (sample_Set m c cs) t =
     (if t = cond_Type c then Some (c\<lparr>cond_ObservedGeneration := om_Generation m\<rparr>)
      else sample_Get cs t)"
  by (auto simp: sample_Set_def sample_Get_Delete)

lemma sample_k8s_contract: "k8s_contract sample_k8s"
  by (auto simp: k8s_contract_def sample_k8s_def has_cond_def sample_Get_Set sample_Get_Delete
      sample_cond_def sample_true_def dest: sample_Get_Type split: option.splits)

text \<open>The conditions of a ready object, for the witnesses.\<close>

definition ready_conditions :: "Condition list" where
  "ready_conditions = [sample_cond ReadyCondition ConditionTrue SucceededReason ''ok'']"

end
