(* ===== verification/Status.thy ===== *)
theory Status
  imports K8sLib
begin

text \<open>
  The packages \<open>internal/event\<close> and \<open>internal/status\<close>: events, the three functions that set
  the conditions of an object, and \<open>UpdateStatus\<close>, which every controller defers. The state of
  a reconciliation is the object in memory, the events recorded so far and the world outside
  (API server, registry), of any type \<open>'w\<close>.
\<close>

section \<open>The state of a reconciliation\<close>

record Event =
  ev_Metadata :: "string \<rightharpoonup> string"
  ev_Type :: string
  ev_Reason :: string
  ev_Message :: string

record ('o, 'w) rstate =
  obj :: 'o
  events :: "Event list"
  world :: 'w

text \<open>
  A call of something outside the program: it sees and changes the world only.
\<close>

type_synonym ('w, 'r) ext = "'w \<Rightarrow> 'r \<times> 'w"

definition callG :: "('w, 'r) ext \<Rightarrow> (('o, 'w) rstate, 'r) go" where
  [go_defs]: "callG f = (\<lambda>s. (Ret (fst (f (world s))), s\<lparr>world := snd (f (world s))\<rparr>))"

lemma retG_call [go_ret]:
  "(\<And>s w. I s \<Longrightarrow> I (s\<lparr>world := w\<rparr>)) \<Longrightarrow> retG I (callG f) anyG"
  by (simp add: retG_def callG_def)

lemma postG_call [go_wp]:
  "postG (callG f) s Q = Q (fst (f (world s))) (s\<lparr>world := snd (f (world s))\<rparr>)"
  by (simp add: postG_def go_defs)

section \<open>Events\<close>

definition EventSeverityInfo :: string where "EventSeverityInfo = ''info''"
definition EventSeverityError :: string where "EventSeverityError = ''error''"

definition event_New ::
  "k8s_lib \<Rightarrow> Condition list \<Rightarrow> (string \<rightharpoonup> string) option \<Rightarrow> string \<Rightarrow> string \<Rightarrow> Event" where
  "event_New L cs metadata severity msg =
     (let md = (case metadata of None \<Rightarrow> Map.empty | Some m \<Rightarrow> m);
          r = cond_GetReason L cs ReadyCondition;
          reason = (if r \<noteq> [] then r else severity);
          eventType = (if severity = EventSeverityError then ''Warning'' else ''Normal'')
      in \<lparr>ev_Metadata = md, ev_Type = eventType, ev_Reason = reason, ev_Message = msg\<rparr>)"

text \<open>\<open>event.New(recorder, obj, ...)\<close>: the recorder is handed one event.\<close>

definition record_event ::
  "k8s_lib \<Rightarrow> 'o IdentifiableClientObject \<Rightarrow> (string \<rightharpoonup> string) option \<Rightarrow> string \<Rightarrow> string \<Rightarrow>
   ('o, 'w) rstate \<Rightarrow> ('o, 'w) rstate" where
  "record_event L io metadata severity msg s =
     s\<lparr>events := events s @ [event_New L (ico_GetConditions io (obj s)) metadata severity msg]\<rparr>"

section \<open>Conditions\<close>

text \<open>A function of the conditions package applied to the object.\<close>

definition on_conditions ::
  "'o IdentifiableClientObject \<Rightarrow> (ObjectMeta \<Rightarrow> Condition list \<Rightarrow> Condition list) \<Rightarrow>
   ('o, 'w) rstate \<Rightarrow> ('o, 'w) rstate" where
  "on_conditions io f s =
     s\<lparr>obj := ico_SetConditions io
         (f (ico_ObjectMeta io (obj s)) (ico_GetConditions io (obj s))) (obj s)\<rparr>"

definition MarkNotReady ::
  "k8s_lib \<Rightarrow> 'o IdentifiableClientObject \<Rightarrow> Reason \<Rightarrow> string \<Rightarrow>
   ('o, 'w) rstate \<Rightarrow> ('o, 'w) rstate" where
  "MarkNotReady L io reason msg s =
     (let s1 = on_conditions io (\<lambda>_. cond_Delete L ReconcilingCondition) s;
          s2 = on_conditions io
                 (\<lambda>m. cond_MarkFalse L m ReadyCondition (reason_string reason) msg) s1
      in record_event L io None EventSeverityError msg s2)"

definition MarkAsStalled ::
  "k8s_lib \<Rightarrow> 'o IdentifiableClientObject \<Rightarrow> Reason \<Rightarrow> string \<Rightarrow>
   ('o, 'w) rstate \<Rightarrow> ('o, 'w) rstate" where
  "MarkAsStalled L io reason msg s =
     (let s1 = on_conditions io (\<lambda>_. cond_Delete L ReconcilingCondition) s;
          s2 = on_conditions io
                 (\<lambda>m. cond_MarkFalse L m ReadyCondition (reason_string reason) msg) s1;
          s3 = on_conditions io (\<lambda>m. cond_MarkStalled L m (reason_string reason) msg) s2
      in record_event L io None EventSeverityError msg s3)"

text \<open>The message of \<open>MarkReady\<close> is the format applied to its arguments.\<close>

definition MarkReady ::
  "k8s_lib \<Rightarrow> 'o IdentifiableClientObject \<Rightarrow> string \<Rightarrow> ('o, 'w) rstate \<Rightarrow> ('o, 'w) rstate" where
  "MarkReady L io msg s =
     (let s1 = on_conditions io (\<lambda>m. cond_MarkTrue L m ReadyCondition SucceededReason msg) s;
          s2 = on_conditions io (\<lambda>_. cond_Delete L ReconcilingCondition) s1
      in record_event L io None EventSeverityInfo msg s2)"

section \<open>UpdateStatus\<close>

text \<open>
  \<open>patch\<close> is \<open>patchHelper.Patch(ctx, obj)\<close>, \<open>showDuration\<close> the \<open>%s\<close> of a duration. A
  reconciling object without a \<open>Reconciling\<close> condition would make the code write through a nil
  pointer. \<open>retry_step\<close> is the body of the first \<open>if\<close>, \<open>ready_step\<close> the second \<open>if\<close>.
\<close>

definition retry_step ::
  "k8s_lib \<Rightarrow> 'o IdentifiableClientObject \<Rightarrow> Condition \<Rightarrow> ('o, 'w) rstate \<Rightarrow> ('o, 'w) rstate" where
  "retry_step L io c s =
     (let s1 = on_conditions io
                 (\<lambda>m. cond_Set L m (c\<lparr>cond_Reason := ProgressingWithRetryReason\<rparr>)) s
      in record_event L io (Some (ico_GetVID io (obj s1))) EventSeverityError
           ''Reconciliation did not succeed, keep retrying'' s1)"

definition ready_step ::
  "k8s_lib \<Rightarrow> 'o IdentifiableClientObject \<Rightarrow> (int \<Rightarrow> string) \<Rightarrow> int \<Rightarrow>
   ('o, 'w) rstate \<Rightarrow> ('o, 'w) rstate" where
  "ready_step L io sd requeue s =
     (if cond_IsReady L (ico_GetConditions io (obj s))
      then (let s1 = s\<lparr>obj := ico_SetObservedGeneration io
                      (om_Generation (ico_ObjectMeta io (obj s))) (obj s)\<rparr>
            in record_event L io (Some (ico_GetVID io (obj s1))) EventSeverityInfo
                 (if requeue > 0 then ''Reconciliation finished, next run in '' @ sd requeue
                  else ''Reconciliation finished, no further runs scheduled until next change'') s1)
      else s)"

definition UpdateStatus ::
  "k8s_lib \<Rightarrow> 'o IdentifiableClientObject \<Rightarrow> (int \<Rightarrow> string) \<Rightarrow>
   ('o \<Rightarrow> ('w, goerr option) ext) \<Rightarrow> int \<Rightarrow> goerr option \<Rightarrow>
   (('o, 'w) rstate, goerr option) go" where
  "UpdateStatus L io showDuration patch requeue err =
     bindG (getG (\<lambda>s. ico_GetConditions io (obj s))) (\<lambda>cs.
     thenG (if cond_IsReconciling L cs \<and> err \<noteq> None
            then derefG (cond_Get L cs ReconcilingCondition) (\<lambda>reconciling.
                   modifyG (retry_step L io reconciling))
            else returnG ())
    (thenG (modifyG (ready_step L io showDuration requeue))
    (bindG (getG obj) (\<lambda>x. callG (patch x)))))"

section \<open>What the condition setters do\<close>

text \<open>
  \<open>status_frame io x y\<close>: \<open>y\<close> differs from \<open>x\<close> at most in its conditions and its observed
  generation, which is then the generation of the object.
\<close>

definition status_frame :: "'o IdentifiableClientObject \<Rightarrow> 'o \<Rightarrow> 'o \<Rightarrow> bool" where
  "status_frame io x y \<longleftrightarrow> (\<exists>cs. y = ico_SetConditions io cs x \<or>
     y = ico_SetObservedGeneration io (om_Generation (ico_ObjectMeta io x)) (ico_SetConditions io cs x))"

lemma world_setters [simp]:
  "world (record_event L io md sv msg s) = world s"
  "world (on_conditions io f s) = world s"
  "world (MarkNotReady L io reason msg s) = world s"
  "world (MarkAsStalled L io reason msg s) = world s"
  "world (MarkReady L io msg s) = world s"
  by (simp_all add: record_event_def on_conditions_def MarkNotReady_def MarkAsStalled_def
      MarkReady_def Let_def)

lemma obj_record_event [simp]: "obj (record_event L io md sv msg s) = obj s"
  by (simp add: record_event_def)

lemma events_record_event:
  "events (record_event L io md sv msg s) =
     events s @ [event_New L (ico_GetConditions io (obj s)) md sv msg]"
  by (simp add: record_event_def)

lemma obj_on_conditions:
  "obj (on_conditions io f s) =
     ico_SetConditions io (f (ico_ObjectMeta io (obj s)) (ico_GetConditions io (obj s))) (obj s)"
  by (simp add: on_conditions_def)

context identifiable_client_object
begin

lemma obj_MarkNotReady:
  "obj (MarkNotReady L io reason msg s) = ico_SetConditions io
     (cond_MarkFalse L (ico_ObjectMeta io (obj s)) ReadyCondition (reason_string reason) msg
       (cond_Delete L ReconcilingCondition (ico_GetConditions io (obj s)))) (obj s)"
  by (simp add: MarkNotReady_def Let_def obj_on_conditions setter_frame)

lemma obj_MarkReady:
  "obj (MarkReady L io msg s) = ico_SetConditions io
     (cond_Delete L ReconcilingCondition
       (cond_MarkTrue L (ico_ObjectMeta io (obj s)) ReadyCondition SucceededReason msg
         (ico_GetConditions io (obj s)))) (obj s)"
  by (simp add: MarkReady_def Let_def obj_on_conditions setter_frame)

lemma obj_MarkAsStalled:
  "obj (MarkAsStalled L io reason msg s) = ico_SetConditions io
     (cond_MarkStalled L (ico_ObjectMeta io (obj s)) (reason_string reason) msg
       (cond_MarkFalse L (ico_ObjectMeta io (obj s)) ReadyCondition (reason_string reason) msg
         (cond_Delete L ReconcilingCondition (ico_GetConditions io (obj s))))) (obj s)"
  by (simp add: MarkAsStalled_def Let_def obj_on_conditions setter_frame)

lemma mark_not_ready_condition:
  assumes "k8s_contract L"
  shows "has_cond L (ico_GetConditions io (obj (MarkNotReady L io reason msg s)))
           ReadyCondition ConditionFalse (reason_string reason) msg"
    and "cond_Get L (ico_GetConditions io (obj (MarkNotReady L io reason msg s)))
           ReconcilingCondition = None"
  using assms
  by (simp_all add: obj_MarkNotReady get_set_conditions k8s_MarkFalse k8s_MarkFalse_other)

lemma mark_not_ready_not_ready:
  assumes "k8s_contract L"
  shows "\<not> cond_IsReady L (ico_GetConditions io (obj (MarkNotReady L io reason msg s)))"
  using mark_not_ready_condition(1) [OF assms, of reason msg s] k8s_IsReadyD [OF assms]
  by (force simp: has_cond_def)

lemma mark_as_stalled_not_ready:
  assumes "k8s_contract L"
  shows "\<not> cond_IsReady L (ico_GetConditions io (obj (MarkAsStalled L io reason msg s)))"
proof
  let ?cs = "ico_GetConditions io (obj (MarkAsStalled L io reason msg s))"
  assume "cond_IsReady L ?cs"
  then obtain c where "cond_Get L ?cs ReadyCondition = Some c" "cond_Status c = ConditionTrue"
    using k8s_IsReadyD [OF assms] by blast
  then show False
    using k8s_MarkFalse [OF assms, of "ico_ObjectMeta io (obj s)" ReadyCondition
        "reason_string reason" msg "cond_Delete L ReconcilingCondition (ico_GetConditions io (obj s))"]
    by (auto simp: obj_MarkAsStalled get_set_conditions has_cond_def k8s_MarkStalled_ready [OF assms])
qed

lemma mark_ready_condition:
  assumes "k8s_contract L"
  shows "has_cond L (ico_GetConditions io (obj (MarkReady L io msg s)))
           ReadyCondition ConditionTrue SucceededReason msg"
    and "cond_Get L (ico_GetConditions io (obj (MarkReady L io msg s))) ReconcilingCondition = None"
  using assms k8s_MarkTrue [OF assms, of "ico_ObjectMeta io (obj s)" ReadyCondition
      SucceededReason msg "ico_GetConditions io (obj s)"]
  by (simp_all add: obj_MarkReady get_set_conditions has_cond_def k8s_Delete_other)

lemma mark_ready_ready:
  assumes L: "k8s_contract L"
    and "cond_Get L (ico_GetConditions io (obj s)) StalledCondition = None"
  shows "cond_IsReady L (ico_GetConditions io (obj (MarkReady L io msg s)))"
proof -
  let ?cs = "ico_GetConditions io (obj (MarkReady L io msg s))"
  obtain c where "cond_Get L ?cs ReadyCondition = Some c" "cond_Status c = ConditionTrue"
    using mark_ready_condition(1) [OF L, of msg s] by (auto simp: has_cond_def)
  moreover have "cond_Get L ?cs StalledCondition = None"
    using assms by (simp add: obj_MarkReady get_set_conditions k8s_Delete_other k8s_MarkTrue_other)
  ultimately show ?thesis
    using k8s_IsReadyI [OF L] mark_ready_condition(2) [OF L] by blast
qed

lemma mark_not_ready_event:
  assumes "k8s_contract L"
  shows "events (MarkNotReady L io reason msg s) = events s @
     [\<lparr>ev_Metadata = Map.empty, ev_Type = ''Warning'', ev_Reason = reason_string reason,
       ev_Message = msg\<rparr>]"
proof -
  have "events (MarkNotReady L io reason msg s) = events s @ [event_New L
      (ico_GetConditions io (obj (MarkNotReady L io reason msg s))) None EventSeverityError msg]"
    by (simp add: MarkNotReady_def Let_def record_event_def on_conditions_def)
  moreover have "cond_GetReason L (ico_GetConditions io (obj (MarkNotReady L io reason msg s)))
      ReadyCondition = reason_string reason"
    using mark_not_ready_condition(1) [OF assms, of reason msg s]
    by (auto simp: k8s_GetReason [OF assms] has_cond_def)
  moreover have "reason_string reason \<noteq> []" by (cases reason) simp_all
  ultimately show ?thesis by (simp add: event_New_def Let_def)
qed

lemma marks_frame:
  "status_frame io (obj s) (obj (MarkNotReady L io reason msg s))"
  "status_frame io (obj s) (obj (MarkReady L io msg s))"
  "status_frame io (obj s) (obj (MarkAsStalled L io reason msg s))"
  by (auto simp: status_frame_def obj_MarkNotReady obj_MarkReady obj_MarkAsStalled)

end


section \<open>What \<open>UpdateStatus\<close> does\<close>

definition patch_step ::
  "('o \<Rightarrow> ('w, goerr option) ext) \<Rightarrow> ('o, 'w) rstate \<Rightarrow> goerr option outcome \<times> ('o, 'w) rstate" where
  "patch_step patch s =
     (Ret (fst (patch (obj s) (world s))), s\<lparr>world := snd (patch (obj s) (world s))\<rparr>)"

lemma UpdateStatus_steps:
  "UpdateStatus L io sd patch requeue err s =
     (if cond_IsReconciling L (ico_GetConditions io (obj s)) \<and> err \<noteq> None
      then (case cond_Get L (ico_GetConditions io (obj s)) ReconcilingCondition of
              None \<Rightarrow> (Panic ''nil pointer dereference'', s)
            | Some c \<Rightarrow> patch_step patch (ready_step L io sd requeue (retry_step L io c s)))
      else patch_step patch (ready_step L io sd requeue s))"
  by (cases "cond_IsReconciling L (ico_GetConditions io (obj s)) \<and> err \<noteq> None";
      cases "cond_Get L (ico_GetConditions io (obj s)) ReconcilingCondition")
     (auto simp: UpdateStatus_def go_defs patch_step_def)

lemma world_steps [simp]:
  "world (retry_step L io c s) = world s" "world (ready_step L io sd rq s) = world s"
  by (simp_all add: retry_step_def ready_step_def Let_def)

context identifiable_client_object
begin

lemma obj_retry_step:
  "obj (retry_step L io c s) = ico_SetConditions io (cond_Set L (ico_ObjectMeta io (obj s))
     (c\<lparr>cond_Reason := ProgressingWithRetryReason\<rparr>) (ico_GetConditions io (obj s))) (obj s)"
  by (simp add: retry_step_def Let_def obj_on_conditions)

lemma obj_ready_step:
  "obj (ready_step L io sd rq s) =
     (if cond_IsReady L (ico_GetConditions io (obj s))
      then ico_SetObservedGeneration io (om_Generation (ico_ObjectMeta io (obj s))) (obj s)
      else obj s)"
  by (simp add: ready_step_def Let_def)

lemma ready_step_conditions [simp]:
  "ico_GetConditions io (obj (ready_step L io sd rq s)) = ico_GetConditions io (obj s)"
  by (simp add: obj_ready_step conditions_set_generation)

lemma retry_step_ready:
  assumes "k8s_contract L" "cond_Get L (ico_GetConditions io (obj s)) ReconcilingCondition = Some c"
  shows "cond_Get L (ico_GetConditions io (obj (retry_step L io c s))) ReadyCondition =
         cond_Get L (ico_GetConditions io (obj s)) ReadyCondition"
proof -
  have "cond_Type c = ReconcilingCondition" using assms by (rule k8s_Get_Type)
  then show ?thesis using assms(1) by (simp add: obj_retry_step get_set_conditions k8s_Set_other)
qed

text \<open>
  \<open>UpdateStatus\<close> returns what the patch of the final object returns; it keeps the \<open>Ready\<close>
  condition, and the object only changes within \<open>status_frame\<close>.
\<close>

lemma UpdateStatus_ret:
  assumes L: "k8s_contract L"
  obtains s1 where
    "UpdateStatus L io sd patch rq err s =
       (Ret (fst (patch (obj s1) (world s))), s1\<lparr>world := snd (patch (obj s1) (world s))\<rparr>)"
    and "world s1 = world s"
    and "status_frame io (obj s) (obj s1)"
    and "cond_Get L (ico_GetConditions io (obj s1)) ReadyCondition =
         cond_Get L (ico_GetConditions io (obj s)) ReadyCondition"
proof (cases "cond_IsReconciling L (ico_GetConditions io (obj s)) \<and> err \<noteq> None")
  case True
  then obtain c where c: "cond_Get L (ico_GetConditions io (obj s)) ReconcilingCondition = Some c"
    using k8s_IsReconcilingD [OF L] by blast
  let ?s1 = "ready_step L io sd rq (retry_step L io c s)"
  have "UpdateStatus L io sd patch rq err s = patch_step patch ?s1"
    using True c by (simp add: UpdateStatus_steps)
  moreover have "status_frame io (obj s) (obj ?s1)"
    by (auto simp: status_frame_def obj_ready_step obj_retry_step meta_set_conditions)
  ultimately show ?thesis
    using that [of ?s1] retry_step_ready [OF L c] by (simp add: patch_step_def)
next
  case False
  let ?s1 = "ready_step L io sd rq s"
  have "UpdateStatus L io sd patch rq err s = patch_step patch ?s1"
    using False by (auto simp: UpdateStatus_steps)
  moreover have "status_frame io (obj s) (obj ?s1)"
    unfolding status_frame_def
    by (rule exI [of _ "ico_GetConditions io (obj s)"])
       (simp add: obj_ready_step set_get_conditions)
  ultimately show ?thesis
    using that [of ?s1] by (simp add: patch_step_def)
qed

lemma UpdateStatus_post:
  assumes "k8s_contract L"
    and "\<And>s1. status_frame io (obj s) (obj s1) \<Longrightarrow>
       cond_Get L (ico_GetConditions io (obj s1)) ReadyCondition =
         cond_Get L (ico_GetConditions io (obj s)) ReadyCondition \<Longrightarrow>
       Q (fst (patch (obj s1) (world s))) (s1\<lparr>world := snd (patch (obj s1) (world s))\<rparr>)"
  shows "postG (UpdateStatus L io sd patch rq err) s Q"
proof -
  obtain s1 where "UpdateStatus L io sd patch rq err s =
       (Ret (fst (patch (obj s1) (world s))), s1\<lparr>world := snd (patch (obj s1) (world s))\<rparr>)"
    and "status_frame io (obj s) (obj s1)"
    and "cond_Get L (ico_GetConditions io (obj s1)) ReadyCondition =
         cond_Get L (ico_GetConditions io (obj s)) ReadyCondition"
    using UpdateStatus_ret [OF assms(1)] .
  then show ?thesis using assms(2) by (simp add: postG_def)
qed

text \<open>When nothing is reconciling, the observed generation is set exactly when the object is ready.\<close>

lemma UpdateStatus_generation:
  assumes "\<not> cond_IsReconciling L (ico_GetConditions io (obj s))"
  shows "obj (snd (UpdateStatus L io sd patch rq err s)) =
     (if cond_IsReady L (ico_GetConditions io (obj s))
      then ico_SetObservedGeneration io (om_Generation (ico_ObjectMeta io (obj s))) (obj s)
      else obj s)"
  using assms by (simp add: UpdateStatus_steps patch_step_def obj_ready_step)

end

end
