(* ===== verification/K8sUtil.thy ===== *)
theory K8sUtil
  imports Status
begin

text \<open>
  The package \<open>internal/util\<close>: fetching an object from the API server, with the check that it
  is not being deleted and is ready. The client's \<open>Get\<close> for the kind is the argument \<open>get\<close>.
\<close>

definition util_Get ::
  "(NamespacedName \<Rightarrow> ('w, goerr + 'o) ext) \<Rightarrow> NamespacedName \<Rightarrow> (('x, 'w) rstate, goerr + 'o) go" where
  "util_Get get key =
     tryG (callG (get key))
       (\<lambda>err. returnG (Inl (Errorf ''failed to locate object'' err)))
       (\<lambda>x. returnG (Inr x))"

definition util_GetNamespaced ::
  "(NamespacedName \<Rightarrow> ('w, goerr + 'o) ext) \<Rightarrow> string \<Rightarrow> string \<Rightarrow>
   (('x, 'w) rstate, goerr + 'o) go" where
  "util_GetNamespaced get keyName namespace =
     tryG (callG (get \<lparr>nn_Namespace = namespace, nn_Name = keyName\<rparr>))
       (\<lambda>err. returnG (Inl (Errorf ''failed to locate object'' err)))
       (\<lambda>x. returnG (Inr x))"

definition GetReadyObject ::
  "k8s_lib \<Rightarrow> 'o IdentifiableClientObject \<Rightarrow> (NamespacedName \<Rightarrow> ('w, goerr + 'o) ext) \<Rightarrow>
   NamespacedName \<Rightarrow> (('x, 'w) rstate, goerr + 'o) go" where
  "GetReadyObject L io get key =
     tryG (callG (get key))
       (\<lambda>err. returnG (Inl (Errorf ''failed to locate object'' err)))
       (\<lambda>x. if \<not> IsZero_time (om_DeletionTimestamp (ico_ObjectMeta io x))
             then returnG (Inl (DeletionError (NamespacedName_String L key)))
             else if \<not> cond_IsReady L (ico_GetConditions io x)
             then returnG (Inl (NotReadyError (NamespacedName_String L key)))
             else returnG (Inr x))"

text \<open>
  The test with which the four controllers decide to stop without a requeue:
  \<open>errors.Is(err, util.NotReadyError{}) || errors.Is(err, util.DeletionError{})\<close>.
\<close>

definition is_not_available :: "goerr \<Rightarrow> bool" where
  "is_not_available err \<longleftrightarrow> errors_Is err (NotReadyError []) \<or> errors_Is err (DeletionError [])"

definition ready_object :: "k8s_lib \<Rightarrow> 'o IdentifiableClientObject \<Rightarrow> 'o \<Rightarrow> bool" where
  "ready_object L io x \<longleftrightarrow> IsZero_time (om_DeletionTimestamp (ico_ObjectMeta io x)) \<and>
     cond_IsReady L (ico_GetConditions io x)"

lemma postG_GetReadyObject [go_wp]:
  "postG (GetReadyObject L io get key) s Q =
     (let r = fst (get key (world s)); s' = s\<lparr>world := snd (get key (world s))\<rparr> in
      case r of
        Inl err \<Rightarrow> Q (Inl (Errorf ''failed to locate object'' err)) s'
      | Inr x \<Rightarrow>
          if ready_object L io x then Q (Inr x) s'
          else if IsZero_time (om_DeletionTimestamp (ico_ObjectMeta io x))
          then Q (Inl (NotReadyError (NamespacedName_String L key))) s'
          else Q (Inl (DeletionError (NamespacedName_String L key))) s')"
  by (auto simp: GetReadyObject_def go_wp ready_object_def Let_def split: sum.splits)

lemma GetReadyObject_result:
  "GetReadyObject L io get key s =
     (Ret (case fst (get key (world s)) of
         Inl err \<Rightarrow> Inl (Errorf ''failed to locate object'' err)
       | Inr x \<Rightarrow>
           if ready_object L io x then Inr x
           else if IsZero_time (om_DeletionTimestamp (ico_ObjectMeta io x))
           then Inl (NotReadyError (NamespacedName_String L key))
           else Inl (DeletionError (NamespacedName_String L key))),
      s\<lparr>world := snd (get key (world s))\<rparr>)"
  by (auto simp: GetReadyObject_def go_defs ready_object_def split: sum.splits)

text \<open>The lookup returns, and what it finds is ready and comes from the API.\<close>

lemma retG_GetReadyObject [go_ret]:
  assumes "\<And>s w. I s \<Longrightarrow> I (s\<lparr>world := w\<rparr>)"
  shows "retG I (GetReadyObject L io get key)
    (\<lambda>r. \<forall>x. r = Inr x \<longrightarrow> ready_object L io x \<and> (\<exists>w. fst (get key w) = Inr x))"
  using assms by (fastforce simp: retG_def GetReadyObject_result split: sum.splits)

text \<open>
  The name in the two errors is \<open>namespace/name\<close>, so it is never empty, and the comparison
  with the zero struct of \<open>errors.Is\<close> fails.
\<close>

lemma not_available_key:
  assumes "k8s_contract L"
  shows "\<not> is_not_available (NotReadyError (NamespacedName_String L key))"
    and "\<not> is_not_available (DeletionError (NamespacedName_String L key))"
  by (simp_all add: is_not_available_def k8s_key_string [OF assms])

lemma not_available_Errorf [simp]: "is_not_available (Errorf p e) = is_not_available e"
  by (simp add: is_not_available_def)

text \<open>The API client does not make the errors of this package.\<close>

definition foreign_get :: "(NamespacedName \<Rightarrow> ('w, goerr + 'o) ext) \<Rightarrow> bool" where
  "foreign_get get \<longleftrightarrow> (\<forall>key w e. fst (get key w) = Inl e \<longrightarrow> \<not> is_not_available e)"

lemma foreign_getD: "foreign_get get \<Longrightarrow> fst (get key w) = Inl e \<Longrightarrow> \<not> is_not_available e"
  by (auto simp: foreign_get_def)

section \<open>Properties\<close>

text \<open>
  C40: An object that exists but is being deleted or is not ready never makes
  \<open>GetReadyObject\<close> return an error that the controllers' test for
  \<open>NotReadyError{}\<close> or \<open>DeletionError{}\<close> recognises: the errors carry the object's name, and
  \<open>errors.Is\<close> compares the structs by value. The branch "return no requeue as we watch the
  object for changes anyway" is never taken for such an object.
\<close>

theorem not_ready_is_never_recognised:
  assumes "k8s_contract L"
    and "fst (get key (world s)) = Inr x"
    and "\<not> ready_object L io x"
  shows "\<exists>err s'. GetReadyObject L io get key s = (Ret (Inl err), s') \<and> \<not> is_not_available err"
  using assms not_available_key [OF assms(1)] by (auto simp: GetReadyObject_result)

theorem not_ready_is_never_recognised_witness:
  "\<exists>err s'. GetReadyObject sample_k8s Component_ico (\<lambda>key w. (Inr Component_zero, w))
       \<lparr>nn_Namespace = ''ns'', nn_Name = ''c''\<rparr> \<lparr>obj = (), events = [], world = (0::nat)\<rparr>
     = (Ret (Inl err), s') \<and> \<not> is_not_available err"
  by (rule not_ready_is_never_recognised [OF sample_k8s_contract, where x = Component_zero])
     (simp_all add: ready_object_def component_method_defs zero_defs sample_k8s_def sample_true_def)

end
