(* ===== verification/Client.thy ===== *)
theory Client
  imports K8sUtil
begin

text \<open>
  The services outside the program, as records of operations on the world \<open>'w\<close>: the
  Kubernetes API (\<open>client.Client\<close>), and the OCM library as far as the configuration and the
  session cache use it. Contexts, sessions, repositories and versions of the OCM library are
  interface values; the code only passes them around, so they are opaque handles, compared by
  identity, and what they hold is part of the world.
\<close>

section \<open>Secrets and config maps\<close>

record Secret =
  sec_Namespace :: string
  sec_Name :: string
  sec_Data :: "(string \<times> bytes) list"

record ConfigMap =
  cm_Namespace :: string
  cm_Name :: string
  cm_Data :: "(string \<times> string) list"
  cm_BinaryData :: "(string \<times> bytes) list"

text \<open>The \<open>ctrl.Object\<close> values the configuration code switches on; other types are \<open>OtherObj\<close>.\<close>

datatype ConfigObj = SecretObj Secret | ConfigMapObj ConfigMap | OtherObj string

definition config_type_name :: "ConfigObj \<Rightarrow> string" where
  "config_type_name c = (case c of SecretObj _ \<Rightarrow> ''*v1.Secret'' | ConfigMapObj _ \<Rightarrow> ''*v1.ConfigMap''
     | OtherObj t \<Rightarrow> t)"

section \<open>The API server\<close>

text \<open>
  Reads give the object or an error; \<open>List\<close> takes the name of a field index and the value it
  is asked for; \<open>Update\<close> gives back the object as the server stored it; \<open>patch\<close> is the serial
  patcher made from the object as it was read.
\<close>

record 'w client =
  getSecret :: "NamespacedName \<Rightarrow> ('w, goerr + Secret) ext"
  getConfigMap :: "NamespacedName \<Rightarrow> ('w, goerr + ConfigMap) ext"
  getRepository :: "NamespacedName \<Rightarrow> ('w, goerr + Repository) ext"
  getComponent :: "NamespacedName \<Rightarrow> ('w, goerr + Component) ext"
  getResource :: "NamespacedName \<Rightarrow> ('w, goerr + Resource) ext"
  getDeployer :: "NamespacedName \<Rightarrow> ('w, goerr + Deployer) ext"
  getReplication :: "NamespacedName \<Rightarrow> ('w, goerr + Replication) ext"
  listComponents :: "string \<Rightarrow> string \<Rightarrow> ('w, goerr + Component list) ext"
  listResources :: "string \<Rightarrow> string \<Rightarrow> ('w, goerr + Resource list) ext"
  listDeployers :: "string \<Rightarrow> string \<Rightarrow> ('w, goerr + Deployer list) ext"
  listReplications :: "string \<Rightarrow> string \<Rightarrow> ('w, goerr + Replication list) ext"
  updateRepository :: "Repository \<Rightarrow> ('w, goerr + Repository) ext"
  updateComponent :: "Component \<Rightarrow> ('w, goerr + Component) ext"
  updateResource :: "Resource \<Rightarrow> ('w, goerr + Resource) ext"
  patchRepository :: "Repository \<Rightarrow> Repository \<Rightarrow> ('w, goerr option) ext"
  patchComponent :: "Component \<Rightarrow> Component \<Rightarrow> ('w, goerr option) ext"
  patchResource :: "Resource \<Rightarrow> Resource \<Rightarrow> ('w, goerr option) ext"
  patchDeployer :: "Deployer \<Rightarrow> Deployer \<Rightarrow> ('w, goerr option) ext"
  patchReplication :: "Replication \<Rightarrow> Replication \<Rightarrow> ('w, goerr option) ext"

text \<open>\<open>client.IgnoreNotFound(err)\<close>.\<close>

definition IgnoreNotFound :: "k8s_lib \<Rightarrow> goerr \<Rightarrow> goerr option" where
  "IgnoreNotFound L err = (if IsNotFound L err then None else Some err)"

text \<open>\<open>client.ObjectKeyFromObject(obj)\<close>.\<close>

definition ObjectKeyFromObject :: "ObjectMeta \<Rightarrow> NamespacedName" where
  "ObjectKeyFromObject m = \<lparr>nn_Namespace = om_Namespace m, nn_Name = om_Name m\<rparr>"

text \<open>An API server that knows nothing, from which the witnesses build theirs.\<close>

definition not_found :: "'a \<Rightarrow> ('w, goerr + 'b) ext" where
  "not_found k w = (Inl (ExternalError ''NotFound'' ''not found''), w)"

definition empty_client :: "'w client" where
  "empty_client = \<lparr>getSecret = not_found, getConfigMap = not_found, getRepository = not_found,
     getComponent = not_found, getResource = not_found, getDeployer = not_found,
     getReplication = not_found,
     listComponents = (\<lambda>_ _ w. (Inr [], w)), listResources = (\<lambda>_ _ w. (Inr [], w)),
     listDeployers = (\<lambda>_ _ w. (Inr [], w)), listReplications = (\<lambda>_ _ w. (Inr [], w)),
     updateRepository = (\<lambda>x w. (Inr x, w)), updateComponent = (\<lambda>x w. (Inr x, w)),
     updateResource = (\<lambda>x w. (Inr x, w)),
     patchRepository = (\<lambda>_ _ w. (None, w)), patchComponent = (\<lambda>_ _ w. (None, w)),
     patchResource = (\<lambda>_ _ w. (None, w)), patchDeployer = (\<lambda>_ _ w. (None, w)),
     patchReplication = (\<lambda>_ _ w. (None, w))\<rparr>"

section \<open>Handles of the OCM library\<close>

type_synonym OCMContext = nat
type_synonym OCMSession = nat
type_synonym OCMRepository = nat
type_synonym OCMRepositorySpec = nat
type_synonym OCMComponentAccess = nat
type_synonym OCMComponentVersion = nat
type_synonym OCMResourceAccess = nat

text \<open>What the package \<open>internal/ocm\<close> uses of contexts and sessions.\<close>

record ('w, 'cfg) ocm_context_lib =
  ocm_New :: "('w, OCMContext) ext"
  RepositoryForDockerConfig :: "OCMContext \<Rightarrow> bytes \<Rightarrow> ('w, goerr option) ext"
  GetConfigForData :: "OCMContext \<Rightarrow> bytes \<Rightarrow> string option \<Rightarrow> ('w, goerr + 'cfg) ext"
  ApplyConfig :: "OCMContext \<Rightarrow> 'cfg \<Rightarrow> string \<Rightarrow> ('w, goerr option) ext"
  context_Finalize :: "OCMContext \<Rightarrow> ('w, goerr option) ext"
  context_CloseOnFinalize :: "OCMContext \<Rightarrow> OCMSession \<Rightarrow> ('w, unit) ext"
  signing_HasRegistry :: "OCMContext \<Rightarrow> ('w, bool) ext"
  signing_RegisterPublicKey :: "OCMContext \<Rightarrow> string \<Rightarrow> bytes option \<Rightarrow> ('w, unit) ext"
  ocm_NewSession :: "('w, OCMSession) ext"
  session_IsClosed :: "OCMSession \<Rightarrow> ('w, bool) ext"
  session_Close :: "OCMSession \<Rightarrow> ('w, goerr option) ext"

text \<open>Running a computation of another component on the world of a reconciliation.\<close>

definition liftG :: "('w, 'a) go \<Rightarrow> (('o, 'w) rstate, 'a) go" where
  [go_defs]: "liftG m = (\<lambda>s. case m (world s) of (r, w) \<Rightarrow> (r, s\<lparr>world := w\<rparr>))"

lemma postG_lift [go_wp]:
  "postG (liftG m) s Q = postG m (world s) (\<lambda>a w. Q a (s\<lparr>world := w\<rparr>))"
  by (auto simp: postG_def liftG_def split: prod.splits outcome.splits)

text \<open>A library call on the world itself.\<close>

definition extG :: "('w, 'a) ext \<Rightarrow> ('w, 'a) go" where
  [go_defs]: "extG f = (\<lambda>w. (Ret (fst (f w)), snd (f w)))"

lemma postG_ext [go_wp]: "postG (extG f) w Q = Q (fst (f w)) (snd (f w))"
  by (simp add: postG_def extG_def)

lemma retG_lift [go_ret]:
  assumes "retG anyG m R" and "\<And>s w. I s \<Longrightarrow> I (s\<lparr>world := w\<rparr>)"
  shows "retG I (liftG m) R"
proof -
  have "\<exists>a s'. liftG m s = (Ret a, s') \<and> I s' \<and> R a" if "I s" for s
    using retG_D [OF assms(1), of "world s"] assms(2) [OF that] by (auto simp: liftG_def)
  then show ?thesis by (simp add: retG_def)
qed

lemma retG_ext [go_ret]: "retG anyG (extG f) anyG"
  by (simp add: retG_def extG_def)

lemma retG_ext_result: "retG anyG (extG f) (\<lambda>a. \<exists>w. fst (f w) = a)"
  by (auto simp: retG_def extG_def)

end
