(* ===== verification/OcmConfig.thy ===== *)
theory OcmConfig
  imports Client
begin

text \<open>
  \<open>internal/ocm/ocm.go\<close>, the configuration half: which secrets and config maps configure an
  object (\<open>GetEffectiveConfig\<close>), and how one of them is applied to an OCM context.
\<close>

section \<open>Effective configuration\<close>

text \<open>\<open>GetEffectiveOCMConfig\<close> of an object fetched from the API server.\<close>

definition get_effective ::
  "(NamespacedName \<Rightarrow> ('w, goerr + 'o) ext) \<Rightarrow> ('o \<Rightarrow> OCMConfiguration list) \<Rightarrow>
   NamespacedName \<Rightarrow> ('w, goerr + OCMConfiguration list) ext" where
  "get_effective get eff key w = (case get key w of (r, w') \<Rightarrow> (map_sum id eff r, w'))"

text \<open>The \<open>switch config.Kind\<close> that chooses the type of the referenced object.\<close>

definition provider_for ::
  "'w client \<Rightarrow> string \<Rightarrow> (NamespacedName \<Rightarrow> ('w, goerr + OCMConfiguration list) ext) option" where
  "provider_for cl kind =
     (if kind = KindRepository
      then Some (get_effective (getRepository cl) Repository_GetEffectiveOCMConfig)
      else if kind = KindComponent
      then Some (get_effective (getComponent cl) Component_GetEffectiveOCMConfig)
      else if kind = KindResource
      then Some (get_effective (getResource cl) Resource_GetEffectiveOCMConfig)
      else if kind = KindReplication
      then Some (get_effective (getReplication cl) Replication_GetEffectiveOCMConfig)
      else None)"

definition propagated :: "string \<Rightarrow> OCMConfiguration list \<Rightarrow> OCMConfiguration list" where
  "propagated policy refs =
     map (\<lambda>ref. ref\<lparr>cfg_Policy := policy\<rparr>)
       (filter (\<lambda>ref. cfg_Policy ref = ConfigurationPolicyPropagate) refs)"

definition default_namespace :: "string \<Rightarrow> OCMConfiguration \<Rightarrow> OCMConfiguration" where
  "default_namespace ns config =
     (if cfg_Namespace config = [] then config\<lparr>cfg_Namespace := ns\<rparr> else config)"

definition default_api_version :: "OCMConfiguration \<Rightarrow> OCMConfiguration" where
  "default_api_version config =
     (if cfg_APIVersion config = [] then config\<lparr>cfg_APIVersion := ''v1''\<rparr> else config)"

definition is_leaf_kind :: "string \<Rightarrow> bool" where
  "is_leaf_kind kind \<longleftrightarrow> kind = ''Secret'' \<or> kind = ''ConfigMap''"

text \<open>One iteration of the loop over the specified configurations.\<close>

definition effective_step ::
  "'w client \<Rightarrow> string \<Rightarrow> OCMConfiguration \<Rightarrow> ('w, goerr + OCMConfiguration list) go" where
  "effective_step cl ns config0 =
     (let config = default_namespace ns config0 in
      if is_leaf_kind (cfg_Kind config) then returnG (Inr [default_api_version config])
      else if cfg_APIVersion config = []
      then returnG (Inl (ErrorString
             (''api version must be set for reference of kind '' @ cfg_Kind config)))
      else case provider_for cl (cfg_Kind config) of
        None \<Rightarrow> returnG (Inl (ErrorString (''unsupported reference kind: '' @ cfg_Kind config)))
      | Some get \<Rightarrow>
          tryG (extG (get \<lparr>nn_Namespace = cfg_Namespace config, nn_Name = cfg_Name config\<rparr>))
            (\<lambda>err. returnG (Inl (Errorf (''failed to fetch resource '' @ cfg_Name config) err)))
            (\<lambda>refs. returnG (Inr (propagated (cfg_Policy config) refs))))"

fun effective_loop ::
  "'w client \<Rightarrow> string \<Rightarrow> OCMConfiguration list \<Rightarrow> OCMConfiguration list \<Rightarrow>
   ('w, goerr + OCMConfiguration list) go" where
  "effective_loop cl ns [] refs = returnG (Inr refs)"
| "effective_loop cl ns (config # configs) refs =
     tryG (effective_step cl ns config)
       (\<lambda>err. returnG (Inl err))
       (\<lambda>rs. effective_loop cl ns configs (refs @ rs))"

definition GetEffectiveConfig ::
  "'w client \<Rightarrow> 'o ConfigRefProvider \<Rightarrow> 'o \<Rightarrow> ('w, goerr + OCMConfiguration list) go" where
  "GetEffectiveConfig cl cp x =
     (let configs = crp_GetSpecifiedOCMConfig cp x in
      if configs = [] then returnG (Inr [])
      else effective_loop cl (om_Namespace (crp_ObjectMeta cp x)) configs [])"

section \<open>Applying a configuration object to a context\<close>

definition DockerConfigJsonKey :: string where "DockerConfigJsonKey = ''.dockerconfigjson''"

text \<open>The name under which the model passes \<open>runtime.DefaultYAMLEncoding\<close> to the library.\<close>

definition DefaultYAMLEncoding :: string where "DefaultYAMLEncoding = ''yaml''"

text \<open>\<open>wrapErr p f k\<close>: a call that returns only an error, which is wrapped with the message \<open>p\<close>.\<close>

definition wrapErr :: "string \<Rightarrow> ('w, goerr option) ext \<Rightarrow> ('w, goerr option) go \<Rightarrow> ('w, goerr option) go" where
  "wrapErr p f k = checkG (extG f) (\<lambda>err. returnG (Some (Errorf p err))) k"

definition ConfigureContextForSecret ::
  "('w, 'cfg) ocm_context_lib \<Rightarrow> OCMContext \<Rightarrow> Secret \<Rightarrow> ('w, goerr option) go" where
  "ConfigureContextForSecret OL octx secret =
     (let name = sec_Namespace secret @ ''/'' @ sec_Name secret;
          ocmConfig =
            (case map_of (sec_Data secret) OCMConfigKey of
               None \<Rightarrow> returnG None
             | Some ocmConfigBytes \<Rightarrow>
                 if ocmConfigBytes = [] then returnG None
                 else tryG (extG (GetConfigForData OL octx ocmConfigBytes (Some DefaultYAMLEncoding)))
                   (\<lambda>err. returnG (Some (Errorf
                      (''failed to deserialize ocm config data in secret '' @ name) err)))
                   (\<lambda>cfg. wrapErr (''failed to apply ocm config in secret '' @ name)
                      (ApplyConfig OL octx cfg (''ocm config secret: '' @ name)) (returnG None)))
      in case map_of (sec_Data secret) DockerConfigJsonKey of
           None \<Rightarrow> ocmConfig
         | Some dockerConfigBytes \<Rightarrow>
             if dockerConfigBytes = [] then ocmConfig
             else wrapErr
               (''failed to apply credentials from dockerconfig json in secret '' @ name)
               (RepositoryForDockerConfig OL octx dockerConfigBytes) ocmConfig)"

definition ConfigureContextForConfigMaps ::
  "('w, 'cfg) ocm_context_lib \<Rightarrow> OCMContext \<Rightarrow> ConfigMap \<Rightarrow> ('w, goerr option) go" where
  "ConfigureContextForConfigMaps OL octx configmap =
     (let name = cm_Namespace configmap @ ''/'' @ cm_Name configmap in
      case map_of (cm_Data configmap) OCMConfigKey of
        None \<Rightarrow> returnG (Some (ErrorString
          (''ocm configuration config map does not contain key '' @ [CHR 0x22] @ OCMConfigKey @ [CHR 0x22])))
      | Some ocmConfigData \<Rightarrow>
          if ocmConfigData = [] then returnG None
          else tryG (extG (GetConfigForData OL octx ocmConfigData None))
            (\<lambda>err. returnG (Some (Errorf
               (''failed to deserialize ocm config data in config map '' @ name) err)))
            (\<lambda>cfg. wrapErr (''failed to apply ocm config in config map '' @ name)
               (ApplyConfig OL octx cfg name) (returnG None)))"

text \<open>The text that \<open>%s\<close> prints for \<open>obj.GetObjectKind()\<close> is a library value; here it is the kind.\<close>

definition ConfigureContextForSecretOrConfigMap ::
  "('w, 'cfg) ocm_context_lib \<Rightarrow> OCMContext \<Rightarrow> ConfigObj \<Rightarrow> ('w, goerr option) go" where
  "ConfigureContextForSecretOrConfigMap OL octx c =
     (case c of
        SecretObj secret \<Rightarrow>
          checkG (ConfigureContextForSecret OL octx secret)
            (\<lambda>err. returnG (Some (Errorf (''configure context failed for secret '' @
               sec_Namespace secret @ ''/'' @ sec_Name secret) err)))
            (returnG None)
      | ConfigMapObj cm \<Rightarrow>
          checkG (ConfigureContextForConfigMaps OL octx cm)
            (\<lambda>err. returnG (Some (Errorf (''configure context failed for config map '' @
               cm_Namespace cm @ ''/'' @ cm_Name cm) err)))
            (returnG None)
      | OtherObj t \<Rightarrow> returnG (Some (ErrorString (''unsupported configuration object type: '' @ t))))"

section \<open>Lemmas on the effective configuration\<close>

text \<open>
  What one specified configuration contributes when the API server answers from the world
  \<open>w\<close>: \<open>None\<close> when the reference cannot be resolved.
\<close>

definition contribution ::
  "'w client \<Rightarrow> string \<Rightarrow> 'w \<Rightarrow> OCMConfiguration \<Rightarrow> OCMConfiguration list option" where
  "contribution cl ns w config =
     (let ns' = (if cfg_Namespace config = [] then ns else cfg_Namespace config) in
      if is_leaf_kind (cfg_Kind config)
      then Some [config\<lparr>cfg_Namespace := ns',
             cfg_APIVersion := (if cfg_APIVersion config = [] then ''v1'' else cfg_APIVersion config)\<rparr>]
      else if cfg_APIVersion config = [] then None
      else case provider_for cl (cfg_Kind config) of
        None \<Rightarrow> None
      | Some get \<Rightarrow> (case fst (get \<lparr>nn_Namespace = ns', nn_Name = cfg_Name config\<rparr> w) of
            Inl e \<Rightarrow> None
          | Inr refs \<Rightarrow> Some [ref\<lparr>cfg_Policy := cfg_Policy config\<rparr>.
              ref \<leftarrow> refs, cfg_Policy ref = ConfigurationPolicyPropagate]))"

text \<open>Reading the referenced objects does not change the world.\<close>

definition reads_only :: "'w client \<Rightarrow> bool" where
  "reads_only cl \<longleftrightarrow> (\<forall>kind get key w. provider_for cl kind = Some get \<longrightarrow> snd (get key w) = w)"

text \<open>
  The effective configurations stored in the cluster refer to secrets and config maps only.
\<close>

definition stored_leaves :: "'w client \<Rightarrow> bool" where
  "stored_leaves cl \<longleftrightarrow> (\<forall>kind get key w refs.
     provider_for cl kind = Some get \<longrightarrow> fst (get key w) = Inr refs \<longrightarrow>
     (\<forall>c \<in> set refs. is_leaf_kind (cfg_Kind c)))"

lemma propagated_concat:
  "propagated p refs = [ref\<lparr>cfg_Policy := p\<rparr>. ref \<leftarrow> refs, cfg_Policy ref = ConfigurationPolicyPropagate]"
  by (induction refs) (simp_all add: propagated_def)

lemma effective_step_safe: "\<exists>r w'. effective_step cl ns config w = (Ret r, w')"
  by (auto simp: effective_step_def Let_def go_defs split: option.splits sum.splits prod.splits)

lemma effective_step_contribution:
  assumes "reads_only cl"
  shows "case contribution cl ns w config of
      None \<Rightarrow> (\<exists>err. effective_step cl ns config w = (Ret (Inl err), w))
    | Some rs \<Rightarrow> effective_step cl ns config w = (Ret (Inr rs), w)"
  using assms
  by (auto simp: effective_step_def contribution_def default_namespace_def default_api_version_def
      Let_def go_defs reads_only_def propagated_concat split: option.splits sum.splits)

lemma effective_loop_spec:
  assumes "reads_only cl"
  shows "if \<forall>c \<in> set configs. contribution cl ns w c \<noteq> None
    then effective_loop cl ns configs refs w =
      (Ret (Inr (refs @ concat (map (the \<circ> contribution cl ns w) configs))), w)
    else \<exists>err. effective_loop cl ns configs refs w = (Ret (Inl err), w)"
proof (induction configs arbitrary: refs)
  case Nil
  then show ?case by (simp add: go_defs)
next
  case (Cons c cs)
  note step = effective_step_contribution [OF assms, where ns = ns and w = w and config = c]
  show ?case
  proof (cases "contribution cl ns w c")
    case None
    with step show ?thesis by (auto simp: go_defs)
  next
    case (Some rs)
    with step have "effective_loop cl ns (c # cs) refs w = effective_loop cl ns cs (refs @ rs) w"
      by (simp add: go_defs)
    with Some Cons.IH [of "refs @ rs"] show ?thesis by (simp split: if_splits)
  qed
qed

lemma effective_step_leaves:
  assumes "stored_leaves cl"
  shows "postG (effective_step cl ns config) w
    (\<lambda>r w'. case r of Inl err \<Rightarrow> True | Inr rs \<Rightarrow> \<forall>c \<in> set rs. is_leaf_kind (cfg_Kind c))"
  using assms
  by (fastforce simp: effective_step_def Let_def go_wp default_namespace_def default_api_version_def
      propagated_def stored_leaves_def split: option.splits sum.splits)

lemma effective_loop_leaves:
  assumes "stored_leaves cl" and "\<forall>c \<in> set refs. is_leaf_kind (cfg_Kind c)"
  shows "postG (effective_loop cl ns configs refs) w
    (\<lambda>r w'. case r of Inl err \<Rightarrow> True | Inr rs \<Rightarrow> \<forall>c \<in> set rs. is_leaf_kind (cfg_Kind c))"
  using assms(2)
proof (induction configs arbitrary: refs w)
  case Nil
  then show ?case by (simp add: go_wp)
next
  case (Cons c cs)
  show ?case
    unfolding effective_loop.simps go_wp
    by (rule postG_mono [OF effective_step_leaves [OF assms(1)]])
       (force split: sum.splits simp: go_wp intro: Cons.IH dest: bspec [OF Cons.prems])
qed

lemma effective_config_leaves_post:
  assumes "stored_leaves cl"
  shows "postG (GetEffectiveConfig cl cp x) w
    (\<lambda>r w'. case r of Inl err \<Rightarrow> True | Inr rs \<Rightarrow> \<forall>c \<in> set rs. is_leaf_kind (cfg_Kind c))"
  using effective_loop_leaves [OF assms, of "[]"] by (simp add: GetEffectiveConfig_def Let_def go_wp)

section \<open>The configuration code returns\<close>

lemma retG_effective_loop: "retG anyG (effective_loop cl ns configs refs) anyG"
proof (induction configs arbitrary: refs)
  case (Cons c configs)
  have "retG anyG (effective_step cl ns c) anyG"
    unfolding effective_step_def Let_def by (rule go_ret | (simp; fail))+
  with Cons show ?case by (auto intro: retG_try retG_return)
qed (simp add: retG_return)

lemma retG_GetEffectiveConfig [go_ret]: "retG anyG (GetEffectiveConfig cl cp x) anyG"
  unfolding GetEffectiveConfig_def Let_def by (rule go_ret retG_effective_loop)+

lemma retG_wrapErr [go_ret]: "retG anyG k anyG \<Longrightarrow> retG anyG (wrapErr p f k) anyG"
  unfolding wrapErr_def by (rule go_ret | (simp; fail))+

lemma retG_ConfigureContext [go_ret]:
  "retG anyG (ConfigureContextForSecretOrConfigMap OL octx c) anyG"
  unfolding ConfigureContextForSecretOrConfigMap_def ConfigureContextForSecret_def
    ConfigureContextForConfigMaps_def Let_def
  by (cases c) (simp_all, (rule go_ret)+)

section \<open>Properties\<close>

text \<open>
  C32: \<open>GetEffectiveConfig\<close> succeeds exactly when every specified configuration can be
  resolved, and then returns the contributions in the order they are specified: a secret or
  config map itself with its defaults, or the propagated configurations of the referenced
  object with the policy of the reference in place of their own.
\<close>

theorem effective_config_spec:
  assumes "reads_only cl"
  shows "if \<forall>c \<in> set (crp_GetSpecifiedOCMConfig cp x).
           contribution cl (om_Namespace (crp_ObjectMeta cp x)) w c \<noteq> None
    then GetEffectiveConfig cl cp x w = (Ret (Inr (concat (map
           (the \<circ> contribution cl (om_Namespace (crp_ObjectMeta cp x)) w)
           (crp_GetSpecifiedOCMConfig cp x)))), w)
    else \<exists>err. GetEffectiveConfig cl cp x w = (Ret (Inl err), w)"
proof (cases "crp_GetSpecifiedOCMConfig cp x = []")
  case True
  then show ?thesis by (simp add: GetEffectiveConfig_def returnG_def)
next
  case False
  then show ?thesis
    using effective_loop_spec [OF assms, of "crp_GetSpecifiedOCMConfig cp x"
        "om_Namespace (crp_ObjectMeta cp x)" w "[]"]
    by (simp add: GetEffectiveConfig_def Let_def)
qed

text \<open>
  The effective configuration of an object refers to secrets and config maps only, as long
  as the effective configurations already stored in the cluster do: what a controller records
  in a status keeps the store that way.
\<close>

theorem effective_config_leaves:
  assumes "stored_leaves cl" and "GetEffectiveConfig cl cp x w = (Ret (Inr refs), w')"
  shows "\<forall>c \<in> set refs. is_leaf_kind (cfg_Kind c)"
  using postG_D [OF effective_config_leaves_post [OF assms(1)] assms(2)] by simp

section \<open>Witnesses\<close>

text \<open>
  A cluster with one repository that propagates one of its two secrets, and a component that
  names a config map and the repository.
\<close>

definition sample_cfg :: "string \<Rightarrow> string \<Rightarrow> string \<Rightarrow> string \<Rightarrow> OCMConfiguration" where
  "sample_cfg api kind name policy = \<lparr>cfg_APIVersion = api, cfg_Kind = kind, cfg_Name = name,
     cfg_Namespace = [], cfg_Policy = policy\<rparr>"

definition sample_repo :: Repository where
  "sample_repo = Repository_setEffective
     [sample_cfg ''v1'' ''Secret'' ''creds'' ''Propagate'',
      sample_cfg ''v1'' ''Secret'' ''private'' ''DoNotPropagate''] Repository_zero"

definition sample_client :: "'w client" where
  "sample_client = empty_client\<lparr>getRepository := (\<lambda>k w. (Inr sample_repo, w))\<rparr>"

definition sample_component :: Component where
  "sample_component = Component_zero\<lparr>comp_Spec := (comp_Spec Component_zero)
     \<lparr>cs_OCMConfig := [sample_cfg [] ''ConfigMap'' ''settings'' ''Propagate'',
        sample_cfg ''delivery.ocm.software/v1alpha1'' ''Repository'' ''repo'' ''DoNotPropagate'']\<rparr>\<rparr>"

lemmas sample_config_defs =
  sample_cfg_def sample_repo_def sample_client_def sample_component_def zero_defs

lemma sample_reads_only: "reads_only sample_client"
  by (auto simp: reads_only_def sample_client_def provider_for_def get_effective_def empty_client_def
      not_found_def split: if_splits)

lemma sample_stored_leaves: "stored_leaves sample_client"
  by (auto simp: stored_leaves_def provider_for_def get_effective_def empty_client_def not_found_def
      sample_config_defs repository_method_defs is_leaf_kind_def split: if_splits)

theorem effective_config_spec_witness:
  "GetEffectiveConfig sample_client Component_crp sample_component (0::nat) =
     (Ret (Inr [sample_cfg ''v1'' ''ConfigMap'' ''settings'' ''Propagate'',
                sample_cfg ''v1'' ''Secret'' ''creds'' ''DoNotPropagate'']), 0)"
  using effective_config_spec [OF sample_reads_only, of Component_crp sample_component "0::nat"]
  by (simp add: contribution_def provider_for_def get_effective_def sample_config_defs
      component_method_defs repository_method_defs empty_client_def is_leaf_kind_def
      KindRepository_def ConfigurationPolicyPropagate_def)

theorem effective_config_leaves_witness:
  "list_all (\<lambda>c. is_leaf_kind (cfg_Kind c)) [sample_cfg ''v1'' ''ConfigMap'' ''settings'' ''Propagate'',
     sample_cfg ''v1'' ''Secret'' ''creds'' ''DoNotPropagate'']"
  unfolding list_all_iff
  by (rule effective_config_leaves [OF sample_stored_leaves,
        where cp = Component_crp and x = sample_component and w = "0::nat" and w' = 0])
     (simp add: GetEffectiveConfig_def effective_step_def Let_def go_defs provider_for_def
      get_effective_def sample_config_defs component_method_defs repository_method_defs
      empty_client_def is_leaf_kind_def KindRepository_def ConfigurationPolicyPropagate_def
      default_namespace_def default_api_version_def propagated_def)

end
