(* ===== verification/OcmLib.thy ===== *)
theory OcmLib
  imports OcmConfig
begin

text \<open>
  The OCM library and the semver library as far as the controllers use them: records of
  operations on opaque handles, and the documented behaviour the properties rely on as named
  contracts. A component descriptor is a value of the type parameter \<open>'d\<close>; what a handle
  denotes (its name, its version, its descriptor) does not change while the code holds it.
\<close>

section \<open>Versions\<close>

record ('v, 'c) semver_lib =
  NewConstraint :: "string \<Rightarrow> goerr + 'c"
  NewVersion :: "string \<Rightarrow> goerr + 'v"
  Check :: "'c \<Rightarrow> 'v \<Rightarrow> bool"
  LessThan :: "'v \<Rightarrow> 'v \<Rightarrow> bool"
  GreaterThanEqual :: "'v \<Rightarrow> 'v \<Rightarrow> bool"
  Original :: "'v \<Rightarrow> string"
  MatchVersionStrings :: "string list \<Rightarrow> 'c \<Rightarrow> goerr + 'v list"

text \<open>
  \<open>MatchVersionStrings\<close> gives the versions of the list that satisfy the constraint, in ascending
  order; the order of versions is total; \<open>Original\<close> is the text a version was parsed from.
\<close>

definition semver_contract :: "('v, 'c) semver_lib \<Rightarrow> bool" where
  "semver_contract S \<longleftrightarrow>
     (\<forall>vs c rs. MatchVersionStrings S vs c = Inr rs \<longrightarrow>
        set rs = {v. \<exists>s \<in> set vs. NewVersion S s = Inr v \<and> Check S c v} \<and>
        sorted_wrt (\<lambda>a b. \<not> LessThan S b a) rs) \<and>
     (\<forall>a. \<not> LessThan S a a) \<and>
     (\<forall>a b. GreaterThanEqual S a b \<longleftrightarrow> \<not> LessThan S a b) \<and>
     (\<forall>s v. NewVersion S s = Inr v \<longrightarrow> Original S v = s)"

lemma semver_match:
  assumes "semver_contract S" and "MatchVersionStrings S vs c = Inr rs"
  shows "v \<in> set rs \<longleftrightarrow> (\<exists>s \<in> set vs. NewVersion S s = Inr v \<and> Check S c v)"
    and "sorted_wrt (\<lambda>a b. \<not> LessThan S b a) rs"
proof -
  have *: "set rs = {v. \<exists>s \<in> set vs. NewVersion S s = Inr v \<and> Check S c v} \<and>
      sorted_wrt (\<lambda>a b. \<not> LessThan S b a) rs"
    using assms unfolding semver_contract_def by blast
  show "v \<in> set rs \<longleftrightarrow> (\<exists>s \<in> set vs. NewVersion S s = Inr v \<and> Check S c v)"
    using * by simp
  show "sorted_wrt (\<lambda>a b. \<not> LessThan S b a) rs" using * by blast
qed

lemma semver_order:
  assumes "semver_contract S"
  shows "\<not> LessThan S a a" and "GreaterThanEqual S a b \<longleftrightarrow> \<not> LessThan S a b"
    and "NewVersion S s = Inr v \<Longrightarrow> Original S v = s"
  using assms unfolding semver_contract_def by blast+

lemma sorted_wrt_last:
  assumes "sorted_wrt P xs" and "x \<in> set xs" and "\<And>a. P a a"
  shows "P x (last xs)"
  using assms by (induction xs) auto

text \<open>A library whose versions are single digits and whose constraints are lower bounds.\<close>

definition digit_of :: "string \<Rightarrow> nat option" where
  "digit_of s = (case s of [c] \<Rightarrow> (if CHR ''0'' = c then Some 0 else if CHR ''1'' = c then Some 1
     else if CHR ''2'' = c then Some 2 else if CHR ''3'' = c then Some 3 else None) | _ \<Rightarrow> None)"

definition digit_string :: "nat \<Rightarrow> string" where
  "digit_string n = (if n = 0 then ''0'' else if n = 1 then ''1'' else if n = 2 then ''2'' else ''3'')"

definition sample_semver :: "(nat, nat) semver_lib" where
  "sample_semver = \<lparr>
     NewConstraint = (\<lambda>s. case digit_of s of None \<Rightarrow> Inl (ExternalError ''semver'' ''constraint'')
        | Some n \<Rightarrow> Inr n),
     NewVersion = (\<lambda>s. case digit_of s of None \<Rightarrow> Inl (ExternalError ''semver'' ''version'')
        | Some n \<Rightarrow> Inr n),
     Check = (\<lambda>c v. c \<le> v), LessThan = (<), GreaterThanEqual = (\<ge>), Original = digit_string,
     MatchVersionStrings = (\<lambda>vs c. Inr (sort (filter (\<lambda>v. c \<le> v) (List.map_filter digit_of vs))))\<rparr>"

lemma digit_string_of: "digit_of s = Some n \<Longrightarrow> digit_string n = s"
  by (auto simp: digit_of_def digit_string_def split: list.splits if_splits)

lemma sample_semver_contract: "semver_contract sample_semver"
  by (auto simp: semver_contract_def sample_semver_def digit_string_of List.map_filter_def not_less image_iff
      split: option.splits)

section \<open>Repositories, components and versions\<close>

record ('w, 'd) ocm_lib =
  RepositorySpecForConfig :: "OCMContext \<Rightarrow> bytes option \<Rightarrow> ('w, goerr + OCMRepositorySpec) ext"
  spec_Validate :: "OCMRepositorySpec \<Rightarrow> OCMContext \<Rightarrow> ('w, goerr option) ext"
  spec_Marshal :: "OCMRepositorySpec \<Rightarrow> goerr + bytes"
  RepositoryForSpec :: "OCMContext \<Rightarrow> OCMRepositorySpec \<Rightarrow> ('w, goerr + OCMRepository) ext"
  repo_Close :: "OCMRepository \<Rightarrow> ('w, goerr option) ext"
  repo_GetSpecification :: "OCMRepository \<Rightarrow> OCMRepositorySpec"
  repo_LookupComponent :: "OCMRepository \<Rightarrow> string \<Rightarrow> ('w, goerr + OCMComponentAccess) ext"
  repo_LookupComponentVersion ::
    "OCMRepository \<Rightarrow> string \<Rightarrow> string \<Rightarrow> ('w, goerr + OCMComponentVersion) ext"
  component_Close :: "OCMComponentAccess \<Rightarrow> ('w, goerr option) ext"
  component_GetName :: "OCMComponentAccess \<Rightarrow> string"
  component_ListVersions :: "OCMComponentAccess \<Rightarrow> ('w, goerr + string list) ext"
  session_LookupRepository ::
    "OCMSession \<Rightarrow> OCMContext \<Rightarrow> OCMRepositorySpec \<Rightarrow> ('w, goerr + OCMRepository) ext"
  session_LookupRepositoryForConfig ::
    "OCMSession \<Rightarrow> OCMContext \<Rightarrow> bytes option \<Rightarrow> ('w, goerr + OCMRepository) ext"
  session_LookupComponentVersion ::
    "OCMSession \<Rightarrow> OCMRepository \<Rightarrow> string \<Rightarrow> string \<Rightarrow> ('w, goerr + OCMComponentVersion) ext"
  close_session :: "OCMSession \<Rightarrow> ('w, goerr option) ext"
  cv_Close :: "OCMComponentVersion \<Rightarrow> ('w, goerr option) ext"
  cv_GetDescriptor :: "OCMComponentVersion \<Rightarrow> 'd"
  cv_GetName :: "OCMComponentVersion \<Rightarrow> string"
  cv_GetVersion :: "OCMComponentVersion \<Rightarrow> string"
  cv_Repository :: "OCMComponentVersion \<Rightarrow> OCMRepository"
  cv_GetContext :: "OCMComponentVersion \<Rightarrow> OCMContext"
  IsErrNotFound :: "goerr \<Rightarrow> bool"
  desc_GetName :: "'d \<Rightarrow> string"
  desc_GetVersion :: "'d \<Rightarrow> string"
  desc_GetLabel :: "'d \<Rightarrow> string \<Rightarrow> bytes option"
  desc_IsNormalizeable :: "'d \<Rightarrow> goerr option"
  compdesc_Hash :: "'d \<Rightarrow> string \<Rightarrow> string \<Rightarrow> goerr + string"
  utils_Walk :: "OCMComponentVersion \<Rightarrow> OCMRepository \<Rightarrow> OCMContext \<Rightarrow> ('w, goerr + 'd list) ext"
  signing_Apply :: "OCMComponentVersion \<Rightarrow> OCMRepository \<Rightarrow> OCMContext \<Rightarrow> string list \<Rightarrow>
    ('w, goerr + 'd list) ext"

text \<open>
  \<open>resolvers.NewCompoundResolver(repo, octx.GetResolver())\<close> is the pair of its arguments, so
  the two walks take the repository and the context. \<open>utils_Walk\<close> gives the descriptors in the
  order in which the callback sees them, \<open>signing_Apply\<close> the descriptors that
  \<open>signing.ListComponentDescriptors\<close> finds in the walking state afterwards.
\<close>

text \<open>
  A library in which every lookup fails and every version has the descriptor \<open>d\<close>, from which
  the witnesses build theirs.
\<close>

definition ocm_fail :: "('w, goerr + 'a) ext" where
  "ocm_fail w = (Inl (ExternalError ''NotFound'' ''not found in repository''), w)"

definition empty_ocm_lib :: "'d \<Rightarrow> ('w, 'd) ocm_lib" where
  "empty_ocm_lib d = \<lparr>
     RepositorySpecForConfig = (\<lambda>_ _. ocm_fail), spec_Validate = (\<lambda>_ _ w. (None, w)),
     spec_Marshal = (\<lambda>_. Inr []), RepositoryForSpec = (\<lambda>_ _. ocm_fail),
     repo_Close = (\<lambda>_ w. (None, w)), repo_GetSpecification = (\<lambda>r. r),
     repo_LookupComponent = (\<lambda>_ _. ocm_fail), repo_LookupComponentVersion = (\<lambda>_ _ _. ocm_fail),
     component_Close = (\<lambda>_ w. (None, w)), component_GetName = (\<lambda>_. []),
     component_ListVersions = (\<lambda>_. ocm_fail), session_LookupRepository = (\<lambda>_ _ _. ocm_fail),
     session_LookupRepositoryForConfig = (\<lambda>_ _ _. ocm_fail),
     session_LookupComponentVersion = (\<lambda>_ _ _ _. ocm_fail), close_session = (\<lambda>_ w. (None, w)),
     cv_Close = (\<lambda>_ w. (None, w)), cv_GetDescriptor = (\<lambda>_. d), cv_GetName = (\<lambda>_. []),
     cv_GetVersion = (\<lambda>_. []), cv_Repository = (\<lambda>_. 0), cv_GetContext = (\<lambda>_. 0),
     IsErrNotFound = (\<lambda>e. case e of ExternalError k m \<Rightarrow> k = ''NotFound'' | _ \<Rightarrow> False),
     desc_GetName = (\<lambda>_. []), desc_GetVersion = (\<lambda>_. []), desc_GetLabel = (\<lambda>_ _. None),
     desc_IsNormalizeable = (\<lambda>_. None), compdesc_Hash = (\<lambda>_ _ _. Inr []),
     utils_Walk = (\<lambda>_ _ _. ocm_fail), signing_Apply = (\<lambda>_ _ _ _. ocm_fail)\<rparr>"

end
