(* ===== verification/OcmVersions.thy ===== *)
theory OcmVersions
  imports OcmLib
begin

text \<open>
  \<open>internal/ocm/ocm.go\<close>, the version half: the filter on versions, the choice of the latest
  version that satisfies a constraint, the list of component descriptors and the test whether
  one version may be downgraded to another. The regular expressions of the Go library are the
  parameter \<open>Compile\<close>, the decoding of a JSON string is \<open>UnmarshalString\<close>.
\<close>

section \<open>Definitions\<close>

type_synonym matcher = "string \<Rightarrow> bool"

definition RegexpFilter :: "(string \<Rightarrow> goerr + matcher) \<Rightarrow> string \<Rightarrow> goerr + matcher" where
  "RegexpFilter Compile regex =
     (if regex = [] then Inr (\<lambda>_. True)
      else case Compile regex of Inl err \<Rightarrow> Inl err | Inr match \<Rightarrow> Inr match)"

text \<open>The variadic \<open>filter\<close> is the list of the matchers that were passed.\<close>

definition filtered_versions :: "string list \<Rightarrow> matcher list \<Rightarrow> string list" where
  "filtered_versions versions fs =
     (let filtered = versions in
      case fs of [] \<Rightarrow> filtered | f # _ \<Rightarrow> filtered @ filter f versions)"

definition GetLatestValidVersion ::
  "('v, 'c) semver_lib \<Rightarrow> string list \<Rightarrow> string \<Rightarrow> matcher list \<Rightarrow> goerr + 'v" where
  "GetLatestValidVersion S versions semvers fs =
     (case NewConstraint S semvers of
        Inl err \<Rightarrow> Inl err
      | Inr cons \<Rightarrow>
          (case MatchVersionStrings S (filtered_versions versions fs) cons of
             Inl err \<Rightarrow> Inl err
           | Inr vers \<Rightarrow>
               if vers = []
               then Inl (ErrorString (''no valid versions found for constraint '' @ semvers))
               else Inr (vers ! (length vers - 1))))"

record 'd Descriptors =
  desc_List :: "'d list"

definition ListComponentDescriptors ::
  "('w, 'd) ocm_lib \<Rightarrow> OCMComponentVersion \<Rightarrow> OCMRepository \<Rightarrow> OCMContext \<Rightarrow>
   ('w, goerr + 'd Descriptors) go" where
  "ListComponentDescriptors OL cv repo octx =
     tryG (extG (utils_Walk OL cv repo octx))
       (\<lambda>err. returnG (Inl err))
       (\<lambda>ds. returnG (Inr \<lparr>desc_List = ds\<rparr>))"

definition IsDowngradable ::
  "('v, 'c) semver_lib \<Rightarrow> ('w, 'd) ocm_lib \<Rightarrow> (bytes \<Rightarrow> goerr + string) \<Rightarrow>
   OCMComponentVersion \<Rightarrow> OCMComponentVersion \<Rightarrow> goerr + bool" where
  "IsDowngradable S OL UnmarshalString currentcv latestcv =
     (case desc_GetLabel OL (cv_GetDescriptor OL currentcv) OCMLabelDowngradable of
        None \<Rightarrow> Inr False
      | Some data \<Rightarrow>
          (case UnmarshalString data of
             Inl err \<Rightarrow> Inl err
           | Inr vers \<Rightarrow>
               (case NewConstraint S vers of
                  Inl err \<Rightarrow> Inl err
                | Inr cons \<Rightarrow>
                    (case NewVersion S (cv_GetVersion OL latestcv) of
                       Inl err \<Rightarrow> Inl err
                     | Inr semvers \<Rightarrow> Inr (Check S cons semvers)))))"

section \<open>Lemmas\<close>

lemma set_filtered_versions [simp]: "set (filtered_versions versions fs) = set versions"
  by (auto simp: filtered_versions_def split: list.splits)

lemma GetLatestValidVersion_last:
  assumes "GetLatestValidVersion S versions semvers fs = Inr v"
  shows "\<exists>cons vers. NewConstraint S semvers = Inr cons \<and>
     MatchVersionStrings S (filtered_versions versions fs) cons = Inr vers \<and>
     vers \<noteq> [] \<and> v = last vers"
  using assms
  by (auto simp: GetLatestValidVersion_def last_conv_nth split: sum.splits if_splits)

lemma latest_is_maximal:
  assumes S: "semver_contract S"
    and v: "GetLatestValidVersion S versions semvers fs = Inr v"
    and c: "NewConstraint S semvers = Inr cons"
  shows "\<exists>s \<in> set versions. NewVersion S s = Inr v" and "Check S cons v"
    and "s \<in> set versions \<Longrightarrow> NewVersion S s = Inr u \<Longrightarrow> Check S cons u \<Longrightarrow> \<not> LessThan S v u"
proof -
  obtain vers where vers: "MatchVersionStrings S (filtered_versions versions fs) cons = Inr vers"
      "vers \<noteq> []" "v = last vers"
    using GetLatestValidVersion_last [OF v] c by auto
  note match = semver_match [OF S vers(1)]
  have "v \<in> set vers" using vers by simp
  then show "\<exists>s \<in> set versions. NewVersion S s = Inr v" and "Check S cons v"
    using match(1) by auto
  assume "s \<in> set versions" "NewVersion S s = Inr u" "Check S cons u"
  then have "u \<in> set vers" using match(1) by auto
  then show "\<not> LessThan S v u"
    unfolding vers(3) using sorted_wrt_last [OF match(2)] semver_order(1) [OF S] by blast
qed

lemma latest_some_exists:
  assumes "semver_contract S" and "NewConstraint S semvers = Inr cons"
    and "MatchVersionStrings S (filtered_versions versions fs) cons = Inr vers"
    and "s \<in> set versions" and "NewVersion S s = Inr u" and "Check S cons u"
  shows "\<exists>v. GetLatestValidVersion S versions semvers fs = Inr v"
proof -
  have "u \<in> set vers" using semver_match(1) [OF assms(1,3)] assms(4-6) by auto
  then have "vers \<noteq> []" by auto
  then show ?thesis using assms(2,3) by (simp add: GetLatestValidVersion_def)
qed

lemma retG_ListComponentDescriptors [go_ret]: "retG anyG (ListComponentDescriptors OL cv repo octx) anyG"
  unfolding ListComponentDescriptors_def by (rule go_ret | (simp; fail))+

section \<open>Properties\<close>

text \<open>
  C33: The version that \<open>GetLatestValidVersion\<close> returns is one of the versions of the repository,
  satisfies the constraint, and no version of the repository that satisfies the constraint is
  newer. This holds for every filter: the filter that is passed only repeats versions, so it
  excludes none, and the version may be one that the filter rejects.
\<close>

theorem latest_valid_version:
  assumes "semver_contract S" and "NewConstraint S semvers = Inr cons"
    and "GetLatestValidVersion S versions semvers fs = Inr v"
  shows "(\<exists>s \<in> set versions. NewVersion S s = Inr v) \<and> Check S cons v \<and>
    (\<forall>s \<in> set versions. \<forall>u. NewVersion S s = Inr u \<longrightarrow> Check S cons u \<longrightarrow> \<not> LessThan S v u)"
  using latest_is_maximal [OF assms(1,3,2)] by blast

theorem latest_valid_version_witness:
  "GetLatestValidVersion sample_semver [''1'', ''3'', ''2''] ''1'' [\<lambda>s. s \<noteq> ''3''] = Inr 3 \<and>
   (\<exists>s \<in> set [''1'', ''3'', ''2'']. NewVersion sample_semver s = Inr 3) \<and>
   \<not> LessThan sample_semver 3 2"
proof -
  have "NewConstraint sample_semver ''1'' = Inr 1"
    by (simp add: sample_semver_def digit_of_def)
  moreover have "GetLatestValidVersion sample_semver [''1'', ''3'', ''2''] ''1'' [\<lambda>s. s \<noteq> ''3''] = Inr 3"
    by (simp add: GetLatestValidVersion_def filtered_versions_def sample_semver_def digit_of_def
        List.map_filter_def)
  moreover have "NewVersion sample_semver ''2'' = Inr 2" "Check sample_semver 1 2"
    by (simp_all add: sample_semver_def digit_of_def)
  ultimately show ?thesis
    using latest_valid_version [OF sample_semver_contract, of "''1''" 1
        "[''1'', ''3'', ''2'']" "[\<lambda>s. s \<noteq> ''3'']" 3] by simp
qed

end
