(* ===== verification/Hashing.thy ===== *)
theory Hashing
  imports OcmVersions "HOL-Library.Char_ord" "HOL-Library.List_Lexorder" "HOL-Library.AList"
begin

text \<open>
  \<open>internal/ocm/hash.go\<close>: the hash of the configuration objects, by which the context cache finds
  a context, and the comparison of a cached component version with the live one. SHA-256 is
  the parameter \<open>sha\<close>. Strings and byte slices are compared byte by byte, which is the order
  \<open>List_Lexorder\<close> gives lists of characters.
\<close>

section \<open>Hash of configuration objects\<close>

definition NUL :: char where "NUL = CHR 0x00"

definition hash_entry :: "string \<Rightarrow> bytes \<Rightarrow> bytes" where
  "hash_entry k v = k @ [NUL] @ v @ [NUL]"

text \<open>What \<open>HashMap\<close> writes into its buffer; \<open>data\<close> is a Go map in some iteration order.\<close>

definition hash_bytes :: "(string \<times> bytes) list \<Rightarrow> bytes" where
  "hash_bytes data = concat (map (\<lambda>k. hash_entry k (the (map_of data k))) (sort (map fst data)))"

definition HashMap :: "(bytes \<Rightarrow> bytes) \<Rightarrow> (string \<times> bytes) list \<Rightarrow> goerr + bytes" where
  "HashMap sha data = Inr (sha (hash_bytes data))"

definition GetSecretMapDataHash :: "(bytes \<Rightarrow> bytes) \<Rightarrow> Secret option \<Rightarrow> goerr + bytes" where
  "GetSecretMapDataHash sha s =
     (case s of None \<Rightarrow> HashMap sha []
      | Some sec \<Rightarrow> if sec_Data sec = [] then HashMap sha [] else HashMap sha (sec_Data sec))"

definition update_all :: "(string \<times> bytes) list \<Rightarrow> (string \<times> bytes) list \<Rightarrow> (string \<times> bytes) list" where
  "update_all ps m = fold (\<lambda>(k, v). AList.update k v) ps m"

definition GetConfigMapDataHash :: "(bytes \<Rightarrow> bytes) \<Rightarrow> ConfigMap option \<Rightarrow> goerr + bytes" where
  "GetConfigMapDataHash sha c =
     (case c of None \<Rightarrow> HashMap sha []
      | Some cm \<Rightarrow>
          (let m = update_all (cm_BinaryData cm) (update_all (cm_Data cm) [])
           in if m = [] then HashMap sha [] else HashMap sha m))"

definition GetObjectHash :: "(bytes \<Rightarrow> bytes) \<Rightarrow> ConfigObj \<Rightarrow> goerr + bytes" where
  "GetObjectHash sha c =
     (case c of
        SecretObj s \<Rightarrow> GetSecretMapDataHash sha (Some s)
      | ConfigMapObj cm \<Rightarrow> GetConfigMapDataHash sha (Some cm)
      | OtherObj t \<Rightarrow> Inl (ErrorString (''unsupported object type for data hash calculation: '' @ t)))"

fun hash_loop :: "(bytes \<Rightarrow> bytes) \<Rightarrow> ConfigObj list \<Rightarrow> bytes list \<Rightarrow> goerr + bytes list" where
  "hash_loop sha [] digests = Inr digests"
| "hash_loop sha (c # cs) digests =
     (case GetObjectHash sha c of
        Inl err \<Rightarrow> Inl err
      | Inr d \<Rightarrow> hash_loop sha cs (digests @ [d]))"

text \<open>\<open>hex.EncodeToString\<close>.\<close>

definition hex_digit :: "nat \<Rightarrow> char" where
  "hex_digit n = (''0123456789abcdef'' ! n)"

definition hex_encode :: "bytes \<Rightarrow> string" where
  "hex_encode bs = concat (map (\<lambda>c. [hex_digit (of_char c div 16), hex_digit (of_char c mod 16)]) bs)"

definition GetObjectDataHash :: "(bytes \<Rightarrow> bytes) \<Rightarrow> ConfigObj list \<Rightarrow> goerr + string" where
  "GetObjectDataHash sha objects =
     (case hash_loop sha objects [] of
        Inl err \<Rightarrow> Inl err
      | Inr digests \<Rightarrow> Inr (hex_encode (sha (concat (sort digests)))))"

section \<open>Comparing the cached and the live component version\<close>

definition ErrUnstableHash :: goerr where
  "ErrUnstableHash = Sentinel ''unstable hash detected''"

definition ErrComponentVersionIsNotNormalizeable :: goerr where
  "ErrComponentVersionIsNotNormalizeable = Sentinel (''component version is not normalizeable ''
     @ ''(possibly due to missing digests on component references or resources'')"

definition ErrComponentVersionHashMismatch :: goerr where
  "ErrComponentVersionHashMismatch = Sentinel ''component version hash mismatch''"

text \<open>One of the two checks that collect the reasons why a hash is unstable.\<close>

definition add_unstable :: "string \<Rightarrow> goerr option \<Rightarrow> goerr option \<Rightarrow> goerr option" where
  "add_unstable what unstable err =
     (case err of None \<Rightarrow> unstable
      | Some e \<Rightarrow> errors_Join [unstable, Some (WrapError
          (what @ '' '' @ Error_msg ErrComponentVersionIsNotNormalizeable @ '': '' @ Error_msg e)
          [ErrComponentVersionIsNotNormalizeable, e])])"

text \<open>The body after the lookup; \<open>hash\<close> is the name of the hash function.\<close>

definition compare_hashes ::
  "('w, 'd) ocm_lib \<Rightarrow> 'd \<Rightarrow> 'd \<Rightarrow> string \<Rightarrow> string \<Rightarrow> DigestSpec option \<times> goerr option" where
  "compare_hashes OL cachedDesc liveDesc normAlgo hash =
     (let unstable0 = add_unstable ''cached'' None (desc_IsNormalizeable OL cachedDesc) in
      case compdesc_Hash OL cachedDesc normAlgo hash of
        Inl err \<Rightarrow> (None, Some (Errorf ''failed to hash cached component version'' err))
      | Inr cachedHash \<Rightarrow>
          (let unstable = add_unstable ''live'' unstable0 (desc_IsNormalizeable OL liveDesc) in
           case compdesc_Hash OL liveDesc normAlgo hash of
             Inl err \<Rightarrow> (None, Some (Errorf ''failed to hash live component version'' err))
           | Inr liveHash \<Rightarrow>
               if cachedHash \<noteq> liveHash
               then (None, Some (WrapError (Error_msg ErrComponentVersionHashMismatch @ '': '' @
                      hash @ '' != '' @ liveHash) [ErrComponentVersionHashMismatch]))
               else (Some \<lparr>ds_HashAlgorithm = hash, ds_NormalisationAlgorithm = normAlgo,
                            ds_Value = cachedHash\<rparr>,
                     (case unstable of None \<Rightarrow> None
                      | Some u \<Rightarrow> Some (WrapError (Error_msg ErrUnstableHash @ '': '' @ Error_msg u)
                          [ErrUnstableHash, u])))))"

definition CompareCachedAndLiveHashes ::
  "('w, 'd) ocm_lib \<Rightarrow> OCMComponentVersion \<Rightarrow> OCMRepository \<Rightarrow> string \<Rightarrow> string \<Rightarrow> string \<Rightarrow> string \<Rightarrow>
   ('w, DigestSpec option \<times> goerr option) go" where
  "CompareCachedAndLiveHashes OL currentCV liveRepo component version normAlgo hash =
     tryG (extG (repo_LookupComponentVersion OL liveRepo component version))
       (\<lambda>err. returnG (None, Some (Errorf
          ''failed to lookup live component version to compare with current state'' err)))
       (\<lambda>liveCV. deferG
          (returnG (compare_hashes OL (cv_GetDescriptor OL currentCV) (cv_GetDescriptor OL liveCV)
             normAlgo hash))
          (\<lambda>r. bindG (extG (cv_Close OL liveCV))
             (\<lambda>closeErr. returnG (fst r, errors_Join [snd r, closeErr])))
          (None, None))"

lemma retG_CompareHashes [go_ret]:
  "retG anyG (CompareCachedAndLiveHashes OL cv repo cname v n h) anyG"
  unfolding CompareCachedAndLiveHashes_def by (rule go_ret | (simp; fail))+

section \<open>Lemmas on the encoding\<close>

lemma map_of_update_all: "map_of (update_all ps m) = put_all ps (map_of m)"
  by (induction ps arbitrary: m) (auto simp: update_all_def update_conv' put_all_def)

lemma distinct_update_all:
  "distinct (map fst m) \<Longrightarrow> distinct (map fst (update_all ps m))"
  by (induction ps arbitrary: m) (auto simp: update_all_def distinct_update)

lemma sorted_keys_perm:
  "mset xs = mset ys \<Longrightarrow> sort (map fst xs) = sort (map fst ys)"
  by (metis mset_map properties_for_sort mset_sort sorted_sort)

lemma hash_bytes_perm:
  assumes "distinct (map fst xs)" and "mset xs = mset ys"
  shows "hash_bytes xs = hash_bytes ys"
  using sorted_keys_perm [OF assms(2)] map_of_perm [OF assms] by (simp add: hash_bytes_def)

text \<open>Two encodings that are equal agree up to the first NUL byte, entry by entry.\<close>

definition nul_free :: "string \<Rightarrow> bool" where
  "nul_free s \<longleftrightarrow> NUL \<notin> set s"

definition nul_free_data :: "(string \<times> bytes) list \<Rightarrow> bool" where
  "nul_free_data data \<longleftrightarrow> (\<forall>(k, v) \<in> set data. nul_free k \<and> nul_free v)"

lemma nul_split:
  assumes "nul_free a" and "nul_free b" and "a @ NUL # x = b @ NUL # y"
  shows "a = b \<and> x = y"
  using assms by (induction a arbitrary: b) (auto simp: nul_free_def Cons_eq_append_conv append_eq_Cons_conv)

lemma hash_entry_split:
  assumes "nul_free k" "nul_free v" "nul_free k'" "nul_free v'"
    and "hash_entry k v @ x = hash_entry k' v' @ y"
  shows "k = k' \<and> v = v' \<and> x = y"
proof -
  have "k @ NUL # (v @ NUL # x) = k' @ NUL # (v' @ NUL # y)"
    using assms(5) by (simp add: hash_entry_def)
  then have "k = k'" "v @ NUL # x = v' @ NUL # y" using nul_split assms(1,3) by blast+
  then show ?thesis using nul_split assms(2,4) by blast
qed

lemma entries_inject:
  assumes "nul_free_data ps" and "nul_free_data qs"
    and "concat (map (\<lambda>(k, v). hash_entry k v) ps) = concat (map (\<lambda>(k, v). hash_entry k v) qs)"
  shows "ps = qs"
  using assms
proof (induction ps arbitrary: qs)
  case Nil
  then show ?case by (cases qs) (auto simp: hash_entry_def)
next
  case (Cons p ps)
  obtain k v where p: "p = (k, v)" by force
  from Cons.prems(3) obtain k' v' qs' where qs: "qs = (k', v') # qs'"
    by (cases qs) (auto simp: p hash_entry_def)
  have "k = k' \<and> v = v' \<and> concat (map (\<lambda>(k, v). hash_entry k v) ps) =
      concat (map (\<lambda>(k, v). hash_entry k v) qs')"
    using Cons.prems by (intro hash_entry_split) (auto simp: p qs nul_free_data_def)
  moreover from this Cons.prems have "ps = qs'"
    by (intro Cons.IH) (auto simp: qs nul_free_data_def)
  ultimately show ?case by (simp add: p qs)
qed

text \<open>The entries in the order in which they are written.\<close>

definition sorted_entries :: "(string \<times> bytes) list \<Rightarrow> (string \<times> bytes) list" where
  "sorted_entries data = map (\<lambda>k. (k, the (map_of data k))) (sort (map fst data))"

lemma hash_bytes_entries:
  "hash_bytes data = concat (map (\<lambda>(k, v). hash_entry k v) (sorted_entries data))"
  by (simp add: hash_bytes_def sorted_entries_def o_def)

lemma map_of_sorted_entries:
  "map_of (sorted_entries data) = map_of data"
proof
  fix k
  have "map_of (map (\<lambda>k. (k, the (map_of data k))) ks) k =
      (if k \<in> set ks then Some (the (map_of data k)) else None)" for ks
    by (induction ks) auto
  from this [of "sort (map fst data)"]
  have "map_of (sorted_entries data) k =
      (if k \<in> fst ` set data then Some (the (map_of data k)) else None)"
    by (simp add: sorted_entries_def)
  moreover have "k \<notin> fst ` set data \<longleftrightarrow> map_of data k = None" by (simp add: map_of_eq_None_iff)
  ultimately show "map_of (sorted_entries data) k = map_of data k" by (auto simp: if_splits)
qed

lemma nul_free_sorted_entries:
  assumes "nul_free_data data"
  shows "nul_free_data (sorted_entries data)"
proof -
  have "nul_free k \<and> nul_free (the (map_of data k))" if "k \<in> fst ` set data" for k
  proof -
    from that obtain v where "map_of data k = Some v" by (metis map_of_eq_None_iff not_None_eq)
    moreover from this have "(k, v) \<in> set data" by (rule map_of_SomeD)
    ultimately show ?thesis using assms by (auto simp: nul_free_data_def)
  qed
  then show ?thesis by (auto simp: nul_free_data_def sorted_entries_def)
qed

lemma hash_bytes_inject:
  assumes "nul_free_data xs" and "nul_free_data ys" and "hash_bytes xs = hash_bytes ys"
  shows "map_of xs = map_of ys"
proof -
  have "sorted_entries xs = sorted_entries ys"
    using assms by (intro entries_inject) (simp_all add: nul_free_sorted_entries hash_bytes_entries)
  then show ?thesis by (metis map_of_sorted_entries)
qed


section \<open>Lemmas on the hash of a list of objects\<close>

text \<open>The data that the hash of an object covers.\<close>

definition config_data :: "ConfigObj \<Rightarrow> (string \<times> bytes) list" where
  "config_data c = (case c of SecretObj s \<Rightarrow> sec_Data s
     | ConfigMapObj cm \<Rightarrow> update_all (cm_BinaryData cm) (update_all (cm_Data cm) [])
     | OtherObj t \<Rightarrow> [])"

definition supported :: "ConfigObj \<Rightarrow> bool" where
  "supported c = (case c of OtherObj t \<Rightarrow> False | _ \<Rightarrow> True)"

definition object_digest :: "(bytes \<Rightarrow> bytes) \<Rightarrow> ConfigObj \<Rightarrow> bytes" where
  "object_digest sha c = sha (hash_bytes (config_data c))"

lemma GetObjectHash_eq:
  "GetObjectHash sha c = (if supported c then Inr (object_digest sha c)
     else Inl (ErrorString (''unsupported object type for data hash calculation: '' @ config_type_name c)))"
  by (auto simp: GetObjectHash_def GetSecretMapDataHash_def GetConfigMapDataHash_def HashMap_def
      supported_def object_digest_def config_data_def config_type_name_def Let_def
      split: ConfigObj.splits)

lemma hash_loop_eq:
  "if \<forall>c \<in> set cs. supported c
   then hash_loop sha cs ds = Inr (ds @ map (object_digest sha) cs)
   else \<exists>err. hash_loop sha cs ds = Inl err"
  by (induction cs arbitrary: ds) (simp_all add: GetObjectHash_eq)

lemma GetObjectDataHash_eq:
  assumes "\<forall>c \<in> set cs. supported c"
  shows "GetObjectDataHash sha cs =
    Inr (hex_encode (sha (concat (sort (map (object_digest sha) cs)))))"
  using assms hash_loop_eq [of cs sha "[]"] by (simp add: GetObjectDataHash_def)

lemma GetObjectDataHash_unsupported:
  assumes "\<not> (\<forall>c \<in> set cs. supported c)"
  shows "\<exists>err. GetObjectDataHash sha cs = Inl err"
proof -
  obtain err where "hash_loop sha cs [] = Inl err"
    using assms hash_loop_eq [of cs sha "[]"] by (meson)
  then show ?thesis by (simp add: GetObjectDataHash_def)
qed

lemma concat_blocks:
  assumes "\<forall>x \<in> set xs. length x = n" and "\<forall>y \<in> set ys. length y = n" and "0 < n"
    and "concat xs = concat ys"
  shows "xs = ys"
  using assms
proof (induction xs arbitrary: ys)
  case Nil
  then show ?case by (cases ys) auto
next
  case (Cons x xs)
  have "ys \<noteq> []" using Cons.prems(1,3,4) by auto
  then obtain y ys' where ys: "ys = y # ys'" by (meson neq_Nil_conv)
  then have "x @ concat xs = y @ concat ys'" and "length x = length y"
    using Cons.prems by simp_all
  then have "x = y" and "concat xs = concat ys'" by simp_all
  moreover have "xs = ys'"
    using Cons.prems(1-3) ys \<open>concat xs = concat ys'\<close> by (intro Cons.IH) simp_all
  ultimately show ?case by (simp add: ys)
qed

lemma hex_digit_inject:
  "a < 16 \<Longrightarrow> b < 16 \<Longrightarrow> hex_digit a = hex_digit b \<longleftrightarrow> a = b"
  unfolding hex_digit_def by (rule nth_eq_iff_index_eq) simp_all

lemma of_char_split:
  assumes "(of_char c :: nat) div 16 = of_char d div 16" and "(of_char c :: nat) mod 16 = of_char d mod 16"
  shows "c = d"
proof -
  have "(of_char c :: nat) = of_char d" using assms by (metis div_mod_decomp)
  then show ?thesis by simp
qed

lemma hex_encode_inject: "hex_encode xs = hex_encode ys \<Longrightarrow> xs = ys"
proof (induction xs arbitrary: ys)
  case Nil
  then show ?case by (cases ys) (simp_all add: hex_encode_def)
next
  case (Cons x xs)
  then obtain y ys' where ys: "ys = y # ys'" by (cases ys) (auto simp: hex_encode_def)
  have small: "(of_char c :: nat) div 16 < 16" "(of_char c :: nat) mod 16 < 16" for c :: char
    using nat_of_char_less_256 [of c] by (simp_all add: less_mult_imp_div_less del: nat_of_char_less_256)
  from Cons.prems have "hex_encode xs = hex_encode ys'" "x = y"
    using small by (auto simp: hex_encode_def ys hex_digit_inject intro: of_char_split)
  then show ?case using Cons.IH by (simp add: ys)
qed

lemma image_mset_inject:
  assumes "image_mset f A = image_mset f B" and "inj_on f S" and "set_mset A \<subseteq> S" and "set_mset B \<subseteq> S"
  shows "A = B"
proof -
  have "image_mset (the_inv_into S f) (image_mset f C) = C" if "set_mset C \<subseteq> S" for C
    using that assms(2) by (induction C) (auto simp: the_inv_into_f_f)
  then show ?thesis using assms by metis
qed

lemma image_mset_through:
  assumes "image_mset f A = image_mset f B"
    and "\<And>x y. x \<in># A + B \<Longrightarrow> y \<in># A + B \<Longrightarrow> f x = f y \<Longrightarrow> g x = g y"
  shows "image_mset g A = image_mset g B"
proof -
  define h where "h e = g (SOME x. x \<in># A + B \<and> f x = e)" for e
  have h: "h (f x) = g x" if "x \<in># A + B" for x
  proof -
    have "(SOME y. y \<in># A + B \<and> f y = f x) \<in># A + B \<and> f (SOME y. y \<in># A + B \<and> f y = f x) = f x"
      using that by (metis (mono_tags, lifting) someI_ex)
    then show ?thesis unfolding h_def using assms(2) that by blast
  qed
  have "image_mset g A = image_mset h (image_mset f A)"
    by (simp add: multiset.map_comp o_def h cong: image_mset_cong)
  also have "\<dots> = image_mset g B"
    unfolding assms(1) by (simp add: multiset.map_comp o_def h cong: image_mset_cong)
  finally show ?thesis .
qed


text \<open>What the API server guarantees of an object, and the values without NUL bytes.\<close>

definition clean_object :: "ConfigObj \<Rightarrow> bool" where
  "clean_object c \<longleftrightarrow> supported c \<and> distinct (map fst (config_data c)) \<and> nul_free_data (config_data c)"

abbreviation content :: "ConfigObj \<Rightarrow> (string \<rightharpoonup> bytes)" where
  "content c \<equiv> map_of (config_data c)"

lemma hash_bytes_cong:
  assumes "distinct (map fst xs)" and "distinct (map fst ys)" and "map_of xs = map_of ys"
  shows "hash_bytes xs = hash_bytes ys"
proof -
  have "fst ` set xs = fst ` set ys" by (metis assms(3) dom_map_of_conv_image_fst)
  then have "sort (map fst xs) = sort (map fst ys)"
    using assms(1,2) by (intro sorted_distinct_set_unique) simp_all
  then show ?thesis by (simp add: hash_bytes_def assms(3))
qed

lemma hash_bytes_content:
  assumes "clean_object c" and "clean_object d"
  shows "hash_bytes (config_data c) = hash_bytes (config_data d) \<longleftrightarrow> content c = content d"
  using assms hash_bytes_cong hash_bytes_inject unfolding clean_object_def by blast

lemma same_content_same_hash:
  assumes "\<forall>c \<in> set xs \<union> set ys. clean_object c"
    and "image_mset (\<lambda>c. content c) (mset xs) = image_mset (\<lambda>c. content c) (mset ys)"
  shows "GetObjectDataHash sha xs = GetObjectDataHash sha ys"
proof -
  have "object_digest sha x = object_digest sha y"
    if "x \<in># mset xs + mset ys" "y \<in># mset xs + mset ys" "content x = content y" for x y
  proof -
    have "clean_object x" "clean_object y" using that(1,2) assms(1) by auto
    then show ?thesis using hash_bytes_content [of x y] that(3) by (simp add: object_digest_def)
  qed
  then have "image_mset (object_digest sha) (mset xs) = image_mset (object_digest sha) (mset ys)"
    by (rule image_mset_through [OF assms(2)])
  then have "mset (map (object_digest sha) xs) = mset (map (object_digest sha) ys)" by simp
  then have "sort (map (object_digest sha) xs) = sort (map (object_digest sha) ys)"
    by (metis mset_sort properties_for_sort sorted_sort)
  moreover have "\<forall>c \<in> set xs. supported c" "\<forall>c \<in> set ys. supported c"
    using assms(1) by (auto simp: clean_object_def)
  ultimately show ?thesis by (simp add: GetObjectDataHash_eq)
qed

lemma same_hash_same_content:
  assumes clean: "\<forall>c \<in> set xs \<union> set ys. clean_object c"
    and len: "\<forall>b. length (sha b) = 32"
    and inj: "inj_on sha ((\<lambda>c. hash_bytes (config_data c)) ` (set xs \<union> set ys) \<union>
       {concat (sort (map (object_digest sha) xs)), concat (sort (map (object_digest sha) ys))})"
    and eq: "GetObjectDataHash sha xs = GetObjectDataHash sha ys"
  shows "image_mset (\<lambda>c. content c) (mset xs) = image_mset (\<lambda>c. content c) (mset ys)"
proof -
  let ?X = "concat (sort (map (object_digest sha) xs))"
  let ?Y = "concat (sort (map (object_digest sha) ys))"
  let ?enc = "\<lambda>c. hash_bytes (config_data c)"
  have "\<forall>c \<in> set xs. supported c" "\<forall>c \<in> set ys. supported c"
    using clean by (auto simp: clean_object_def)
  then have "sha ?X = sha ?Y" using eq hex_encode_inject by (simp add: GetObjectDataHash_eq)
  then have "?X = ?Y" by (rule inj_onD [OF inj]) simp_all
  moreover have "\<forall>x \<in> set (sort (map (object_digest sha) zs)). length x = 32" for zs
    using len by (simp add: object_digest_def)
  ultimately have "sort (map (object_digest sha) xs) = sort (map (object_digest sha) ys)"
    using concat_blocks [where n = 32] by (metis zero_less_numeral)
  then have "image_mset (object_digest sha) (mset xs) = image_mset (object_digest sha) (mset ys)"
    by (metis mset_map mset_sort)
  then have "image_mset sha (image_mset ?enc (mset xs)) = image_mset sha (image_mset ?enc (mset ys))"
    by (simp add: object_digest_def [abs_def] multiset.map_comp o_def)
  then have enc: "image_mset ?enc (mset xs) = image_mset ?enc (mset ys)"
    by (rule image_mset_inject [OF _ inj]) auto
  have "content x = content y"
    if "x \<in># mset xs + mset ys" "y \<in># mset xs + mset ys" "?enc x = ?enc y" for x y
  proof -
    have "clean_object x" "clean_object y" using that(1,2) clean by auto
    then show ?thesis using hash_bytes_content that(3) by simp
  qed
  then show ?thesis by (rule image_mset_through [OF enc])
qed

section \<open>Lemmas on the comparison\<close>

lemma errors_Is_add_unstable:
  "add_unstable what u (Some x) = Some e \<Longrightarrow> errors_Is e t \<longleftrightarrow>
     (\<exists>y. u = Some y \<and> errors_Is y t) \<or> errors_Is x t \<or>
     errors_Is ErrComponentVersionIsNotNormalizeable t"
  by (cases u) (auto simp: add_unstable_def errors_Join_def)

lemma add_unstable_None [simp]:
  "add_unstable what u err = None \<longleftrightarrow> u = None \<and> err = None"
  "add_unstable what u None = u"
  by (cases err) (auto simp: add_unstable_def)

lemma sentinel_eq [simp]:
  "errors_Is ErrUnstableHash t \<longleftrightarrow> t = ErrUnstableHash"
  "errors_Is ErrComponentVersionHashMismatch t \<longleftrightarrow> t = ErrComponentVersionHashMismatch"
  "errors_Is ErrComponentVersionIsNotNormalizeable t \<longleftrightarrow> t = ErrComponentVersionIsNotNormalizeable"
  "ErrUnstableHash \<noteq> ErrComponentVersionHashMismatch"
  "ErrComponentVersionHashMismatch \<noteq> ErrUnstableHash"
  "ErrComponentVersionIsNotNormalizeable \<noteq> ErrUnstableHash"
  "ErrComponentVersionIsNotNormalizeable \<noteq> ErrComponentVersionHashMismatch"
  "ErrComponentVersionHashMismatch \<noteq> ErrComponentVersionIsNotNormalizeable"
  by (cases t; auto simp: ErrUnstableHash_def ErrComponentVersionHashMismatch_def
      ErrComponentVersionIsNotNormalizeable_def)+

text \<open>The library does not make errors that carry the sentinels of this package.\<close>

definition foreign :: "goerr \<Rightarrow> bool" where
  "foreign e \<longleftrightarrow> \<not> errors_Is e ErrUnstableHash \<and> \<not> errors_Is e ErrComponentVersionHashMismatch"

definition foreign_lib :: "('w, 'd) ocm_lib \<Rightarrow> bool" where
  "foreign_lib OL \<longleftrightarrow>
     (\<forall>d e. desc_IsNormalizeable OL d = Some e \<longrightarrow> foreign e) \<and>
     (\<forall>d n h e. compdesc_Hash OL d n h = Inl e \<longrightarrow> foreign e) \<and>
     (\<forall>cv w e. fst (cv_Close OL cv w) = Some e \<longrightarrow> foreign e) \<and>
     (\<forall>r c v w e. fst (repo_LookupComponentVersion OL r c v w) = Inl e \<longrightarrow> foreign e)"

text \<open>The two hashes, when both can be computed.\<close>

definition hash_pair ::
  "('w, 'd) ocm_lib \<Rightarrow> 'd \<Rightarrow> 'd \<Rightarrow> string \<Rightarrow> string \<Rightarrow> (string \<times> string) option" where
  "hash_pair OL c l n h = (case (compdesc_Hash OL c n h, compdesc_Hash OL l n h) of
     (Inr a, Inr b) \<Rightarrow> Some (a, b) | _ \<Rightarrow> None)"

lemma compare_hashes_spec:
  assumes "compare_hashes OL c l n h = (d, err)"
  shows "case hash_pair OL c l n h of
      None \<Rightarrow> d = None \<and> (\<exists>p e. err = Some (Errorf p e) \<and>
         (compdesc_Hash OL c n h = Inl e \<or> compdesc_Hash OL l n h = Inl e))
    | Some (a, b) \<Rightarrow>
        if a \<noteq> b then d = None \<and> (\<exists>m. err = Some (WrapError m [ErrComponentVersionHashMismatch]))
        else d = Some \<lparr>ds_HashAlgorithm = h, ds_NormalisationAlgorithm = n, ds_Value = a\<rparr> \<and>
          (case add_unstable ''live'' (add_unstable ''cached'' None (desc_IsNormalizeable OL c))
                  (desc_IsNormalizeable OL l) of
             None \<Rightarrow> err = None | Some u \<Rightarrow> \<exists>m. err = Some (WrapError m [ErrUnstableHash, u]))"
  using assms
  by (auto simp: compare_hashes_def hash_pair_def Let_def split: sum.splits option.splits if_splits)


text \<open>The comparison on every branch: which error, and that the live version is closed.\<close>

lemma CompareCachedAndLiveHashes_run:
  "CompareCachedAndLiveHashes OL cur repo cname v n h w =
     (case repo_LookupComponentVersion OL repo cname v w of
        (Inl err, w1) \<Rightarrow> (Ret (None, Some (Errorf
           ''failed to lookup live component version to compare with current state'' err)), w1)
      | (Inr live, w1) \<Rightarrow>
          (case compare_hashes OL (cv_GetDescriptor OL cur) (cv_GetDescriptor OL live) n h of
             (d, err) \<Rightarrow> (Ret (d, errors_Join [err, fst (cv_Close OL live w1)]),
                          snd (cv_Close OL live w1))))"
  by (simp add: CompareCachedAndLiveHashes_def go_defs split: prod.splits sum.splits)

lemma foreign_libD:
  assumes "foreign_lib OL"
  shows "desc_IsNormalizeable OL d = Some e \<Longrightarrow> foreign e"
    and "compdesc_Hash OL d n h = Inl e \<Longrightarrow> foreign e"
    and "fst (cv_Close OL cv w) = Some e \<Longrightarrow> foreign e"
    and "repo_LookupComponentVersion OL r c v w = (Inl e, w') \<Longrightarrow> foreign e"
  using assms unfolding foreign_lib_def by (blast, blast, blast, metis fst_conv)

lemma unstable_errors:
  assumes OL: "foreign_lib OL"
    and u: "add_unstable what u0 (desc_IsNormalizeable OL c) = Some u"
    and u0: "\<And>e. u0 = Some e \<Longrightarrow> \<not> errors_Is e ErrComponentVersionHashMismatch"
  shows "\<not> errors_Is u ErrComponentVersionHashMismatch"
proof (cases "desc_IsNormalizeable OL c")
  case None
  with u u0 show ?thesis by simp
next
  case (Some x)
  with u have "add_unstable what u0 (Some x) = Some u" by simp
  moreover have "\<not> errors_Is x ErrComponentVersionHashMismatch"
    using foreign_libD(1) [OF OL Some] by (simp add: foreign_def)
  ultimately show ?thesis using u0 by (auto simp: errors_Is_add_unstable)
qed

lemma compare_errors:
  assumes OL: "foreign_lib OL" and run: "compare_hashes OL c l n h = (d, err)"
  shows "(\<exists>e. err = Some e \<and> errors_Is e ErrComponentVersionHashMismatch) \<longleftrightarrow>
      (\<exists>a b. hash_pair OL c l n h = Some (a, b) \<and> a \<noteq> b)" (is ?mismatch)
    and "(\<exists>e. err = Some e \<and> errors_Is e ErrUnstableHash) \<longleftrightarrow>
      (\<exists>a. hash_pair OL c l n h = Some (a, a)) \<and>
      (desc_IsNormalizeable OL c \<noteq> None \<or> desc_IsNormalizeable OL l \<noteq> None)" (is ?unstable)
proof -
  define u where "u = add_unstable ''live'' (add_unstable ''cached'' None (desc_IsNormalizeable OL c))
    (desc_IsNormalizeable OL l)"
  have none: "u = None \<longleftrightarrow> desc_IsNormalizeable OL c = None \<and> desc_IsNormalizeable OL l = None"
    by (simp add: u_def)
  have cached: "\<not> errors_Is e ErrComponentVersionHashMismatch"
    if "add_unstable ''cached'' None (desc_IsNormalizeable OL c) = Some e" for e
    by (rule unstable_errors [OF OL that]) simp
  have u: "\<not> errors_Is x ErrComponentVersionHashMismatch" if "u = Some x" for x
    using that unfolding u_def by (rule unstable_errors [OF OL]) (rule cached)
  note spec = compare_hashes_spec [OF run, folded u_def]
  show ?mismatch and ?unstable
    using spec foreign_libD(2) [OF OL] u none
    by (auto simp: foreign_def split: option.splits prod.splits if_splits)
qed

section \<open>Properties\<close>


text \<open>
  The separator does not make the encoding unambiguous: two secrets with different data,
  one of them with a NUL byte in a value, have the same hash whatever the hash function is, and
  so do a secret and a config map with the same data.
\<close>

theorem data_hash_collisions:
  "(\<exists>s t. map_of (sec_Data s) \<noteq> map_of (sec_Data t) \<and> distinct (map fst (sec_Data s)) \<and>
     distinct (map fst (sec_Data t)) \<and>
     (\<forall>sha. GetObjectDataHash sha [SecretObj s] = GetObjectDataHash sha [SecretObj t])) \<and>
   GetObjectDataHash sha [SecretObj \<lparr>sec_Namespace = ns, sec_Name = nm, sec_Data = [(k, v)]\<rparr>] =
   GetObjectDataHash sha [ConfigMapObj
     \<lparr>cm_Namespace = ns', cm_Name = nm', cm_Data = [(k, v)], cm_BinaryData = []\<rparr>]"
proof -
  let ?s = "\<lparr>sec_Namespace = [], sec_Name = [], sec_Data = [(''a'', ''x''), (''b'', ''y'')]\<rparr>"
  let ?t = "\<lparr>sec_Namespace = [], sec_Name = [], sec_Data = [(''a'', ''x'' @ [NUL] @ ''b'' @ [NUL] @ ''y'')]\<rparr>"
  have "hash_bytes (sec_Data ?s) = hash_bytes (sec_Data ?t)"
    by (simp add: hash_bytes_def hash_entry_def)
  then have "GetObjectDataHash sha [SecretObj ?s] = GetObjectDataHash sha [SecretObj ?t]" for sha
    by (simp add: GetObjectDataHash_eq supported_def object_digest_def config_data_def)
  moreover have "map_of (sec_Data ?s) ''b'' \<noteq> map_of (sec_Data ?t) ''b''" by simp
  then have "map_of (sec_Data ?s) \<noteq> map_of (sec_Data ?t)" by metis
  moreover have "distinct (map fst (sec_Data ?s))" "distinct (map fst (sec_Data ?t))" by simp_all
  ultimately have "\<exists>s t. map_of (sec_Data s) \<noteq> map_of (sec_Data t) \<and> distinct (map fst (sec_Data s)) \<and>
     distinct (map fst (sec_Data t)) \<and>
     (\<forall>sha. GetObjectDataHash sha [SecretObj s] = GetObjectDataHash sha [SecretObj t])" by blast
  moreover have "GetObjectDataHash sha [SecretObj \<lparr>sec_Namespace = ns, sec_Name = nm, sec_Data = [(k, v)]\<rparr>] =
   GetObjectDataHash sha [ConfigMapObj
     \<lparr>cm_Namespace = ns', cm_Name = nm', cm_Data = [(k, v)], cm_BinaryData = []\<rparr>]"
    by (simp add: GetObjectDataHash_eq supported_def object_digest_def config_data_def update_all_def)
  ultimately show ?thesis by blast
qed

text \<open>
  C29: \<open>CompareCachedAndLiveHashes\<close> always returns. It reports a mismatch exactly when both
  hashes can be computed and differ, an unstable hash exactly when they agree and a descriptor
  is not normalizeable, and returns a digest exactly when they agree; once the live version has
  been looked up it is closed, on every path.
\<close>

theorem compare_classifies:
  assumes "foreign_lib OL"
    and "repo_LookupComponentVersion OL repo cname v w = (Inr live, w1)"
  shows "\<exists>d err. CompareCachedAndLiveHashes OL cur repo cname v n h w =
      (Ret (d, err), snd (cv_Close OL live w1)) \<and>
    (let c = cv_GetDescriptor OL cur; l = cv_GetDescriptor OL live in
      ((\<exists>e. err = Some e \<and> errors_Is e ErrComponentVersionHashMismatch) \<longleftrightarrow>
        (\<exists>a b. hash_pair OL c l n h = Some (a, b) \<and> a \<noteq> b)) \<and>
      ((\<exists>e. err = Some e \<and> errors_Is e ErrUnstableHash) \<longleftrightarrow>
        (\<exists>a. hash_pair OL c l n h = Some (a, a)) \<and>
        (desc_IsNormalizeable OL c \<noteq> None \<or> desc_IsNormalizeable OL l \<noteq> None)) \<and>
      ((\<exists>ds. d = Some ds) \<longleftrightarrow> (\<exists>a. hash_pair OL c l n h = Some (a, a))) \<and>
      (\<forall>a. hash_pair OL c l n h = Some (a, a) \<longrightarrow> d = Some \<lparr>ds_HashAlgorithm = h,
         ds_NormalisationAlgorithm = n, ds_Value = a\<rparr>))"
proof -
  let ?c = "cv_GetDescriptor OL cur" and ?l = "cv_GetDescriptor OL live"
  let ?close = "fst (cv_Close OL live w1)"
  obtain d err where run: "compare_hashes OL ?c ?l n h = (d, err)" by force
  have joined: "(\<exists>e. errors_Join [err, ?close] = Some e \<and> errors_Is e t) \<longleftrightarrow>
      (\<exists>e. err = Some e \<and> errors_Is e t)"
    if "t = ErrUnstableHash \<or> t = ErrComponentVersionHashMismatch" for t
    using that foreign_libD(3) [OF assms(1), of live w1]
    by (cases err; cases ?close) (auto simp: errors_Join_def foreign_def)
  show ?thesis
    using compare_errors [OF assms(1) run] compare_hashes_spec [OF run] joined
    by (simp add: CompareCachedAndLiveHashes_run assms(2) run Let_def)
       (auto split: option.splits prod.splits if_splits)
qed

section \<open>Witnesses\<close>

text \<open>A hash that keeps the first 31 bytes, padded: it collides only on inputs that share them.\<close>

definition pad32 :: "bytes \<Rightarrow> bytes" where
  "pad32 b = take 32 (CHR 0x23 # b @ replicate 32 (CHR 0x20))"

definition sample_secret :: "string \<Rightarrow> ConfigObj" where
  "sample_secret v = SecretObj \<lparr>sec_Namespace = [], sec_Name = [], sec_Data = [(''k'', v)]\<rparr>"

definition sample_compare_lib :: "(unit, string) ocm_lib" where
  "sample_compare_lib = (empty_ocm_lib ''live'')\<lparr>
     cv_GetDescriptor := (\<lambda>cv. if cv = 0 then ''cached'' else ''live''),
     repo_LookupComponentVersion := (\<lambda>r c v w. (Inr 1, w)),
     compdesc_Hash := (\<lambda>d n h. Inr d)\<rparr>"


theorem compare_classifies_witness:
  "\<exists>d err. CompareCachedAndLiveHashes sample_compare_lib 0 7 ''app'' ''1'' ''v3'' ''SHA-256'' () =
     (Ret (d, err), ()) \<and> d = None \<and>
     (\<exists>e. err = Some e \<and> errors_Is e ErrComponentVersionHashMismatch)"
proof -
  have OL: "foreign_lib sample_compare_lib"
    by (simp add: foreign_lib_def sample_compare_lib_def empty_ocm_lib_def)
  have look: "repo_LookupComponentVersion sample_compare_lib 7 ''app'' ''1'' () = (Inr 1, ())"
    by (simp add: sample_compare_lib_def)
  have "hash_pair sample_compare_lib (cv_GetDescriptor sample_compare_lib 0)
      (cv_GetDescriptor sample_compare_lib 1) ''v3'' ''SHA-256'' = Some (''cached'', ''live'')"
    by (simp add: hash_pair_def sample_compare_lib_def)
  then show ?thesis
    using compare_classifies [OF OL look, of 0 "''v3''" "''SHA-256''"] by (auto simp: Let_def)
qed

end
