(* ===== verification/Verification.thy ===== *)
theory Verification
  imports OcmVersions
begin

text \<open>
  \<open>internal/ocm/verification.go\<close>, \<open>descriptors.go\<close> and \<open>resource.go\<close>: which public keys an object
  names, the verification of the signatures of a component version, the list of descriptors as
  JSON, and the access to a resource through a reference.
\<close>

section \<open>Base64\<close>

text \<open>
  \<open>base64.StdEncoding.DecodeString\<close>: line ends are skipped, four characters give three bytes,
  one or two padding characters may close the input. The error carries no byte position here.
\<close>

definition b64_value :: "char \<Rightarrow> nat option" where
  "b64_value c = (let n = of_char c in
     if 65 \<le> n \<and> n \<le> 90 then Some (n - 65)
     else if 97 \<le> n \<and> n \<le> 122 then Some (n - 71)
     else if 48 \<le> n \<and> n \<le> 57 then Some (n + 4)
     else if n = 43 then Some 62 else if n = 47 then Some 63 else None)"

definition b64_bytes :: "nat \<Rightarrow> nat \<Rightarrow> bytes" where
  "b64_bytes k n = take k [char_of (n div 65536), char_of (n div 256 mod 256), char_of (n mod 256)]"

fun b64_values :: "char list \<Rightarrow> nat option" where
  "b64_values [] = Some 0"
| "b64_values (c # cs) = (case (b64_value c, b64_values cs) of
     (Some v, Some n) \<Rightarrow> Some (v * 64 ^ length cs + n) | _ \<Rightarrow> None)"

fun b64_quanta :: "string \<Rightarrow> bytes option" where
  "b64_quanta [] = Some []"
| "b64_quanta (a # b # c # d # rest) =
     (if d = CHR ''='' \<and> c = CHR ''='' \<and> rest = []
      then map_option (\<lambda>n. b64_bytes 1 (n * 4096)) (b64_values [a, b])
      else if d = CHR ''='' \<and> rest = []
      then map_option (\<lambda>n. b64_bytes 2 (n * 64)) (b64_values [a, b, c])
      else case (b64_values [a, b, c, d], b64_quanta rest) of
        (Some n, Some bs) \<Rightarrow> Some (b64_bytes 3 n @ bs) | _ \<Rightarrow> None)"
| "b64_quanta _ = None"

definition base64_DecodeString :: "string \<Rightarrow> goerr + bytes" where
  "base64_DecodeString s =
     (case b64_quanta (filter (\<lambda>c. c \<noteq> CHR 0x0D \<and> c \<noteq> CHR 0x0A) s) of
        None \<Rightarrow> Inl (ExternalError ''base64'' ''illegal base64 data'')
      | Some bs \<Rightarrow> Inr bs)"

section \<open>Public keys\<close>

text \<open>The internal \<open>ocm.Verification\<close>; a key that was not found stays nil.\<close>

record VerificationKey =
  vk_Signature :: string
  vk_PublicKey :: "bytes option"

text \<open>\<open>v1alpha1.VerificationProvider\<close>: the verifications of an object, and its metadata.\<close>

record VerificationProvider =
  vp_GetNamespace :: string
  vp_GetVerifications :: "Verification list"

definition Component_vp :: "Component \<Rightarrow> VerificationProvider" where
  "Component_vp c = \<lparr>vp_GetNamespace = om_Namespace (comp_meta c),
     vp_GetVerifications = Component_GetVerifications c\<rparr>"

text \<open>
  One iteration. When the secret has no entry for the signature, the key stays as it is.
\<close>

definition verification_step ::
  "'w client \<Rightarrow> string \<Rightarrow> Verification \<Rightarrow> ('w, goerr + VerificationKey) go" where
  "verification_step cl ns v =
     (if ver_Value v = [] \<and> ver_SecretRef_Name v = []
      then returnG (Inl (TerminalError (ErrorString
        (''value and secret ref cannot both be empty for signature: '' @ ver_Signature v))))
      else if ver_Value v \<noteq> [] \<and> ver_SecretRef_Name v \<noteq> []
      then returnG (Inl (TerminalError (ErrorString
        (''value and secret ref cannot both be set for signature: '' @ ver_Signature v))))
      else tryG (returnG (if ver_Value v \<noteq> []
                          then map_sum id Some (base64_DecodeString (ver_Value v)) else Inr None))
        (\<lambda>err. returnG (Inl err))
        (\<lambda>key. if ver_SecretRef_Name v \<noteq> []
           then tryG (extG (getSecret cl \<lparr>nn_Namespace = ns, nn_Name = ver_SecretRef_Name v\<rparr>))
             (\<lambda>err. returnG (Inl err))
             (\<lambda>secret. returnG (Inr \<lparr>vk_Signature = ver_Signature v,
                vk_PublicKey = (case map_of (sec_Data secret) (ver_Signature v) of
                   Some certBytes \<Rightarrow> Some certBytes | None \<Rightarrow> key)\<rparr>))
           else returnG (Inr \<lparr>vk_Signature = ver_Signature v, vk_PublicKey = key\<rparr>)))"

fun verification_loop ::
  "'w client \<Rightarrow> string \<Rightarrow> Verification list \<Rightarrow> VerificationKey list \<Rightarrow>
   ('w, goerr + VerificationKey list) go" where
  "verification_loop cl ns [] acc = returnG (Inr acc)"
| "verification_loop cl ns (v # vs) acc =
     tryG (verification_step cl ns v)
       (\<lambda>err. returnG (Inl err))
       (\<lambda>internal. verification_loop cl ns vs (acc @ [internal]))"

definition GetVerifications ::
  "'w client \<Rightarrow> VerificationProvider \<Rightarrow> ('w, goerr + VerificationKey list) go" where
  "GetVerifications cl vp = verification_loop cl (vp_GetNamespace vp) (vp_GetVerifications vp) []"

section \<open>Signatures\<close>

fun join_with :: "string \<Rightarrow> string list \<Rightarrow> string" where
  "join_with sep [] = []"
| "join_with sep [x] = x"
| "join_with sep (x # y # xs) = x @ sep @ join_with sep (y # xs)"

definition VerifyComponentVersion ::
  "('w, 'd) ocm_lib \<Rightarrow> OCMComponentVersion option \<Rightarrow> string list \<Rightarrow>
   ('w, goerr + 'd Descriptors option) go" where
  "VerifyComponentVersion OL cv sigs =
     (if sigs = [] \<or> cv = None then returnG (Inr None)
      else derefG cv (\<lambda>cv.
        tryG (extG (signing_Apply OL cv (cv_Repository OL cv) (cv_GetContext OL cv) sigs))
          (\<lambda>err. returnG (Inl (Errorf
             (''failed to verify component signatures '' @ join_with '', '' sigs) err)))
          (\<lambda>ds. returnG (Inr (Some \<lparr>desc_List = ds\<rparr>)))))"

definition VerifyComponentVersionAndListDescriptors ::
  "('w, 'd) ocm_lib \<Rightarrow> OCMContext \<Rightarrow> OCMComponentVersion \<Rightarrow> string list \<Rightarrow>
   ('w, goerr + 'd Descriptors) go" where
  "VerifyComponentVersionAndListDescriptors OL octx cv sigs =
     tryG (VerifyComponentVersion OL (Some cv) sigs)
       (\<lambda>err. returnG (Inl (Errorf ''failed to verify component'' err)))
       (\<lambda>descriptors. case descriptors of
          Some ds \<Rightarrow>
            if desc_List ds \<noteq> [] then returnG (Inr ds)
            else tryG (ListComponentDescriptors OL cv (cv_Repository OL cv) octx)
              (\<lambda>err. returnG (Inl (Errorf ''failed to list component descriptors'' err)))
              (\<lambda>ds. returnG (Inr ds))
        | None \<Rightarrow>
            tryG (ListComponentDescriptors OL cv (cv_Repository OL cv) octx)
              (\<lambda>err. returnG (Inl (Errorf ''failed to list component descriptors'' err)))
              (\<lambda>ds. returnG (Inr ds)))"

section \<open>Descriptors as JSON\<close>

text \<open>\<open>compdesc.Encode\<close> and \<open>Decode\<close>, and the split of \<open>components\<close> into raw values by \<open>encoding/json\<close>.\<close>

record 'd desc_codec =
  Encode :: "'d \<Rightarrow> goerr + bytes"
  Decode :: "bytes \<Rightarrow> goerr + 'd"
  UnmarshalComponents :: "bytes \<Rightarrow> goerr + bytes list"

fun marshal_loop :: "'d desc_codec \<Rightarrow> nat \<Rightarrow> 'd list \<Rightarrow> string \<Rightarrow> goerr + string" where
  "marshal_loop C index [] list = Inr list"
| "marshal_loop C index (desc # ds) list =
     (case Encode C desc of
        Inl err \<Rightarrow> Inl err
      | Inr data \<Rightarrow> marshal_loop C (Suc index) ds
          ((if index > 0 then list @ '','' else list) @ data))"

definition components_open :: string where
  "components_open = [CHR ''{'', CHR 0x22] @ ''components'' @ [CHR 0x22, CHR '':'', CHR ''['']"

definition MarshalJSON :: "'d desc_codec \<Rightarrow> 'd Descriptors \<Rightarrow> goerr + bytes" where
  "MarshalJSON C c =
     (case marshal_loop C 0 (desc_List c) components_open of
        Inl err \<Rightarrow> Inl err | Inr list \<Rightarrow> Inr (list @ '']}''))"

text \<open>A failure leaves the receiver with what was decoded so far; only the result is kept here.\<close>

fun decode_all :: "'d desc_codec \<Rightarrow> bytes list \<Rightarrow> goerr + 'd list" where
  "decode_all C [] = Inr []"
| "decode_all C (d # ds) =
     (case Decode C d of
        Inl err \<Rightarrow> Inl err
      | Inr desc \<Rightarrow> (case decode_all C ds of Inl err \<Rightarrow> Inl err | Inr xs \<Rightarrow> Inr (desc # xs)))"

definition UnmarshalJSON :: "'d desc_codec \<Rightarrow> bytes \<Rightarrow> goerr + 'd Descriptors" where
  "UnmarshalJSON C data =
     (case UnmarshalComponents C data of
        Inl err \<Rightarrow> Inl err
      | Inr raws \<Rightarrow>
          (case decode_all C raws of Inl err \<Rightarrow> Inl err | Inr xs \<Rightarrow> Inr \<lparr>desc_List = xs\<rparr>))"

section \<open>Access to a resource\<close>

text \<open>
  \<open>'m\<close> is the resource metadata of a descriptor. \<open>VerifyResourceDigest\<close> is
  \<open>signing.VerifyResourceDigestByResourceAccess\<close> with a store that holds the given descriptors.
\<close>

record ('w, 'd, 'm) ocm_res_lib =
  ResolveResourceReference :: "'d \<Rightarrow> ResourceReference \<Rightarrow> 'd list \<Rightarrow> goerr + ('m \<times> 'd)"
  GetIdentity :: "'m \<Rightarrow> 'd \<Rightarrow> Identity"
  cv_SelectResources ::
    "OCMComponentVersion \<Rightarrow> Identity \<Rightarrow> ('w, goerr + OCMResourceAccess list) ext"
  session_LookupResolver ::
    "OCMSession \<Rightarrow> OCMRepository \<Rightarrow> OCMContext \<Rightarrow> string \<Rightarrow> string \<Rightarrow>
     ('w, goerr + OCMComponentVersion) ext"
  access_AccessMethod :: "OCMResourceAccess \<Rightarrow> ('w, goerr + nat) ext"
  VerifyResourceDigest ::
    "OCMComponentVersion \<Rightarrow> OCMResourceAccess \<Rightarrow> nat \<Rightarrow> 'd list \<Rightarrow> ('w, bool \<times> goerr option) ext"

definition verifyResource ::
  "('w, 'd) ocm_lib \<Rightarrow> ('w, 'd, 'm) ocm_res_lib \<Rightarrow> OCMResourceAccess \<Rightarrow> OCMComponentVersion \<Rightarrow>
   ('w, goerr option) go" where
  "verifyResource OL RL access cv =
     tryG (extG (access_AccessMethod RL access))
       (\<lambda>err. returnG (Some (Errorf ''failed to create access method'' err)))
       (\<lambda>accessMethod.
          bindG (extG (VerifyResourceDigest RL cv access accessMethod [cv_GetDescriptor OL cv]))
            (\<lambda>(ok, err). returnG
               (if \<not> ok
                then (case err of Some e \<Rightarrow> Some (Errorf ''verification failed'' e)
                      | None \<Rightarrow> Some (ErrorString
                          ''expected signature verification to be relevant, but it was not''))
                else map_option (Errorf ''failed to verify resource digest'') err)))"

definition GetResourceAccessForComponentVersion ::
  "('w, 'd) ocm_lib \<Rightarrow> ('w, 'd, 'm) ocm_res_lib \<Rightarrow> OCMSession \<Rightarrow> OCMComponentVersion \<Rightarrow>
   ResourceReference \<Rightarrow> 'd Descriptors \<Rightarrow> OCMRepository \<Rightarrow> OCMContext \<Rightarrow> bool \<Rightarrow>
   ('w, goerr + (OCMResourceAccess \<times> OCMComponentVersion)) go" where
  "GetResourceAccessForComponentVersion OL RL session cv reference cdSet repo octx skipVerification =
     tryG (returnG (ResolveResourceReference RL (cv_GetDescriptor OL cv) reference (desc_List cdSet)))
       (\<lambda>err. returnG (Inl (Errorf ''failed to resolve resource reference'' err)))
     (\<lambda>(resourceDesc, resourceCompDesc).
     tryG (extG (session_LookupResolver RL session repo octx
             (desc_GetName OL resourceCompDesc) (desc_GetVersion OL resourceCompDesc)))
       (\<lambda>err. returnG (Inl (Errorf ''failed to lookup component version for resource'' err)))
     (\<lambda>resourceCV.
     tryG (extG (cv_SelectResources RL resourceCV (GetIdentity RL resourceDesc resourceCompDesc)))
       (\<lambda>err. returnG (Inl (Errorf ''failed to select resources'' err)))
     (\<lambda>resourceAccesses.
       case resourceAccesses of
         [] \<Rightarrow> returnG (Inl (ErrorString ''no resources selected''))
       | [resourceAccess] \<Rightarrow>
           if skipVerification then returnG (Inr (resourceAccess, resourceCV))
           else checkG (verifyResource OL RL resourceAccess resourceCV)
             (\<lambda>err. returnG (Inl (Errorf ''failed to verify resource'' err)))
             (returnG (Inr (resourceAccess, resourceCV)))
       | _ \<Rightarrow> returnG (Inl (ErrorString ''cannot determine the resource access unambiguously'')))))"

section \<open>Lemmas\<close>

text \<open>The key one verification contributes, \<open>None\<close> when it cannot be resolved.\<close>

definition resolved_key :: "'w client \<Rightarrow> string \<Rightarrow> 'w \<Rightarrow> Verification \<Rightarrow> VerificationKey option" where
  "resolved_key cl ns w v =
     (if (ver_Value v = []) = (ver_SecretRef_Name v = []) then None
      else map_option (\<lambda>k. \<lparr>vk_Signature = ver_Signature v, vk_PublicKey = k\<rparr>)
        (if ver_Value v \<noteq> []
         then (case base64_DecodeString (ver_Value v) of Inl e \<Rightarrow> None | Inr bs \<Rightarrow> Some (Some bs))
         else (case fst (getSecret cl \<lparr>nn_Namespace = ns, nn_Name = ver_SecretRef_Name v\<rparr> w) of
             Inl e \<Rightarrow> None
           | Inr secret \<Rightarrow> Some (map_of (sec_Data secret) (ver_Signature v)))))"

definition secrets_read_only :: "'w client \<Rightarrow> bool" where
  "secrets_read_only cl \<longleftrightarrow> (\<forall>key w. snd (getSecret cl key w) = w)"

lemma verification_step_key:
  assumes "secrets_read_only cl"
  shows "case resolved_key cl ns w v of
      None \<Rightarrow> (\<exists>err. verification_step cl ns v w = (Ret (Inl err), w))
    | Some k \<Rightarrow> verification_step cl ns v w = (Ret (Inr k), w)"
  using assms
  by (auto simp: verification_step_def resolved_key_def go_defs secrets_read_only_def
      split: option.splits sum.splits)

lemma verification_loop_spec:
  assumes "secrets_read_only cl"
  shows "if \<forall>v \<in> set vs. resolved_key cl ns w v \<noteq> None
    then verification_loop cl ns vs acc w =
      (Ret (Inr (acc @ map (the \<circ> resolved_key cl ns w) vs)), w)
    else \<exists>err. verification_loop cl ns vs acc w = (Ret (Inl err), w)"
proof (induction vs arbitrary: acc)
  case Nil
  then show ?case by (simp add: go_defs)
next
  case (Cons v vs)
  note step = verification_step_key [OF assms, where ns = ns and w = w and v = v]
  show ?case
  proof (cases "resolved_key cl ns w v")
    case None
    with step show ?thesis by (auto simp: go_defs)
  next
    case (Some k)
    with step have "verification_loop cl ns (v # vs) acc w = verification_loop cl ns vs (acc @ [k]) w"
      by (simp add: go_defs)
    with Some Cons.IH [of "acc @ [k]"] show ?thesis by (simp split: if_splits)
  qed
qed

lemma verifyResource_ok:
  assumes "fst (verifyResource OL RL a cv w) = Ret None"
  shows "\<exists>m. fst (access_AccessMethod RL a w) = Inr m \<and>
    (let v = VerifyResourceDigest RL cv a m [cv_GetDescriptor OL cv] (snd (access_AccessMethod RL a w))
     in fst v = (True, None) \<and> snd (verifyResource OL RL a cv w) = snd v)"
  using assms
  by (auto simp: verifyResource_def go_defs Let_def prod_eq_iff
      split: sum.splits prod.splits option.splits if_splits)

lemma decode_all_encoded:
  assumes "list_all2 (\<lambda>d raw. Encode C d = Inr raw \<and> Decode C raw = Inr d) ds raws"
  shows "decode_all C raws = Inr ds"
  using assms by (induction rule: list_all2_induct) simp_all

lemma marshal_loop_encoded:
  assumes "list_all2 (\<lambda>d raw. Encode C d = Inr raw \<and> Decode C raw = Inr d) ds raws"
  shows "marshal_loop C i ds acc = Inr (acc @ (if i > 0 \<and> ds \<noteq> [] then '','' else []) @ join_with '','' raws)"
  using assms
proof (induction arbitrary: i acc rule: list_all2_induct)
  case (Cons d ds raw raws)
  then show ?case by (cases raws) auto
qed simp

text \<open>
  A codec decodes what it encodes, and \<open>encoding/json\<close> splits an array of encoded descriptors
  at its commas.
\<close>

definition codec_contract :: "'d desc_codec \<Rightarrow> bool" where
  "codec_contract C \<longleftrightarrow>
     (\<forall>d raw. Encode C d = Inr raw \<longrightarrow> Decode C raw = Inr d) \<and>
     (\<forall>raws. (\<forall>raw \<in> set raws. \<exists>d. Encode C d = Inr raw) \<longrightarrow>
        UnmarshalComponents C (components_open @ join_with '','' raws @ '']}'') = Inr raws)"

lemma marshal_loop_Inr:
  "marshal_loop C i ds acc = Inr out \<Longrightarrow> \<exists>raws. list_all2 (\<lambda>d raw. Encode C d = Inr raw) ds raws"
  by (induction C i ds acc rule: marshal_loop.induct) (auto split: sum.splits intro: list_all2_Cons2 [THEN iffD2])

text \<open>The verifying functions return; \<open>VerifyComponentVersion\<close> tests the version for nil.\<close>

lemma retG_VerifyComponentVersion [go_ret]: "retG anyG (VerifyComponentVersion OL cv sigs) anyG"
  unfolding VerifyComponentVersion_def by (rule go_ret | (simp; fail))+

lemma retG_VerifyAndList [go_ret]:
  "retG anyG (VerifyComponentVersionAndListDescriptors OL octx cv sigs) anyG"
  unfolding VerifyComponentVersionAndListDescriptors_def by (rule go_ret | (simp; fail))+

lemma retG_verifyResource [go_ret]: "retG anyG (verifyResource OL RL access cv) anyG"
  unfolding verifyResource_def by (rule go_ret | (simp; fail))+

lemma retG_GetResourceAccess [go_ret]:
  "retG anyG (GetResourceAccessForComponentVersion OL RL session cv reference cds repo octx skip) anyG"
  unfolding GetResourceAccessForComponentVersion_def by (rule go_ret | (simp; fail))+

lemma retG_GetVerifications [go_ret]: "retG anyG (GetVerifications cl vp) anyG"
proof -
  have "retG anyG (verification_loop cl ns vs acc) anyG" for ns vs acc
  proof (induction vs arbitrary: acc)
    case (Cons v vs)
    have "retG anyG (verification_step cl ns v) anyG"
      unfolding verification_step_def by (rule go_ret | (simp; fail))+
    with Cons show ?case by (auto intro: retG_try retG_return)
  qed (simp add: retG_return)
  then show ?thesis by (simp add: GetVerifications_def)
qed

section \<open>Properties\<close>

text \<open>
  \<open>GetVerifications\<close> succeeds exactly when each verification of the object sets one of value
  and secret reference, the value is base64 and the secret exists; it then returns one key per
  verification, in order: the decoded value, or the entry of the secret under the name of the
  signature, which may be missing.
\<close>

theorem get_verifications_spec:
  assumes "secrets_read_only cl"
  shows "if \<forall>v \<in> set (vp_GetVerifications vp). resolved_key cl (vp_GetNamespace vp) w v \<noteq> None
    then GetVerifications cl vp w =
      (Ret (Inr (map (the \<circ> resolved_key cl (vp_GetNamespace vp) w) (vp_GetVerifications vp))), w)
    else \<exists>err. GetVerifications cl vp w = (Ret (Inl err), w)"
  using verification_loop_spec [OF assms, of "vp_GetVerifications vp" "vp_GetNamespace vp" w "[]"]
  by (simp add: GetVerifications_def)

text \<open>
  C34: A resource access that \<open>GetResourceAccessForComponentVersion\<close> returns is the only one
  that the identity selects in the component version it resolved, and, unless verification is
  skipped, the library has verified its digest against the descriptor of that version.
\<close>

theorem resource_access_is_verified:
  assumes "GetResourceAccessForComponentVersion OL RL session cv ref cds repo octx skip w =
      (Ret (Inr (access, rcv)), w')"
  shows "\<exists>rd cd w1 w2. ResolveResourceReference RL (cv_GetDescriptor OL cv) ref (desc_List cds) = Inr (rd, cd) \<and>
    session_LookupResolver RL session repo octx (desc_GetName OL cd) (desc_GetVersion OL cd) w = (Inr rcv, w1) \<and>
    cv_SelectResources RL rcv (GetIdentity RL rd cd) w1 = (Inr [access], w2) \<and>
    (if skip then w' = w2
     else \<exists>m w3. access_AccessMethod RL access w2 = (Inr m, w3) \<and>
       VerifyResourceDigest RL rcv access m [cv_GetDescriptor OL rcv] w3 = ((True, None), w'))"
  using assms
  by (auto simp: GetResourceAccessForComponentVersion_def go_defs prod_eq_iff
      split: sum.splits prod.splits list.splits option.splits outcome.splits if_splits
      dest!: verifyResource_ok [unfolded Let_def])


section \<open>Witnesses\<close>

definition sample_verification :: "string \<Rightarrow> string \<Rightarrow> Verification" where
  "sample_verification value secret =
     \<lparr>ver_Signature = ''sig'', ver_SecretRef_Name = secret, ver_Value = value\<rparr>"

definition sample_key_client :: "'w client" where
  "sample_key_client = empty_client\<lparr>getSecret := (\<lambda>k w. (Inr
     \<lparr>sec_Namespace = nn_Namespace k, sec_Name = nn_Name k, sec_Data = [(''sig'', ''pem'')]\<rparr>, w))\<rparr>"

theorem get_verifications_spec_witness:
  "GetVerifications sample_key_client \<lparr>vp_GetNamespace = ''ns'',
       vp_GetVerifications = [sample_verification ''QUJD'' [], sample_verification [] ''keys'']\<rparr> (0::nat) =
     (Ret (Inr [\<lparr>vk_Signature = ''sig'', vk_PublicKey = Some ''ABC''\<rparr>,
                \<lparr>vk_Signature = ''sig'', vk_PublicKey = Some ''pem''\<rparr>]), 0)"
proof -
  have ro: "secrets_read_only sample_key_client"
    by (simp add: secrets_read_only_def sample_key_client_def)
  have "base64_DecodeString ''QUJD'' = Inr ''ABC''"
    by (simp add: base64_DecodeString_def b64_value_def b64_bytes_def Let_def char_of_def bit_0)
  then have "resolved_key sample_key_client ''ns'' (0::nat) (sample_verification ''QUJD'' []) =
        Some \<lparr>vk_Signature = ''sig'', vk_PublicKey = Some ''ABC''\<rparr>"
    and "resolved_key sample_key_client ''ns'' (0::nat) (sample_verification [] ''keys'') =
        Some \<lparr>vk_Signature = ''sig'', vk_PublicKey = Some ''pem''\<rparr>"
    by (simp_all add: resolved_key_def sample_verification_def sample_key_client_def)
  then show ?thesis
    using get_verifications_spec [OF ro, where w = "0::nat" and vp = "\<lparr>vp_GetNamespace = ''ns'',
       vp_GetVerifications = [sample_verification ''QUJD'' [], sample_verification [] ''keys'']\<rparr>"]
    by simp
qed

definition sample_res_lib :: "(unit, string, nat) ocm_res_lib" where
  "sample_res_lib = \<lparr>
     ResolveResourceReference = (\<lambda>d r ds. Inr (0, d)), GetIdentity = (\<lambda>m d. [(''name'', ''image'')]),
     cv_SelectResources = (\<lambda>cv i w. (Inr [5], w)), session_LookupResolver = (\<lambda>s r c n v w. (Inr 1, w)),
     access_AccessMethod = (\<lambda>a w. (Inr 9, w)), VerifyResourceDigest = (\<lambda>cv a m ds w. ((True, None), w))\<rparr>"

theorem resource_access_is_verified_witness:
  "\<exists>rd cd. ResolveResourceReference sample_res_lib ''d'' \<lparr>rr_Resource = [], rr_ReferencePath = []\<rparr> [] =
      Inr (rd, cd) \<and>
    (\<exists>m. access_AccessMethod sample_res_lib 5 () = (Inr m, ()) \<and>
      VerifyResourceDigest sample_res_lib 1 5 m [''d''] () = ((True, None), ()))"
proof -
  let ?OL = "empty_ocm_lib ''d'' :: (unit, string) ocm_lib"
  have "GetResourceAccessForComponentVersion ?OL sample_res_lib 0 1
      \<lparr>rr_Resource = [], rr_ReferencePath = []\<rparr> \<lparr>desc_List = []\<rparr> 0 0 False () = (Ret (Inr (5, 1)), ())"
    by (simp add: GetResourceAccessForComponentVersion_def verifyResource_def go_defs
        sample_res_lib_def empty_ocm_lib_def)
  from resource_access_is_verified [OF this] show ?thesis
    by (auto simp: empty_ocm_lib_def)
qed

text \<open>A codec whose descriptors are truth values, written \<open>0\<close> and \<open>1\<close>.\<close>

definition sample_codec :: "bool desc_codec" where
  "sample_codec = \<lparr>Encode = (\<lambda>b. Inr (if b then ''1'' else ''0'')),
     Decode = (\<lambda>r. if r = ''1'' then Inr True else if r = ''0'' then Inr False
        else Inl (ExternalError ''json'' ''bad descriptor'')),
     UnmarshalComponents = (\<lambda>data. Inr [ [c]. c \<leftarrow> drop (length components_open) data, c \<in> {CHR ''0'', CHR ''1''}])\<rparr>"

lemma sample_codec_contract: "codec_contract sample_codec"
proof -
  have digits: "[ [c]. c \<leftarrow> join_with '','' raws @ '']}'', c = CHR ''0'' \<or> c = CHR ''1''] = raws"
    if "\<forall>raw \<in> set raws. raw = ''0'' \<or> raw = ''1''" for raws
    using that
  proof (induction raws rule: induct_list012)
    case (3 x y zs)
    then have "[ [c]. c \<leftarrow> join_with '','' (y # zs) @ '']}'', c = CHR ''0'' \<or> c = CHR ''1''] = y # zs"
      by simp
    moreover have "x = ''0'' \<or> x = ''1''" using "3.prems" by simp
    ultimately show ?case by (elim disjE) simp_all
  qed auto
  show ?thesis
    unfolding codec_contract_def
  proof (intro conjI allI impI)
    fix d raw assume "Encode sample_codec d = Inr raw"
    then show "Decode sample_codec raw = Inr d" by (auto simp: sample_codec_def split: if_splits)
  next
    fix raws assume "\<forall>raw \<in> set raws. \<exists>d. Encode sample_codec d = Inr raw"
    then have "\<forall>raw \<in> set raws. raw = ''0'' \<or> raw = ''1''"
      by (fastforce simp: sample_codec_def split: if_splits)
    from digits [OF this]
    show "UnmarshalComponents sample_codec (components_open @ join_with '','' raws @ '']}'') = Inr raws"
      by (simp add: sample_codec_def)
  qed
qed


end
