(* ===== verification/ContextCache.thy ===== *)
theory ContextCache
  imports Hashing Verification
begin

text \<open>
  \<open>internal/ocm/context_cache.go\<close>: the cache of OCM contexts, found by the hash of the
  configuration objects, and of sessions, found by the context and the repository. Both are LRU
  caches of \<open>k8s.io/utils/lru\<close>, which is the parameter \<open>lru_lib\<close>; an operation gives the entries
  it evicts, on which the cache runs its eviction functions. The gauges of Prometheus map a
  label to a number. \<open>GetSession\<close> holds a lock, so a call is one step.
\<close>

section \<open>The LRU library\<close>

record ('l, 'k, 'v) lru_lib =
  lru_New :: "nat \<Rightarrow> 'l"
  lru_Get :: "'l \<Rightarrow> 'k \<Rightarrow> 'v option \<times> 'l"
  lru_Add :: "'l \<Rightarrow> 'k \<Rightarrow> 'v \<Rightarrow> ('k \<times> 'v) list \<times> 'l"
  lru_Clear :: "'l \<Rightarrow> ('k \<times> 'v) list \<times> 'l"

text \<open>
  What a cache holds is \<open>fst (lru_Get ..)\<close>. Looking up changes the recency only; an entry that
  was added is there (the capacity is positive or unbounded), another key keeps its entry or is
  evicted; \<open>Clear\<close> evicts every entry.
\<close>

definition lru_contract :: "('l, 'k, 'v, 'more) lru_lib_scheme \<Rightarrow> bool" where
  "lru_contract R \<longleftrightarrow>
     (\<forall>n k. fst (lru_Get R (lru_New R n) k) = None) \<and>
     (\<forall>l k j. fst (lru_Get R (snd (lru_Get R l k)) j) = fst (lru_Get R l j)) \<and>
     (\<forall>l k v. fst (lru_Get R (snd (lru_Add R l k v)) k) = Some v) \<and>
     (\<forall>l k v j. j \<noteq> k \<longrightarrow> fst (lru_Get R (snd (lru_Add R l k v)) j) \<in> {fst (lru_Get R l j), None}) \<and>
     (\<forall>l k. fst (lru_Get R (snd (lru_Clear R l)) k) = None)"

lemma lru_laws:
  assumes "lru_contract R"
  shows "fst (lru_Get R (lru_New R n) k) = None"
    and "fst (lru_Get R (snd (lru_Get R l k)) j) = fst (lru_Get R l j)"
    and "fst (lru_Get R (snd (lru_Add R l k v)) k) = Some v"
    and "fst (lru_Get R (snd (lru_Clear R l)) k) = None"
  using assms unfolding lru_contract_def by blast+

section \<open>State\<close>

record sessionKey =
  sk_ctxHash :: string
  sk_repoHash :: string

text \<open>
  \<open>cc_name\<close> is the field \<open>name\<close>; the parameter of the constructor, which the eviction functions
  capture, is \<open>cc_evict_name\<close>. \<open>cc_started\<close> tells whether the field \<open>ctx\<close> was set.
\<close>

record ('lc, 'ls, 'w) cache_state =
  cc_name :: string
  cc_evict_name :: string
  cc_contexts :: 'lc
  cc_sessions :: 'ls
  cc_started :: bool
  cc_contextGauge :: "string \<Rightarrow> int"
  cc_sessionGauge :: "string \<Rightarrow> int"
  cc_world :: 'w

text \<open>The libraries a cache works with.\<close>

record ('lc, 'ls, 'w, 'cfg) cache_env =
  ce_client :: "'w client"
  ce_ocm :: "('w, 'cfg) ocm_context_lib"
  ce_sha :: "bytes \<Rightarrow> bytes"
  ce_contextLRU :: "('lc, string, OCMContext) lru_lib"
  ce_sessionLRU :: "('ls, sessionKey, OCMSession) lru_lib"

definition NewContextCache ::
  "('lc, 'ls, 'w, 'cfg) cache_env \<Rightarrow> string \<Rightarrow> nat \<Rightarrow> nat \<Rightarrow> 'w \<Rightarrow> ('lc, 'ls, 'w) cache_state" where
  "NewContextCache E name contextCacheSize sessionCacheSize w =
     \<lparr>cc_name = [], cc_evict_name = name,
      cc_contexts = lru_New (ce_contextLRU E) contextCacheSize,
      cc_sessions = lru_New (ce_sessionLRU E) sessionCacheSize,
      cc_started = False, cc_contextGauge = (\<lambda>_. 0), cc_sessionGauge = (\<lambda>_. 0), cc_world = w\<rparr>"

text \<open>A computation on the world, run by the cache.\<close>

definition onWorld :: "('w, 'a) go \<Rightarrow> (('lc, 'ls, 'w) cache_state, 'a) go" where
  [go_defs]: "onWorld m = (\<lambda>s. case m (cc_world s) of (r, w) \<Rightarrow> (r, s\<lparr>cc_world := w\<rparr>))"

lemma postG_onWorld [go_wp]:
  "postG (onWorld m) s Q = postG m (cc_world s) (\<lambda>a w. Q a (s\<lparr>cc_world := w\<rparr>))"
  by (auto simp: postG_def onWorld_def split: prod.splits outcome.splits)

section \<open>Eviction\<close>

text \<open>\<open>gauge.WithLabelValues(name).Inc()\<close> and \<open>Dec()\<close>.\<close>

definition gauge_add :: "string \<Rightarrow> int \<Rightarrow> (string \<Rightarrow> int) \<Rightarrow> string \<Rightarrow> int" where
  "gauge_add name n g = g(name := g name + n)"

text \<open>The two eviction functions; errors of the library are only logged.\<close>

definition evict_context ::
  "('lc, 'ls, 'w, 'cfg) cache_env \<Rightarrow> string \<times> OCMContext \<Rightarrow> ('lc, 'ls, 'w) cache_state \<Rightarrow>
   ('lc, 'ls, 'w) cache_state" where
  "evict_context E e s =
     s\<lparr>cc_world := snd (context_Finalize (ce_ocm E) (snd e) (cc_world s)),
       cc_contextGauge := gauge_add (cc_evict_name s) (-1) (cc_contextGauge s)\<rparr>"

definition evict_session ::
  "('lc, 'ls, 'w, 'cfg) cache_env \<Rightarrow> sessionKey \<times> OCMSession \<Rightarrow> ('lc, 'ls, 'w) cache_state \<Rightarrow>
   ('lc, 'ls, 'w) cache_state" where
  "evict_session E e s =
     s\<lparr>cc_world := snd (session_Close (ce_ocm E) (snd e) (cc_world s)),
       cc_contextGauge := gauge_add (cc_evict_name s) (-1) (cc_contextGauge s)\<rparr>"

definition contexts_Add ::
  "('lc, 'ls, 'w, 'cfg) cache_env \<Rightarrow> string \<Rightarrow> OCMContext \<Rightarrow> ('lc, 'ls, 'w) cache_state \<Rightarrow>
   ('lc, 'ls, 'w) cache_state" where
  "contexts_Add E k octx s =
     (case lru_Add (ce_contextLRU E) (cc_contexts s) k octx of
        (evicted, l) \<Rightarrow> fold (evict_context E) evicted (s\<lparr>cc_contexts := l\<rparr>))"

definition sessions_Add ::
  "('lc, 'ls, 'w, 'cfg) cache_env \<Rightarrow> sessionKey \<Rightarrow> OCMSession \<Rightarrow> ('lc, 'ls, 'w) cache_state \<Rightarrow>
   ('lc, 'ls, 'w) cache_state" where
  "sessions_Add E k sess s =
     (case lru_Add (ce_sessionLRU E) (cc_sessions s) k sess of
        (evicted, l) \<Rightarrow> fold (evict_session E) evicted (s\<lparr>cc_sessions := l\<rparr>))"

definition cache_Clear ::
  "('lc, 'ls, 'w, 'cfg) cache_env \<Rightarrow> ('lc, 'ls, 'w) cache_state \<Rightarrow> ('lc, 'ls, 'w) cache_state" where
  "cache_Clear E s0 =
     (case lru_Clear (ce_sessionLRU E) (cc_sessions s0) of (evs, ls) \<Rightarrow>
      let s1 = fold (evict_session E) evs (s0\<lparr>cc_sessions := ls\<rparr>) in
      case lru_Clear (ce_contextLRU E) (cc_contexts s1) of (evc, lc) \<Rightarrow>
      fold (evict_context E) evc (s1\<lparr>cc_contexts := lc\<rparr>))"

text \<open>
  \<open>Start\<close> blocks until its context is done; the two definitions are what it does before and
  after that.
\<close>

definition Start_begin :: "(('lc, 'ls, 'w) cache_state, goerr option) go" where
  "Start_begin =
     bindG (getG cc_started) (\<lambda>started.
       if started then returnG (Some (ErrorString ''already started''))
       else thenG (modifyG (\<lambda>s. s\<lparr>cc_started := True\<rparr>)) (returnG None))"

definition Start_done ::
  "('lc, 'ls, 'w, 'cfg) cache_env \<Rightarrow> (('lc, 'ls, 'w) cache_state, goerr option) go" where
  "Start_done E = thenG (modifyG (cache_Clear E)) (returnG None)"

section \<open>GetSession\<close>

record GetSessionOptions =
  RepositorySpecification :: "JSON option"
  OCMConfigurations :: "OCMConfiguration list"
  opt_VerificationProvider :: "VerificationProvider option"

definition get_config_object ::
  "'w client \<Rightarrow> OCMConfiguration \<Rightarrow> ('w, goerr + ConfigObj) go" where
  "get_config_object cl c =
     (let key = \<lparr>nn_Namespace = cfg_Namespace c, nn_Name = cfg_Name c\<rparr>;
          wrap = (\<lambda>err. returnG (Inl (Errorf (''get '' @ cfg_Kind c @ '' '' @ cfg_Namespace c @ ''/'' @
             cfg_Name c) err)))
      in if cfg_Kind c = ''Secret''
         then tryG (extG (getSecret cl key)) wrap (\<lambda>s. returnG (Inr (SecretObj s)))
         else if cfg_Kind c = ''ConfigMap''
         then tryG (extG (getConfigMap cl key)) wrap (\<lambda>cm. returnG (Inr (ConfigMapObj cm)))
         else returnG (Inl (ErrorString (''unsupported configuration kind: '' @ cfg_Kind c))))"

fun getConfigObjects ::
  "'w client \<Rightarrow> OCMConfiguration list \<Rightarrow> ConfigObj list \<Rightarrow> ('w, goerr + ConfigObj list) go" where
  "getConfigObjects cl [] objs = returnG (Inr objs)"
| "getConfigObjects cl (c # cs) objs =
     tryG (get_config_object cl c)
       (\<lambda>err. returnG (Inl err))
       (\<lambda>x. getConfigObjects cl cs (objs @ [x]))"

fun apply_configs ::
  "('w, 'cfg) ocm_context_lib \<Rightarrow> OCMContext \<Rightarrow> ConfigObj list \<Rightarrow> goerr option \<Rightarrow>
   ('w, goerr option) go" where
  "apply_configs OL octx [] applyErr = returnG applyErr"
| "apply_configs OL octx (c # cs) applyErr =
     bindG (ConfigureContextForSecretOrConfigMap OL octx c)
       (\<lambda>e. apply_configs OL octx cs (errors_Join [applyErr, e]))"

definition getOrCreateContext ::
  "('lc, 'ls, 'w, 'cfg) cache_env \<Rightarrow> string \<Rightarrow> ConfigObj list \<Rightarrow>
   (('lc, 'ls, 'w) cache_state, goerr + OCMContext) go" where
  "getOrCreateContext E ctxHash configObjs =
     bindG (getG (\<lambda>s. lru_Get (ce_contextLRU E) (cc_contexts s) ctxHash)) (\<lambda>(cached, l).
     thenG (modifyG (\<lambda>s. s\<lparr>cc_contexts := l\<rparr>))
     (case cached of
        Some octx \<Rightarrow> returnG (Inr octx)
      | None \<Rightarrow>
          bindG (onWorld (extG (ocm_New (ce_ocm E)))) (\<lambda>octx.
          bindG (onWorld (apply_configs (ce_ocm E) octx configObjs None)) (\<lambda>applyErr.
          case applyErr of
            Some e \<Rightarrow> returnG (Inl e)
          | None \<Rightarrow>
              thenG (modifyG (contexts_Add E ctxHash octx))
              (thenG (modifyG (\<lambda>s. s\<lparr>cc_contextGauge := gauge_add (cc_name s) 1 (cc_contextGauge s)\<rparr>))
              (returnG (Inr octx)))))))"

fun register_keys ::
  "('w, 'cfg) ocm_context_lib \<Rightarrow> OCMContext \<Rightarrow> VerificationKey list \<Rightarrow> ('w, unit) go" where
  "register_keys OL octx [] = returnG ()"
| "register_keys OL octx (v # vs) =
     thenG (extG (signing_RegisterPublicKey OL octx (vk_Signature v) (vk_PublicKey v)))
       (register_keys OL octx vs)"

definition registerVerifications ::
  "('lc, 'ls, 'w, 'cfg) cache_env \<Rightarrow> OCMContext \<Rightarrow> GetSessionOptions \<Rightarrow> ('w, goerr option) go" where
  "registerVerifications E octx opts =
     (case opt_VerificationProvider opts of
        None \<Rightarrow> returnG None
      | Some vp \<Rightarrow>
          tryG (GetVerifications (ce_client E) vp)
            (\<lambda>err. returnG (Some err))
            (\<lambda>vs. if vs = [] then returnG None
               else bindG (extG (signing_HasRegistry (ce_ocm E) octx)) (\<lambda>present.
                 if present then thenG (register_keys (ce_ocm E) octx vs) (returnG None)
                 else returnG None)))"

definition new_session ::
  "('lc, 'ls, 'w, 'cfg) cache_env \<Rightarrow> OCMContext \<Rightarrow> ('w, OCMSession) go" where
  "new_session E octx =
     bindG (extG (ocm_NewSession (ce_ocm E))) (\<lambda>s.
     thenG (extG (context_CloseOnFinalize (ce_ocm E) octx s)) (returnG s))"

definition getOrCreateSession ::
  "('lc, 'ls, 'w, 'cfg) cache_env \<Rightarrow> sessionKey \<Rightarrow> OCMContext \<Rightarrow>
   (('lc, 'ls, 'w) cache_state, OCMSession) go" where
  "getOrCreateSession E key octx =
     bindG (getG (\<lambda>s. lru_Get (ce_sessionLRU E) (cc_sessions s) key)) (\<lambda>(cached, l).
     thenG (modifyG (\<lambda>s. s\<lparr>cc_sessions := l\<rparr>))
     (case cached of
        Some s \<Rightarrow>
          bindG (onWorld (extG (session_IsClosed (ce_ocm E) s))) (\<lambda>closed.
          if \<not> closed then returnG s
          else bindG (onWorld (new_session E octx)) (\<lambda>s.
               thenG (modifyG (sessions_Add E key s)) (returnG s)))
      | None \<Rightarrow>
          bindG (onWorld (new_session E octx)) (\<lambda>s.
          thenG (modifyG (sessions_Add E key s))
          (thenG (modifyG (\<lambda>st. st\<lparr>cc_sessionGauge := gauge_add (cc_name st) 1 (cc_sessionGauge st)\<rparr>))
          (returnG s)))))"

text \<open>
  \<open>hash.Sum(b)\<close> appends the hash of what was written so far to \<open>b\<close>; the code writes nothing, so
  that is the hash of the empty input.
\<close>

definition hashBytesHex :: "(bytes \<Rightarrow> bytes) \<Rightarrow> bytes option \<Rightarrow> string" where
  "hashBytesHex sha b = (case b of None \<Rightarrow> [] | Some bs \<Rightarrow> hex_encode (bs @ sha []))"

definition GetSession ::
  "('lc, 'ls, 'w, 'cfg) cache_env \<Rightarrow> GetSessionOptions option \<Rightarrow>
   (('lc, 'ls, 'w) cache_state, goerr + (OCMContext \<times> OCMSession)) go" where
  "GetSession E optsp =
     (case optsp of
        None \<Rightarrow> returnG (Inl (ErrorString ''opts is nil''))
      | Some opts \<Rightarrow>
          tryG (onWorld (getConfigObjects (ce_client E) (OCMConfigurations opts) []))
            (\<lambda>err. returnG (Inl err))
          (\<lambda>configObjs. tryG (returnG (GetObjectDataHash (ce_sha E) configObjs))
            (\<lambda>err. returnG (Inl (Errorf ''hash config objects'' err)))
          (\<lambda>configHash. tryG (getOrCreateContext E configHash configObjs)
            (\<lambda>err. returnG (Inl err))
          (\<lambda>octx. checkG (onWorld (registerVerifications E octx opts))
            (\<lambda>err. returnG (Inl err))
          (derefG (RepositorySpecification opts) (\<lambda>rspec.
           bindG (getOrCreateSession E
               \<lparr>sk_ctxHash = configHash, sk_repoHash = hashBytesHex (ce_sha E) (Raw rspec)\<rparr> octx)
             (\<lambda>sess. returnG (Inr (octx, sess)))))))))"


section \<open>Lemmas\<close>

lemma fold_evict_context:
  "cc_contexts (fold (evict_context E) es s) = cc_contexts s"
  "cc_sessions (fold (evict_context E) es s) = cc_sessions s"
  "cc_name (fold (evict_context E) es s) = cc_name s"
  "cc_evict_name (fold (evict_context E) es s) = cc_evict_name s"
  "cc_sessionGauge (fold (evict_context E) es s) = cc_sessionGauge s"
  "cc_contextGauge (fold (evict_context E) es s) =
     gauge_add (cc_evict_name s) (- int (length es)) (cc_contextGauge s)"
  by (induction es arbitrary: s) (auto simp: evict_context_def gauge_add_def)

lemma fold_evict_session:
  "cc_contexts (fold (evict_session E) es s) = cc_contexts s"
  "cc_sessions (fold (evict_session E) es s) = cc_sessions s"
  "cc_name (fold (evict_session E) es s) = cc_name s"
  "cc_evict_name (fold (evict_session E) es s) = cc_evict_name s"
  "cc_sessionGauge (fold (evict_session E) es s) = cc_sessionGauge s"
  "cc_contextGauge (fold (evict_session E) es s) =
     gauge_add (cc_evict_name s) (- int (length es)) (cc_contextGauge s)"
  by (induction es arbitrary: s) (auto simp: evict_session_def gauge_add_def)

lemmas evict_frames = fold_evict_context fold_evict_session

lemma add_frames:
  "cc_contexts (contexts_Add E k octx s) = snd (lru_Add (ce_contextLRU E) (cc_contexts s) k octx)"
  "cc_sessions (contexts_Add E k octx s) = cc_sessions s"
  "cc_sessions (sessions_Add E key sess s) = snd (lru_Add (ce_sessionLRU E) (cc_sessions s) key sess)"
  "cc_contexts (sessions_Add E key sess s) = cc_contexts s"
  by (simp_all add: contexts_Add_def sessions_Add_def evict_frames split: prod.splits)

abbreviation cached_context ::
  "('lc, 'ls, 'w, 'cfg) cache_env \<Rightarrow> ('lc, 'ls, 'w) cache_state \<Rightarrow> string \<Rightarrow> OCMContext option" where
  "cached_context E s k \<equiv> fst (lru_Get (ce_contextLRU E) (cc_contexts s) k)"

abbreviation cached_session ::
  "('lc, 'ls, 'w, 'cfg) cache_env \<Rightarrow> ('lc, 'ls, 'w) cache_state \<Rightarrow> sessionKey \<Rightarrow> OCMSession option" where
  "cached_session E s k \<equiv> fst (lru_Get (ce_sessionLRU E) (cc_sessions s) k)"

lemma getOrCreateContext_post:
  assumes "lru_contract (ce_contextLRU E)"
  shows "postG (getOrCreateContext E h objs) s
    (\<lambda>r s'. \<forall>octx. r = Inr octx \<longrightarrow> cached_context E s' h = Some octx)"
  by (auto simp: getOrCreateContext_def go_wp add_frames lru_laws [OF assms] case_prod_beta
      split: option.splits)
     (auto intro!: postG_I simp: go_defs add_frames lru_laws [OF assms] split: option.splits)

lemma getOrCreateSession_post:
  assumes "lru_contract (ce_sessionLRU E)"
  shows "postG (getOrCreateSession E key octx) s
    (\<lambda>sess s'. cached_session E s' key = Some sess \<and> cc_contexts s' = cc_contexts s)"
  by (auto simp: getOrCreateSession_def new_session_def go_wp add_frames lru_laws [OF assms]
      case_prod_beta split: option.splits)

lemma GetSession_run:
  assumes "GetSession E (Some opts) s = (Ret (Inr (octx, sess)), s')"
  shows "\<exists>objs h rspec w1 s2.
     getConfigObjects (ce_client E) (OCMConfigurations opts) [] (cc_world s) = (Ret (Inr objs), w1) \<and>
     GetObjectDataHash (ce_sha E) objs = Inr h \<and> RepositorySpecification opts = Some rspec \<and>
     (\<exists>s0. getOrCreateContext E h objs s0 = (Ret (Inr octx), s2)) \<and>
     (\<exists>s3. cc_contexts s3 = cc_contexts s2 \<and> getOrCreateSession E \<lparr>sk_ctxHash = h,
        sk_repoHash = hashBytesHex (ce_sha E) (Raw rspec)\<rparr> octx s3 = (Ret sess, s'))"
proof -
  obtain objs w1 where o: "getConfigObjects (ce_client E) (OCMConfigurations opts) [] (cc_world s) =
      (Ret (Inr objs), w1)"
    using assms by (auto simp: GetSession_def go_defs split: prod.splits outcome.splits sum.splits)
  obtain h where h: "GetObjectDataHash (ce_sha E) objs = Inr h"
    using assms o by (auto simp: GetSession_def go_defs split: prod.splits outcome.splits sum.splits)
  obtain s2 where c: "getOrCreateContext E h objs (s\<lparr>cc_world := w1\<rparr>) = (Ret (Inr octx), s2)"
    using assms o h by (auto simp: GetSession_def go_defs split: prod.splits outcome.splits
        sum.splits option.splits)
  obtain w3 where v: "registerVerifications E octx opts (cc_world s2) = (Ret None, w3)"
    using assms o h c by (auto simp: GetSession_def go_defs split: prod.splits outcome.splits
        sum.splits option.splits)
  obtain rspec where r: "RepositorySpecification opts = Some rspec"
    using assms o h c v by (auto simp: GetSession_def go_defs split: option.splits)
  have "getOrCreateSession E \<lparr>sk_ctxHash = h, sk_repoHash = hashBytesHex (ce_sha E) (Raw rspec)\<rparr> octx
      (s2\<lparr>cc_world := w3\<rparr>) = (Ret sess, s')"
    using assms o h c v r by (auto simp: GetSession_def go_defs split: prod.splits outcome.splits)
  moreover have "cc_contexts (s2\<lparr>cc_world := w3\<rparr>) = cc_contexts s2" by simp
  ultimately show ?thesis using o h c r by blast
qed

subsection \<open>The gauges\<close>

lemma invG_onWorld [go_inv]:
  "(\<And>s w. I s \<Longrightarrow> I (s\<lparr>cc_world := w\<rparr>)) \<Longrightarrow> invG I (onWorld m)"
  by (auto simp: invG_def onWorld_def split: prod.splits)

text \<open>What the operations of the cache do, any number of times, while the world changes too.\<close>

inductive cache_step ::
  "('lc, 'ls, 'w, 'cfg) cache_env \<Rightarrow> ('lc, 'ls, 'w) cache_state \<Rightarrow> ('lc, 'ls, 'w) cache_state \<Rightarrow> bool"
  for E where
  get: "GetSession E opts s = (r, s') \<Longrightarrow> cache_step E s s'"
| start: "Start_begin s = (r, s') \<Longrightarrow> cache_step E s s'"
| stop: "Start_done E s = (r, s') \<Longrightarrow> cache_step E s s'"
| environment: "cache_step E s (s\<lparr>cc_world := w\<rparr>)"

inductive cache_reachable ::
  "('lc, 'ls, 'w, 'cfg) cache_env \<Rightarrow> string \<Rightarrow> ('lc, 'ls, 'w) cache_state \<Rightarrow> bool"
  for E name where
  init: "cache_reachable E name (NewContextCache E name n m w)"
| step: "cache_reachable E name s \<Longrightarrow> cache_step E s s' \<Longrightarrow> cache_reachable E name s'"

text \<open>The entries are counted under the empty label, the evictions under the name.\<close>

definition gauge_inv :: "string \<Rightarrow> ('lc, 'ls, 'w) cache_state \<Rightarrow> bool" where
  "gauge_inv name s \<longleftrightarrow> cc_name s = [] \<and> cc_evict_name s = name \<and>
     cc_contextGauge s name \<le> 0 \<and> 0 \<le> cc_contextGauge s [] \<and>
     cc_sessionGauge s name = 0 \<and> 0 \<le> cc_sessionGauge s []"

lemma gauge_inv_frame:
  "gauge_inv name s \<Longrightarrow> gauge_inv name (s\<lparr>cc_world := w\<rparr>)"
  "gauge_inv name s \<Longrightarrow> gauge_inv name (s\<lparr>cc_contexts := lc\<rparr>)"
  "gauge_inv name s \<Longrightarrow> gauge_inv name (s\<lparr>cc_sessions := ls\<rparr>)"
  "gauge_inv name s \<Longrightarrow> gauge_inv name (s\<lparr>cc_started := b\<rparr>)"
  by (simp_all add: gauge_inv_def)

lemma gauge_inv_evict:
  assumes "name \<noteq> []" and "gauge_inv name s"
  shows "gauge_inv name (fold (evict_context E) es s)" "gauge_inv name (fold (evict_session E) es' s)"
  using assms by (auto simp: gauge_inv_def evict_frames gauge_add_def)

lemma gauge_inv_ops:
  assumes "name \<noteq> []" and "gauge_inv name s"
  shows "gauge_inv name (contexts_Add E k octx s)" "gauge_inv name (sessions_Add E key sess s)"
    and "gauge_inv name (cache_Clear E s)"
    and "gauge_inv name (s\<lparr>cc_contextGauge := gauge_add (cc_name s) 1 (cc_contextGauge s)\<rparr>)"
    and "gauge_inv name (s\<lparr>cc_sessionGauge := gauge_add (cc_name s) 1 (cc_sessionGauge s)\<rparr>)"
proof -
  show "gauge_inv name (contexts_Add E k octx s)" "gauge_inv name (sessions_Add E key sess s)"
    "gauge_inv name (cache_Clear E s)"
    using assms by (simp_all add: contexts_Add_def sessions_Add_def cache_Clear_def Let_def
        gauge_inv_evict gauge_inv_frame split: prod.splits)
  show "gauge_inv name (s\<lparr>cc_contextGauge := gauge_add (cc_name s) 1 (cc_contextGauge s)\<rparr>)"
    "gauge_inv name (s\<lparr>cc_sessionGauge := gauge_add (cc_name s) 1 (cc_sessionGauge s)\<rparr>)"
    using assms by (auto simp: gauge_inv_def gauge_add_def)
qed

lemma gauge_inv_GetSession:
  assumes "name \<noteq> []"
  shows "invG (gauge_inv name) (GetSession E opts)"
proof -
  have "invG (gauge_inv name) (getOrCreateContext E h objs)" for h objs
    unfolding getOrCreateContext_def
    by (auto intro!: go_inv gauge_inv_frame gauge_inv_ops [OF assms] split: option.splits)
  moreover have "invG (gauge_inv name) (getOrCreateSession E key octx)" for key octx
    unfolding getOrCreateSession_def
    by (auto intro!: go_inv gauge_inv_frame gauge_inv_ops [OF assms] split: option.splits)
  ultimately show ?thesis
    unfolding GetSession_def
    by (auto intro!: go_inv gauge_inv_frame split: option.splits)
qed

lemma gauge_inv_step:
  assumes "name \<noteq> []" and "cache_step E s s'" and "gauge_inv name s"
  shows "gauge_inv name s'"
  using assms(2,3)
proof (cases rule: cache_step.cases)
  case (get opts r)
  then show ?thesis using invG_D [OF gauge_inv_GetSession [OF assms(1)] assms(3)] by blast
next
  case (start r)
  then show ?thesis using assms(3) by (auto simp: Start_begin_def go_defs gauge_inv_frame split: if_splits)
next
  case (stop r)
  then show ?thesis using assms by (auto simp: Start_done_def go_defs gauge_inv_ops)
next
  case (environment w)
  then show ?thesis using assms(3) by (simp add: gauge_inv_frame)
qed

text \<open>A cache hit: the context is cached, no verifications are registered.\<close>

lemma getOrCreateContext_hit:
  assumes "cached_context E s h = Some octx"
  shows "getOrCreateContext E h objs s =
    (Ret (Inr octx), s\<lparr>cc_contexts := snd (lru_Get (ce_contextLRU E) (cc_contexts s) h)\<rparr>)"
  using assms by (simp add: getOrCreateContext_def go_defs case_prod_beta)

lemma getOrCreateSession_hit:
  assumes "cached_session E s key = Some sess"
    and "session_IsClosed (ce_ocm E) sess (cc_world s) = (False, w)"
  shows "getOrCreateSession E key octx s = (Ret sess,
    s\<lparr>cc_sessions := snd (lru_Get (ce_sessionLRU E) (cc_sessions s) key), cc_world := w\<rparr>)"
  using assms by (simp add: getOrCreateSession_def go_defs case_prod_beta)

lemma GetSession_hit:
  assumes "getConfigObjects (ce_client E) (OCMConfigurations opts) [] (cc_world s) = (Ret (Inr objs), w1)"
    and "GetObjectDataHash (ce_sha E) objs = Inr h"
    and "opt_VerificationProvider opts = None" and "RepositorySpecification opts = Some rspec"
    and "cached_context E s h = Some octx"
    and "cached_session E s \<lparr>sk_ctxHash = h, sk_repoHash = hashBytesHex (ce_sha E) (Raw rspec)\<rparr> = Some sess"
    and "session_IsClosed (ce_ocm E) sess w1 = (False, w2)"
  shows "\<exists>lc ls. GetSession E (Some opts) s =
    (Ret (Inr (octx, sess)), s\<lparr>cc_contexts := lc, cc_sessions := ls, cc_world := w2\<rparr>) \<and>
    lc = snd (lru_Get (ce_contextLRU E) (cc_contexts s) h) \<and>
    ls = snd (lru_Get (ce_sessionLRU E) (cc_sessions s)
      \<lparr>sk_ctxHash = h, sk_repoHash = hashBytesHex (ce_sha E) (Raw rspec)\<rparr>)"
  using assms
  by (simp add: GetSession_def registerVerifications_def go_defs getOrCreateContext_hit getOrCreateSession_hit)

text \<open>\<open>GetSession\<close> returns for options with a repository specification.\<close>

lemma retG_onWorld [go_ret]:
  assumes m: "retG anyG m R"
  shows "retG anyG (onWorld m) R"
proof -
  have "\<exists>a s'. onWorld m s = (Ret a, s') \<and> R a" for s
    using retG_D [OF m, of "cc_world s"] by (auto simp: onWorld_def)
  then show ?thesis unfolding retG_def by blast
qed

lemma retG_getConfigObjects [go_ret]: "retG anyG (getConfigObjects cl cs objs) anyG"
proof (induction cs arbitrary: objs)
  case (Cons c cs)
  have "retG anyG (get_config_object cl c) anyG"
    unfolding get_config_object_def Let_def by (rule go_ret | (simp; fail))+
  with Cons show ?case by (auto intro: retG_try retG_return)
qed (simp add: retG_return)

lemma retG_apply_configs [go_ret]: "retG anyG (apply_configs OL octx cs e) anyG"
  by (induction cs arbitrary: e) (simp_all, (rule go_ret | assumption)+)

lemma retG_register_keys [go_ret]: "retG anyG (register_keys OL octx vs) anyG"
  by (induction vs) (simp_all, (rule go_ret | assumption)+)

lemma retG_GetSession:
  assumes "RepositorySpecification opts \<noteq> None"
  shows "retG anyG (GetSession E (Some opts)) anyG"
proof -
  have ctx: "retG anyG (getOrCreateContext E h cs) anyG" for h cs
    unfolding getOrCreateContext_def by (rule go_ret | (simp; fail))+
  have session: "retG anyG (getOrCreateSession E k octx) anyG" for k octx
    unfolding getOrCreateSession_def new_session_def by (rule go_ret | (simp; fail))+
  have keys: "retG anyG (registerVerifications E octx opts) anyG" for octx
    unfolding registerVerifications_def by (rule go_ret | (simp; fail))+
  show ?thesis
    unfolding GetSession_def option.case by (rule go_ret ctx session keys assms)+
qed

section \<open>Properties\<close>

text \<open>
  After \<open>GetSession\<close> returned a context and a session, the cache holds the context under
  the hash of the configuration objects that were read, and the session under that hash and the
  repository.
\<close>

theorem get_session_is_cached:
  assumes "lru_contract (ce_contextLRU E)" and "lru_contract (ce_sessionLRU E)"
    and "GetSession E (Some opts) s = (Ret (Inr (octx, sess)), s')"
  shows "\<exists>objs h rspec w1.
    getConfigObjects (ce_client E) (OCMConfigurations opts) [] (cc_world s) = (Ret (Inr objs), w1) \<and>
    GetObjectDataHash (ce_sha E) objs = Inr h \<and> RepositorySpecification opts = Some rspec \<and>
    cached_context E s' h = Some octx \<and>
    cached_session E s' \<lparr>sk_ctxHash = h, sk_repoHash = hashBytesHex (ce_sha E) (Raw rspec)\<rparr> = Some sess"
proof -
  obtain objs h rspec w1 s0 s2 s3 where
      run: "getConfigObjects (ce_client E) (OCMConfigurations opts) [] (cc_world s) = (Ret (Inr objs), w1)"
        "GetObjectDataHash (ce_sha E) objs = Inr h" "RepositorySpecification opts = Some rspec"
      and c: "getOrCreateContext E h objs s0 = (Ret (Inr octx), s2)"
      and f: "cc_contexts s3 = cc_contexts s2"
      and g: "getOrCreateSession E \<lparr>sk_ctxHash = h,
        sk_repoHash = hashBytesHex (ce_sha E) (Raw rspec)\<rparr> octx s3 = (Ret sess, s')"
    using GetSession_run [OF assms(3)] by blast
  have "cached_context E s2 h = Some octx"
    using postG_D [OF getOrCreateContext_post [OF assms(1)] c] by simp
  then show ?thesis
    using postG_D [OF getOrCreateSession_post [OF assms(2)] g] f run by auto
qed


text \<open>
  Sessions of different repositories are kept apart without relying on the hash function:
  \<open>hashBytesHex\<close> is injective on repository specifications (it appends a constant to them).
\<close>

theorem repo_hash_injective:
  assumes "sha [] \<noteq> []"
  shows "hashBytesHex sha a = hashBytesHex sha b \<longleftrightarrow> a = b"
proof -
  have "hex_encode (x @ sha []) \<noteq> []" "[] \<noteq> hex_encode (x @ sha [])" for x
    using assms by (auto simp: hex_encode_def)
  then show ?thesis by (auto simp: hashBytesHex_def split: option.splits dest: hex_encode_inject)
qed

text \<open>
  The gauges do not show the sizes of a cache with a name: in every reachable state the
  session gauge of that name is zero and its context gauge is not positive, while the entries
  are counted under the empty name.
\<close>

theorem gauges_never_positive:
  assumes "name \<noteq> []" and "cache_reachable E name s"
  shows "cc_contextGauge s name \<le> 0 \<and> cc_sessionGauge s name = 0"
proof -
  have "gauge_inv name s"
    using assms(2)
  proof (induction rule: cache_reachable.induct)
    case (init n m w)
    show ?case by (simp add: gauge_inv_def NewContextCache_def)
  next
    case (step s s')
    then show ?case using gauge_inv_step [OF assms(1)] by blast
  qed
  then show ?thesis by (simp add: gauge_inv_def)
qed

section \<open>Witnesses\<close>

text \<open>An LRU library that keeps the most recent entries of an association list, at least one.\<close>

definition sample_lru :: "(nat \<times> ('k \<times> 'v) list, 'k, 'v) lru_lib" where
  "sample_lru = \<lparr>lru_New = (\<lambda>n. (n, [])),
     lru_Get = (\<lambda>l k. (map_of (snd l) k, l)),
     lru_Add = (\<lambda>l k v. let es = (k, v) # filter (\<lambda>e. fst e \<noteq> k) (snd l)
        in (drop (max 1 (fst l)) es, (fst l, take (max 1 (fst l)) es))),
     lru_Clear = (\<lambda>l. (snd l, (fst l, [])))\<rparr>"

lemma map_of_take: "map_of (take n xs) k \<in> {map_of xs k, None}"
  by (induction xs arbitrary: n) (auto simp: take_Cons' split: if_splits)

lemma map_of_filter_key: "j \<noteq> k \<Longrightarrow> map_of (filter (\<lambda>e. fst e \<noteq> k) xs) j = map_of xs j"
  by (induction xs) auto

lemma map_of_take_filter:
  assumes "j \<noteq> k" and "map_of (take m (filter (\<lambda>e. fst e \<noteq> k) xs)) j = Some y"
  shows "map_of xs j = Some y"
  using assms map_of_take [of m "filter (\<lambda>e. fst e \<noteq> k) xs" j] by (simp add: map_of_filter_key)

lemma sample_lru_contract: "lru_contract sample_lru"
  by (auto simp: lru_contract_def sample_lru_def Let_def take_Cons' max_def map_of_filter_key
      dest: map_of_take_filter)

text \<open>A world that counts the handles the library has made; nothing is ever closed.\<close>

definition sample_ocm :: "(nat, unit) ocm_context_lib" where
  "sample_ocm = \<lparr>ocm_New = (\<lambda>w. (w, Suc w)), RepositoryForDockerConfig = (\<lambda>c d w. (None, w)),
     GetConfigForData = (\<lambda>c d e w. (Inr (), w)), ApplyConfig = (\<lambda>c d n w. (None, w)),
     context_Finalize = (\<lambda>c w. (None, w)), context_CloseOnFinalize = (\<lambda>c s w. ((), w)),
     signing_HasRegistry = (\<lambda>c w. (True, w)), signing_RegisterPublicKey = (\<lambda>c n k w. ((), w)),
     ocm_NewSession = (\<lambda>w. (w, Suc w)), session_IsClosed = (\<lambda>s w. (False, w)),
     session_Close = (\<lambda>s w. (None, w))\<rparr>"

type_synonym sample_env = "(nat \<times> (string \<times> nat) list, nat \<times> (sessionKey \<times> nat) list, nat, unit) cache_env"

definition sample_env :: sample_env where
  "sample_env = \<lparr>ce_client = empty_client, ce_ocm = sample_ocm, ce_sha = pad32,
     ce_contextLRU = sample_lru, ce_sessionLRU = sample_lru\<rparr>"

definition sample_opts :: GetSessionOptions where
  "sample_opts = \<lparr>RepositorySpecification = Some \<lparr>Raw = Some ''{}''\<rparr>, OCMConfigurations = [],
     opt_VerificationProvider = None\<rparr>"

definition sample_cache :: "(nat \<times> (string \<times> nat) list, nat \<times> (sessionKey \<times> nat) list, nat) cache_state" where
  "sample_cache = NewContextCache sample_env ''cache'' 1 1 0"

definition sample_cached :: "(nat \<times> (string \<times> nat) list, nat \<times> (sessionKey \<times> nat) list, nat) cache_state" where
  "sample_cached = snd (GetSession sample_env (Some sample_opts) sample_cache)"

lemma sample_objects:
  "getConfigObjects (ce_client sample_env) (OCMConfigurations sample_opts) [] w = (Ret (Inr []), w)"
  by (simp add: sample_opts_def go_defs)

lemma sample_contracts:
  "lru_contract (ce_contextLRU sample_env)" "lru_contract (ce_sessionLRU sample_env)"
  by (simp_all add: sample_env_def sample_lru_contract)

lemma sample_run:
  "GetSession sample_env (Some sample_opts) sample_cache = (Ret (Inr (0, 1)), sample_cached)"
proof -
  have "fst (GetSession sample_env (Some sample_opts) sample_cache) = Ret (Inr (0, 1))"
    by (simp add: GetSession_def getOrCreateContext_def getOrCreateSession_def new_session_def
        registerVerifications_def contexts_Add_def sessions_Add_def go_defs sample_cache_def
        NewContextCache_def sample_env_def sample_opts_def sample_lru_def sample_ocm_def
        GetObjectDataHash_eq Let_def)
  then show ?thesis unfolding sample_cached_def by (metis prod.collapse)
qed

theorem get_session_is_cached_witness:
  "\<exists>h. cached_context sample_env sample_cached h = Some 0 \<and>
     cached_session sample_env sample_cached
       \<lparr>sk_ctxHash = h, sk_repoHash = hashBytesHex pad32 (Some ''{}'')\<rparr> = Some 1"
proof -
  have "ce_sha sample_env = pad32" "RepositorySpecification sample_opts = Some \<lparr>Raw = Some ''{}''\<rparr>"
    by (simp_all add: sample_env_def sample_opts_def)
  then show ?thesis
    using get_session_is_cached [OF sample_contracts sample_run] by auto
qed


theorem repo_hash_injective_witness:
  "hashBytesHex pad32 (Some ''a'') \<noteq> hashBytesHex pad32 (Some ''b'')"
  using repo_hash_injective [of pad32 "Some ''a''" "Some ''b''"] by (simp add: pad32_def)

theorem gauges_never_positive_witness:
  "cc_contextGauge (snd (Start_done sample_env sample_cached)) ''cache'' \<le> 0 \<and>
   cc_sessionGauge (snd (Start_done sample_env sample_cached)) ''cache'' = 0"
proof (rule gauges_never_positive)
  have "cache_reachable sample_env ''cache'' sample_cache"
    unfolding sample_cache_def by (rule cache_reachable.init)
  then have "cache_reachable sample_env ''cache'' sample_cached"
    by (rule cache_reachable.step) (rule cache_step.get [OF sample_run])
  then show "cache_reachable sample_env ''cache'' (snd (Start_done sample_env sample_cached))"
    by (rule cache_reachable.step) (rule cache_step.stop [OF prod.collapse [symmetric]])
qed simp

end
