(* ===== verification/Controller.thy ===== *)
theory Controller
  imports ContextCache
begin

text \<open>
  What the five controllers share: the libraries and services a controller works with
  (\<open>internal/ocm/reconciler.go\<close> and the fields of the reconcilers), the deferred
  \<open>UpdateStatus\<close>, the functions that map a watched object to the objects to reconcile, and the
  protocol by which the repository, component and resource controllers delete an object: it
  keeps its finalizer as long as another object references it.
\<close>

section \<open>The environment of a controller\<close>

text \<open>
  \<open>getSession\<close> is \<open>OCMContextCache.GetSession\<close>, on the world that holds the cache.
\<close>

record ('w, 'd) controller_env =
  k8s :: k8s_lib
  api :: "'w client"
  ocmlib :: "('w, 'd) ocm_lib"
  getSession :: "GetSessionOptions option \<Rightarrow> ('w, goerr + (OCMContext \<times> OCMSession)) go"
  showDuration :: "int \<Rightarrow> string"

section \<open>Marking and the deferred status update\<close>

text \<open>\<open>status.MarkNotReady(...)\<close> followed by the rest of the handler.\<close>

definition markNotReady ::
  "('w, 'd) controller_env \<Rightarrow> 'o IdentifiableClientObject \<Rightarrow> Reason \<Rightarrow> string \<Rightarrow>
   (('o, 'w) rstate, 'a) go \<Rightarrow> (('o, 'w) rstate, 'a) go" where
  [go_defs]: "markNotReady E io reason msg k = thenG (modifyG (MarkNotReady (k8s E) io reason msg)) k"

definition markReady ::
  "('w, 'd) controller_env \<Rightarrow> 'o IdentifiableClientObject \<Rightarrow> string \<Rightarrow>
   (('o, 'w) rstate, 'a) go \<Rightarrow> (('o, 'w) rstate, 'a) go" where
  [go_defs]: "markReady E io msg k = thenG (modifyG (MarkReady (k8s E) io msg)) k"

lemma postG_markNotReady [go_wp]:
  "postG (markNotReady E io reason msg k) s Q = postG k (MarkNotReady (k8s E) io reason msg s) Q"
  by (simp add: markNotReady_def go_wp)

lemma postG_markReady [go_wp]:
  "postG (markReady E io msg k) s Q = postG k (MarkReady (k8s E) io msg s) Q"
  by (simp add: markReady_def go_wp)

text \<open>
  The handlers fail in one way: mark the object with the message of the error, and return the
  error wrapped.
\<close>

definition failWith ::
  "('w, 'd) controller_env \<Rightarrow> 'o IdentifiableClientObject \<Rightarrow> Reason \<Rightarrow> string \<Rightarrow> goerr \<Rightarrow>
   (('o, 'w) rstate, reconcile_result) go" where
  "failWith E io reason p err =
     markNotReady E io reason (Error_msg err) (returnG (Result_zero, Some (Errorf p err)))"

lemma postG_failWith [go_wp]:
  "postG (failWith E io reason p err) s Q =
     Q (Result_zero, Some (Errorf p err)) (MarkNotReady (k8s E) io reason (Error_msg err) s)"
  by (simp add: failWith_def go_wp)

text \<open>
  \<open>defer func() { err = errors.Join(err, status.UpdateStatus(...)) }()\<close>; the requeue interval
  is read from the object when the deferred function runs.
\<close>

definition deferStatus ::
  "('w, 'd) controller_env \<Rightarrow> 'o IdentifiableClientObject \<Rightarrow> ('o \<Rightarrow> ('w, goerr option) ext) \<Rightarrow>
   ('o \<Rightarrow> int) \<Rightarrow> (('o, 'w) rstate, reconcile_result) go \<Rightarrow> (('o, 'w) rstate, reconcile_result) go" where
  "deferStatus E io patch requeueAfter body =
     deferG body
       (\<lambda>r. bindG (getG (\<lambda>s. requeueAfter (obj s))) (\<lambda>rq.
            bindG (UpdateStatus (k8s E) io (showDuration E) patch rq (snd r)) (\<lambda>e.
            returnG (fst r, errors_Join [snd r, e]))))
       (Result_zero, None)"

text \<open>The first lines of every \<open>Reconcile\<close>: fetch the object, defer the status update, go on.\<close>

definition reconcileObject ::
  "('w, 'd) controller_env \<Rightarrow> 'o IdentifiableClientObject \<Rightarrow> ('w, goerr + 'o) ext \<Rightarrow>
   ('o \<Rightarrow> 'o \<Rightarrow> ('w, goerr option) ext) \<Rightarrow> ('o \<Rightarrow> int) \<Rightarrow>
   (('o, 'w) rstate, reconcile_result) go \<Rightarrow> (('o, 'w) rstate, reconcile_result) go" where
  "reconcileObject E io get patch requeueAfter body =
     tryG (callG get)
       (\<lambda>err. returnG (Result_zero, IgnoreNotFound (k8s E) err))
       (\<lambda>x. thenG (modifyG (\<lambda>s. s\<lparr>obj := x\<rparr>))
              (deferStatus E io (patch x) requeueAfter body))"

text \<open>The status of the \<open>Ready\<close> condition of an object.\<close>

definition ready_status :: "k8s_lib \<Rightarrow> 'o IdentifiableClientObject \<Rightarrow> 'o \<Rightarrow> ConditionStatus \<Rightarrow> bool" where
  "ready_status L io x st \<longleftrightarrow> (\<exists>c. cond_Get L (ico_GetConditions io x) ReadyCondition = Some c \<and>
     cond_Status c = st)"

lemma ready_status_unique: "ready_status L io x st \<Longrightarrow> ready_status L io x st' \<Longrightarrow> st = st'"
  by (auto simp: ready_status_def)

context identifiable_client_object
begin

lemma ready_status_marks:
  assumes "k8s_contract L"
  shows "ready_status L io (obj (MarkNotReady L io reason msg s)) ConditionFalse"
    and "ready_status L io (obj (MarkReady L io msg s)) ConditionTrue"
  using mark_not_ready_condition(1) [OF assms, of reason msg s]
    mark_ready_condition(1) [OF assms, of msg s]
  by (auto simp: has_cond_def ready_status_def)

lemma meta_MarkNotReady:
  "ico_ObjectMeta io (obj (MarkNotReady L io reason msg s)) = ico_ObjectMeta io (obj s)"
  by (simp add: obj_MarkNotReady meta_set_conditions)

lemma meta_frame: "status_frame io x y \<Longrightarrow> ico_ObjectMeta io y = ico_ObjectMeta io x"
  by (auto simp: status_frame_def meta_set_conditions meta_set_generation)

text \<open>
  After the deferred update the result of the handler stands, joined with the error of the
  patch, and the object differs from the one the handler left within \<open>status_frame\<close>, with
  the same \<open>Ready\<close> condition.
\<close>

lemma deferStatus_post:
  assumes L: "k8s_contract (k8s E)"
    and body: "postG body s (\<lambda>r s1. \<forall>y s2. status_frame io (obj s1) y \<longrightarrow>
        cond_Get (k8s E) (ico_GetConditions io y) ReadyCondition =
          cond_Get (k8s E) (ico_GetConditions io (obj s1)) ReadyCondition \<longrightarrow>
        obj s2 = y \<longrightarrow> world s2 = snd (patch y (world s1)) \<longrightarrow>
        Q (fst r, errors_Join [snd r, fst (patch y (world s1))]) s2)"
  shows "postG (deferStatus E io patch requeueAfter body) s Q"
  unfolding deferStatus_def go_wp
  by (rule postG_mono [OF body]) (rule UpdateStatus_post [OF L]; force)

text \<open>The deferred update does not panic: a handler that returns makes \<open>Reconcile\<close> return.\<close>

lemma deferStatus_ret:
  assumes L: "k8s_contract (k8s E)" and body: "body s = (Ret r, s1)"
  obtains y s2 where "deferStatus E io patch requeueAfter body s =
      (Ret (fst r, errors_Join [snd r, fst (patch y (world s1))]), s2)"
    and "status_frame io (obj s1) y" and "obj s2 = y" and "world s2 = snd (patch y (world s1))"
    and "cond_Get (k8s E) (ico_GetConditions io y) ReadyCondition =
         cond_Get (k8s E) (ico_GetConditions io (obj s1)) ReadyCondition"
proof -
  obtain s2 where u: "UpdateStatus (k8s E) io (showDuration E) patch (requeueAfter (obj s1)) (snd r) s1 =
       (Ret (fst (patch (obj s2) (world s1))), s2\<lparr>world := snd (patch (obj s2) (world s1))\<rparr>)"
    and "world s2 = world s1" and f: "status_frame io (obj s1) (obj s2)"
    and c: "cond_Get (k8s E) (ico_GetConditions io (obj s2)) ReadyCondition =
         cond_Get (k8s E) (ico_GetConditions io (obj s1)) ReadyCondition"
    using UpdateStatus_ret [OF L] by blast
  have "deferStatus E io patch requeueAfter body s =
      (Ret (fst r, errors_Join [snd r, fst (patch (obj s2) (world s1))]),
       s2\<lparr>world := snd (patch (obj s2) (world s1))\<rparr>)"
    using body u by (simp add: deferStatus_def go_defs)
  then show thesis by (rule that [OF _ f _ _ c]) simp_all
qed

text \<open>The two lemmas for the whole \<open>Reconcile\<close> of an object that was found.\<close>

lemma reconcileObject_post:
  assumes L: "k8s_contract (k8s E)" and get: "get (world s) = (Inr x, w)"
    and body: "postG body (s\<lparr>world := w, obj := x\<rparr>) (\<lambda>r s1. \<forall>y c. status_frame io (obj s1) y \<longrightarrow>
        cond_Get (k8s E) (ico_GetConditions io y) ReadyCondition =
          cond_Get (k8s E) (ico_GetConditions io (obj s1)) ReadyCondition \<longrightarrow>
        Q (fst r, errors_Join [snd r, c]) y)"
  shows "postG (reconcileObject E io get patch requeueAfter body) s (\<lambda>r s'. Q r (obj s'))"
proof -
  have "postG (deferStatus E io (patch x) requeueAfter body) (s\<lparr>world := w, obj := x\<rparr>) (\<lambda>r s'. Q r (obj s'))"
    by (rule deferStatus_post [OF L]) (use body in \<open>auto elim!: postG_mono\<close>)
  with get show ?thesis by (simp add: reconcileObject_def go_wp)
qed

lemma reconcileObject_ret:
  assumes L: "k8s_contract (k8s E)" and get: "get (world s) = (Inr x, w)"
    and body: "body (s\<lparr>world := w, obj := x\<rparr>) = (Ret r, s1)"
  obtains y s2 where "reconcileObject E io get patch requeueAfter body s =
      (Ret (fst r, errors_Join [snd r, fst (patch x y (world s1))]), s2)"
    and "status_frame io (obj s1) y" and "obj s2 = y" and "world s2 = snd (patch x y (world s1))"
    and "cond_Get (k8s E) (ico_GetConditions io y) ReadyCondition =
         cond_Get (k8s E) (ico_GetConditions io (obj s1)) ReadyCondition"
proof -
  obtain y s2 where d: "deferStatus E io (patch x) requeueAfter body (s\<lparr>world := w, obj := x\<rparr>) =
      (Ret (fst r, errors_Join [snd r, fst (patch x y (world s1))]), s2)"
    and "status_frame io (obj s1) y" "obj s2 = y" "world s2 = snd (patch x y (world s1))"
      "cond_Get (k8s E) (ico_GetConditions io y) ReadyCondition =
         cond_Get (k8s E) (ico_GetConditions io (obj s1)) ReadyCondition"
    using deferStatus_ret [where body = body and s = "s\<lparr>world := w, obj := x\<rparr>", OF L body] by metis
  moreover have "reconcileObject E io get patch requeueAfter body s =
      (Ret (fst r, errors_Join [snd r, fst (patch x y (world s1))]), s2)"
    using get d by (simp add: reconcileObject_def go_defs)
  ultimately show thesis using that by blast
qed

end

section \<open>Handlers that return\<close>

text \<open>
  A handler reads through pointers of objects it fetched. \<open>filled_api\<close> is what it relies on: a
  repository has its specification (the schema requires it), and an object that is ready has
  the part of its status that its controller fills before it marks it ready.
\<close>

definition filled_component :: "Component \<Rightarrow> bool" where
  "filled_component c \<longleftrightarrow> ci_RepositorySpec (cst_Component (comp_Status c)) \<noteq> None"

definition filled_resource :: "Resource \<Rightarrow> bool" where
  "filled_resource r \<longleftrightarrow> rss_Resource (res_Status r) \<noteq> None \<and>
     (\<exists>c. rss_Component (res_Status r) = Some c \<and> ci_RepositorySpec c \<noteq> None)"

definition filled_api :: "k8s_lib \<Rightarrow> 'w client \<Rightarrow> bool" where
  "filled_api L cl \<longleftrightarrow> (\<forall>key w.
     (\<forall>x. fst (getRepository cl key w) = Inr x \<longrightarrow> rs_RepositorySpec (repo_Spec x) \<noteq> None) \<and>
     (\<forall>x. fst (getComponent cl key w) = Inr x \<longrightarrow> ready_object L Component_ico x \<longrightarrow> filled_component x) \<and>
     (\<forall>x. fst (getResource cl key w) = Inr x \<longrightarrow> ready_object L Resource_ico x \<longrightarrow> filled_resource x))"

text \<open>The session cache returns, as \<open>retG_GetSession\<close> shows of \<open>GetSession\<close>.\<close>

definition session_returns :: "('w, 'd) controller_env \<Rightarrow> bool" where
  "session_returns E \<longleftrightarrow>
     (\<forall>opts. RepositorySpecification opts \<noteq> None \<longrightarrow> retG anyG (getSession E (Some opts)) anyG)"

lemma filled_apiD:
  assumes "filled_api L cl"
  shows "fst (getRepository cl key w) = Inr x \<Longrightarrow> rs_RepositorySpec (repo_Spec x) \<noteq> None"
    and "fst (getComponent cl key w) = Inr c \<Longrightarrow> ready_object L Component_ico c \<Longrightarrow> filled_component c"
    and "fst (getResource cl key w) = Inr r \<Longrightarrow> ready_object L Resource_ico r \<Longrightarrow> filled_resource r"
  using assms unfolding filled_api_def by blast+

lemma retG_getSession:
  "session_returns E \<Longrightarrow> RepositorySpecification opts \<noteq> None \<Longrightarrow> retG anyG (getSession E (Some opts)) anyG"
  by (simp add: session_returns_def)

lemma retG_markNotReady [go_ret]:
  "(\<And>s. I s \<Longrightarrow> I (MarkNotReady (k8s E) io reason msg s)) \<Longrightarrow> retG I k R \<Longrightarrow>
   retG I (markNotReady E io reason msg k) R"
  unfolding markNotReady_def by (rule go_ret | (simp; fail))+

lemma retG_markReady [go_ret]:
  "(\<And>s. I s \<Longrightarrow> I (MarkReady (k8s E) io msg s)) \<Longrightarrow> retG I k R \<Longrightarrow> retG I (markReady E io msg k) R"
  unfolding markReady_def by (rule go_ret | (simp; fail))+

lemma retG_failWith [go_ret]:
  "(\<And>s. I s \<Longrightarrow> I (MarkNotReady (k8s E) io reason msg s)) \<Longrightarrow> msg = Error_msg err \<Longrightarrow>
   retG I (failWith E io reason p err) anyG"
  unfolding failWith_def by (rule go_ret | (simp; fail))+

context identifiable_client_object
begin

lemma reconcileObject_keeps:
  assumes "k8s_contract (k8s E)" and "get (world s) = (Inr x, w)"
    and "\<exists>r s1. body (s\<lparr>world := w, obj := x\<rparr>) = (Ret r, s1) \<and> P (obj s1)"
    and frame: "\<And>y z. status_frame io y z \<Longrightarrow> (\<And>st. ready_status (k8s E) io z st = ready_status (k8s E) io y st) \<Longrightarrow>
      P y \<Longrightarrow> P z"
  shows "\<exists>r s'. reconcileObject E io get patch requeueAfter body s = (Ret r, s') \<and> P (obj s')"
proof -
  obtain r s1 where body: "body (s\<lparr>world := w, obj := x\<rparr>) = (Ret r, s1)" and P: "P (obj s1)"
    using assms(3) by blast
  from reconcileObject_ret [where body = body and get = get, OF assms(1,2) body, of patch requeueAfter]
  obtain y s2 where "reconcileObject E io get patch requeueAfter body s =
      (Ret (fst r, errors_Join [snd r, fst (patch x y (world s1))]), s2)"
    and "status_frame io (obj s1) y" "obj s2 = y" and c: "cond_Get (k8s E) (ico_GetConditions io y) ReadyCondition =
      cond_Get (k8s E) (ico_GetConditions io (obj s1)) ReadyCondition" by metis
  moreover have "ready_status (k8s E) io y st = ready_status (k8s E) io (obj s1) st" for st
    using c by (simp add: ready_status_def)
  ultimately show ?thesis using frame [OF _ _ P, of y] by blast
qed

lemma reconcileObject_returns:
  assumes "k8s_contract (k8s E)" and "get (world s) = (Inr x, w)"
    and "\<exists>r s1. body (s\<lparr>world := w, obj := x\<rparr>) = (Ret r, s1)"
  shows "\<exists>r s'. reconcileObject E io get patch requeueAfter body s = (Ret r, s')"
  using reconcileObject_keeps [where body = body and get = get and P = "\<lambda>_. True", OF assms(1,2)] assms(3) by simp

end

section \<open>From a watched object to requests\<close>

text \<open>A \<open>reconcile.Request\<close> is the name of an object.\<close>

definition requests_for :: "('o \<Rightarrow> ObjectMeta) \<Rightarrow> 'o list \<Rightarrow> NamespacedName list" where
  "requests_for meta items = map (\<lambda>x. ObjectKeyFromObject (meta x)) items"

text \<open>All objects that a field index gives; none when the list fails.\<close>

definition enqueue_referencing ::
  "(string \<Rightarrow> ('w, goerr + 'o list) ext) \<Rightarrow> ('o \<Rightarrow> ObjectMeta) \<Rightarrow> string \<Rightarrow>
   ('w, NamespacedName list) go" where
  "enqueue_referencing lst meta name =
     tryG (extG (lst name)) (\<lambda>err. returnG []) (\<lambda>items. returnG (requests_for meta items))"

text \<open>The referenced object, when it is being deleted.\<close>

definition enqueue_if_deleting ::
  "(NamespacedName \<Rightarrow> ('w, goerr + 'o) ext) \<Rightarrow> ('o \<Rightarrow> ObjectMeta) \<Rightarrow> NamespacedName \<Rightarrow>
   ('w, NamespacedName list) go" where
  "enqueue_if_deleting get meta key =
     tryG (extG (get key)) (\<lambda>err. returnG [])
       (\<lambda>x. if IsZero_time (om_DeletionTimestamp (meta x)) then returnG []
            else returnG (requests_for meta [x]))"

section \<open>Deletion with a finalizer\<close>

text \<open>
  The steps the three controllers take for an object that is being deleted: list the objects
  that reference it, refuse when there are any, otherwise remove the finalizer and update the
  object; an object without the finalizer is only marked. The arguments are the calls and the
  texts in which the controllers differ.
\<close>

definition deletionProtocol ::
  "('w, 'd) controller_env \<Rightarrow> 'o IdentifiableClientObject \<Rightarrow> (string list \<Rightarrow> 'o \<Rightarrow> 'o) \<Rightarrow>
   ('w, goerr + 'x list) ext \<Rightarrow> ('x \<Rightarrow> string) \<Rightarrow> ('o \<Rightarrow> ('w, goerr + 'o) ext) \<Rightarrow> string \<Rightarrow>
   string \<Rightarrow> string \<Rightarrow> string \<Rightarrow> (('o, 'w) rstate, goerr option) go" where
  "deletionProtocol E io setFinalizers lst itemName update finalizer listFailed blocked remaining =
     tryG (callG lst)
       (\<lambda>err. markNotReady E io DeletionFailedReason (Error_msg err)
          (returnG (Some (Errorf listFailed err))))
     (\<lambda>items.
       if items \<noteq> []
       then let msg = blocked @ join_with '','' (map itemName items)
            in markNotReady E io DeletionFailedReason msg (returnG (Some (ErrorString msg)))
       else bindG (getG (\<lambda>s. finalizer_Remove (k8s E) finalizer (om_Finalizers (ico_ObjectMeta io (obj s)))))
         (\<lambda>(fs, updated). thenG (modifyG (\<lambda>s. s\<lparr>obj := setFinalizers fs (obj s)\<rparr>))
           (if updated
            then bindG (getG obj) (\<lambda>x. tryG (callG (update x))
              (\<lambda>err. markNotReady E io DeletionFailedReason (Error_msg err)
                 (returnG (Some (Errorf ''failed to remove finalizer'' err))))
              (\<lambda>y. thenG (modifyG (\<lambda>s. s\<lparr>obj := y\<rparr>)) (returnG None)))
            else markNotReady E io DeletionFailedReason remaining (returnG None))))"

text \<open>
  An object whose finalizers can be set without touching the rest that the status functions
  look at.
\<close>

locale finalized_object =
  identifiable_client_object io for io :: "'o IdentifiableClientObject" +
  fixes setFinalizers :: "string list \<Rightarrow> 'o \<Rightarrow> 'o"
  assumes finalizers_set: "om_Finalizers (ico_ObjectMeta io (setFinalizers fs x)) = fs"
    and conditions_set_finalizers:
      "ico_GetConditions io (setFinalizers fs x) = ico_GetConditions io x"
begin

text \<open>Blocked: no call but the list is made, the object keeps its finalizers and is not ready.\<close>

lemma deletion_blocked:
  assumes L: "k8s_contract (k8s E)"
    and lst: "lst (world s) = (Inr items, w1)" and "items \<noteq> []"
  shows "\<exists>msg s'. deletionProtocol E io setFinalizers lst itemName update fin p blocked remaining s =
      (Ret (Some (ErrorString msg)), s') \<and> world s' = w1 \<and>
      ico_ObjectMeta io (obj s') = ico_ObjectMeta io (obj s) \<and>
      has_cond (k8s E) (ico_GetConditions io (obj s')) ReadyCondition ConditionFalse
        (reason_string DeletionFailedReason) msg \<and>
      msg = blocked @ join_with '','' (map itemName items)"
  using assms(2,3) mark_not_ready_condition(1) [OF L, of DeletionFailedReason]
  by (simp add: deletionProtocol_def go_defs Let_def meta_MarkNotReady del: reason_string.simps)

text \<open>The object is updated only when nothing references it, and then without the finalizer.\<close>

lemma deletion_update:
  assumes L: "k8s_contract (k8s E)"
    and lst: "lst (world s) = (Inr [], w1)"
    and fin: "fin \<in> set (om_Finalizers (ico_ObjectMeta io (obj s)))"
  shows "\<exists>fs x. x = setFinalizers fs (obj s) \<and>
      set fs = set (om_Finalizers (ico_ObjectMeta io (obj s))) - {fin} \<and>
      deletionProtocol E io setFinalizers lst itemName update fin p blocked remaining s =
        (case update x w1 of
           (Inr y, w2) \<Rightarrow> (Ret None, s\<lparr>obj := y, world := w2\<rparr>)
         | (Inl err, w2) \<Rightarrow> (Ret (Some (Errorf ''failed to remove finalizer'' err)),
             MarkNotReady (k8s E) io DeletionFailedReason (Error_msg err) (s\<lparr>obj := x, world := w2\<rparr>)))"
proof -
  obtain fs up where r: "finalizer_Remove (k8s E) fin (om_Finalizers (ico_ObjectMeta io (obj s))) = (fs, up)"
    by force
  have "up" and fs: "set fs = set (om_Finalizers (ico_ObjectMeta io (obj s))) - {fin}"
    using k8s_finalizers(4,5) [OF L, of fin "om_Finalizers (ico_ObjectMeta io (obj s))"] r fin by auto
  then show ?thesis
    using lst r
    by (intro exI [of _ fs] exI [of _ "setFinalizers fs (obj s)"])
       (auto simp: deletionProtocol_def go_defs split: sum.splits prod.splits)
qed

end

definition Repository_setFinalizers :: "string list \<Rightarrow> Repository \<Rightarrow> Repository" where
  "Repository_setFinalizers fs r = r\<lparr>repo_meta := (repo_meta r)\<lparr>om_Finalizers := fs\<rparr>\<rparr>"

definition Component_setFinalizers :: "string list \<Rightarrow> Component \<Rightarrow> Component" where
  "Component_setFinalizers fs c = c\<lparr>comp_meta := (comp_meta c)\<lparr>om_Finalizers := fs\<rparr>\<rparr>"

definition Resource_setFinalizers :: "string list \<Rightarrow> Resource \<Rightarrow> Resource" where
  "Resource_setFinalizers fs r = r\<lparr>res_meta := (res_meta r)\<lparr>om_Finalizers := fs\<rparr>\<rparr>"

definition Deployer_setFinalizers :: "string list \<Rightarrow> Deployer \<Rightarrow> Deployer" where
  "Deployer_setFinalizers fs d = d\<lparr>dep_meta := (dep_meta d)\<lparr>om_Finalizers := fs\<rparr>\<rparr>"

lemmas set_finalizers_defs =
  Repository_setFinalizers_def Component_setFinalizers_def Resource_setFinalizers_def
  Deployer_setFinalizers_def

interpretation repository_fin: finalized_object Repository_ico Repository_setFinalizers
  by unfold_locales (simp_all add: repository_method_defs set_finalizers_defs)

interpretation component_fin: finalized_object Component_ico Component_setFinalizers
  by unfold_locales (simp_all add: component_method_defs set_finalizers_defs)

interpretation resource_fin: finalized_object Resource_ico Resource_setFinalizers
  by unfold_locales (simp_all add: resource_method_defs set_finalizers_defs)

interpretation deployer_fin: finalized_object Deployer_ico Deployer_setFinalizers
  by unfold_locales (simp_all add: deployer_method_defs set_finalizers_defs)

text \<open>
  \<open>controllerutil.AddFinalizer\<close> followed by \<open>Update\<close> and a requeue, as the three controllers
  begin.
\<close>

definition ensureFinalizer ::
  "('w, 'd) controller_env \<Rightarrow> 'o IdentifiableClientObject \<Rightarrow> (string list \<Rightarrow> 'o \<Rightarrow> 'o) \<Rightarrow>
   ('o \<Rightarrow> ('w, goerr + 'o) ext) \<Rightarrow> string \<Rightarrow> (('o, 'w) rstate, reconcile_result) go \<Rightarrow>
   (('o, 'w) rstate, reconcile_result) go" where
  "ensureFinalizer E io setFinalizers update finalizer k =
     bindG (getG (\<lambda>s. finalizer_Add (k8s E) finalizer (om_Finalizers (ico_ObjectMeta io (obj s)))))
     (\<lambda>(fs, updated). thenG (modifyG (\<lambda>s. s\<lparr>obj := setFinalizers fs (obj s)\<rparr>))
       (if updated
        then bindG (getG obj) (\<lambda>x. tryG (callG (update x))
          (\<lambda>err. returnG (Result_zero, Some (Errorf ''failed to add finalizer'' err)))
          (\<lambda>y. thenG (modifyG (\<lambda>s. s\<lparr>obj := y\<rparr>)) (returnG (Result_zero\<lparr>Requeue := True\<rparr>, None))))
        else k))"


text \<open>With the finalizer there the handler goes on, its finalizers rewritten.\<close>

lemma ensureFinalizer_present:
  assumes "k8s_contract (k8s E)" and "finalizer \<in> set (om_Finalizers (ico_ObjectMeta io (obj s)))"
  shows "\<exists>fs. ensureFinalizer E io setFinalizers update finalizer k s = k (s\<lparr>obj := setFinalizers fs (obj s)\<rparr>)"
proof -
  obtain fs where "finalizer_Add (k8s E) finalizer (om_Finalizers (ico_ObjectMeta io (obj s))) = (fs, False)"
    using k8s_finalizers(2) [OF assms(1)] assms(2) by (metis prod.collapse)
  then show ?thesis by (auto simp: ensureFinalizer_def go_defs)
qed

end
