(* ===== verification/ComponentController.thy ===== *)
theory ComponentController
  imports Controller
begin

text \<open>
  \<open>internal/controller/component\<close>: the reconciliation of a Component. The handler is cut into
  the steps in which it goes on; each step is one definition that takes what the earlier
  steps found.
\<close>

section \<open>The effective version\<close>

text \<open>The parameters that stand for the version, regexp and JSON libraries.\<close>

record ('v, 'c) version_libs =
  semver :: "('v, 'c) semver_lib"
  CompileRegexp :: "string \<Rightarrow> goerr + matcher"
  UnmarshalJSONString :: "bytes \<Rightarrow> goerr + string"

definition cannot_downgrade :: "('v, 'c) semver_lib \<Rightarrow> 'v \<Rightarrow> 'v \<Rightarrow> goerr" where
  "cannot_downgrade S current latest =
     ErrorString (''component version cannot be downgraded from version '' @ Original S current @
       '' to version '' @ Original S latest)"

text \<open>The \<open>switch\<close> on the downgrade policy, when the latest version is lower than the current one.\<close>

definition apply_downgrade_policy ::
  "('w, 'd) ocm_lib \<Rightarrow> ('v, 'c) version_libs \<Rightarrow> string \<Rightarrow> OCMSession \<Rightarrow> OCMRepository \<Rightarrow> string \<Rightarrow>
   'v \<Rightarrow> 'v \<Rightarrow> ('w, goerr + string) go" where
  "apply_downgrade_policy OL V policy session liveRepo name current latest =
     (let S = semver V in
      if policy = DowngradePolicyDeny
      then returnG (Inl (TerminalError (cannot_downgrade S current latest)))
      else if policy = DowngradePolicyEnforce then returnG (Inr (Original S latest))
      else if policy = DowngradePolicyAllow
      then tryG (extG (session_LookupComponentVersion OL session liveRepo name (Original S current)))
        (\<lambda>err. returnG (Inl (TerminalError (Errorf
           ''failed to get reconciled component version to check downgradability'' err))))
        (\<lambda>reconciledcv.
        tryG (extG (session_LookupComponentVersion OL session liveRepo name (Original S latest)))
          (\<lambda>err. returnG (Inl (Errorf ''failed to get component version'' err)))
          (\<lambda>latestcv. returnG
            (case IsDowngradable S OL (UnmarshalJSONString V) reconciledcv latestcv of
               Inl err \<Rightarrow> Inl (TerminalError (Errorf ''failed to check downgradability'' err))
             | Inr downgradable \<Rightarrow>
                 if \<not> downgradable then Inl (cannot_downgrade S current latest)
                 else Inr (Original S latest))))
      else returnG (Inl (TerminalError (ErrorString (''unknown downgrade policy: '' @ policy)))))"

text \<open>The body after the lookup of the component.\<close>

definition effective_version ::
  "('w, 'd) ocm_lib \<Rightarrow> ('v, 'c) version_libs \<Rightarrow> Component \<Rightarrow> OCMSession \<Rightarrow> OCMRepository \<Rightarrow>
   OCMComponentAccess \<Rightarrow> ('w, goerr + string) go" where
  "effective_version OL V component session liveRepo ca =
     tryG (extG (component_ListVersions OL ca))
       (\<lambda>err. returnG (Inl (Errorf ''failed to list versions'' err)))
     (\<lambda>versions.
       if versions = []
       then returnG (Inl (ErrorString
         (''component '' @ component_GetName OL ca @ '' not found in repository'')))
       else tryG (returnG (RegexpFilter (CompileRegexp V) (cs_SemverFilter (comp_Spec component))))
         (\<lambda>err. returnG (Inl (TerminalError (Errorf ''failed to parse regexp filter'' err))))
       (\<lambda>filter. tryG (returnG (GetLatestValidVersion (semver V) versions
                              (cs_Semver (comp_Spec component)) [filter]))
         (\<lambda>err. returnG (Inl (TerminalError (Errorf ''failed to get valid latest version'' err))))
       (\<lambda>latestSemver.
         let current = ci_Version (cst_Component (comp_Status component)) in
         if current = [] then returnG (Inr (Original (semver V) latestSemver))
         else tryG (returnG (NewVersion (semver V) current))
           (\<lambda>err. returnG (Inl (TerminalError (Errorf ''failed to check reconciled version'' err))))
         (\<lambda>currentSemver.
           if GreaterThanEqual (semver V) latestSemver currentSemver
           then returnG (Inr (Original (semver V) latestSemver))
           else apply_downgrade_policy OL V (cs_DowngradePolicy (comp_Spec component)) session
             liveRepo (component_GetName OL ca) currentSemver latestSemver))))"

text \<open>\<open>err = errors.Join(err, x.Close())\<close> on a result and an error.\<close>

definition join_close :: "goerr + 'a \<Rightarrow> goerr option \<Rightarrow> goerr + 'a" where
  "join_close r closeErr =
     (case errors_Join [case r of Inl e \<Rightarrow> Some e | Inr _ \<Rightarrow> None, closeErr] of
        Some e \<Rightarrow> Inl e | None \<Rightarrow> r)"

definition DetermineEffectiveVersionFromLiveRepo ::
  "('w, 'd) ocm_lib \<Rightarrow> ('v, 'c) version_libs \<Rightarrow> Component \<Rightarrow> OCMSession \<Rightarrow> OCMRepository \<Rightarrow>
   ('w, goerr + string) go" where
  "DetermineEffectiveVersionFromLiveRepo OL V component session liveRepo =
     tryG (extG (repo_LookupComponent OL liveRepo (cs_Component (comp_Spec component))))
       (\<lambda>err. returnG (Inl (Errorf ''failed to lookup component'' err)))
       (\<lambda>ca. deferG (effective_version OL V component session liveRepo ca)
          (\<lambda>r. bindG (extG (component_Close OL ca)) (\<lambda>e. returnG (join_close r e)))
          (Inr []))"

section \<open>Deletion\<close>

definition component_reconcileDelete ::
  "('w, 'd) controller_env \<Rightarrow> ((Component, 'w) rstate, goerr option) go" where
  "component_reconcileDelete E =
     bindG (getG obj) (\<lambda>component.
       deletionProtocol E Component_ico Component_setFinalizers
         (listResources (api E) ''.spec.componentRef.Name'' (nn_Name (ObjectKeyFromObject (comp_meta component))))
         (\<lambda>res. om_Namespace (res_meta res) @ ''/'' @ om_Name (res_meta res))
         (updateComponent (api E)) ComponentFinalizer
         ''failed to list resource''
         ''component cannot be removed as resources are still referencing it: ''
         ''component is being deleted and still has existing finalizers'')"

section \<open>Reconcile\<close>

definition JsonNormalisationV3 :: string where "JsonNormalisationV3 = ''jsonNormalisation/v3''"
definition SHA256_String :: string where "SHA256_String = ''SHA-256''"

abbreviation component_fail ::
  "('w, 'd) controller_env \<Rightarrow> Reason \<Rightarrow> string \<Rightarrow> goerr \<Rightarrow> ((Component, 'w) rstate, reconcile_result) go" where
  "component_fail E reason p err \<equiv> failWith E Component_ico reason p err"

text \<open>The last step: record the verified version in the status.\<close>

definition component_finish ::
  "('w, 'd) controller_env \<Rightarrow> Repository \<Rightarrow> OCMConfiguration list \<Rightarrow> string \<Rightarrow> DigestSpec option \<Rightarrow>
   ((Component, 'w) rstate, reconcile_result) go" where
  "component_finish E repo configs version digestSpec =
     thenG (modifyG (\<lambda>s. s\<lparr>obj := (obj s)\<lparr>comp_Status := (comp_Status (obj s))
       \<lparr>cst_Component := \<lparr>ci_RepositorySpec = rs_RepositorySpec (repo_Spec repo),
          ci_Component = cs_Component (comp_Spec (obj s)), ci_Version = version,
          ci_Digest = digestSpec\<rparr>,
        cst_EffectiveOCMConfig := configs\<rparr>\<rparr>\<rparr>))
     (markReady E Component_ico (''Applied version '' @ version)
     (bindG (getG (\<lambda>s. Component_GetRequeueAfter (obj s)))
       (\<lambda>rq. returnG (Result_zero\<lparr>RequeueAfter := rq\<rparr>, None))))"

text \<open>Verification of the signatures, then the status.\<close>

definition component_verify ::
  "('w, 'd) controller_env \<Rightarrow> Repository \<Rightarrow> OCMConfiguration list \<Rightarrow> string \<Rightarrow> OCMComponentVersion \<Rightarrow>
   DigestSpec option \<Rightarrow> ((Component, 'w) rstate, reconcile_result) go" where
  "component_verify E repo configs version cv digestSpec =
     bindG (getG obj) (\<lambda>component.
     tryG (liftG (VerifyComponentVersion (ocmlib E) (Some cv)
             (map ver_Signature (cs_Verify (comp_Spec component)))))
       (\<lambda>err. component_fail E GetComponentVersionFailedReason ''failed to verify component version'' err)
       (\<lambda>_. component_finish E repo configs version digestSpec))"

text \<open>The comparison with the live version and the \<open>switch\<close> on its error.\<close>

definition component_compare ::
  "('w, 'd) controller_env \<Rightarrow> Repository \<Rightarrow> OCMConfiguration list \<Rightarrow> OCMSession \<Rightarrow> OCMRepository \<Rightarrow>
   string \<Rightarrow> OCMComponentVersion \<Rightarrow> ((Component, 'w) rstate, reconcile_result) go" where
  "component_compare E repo configs session liveRepo version cv =
     bindG (getG (\<lambda>s. cs_Component (comp_Spec (obj s)))) (\<lambda>cname.
     bindG (liftG (CompareCachedAndLiveHashes (ocmlib E) cv liveRepo cname version
              JsonNormalisationV3 SHA256_String)) (\<lambda>(digestSpec, err).
     case err of
       None \<Rightarrow> component_verify E repo configs version cv digestSpec
     | Some e \<Rightarrow>
         if errors_Is e ErrUnstableHash
         then thenG (modifyG (record_event (k8s E) Component_ico None EventSeverityInfo (Error_msg e)))
                (component_verify E repo configs version cv digestSpec)
         else if errors_Is e ErrComponentVersionHashMismatch
         then bindG (callG (close_session (ocmlib E) session))
                (\<lambda>closeErr. returnG (Result_zero, errors_Join [Some e, closeErr]))
         else component_fail E CheckVersionFailedReason ''failed to compare cached and live hashes'' e))"

text \<open>The version in the cached session.\<close>

definition component_lookup ::
  "('w, 'd) controller_env \<Rightarrow> Repository \<Rightarrow> OCMConfiguration list \<Rightarrow> OCMContext \<Rightarrow> OCMSession \<Rightarrow>
   OCMRepositorySpec \<Rightarrow> OCMRepository \<Rightarrow> string \<Rightarrow> ((Component, 'w) rstate, reconcile_result) go" where
  "component_lookup E repo configs octx session spec liveRepo version =
     tryG (callG (session_LookupRepository (ocmlib E) session octx spec))
       (\<lambda>err. markNotReady E Component_ico GetComponentVersionFailedReason ''Failed looking up repository''
          (returnG (Result_zero, Some (Errorf ''failed looking up repository'' err))))
     (\<lambda>repository. bindG (getG (\<lambda>s. cs_Component (comp_Spec (obj s)))) (\<lambda>cname.
     tryG (callG (session_LookupComponentVersion (ocmlib E) session repository cname version))
       (\<lambda>err. if IsErrNotFound (ocmlib E) err
          then bindG (callG (close_session (ocmlib E) session)) (\<lambda>closeErr.
            returnG (Result_zero, map_option (Errorf
              ''cached component version access was not found and cached session needed to be invalidated'')
              (errors_Join [Some err, closeErr])))
          else component_fail E GetComponentVersionFailedReason ''failed to get component version'' err)
     (\<lambda>cv. component_compare E repo configs session liveRepo version cv)))"

text \<open>The part that runs with the live repository, which is closed afterwards.\<close>

definition component_live ::
  "('w, 'd) controller_env \<Rightarrow> ('v, 'c) version_libs \<Rightarrow> Repository \<Rightarrow> OCMConfiguration list \<Rightarrow>
   OCMContext \<Rightarrow> OCMSession \<Rightarrow> OCMRepositorySpec \<Rightarrow> OCMRepository \<Rightarrow>
   ((Component, 'w) rstate, reconcile_result) go" where
  "component_live E V repo configs octx session spec liveRepo =
     bindG (getG obj) (\<lambda>component.
     tryG (liftG (DetermineEffectiveVersionFromLiveRepo (ocmlib E) V component session liveRepo))
       (\<lambda>err. component_fail E CheckVersionFailedReason ''failed to determine effective version'' err)
       (\<lambda>version. component_lookup E repo configs octx session spec liveRepo version))"

definition component_session ::
  "('w, 'd) controller_env \<Rightarrow> ('v, 'c) version_libs \<Rightarrow> Repository \<Rightarrow> OCMConfiguration list \<Rightarrow>
   ((Component, 'w) rstate, reconcile_result) go" where
  "component_session E V repo configs =
     bindG (getG obj) (\<lambda>component.
     tryG (liftG (getSession E (Some
            \<lparr>RepositorySpecification = rs_RepositorySpec (repo_Spec repo),
             OCMConfigurations = configs,
             opt_VerificationProvider = Some (Component_vp component)\<rparr>)))
       (\<lambda>err. component_fail E ConfigureContextFailedReason ''failed to get session'' err)
     (\<lambda>(octx, session). derefG (rs_RepositorySpec (repo_Spec repo)) (\<lambda>rspec.
     tryG (callG (RepositorySpecForConfig (ocmlib E) octx (Raw rspec)))
       (\<lambda>err. component_fail E GetComponentVersionFailedReason ''failed to get repository spec'' err)
     (\<lambda>spec. tryG (callG (RepositoryForSpec (ocmlib E) octx spec))
       (\<lambda>err. component_fail E GetComponentVersionFailedReason ''failed to get live repository access'' err)
     (\<lambda>liveRepo.
       deferG (component_live E V repo configs octx session spec liveRepo)
         (\<lambda>r. bindG (callG (repo_Close (ocmlib E) liveRepo))
            (\<lambda>e. returnG (fst r, errors_Join [snd r, e])))
         (Result_zero, None))))))"

definition component_run ::
  "('w, 'd) controller_env \<Rightarrow> ('v, 'c) version_libs \<Rightarrow> ((Component, 'w) rstate, reconcile_result) go" where
  "component_run E V =
     bindG (getG obj) (\<lambda>component.
     if cs_Suspend (comp_Spec component) then returnG (Result_zero, None)
     else tryG (GetReadyObject (k8s E) Repository_ico (getRepository (api E))
            \<lparr>nn_Namespace = om_Namespace (comp_meta component),
             nn_Name = cs_RepositoryRef_Name (comp_Spec component)\<rparr>)
       (\<lambda>err. markNotReady E Component_ico GetResourceFailedReason ''OCM Repository is not ready''
          (if is_not_available err then returnG (Result_zero, None)
           else returnG (Result_zero, Some (Errorf ''failed to get ready repository'' err))))
     (\<lambda>repo. tryG (liftG (GetEffectiveConfig (api E) Component_crp component))
       (\<lambda>err. component_fail E ConfigureContextFailedReason ''failed to get effective config'' err)
     (\<lambda>configs. component_session E V repo configs)))"

definition component_body ::
  "('w, 'd) controller_env \<Rightarrow> ('v, 'c) version_libs \<Rightarrow> ((Component, 'w) rstate, reconcile_result) go" where
  "component_body E V =
     bindG (getG obj) (\<lambda>component.
       if \<not> IsZero_time (om_DeletionTimestamp (comp_meta component))
       then bindG (component_reconcileDelete E) (\<lambda>err. returnG (Result_zero, err))
       else ensureFinalizer E Component_ico Component_setFinalizers (updateComponent (api E))
              ComponentFinalizer (component_run E V))"

definition component_Reconcile ::
  "('w, 'd) controller_env \<Rightarrow> ('v, 'c) version_libs \<Rightarrow> NamespacedName \<Rightarrow>
   ((Component, 'w) rstate, reconcile_result) go" where
  "component_Reconcile E V req =
     reconcileObject E Component_ico (getComponent (api E) req) (patchComponent (api E))
       Component_GetRequeueAfter (component_body E V)"

section \<open>Watches\<close>

definition component_repository_index :: "Component \<Rightarrow> string list" where
  "component_repository_index component = [cs_RepositoryRef_Name (comp_Spec component)]"

definition component_resource_index :: "Resource \<Rightarrow> string list" where
  "component_resource_index resource = [rsp_ComponentRef_Name (res_Spec resource)]"

definition component_on_repository :: "'w client \<Rightarrow> Repository \<Rightarrow> ('w, NamespacedName list) go" where
  "component_on_repository cl repository =
     enqueue_referencing (listComponents cl ''spec.repositoryRef.name'') comp_meta (om_Name (repo_meta repository))"

definition component_on_resource :: "'w client \<Rightarrow> Resource \<Rightarrow> ('w, NamespacedName list) go" where
  "component_on_resource cl resource =
     enqueue_if_deleting (getComponent cl) comp_meta
       \<lparr>nn_Namespace = om_Namespace (res_meta resource),
        nn_Name = rsp_ComponentRef_Name (res_Spec resource)\<rparr>"

section \<open>Lemmas on the effective version\<close>

text \<open>
  When a version below the recorded one is taken: the policy enforces it, or it allows it and the
  library says of the two versions, looked up in the session, that one can be downgraded to the
  other.
\<close>

definition downgrade_allowed ::
  "('w, 'd) ocm_lib \<Rightarrow> ('v, 'c) version_libs \<Rightarrow> string \<Rightarrow> 'v \<Rightarrow> 'v \<Rightarrow> bool" where
  "downgrade_allowed OL V policy current latest \<longleftrightarrow> policy = DowngradePolicyEnforce \<or>
     (policy = DowngradePolicyAllow \<and> (\<exists>session repo name w1 w2 cur lat.
        fst (session_LookupComponentVersion OL session repo name (Original (semver V) current) w1) = Inr cur \<and>
        fst (session_LookupComponentVersion OL session repo name (Original (semver V) latest) w2) = Inr lat \<and>
        IsDowngradable (semver V) OL (UnmarshalJSONString V) cur lat = Inr True))"

lemma policies_distinct [simp]:
  "DowngradePolicyDeny \<noteq> DowngradePolicyEnforce" "DowngradePolicyDeny \<noteq> DowngradePolicyAllow"
  "DowngradePolicyEnforce \<noteq> DowngradePolicyAllow" "DowngradePolicyEnforce \<noteq> DowngradePolicyDeny"
  "DowngradePolicyAllow \<noteq> DowngradePolicyDeny" "DowngradePolicyAllow \<noteq> DowngradePolicyEnforce"
  by (simp_all add: DowngradePolicyDeny_def DowngradePolicyEnforce_def DowngradePolicyAllow_def)

lemma downgrade_allowedI:
  "fst (session_LookupComponentVersion OL session repo name (Original (semver V) current) w1) = Inr cur \<Longrightarrow>
   fst (session_LookupComponentVersion OL session repo name (Original (semver V) latest) w2) = Inr lat \<Longrightarrow>
   IsDowngradable (semver V) OL (UnmarshalJSONString V) cur lat = Inr True \<Longrightarrow>
   downgrade_allowed OL V DowngradePolicyAllow current latest"
  unfolding downgrade_allowed_def by blast

lemma downgrade_allowed_policies [simp]:
  "downgrade_allowed OL V DowngradePolicyEnforce current latest"
  "\<not> downgrade_allowed OL V DowngradePolicyDeny current latest"
  by (simp_all add: downgrade_allowed_def)

lemma apply_downgrade_policy_post:
  "postG (apply_downgrade_policy OL V policy session liveRepo name current latest) w
     (\<lambda>r w'. \<forall>v. r = Inr v \<longrightarrow> v = Original (semver V) latest \<and> downgrade_allowed OL V policy current latest)"
  by (auto simp: apply_downgrade_policy_def go_wp Let_def
      split: sum.splits if_splits intro: downgrade_allowedI)

text \<open>What a version that \<open>effective_version\<close> returns is.\<close>

definition good_version ::
  "('w, 'd) ocm_lib \<Rightarrow> ('v, 'c) version_libs \<Rightarrow> Component \<Rightarrow> string \<Rightarrow> bool" where
  "good_version OL V component v \<longleftrightarrow>
     (\<exists>ca w versions fs latest. fst (component_ListVersions OL ca w) = Inr versions \<and>
        GetLatestValidVersion (semver V) versions (cs_Semver (comp_Spec component)) fs = Inr latest \<and>
        v = Original (semver V) latest \<and>
        (ci_Version (cst_Component (comp_Status component)) = [] \<or>
         (\<exists>current. NewVersion (semver V) (ci_Version (cst_Component (comp_Status component))) = Inr current \<and>
            (GreaterThanEqual (semver V) latest current \<or>
             downgrade_allowed OL V (cs_DowngradePolicy (comp_Spec component)) current latest))))"

lemma good_versionI:
  assumes "fst (component_ListVersions OL ca w) = Inr versions"
    and "GetLatestValidVersion (semver V) versions (cs_Semver (comp_Spec component)) fs = Inr latest"
    and "ci_Version (cst_Component (comp_Status component)) = [] \<or>
      (\<exists>current. NewVersion (semver V) (ci_Version (cst_Component (comp_Status component))) = Inr current \<and>
         (GreaterThanEqual (semver V) latest current \<or>
          downgrade_allowed OL V (cs_DowngradePolicy (comp_Spec component)) current latest))"
  shows "good_version OL V component (Original (semver V) latest)"
  using assms unfolding good_version_def by blast

lemma effective_version_post:
  "postG (effective_version OL V component session liveRepo ca) w
     (\<lambda>r w'. \<forall>v. r = Inr v \<longrightarrow> good_version OL V component v)"
proof -
  have policy: "postG (apply_downgrade_policy OL V (cs_DowngradePolicy (comp_Spec component)) session
      liveRepo name current latest) w' (\<lambda>r w'. \<forall>v. r = Inr v \<longrightarrow> good_version OL V component v)"
    if "fst (component_ListVersions OL ca w) = Inr versions"
      and "GetLatestValidVersion (semver V) versions (cs_Semver (comp_Spec component)) [filter] = Inr latest"
      and "NewVersion (semver V) (ci_Version (cst_Component (comp_Status component))) = Inr current"
    for name current latest w' versions filter
    by (rule postG_mono [OF apply_downgrade_policy_post]) (use that in \<open>auto intro: good_versionI\<close>)
  show ?thesis
    by (auto simp: effective_version_def go_wp Let_def intro: policy good_versionI
        split: sum.splits if_splits)
qed

lemma DetermineEffectiveVersion_post:
  "postG (DetermineEffectiveVersionFromLiveRepo OL V component session liveRepo) w
     (\<lambda>r w'. \<forall>v. r = Inr v \<longrightarrow> good_version OL V component v)"
proof -
  have "postG (effective_version OL V component session liveRepo ca) w'
      (\<lambda>r w'. \<forall>v. join_close r e = Inr v \<longrightarrow> good_version OL V component v)" for ca w' e
    by (rule postG_mono [OF effective_version_post])
       (auto simp: join_close_def errors_Join_def split: sum.splits option.splits list.splits if_splits)
  then show ?thesis
    by (auto simp: DetermineEffectiveVersionFromLiveRepo_def go_wp split: sum.splits
        intro!: postG_mono [OF effective_version_post])
       (auto simp: join_close_def split: sum.splits option.splits)
qed

section \<open>Lemmas on Reconcile\<close>

text \<open>
  The record that the status holds after a successful reconciliation: the version was chosen as
  above, the cached and the live descriptor have the hash that is recorded, and the library
  accepted the signatures that the spec names.
\<close>

definition signatures_accepted ::
  "('w, 'd) ocm_lib \<Rightarrow> OCMComponentVersion \<Rightarrow> string list \<Rightarrow> bool" where
  "signatures_accepted OL cv sigs \<longleftrightarrow> sigs = [] \<or>
     (\<exists>w ds w'. signing_Apply OL cv (cv_Repository OL cv) (cv_GetContext OL cv) sigs w = (Inr ds, w'))"

definition recorded ::
  "('w, 'd) controller_env \<Rightarrow> ('v, 'c) version_libs \<Rightarrow> Component \<Rightarrow> Component \<Rightarrow> bool" where
  "recorded E V x y \<longleftrightarrow> (\<exists>repoSpec version ds cv live.
     cst_Component (comp_Status y) = \<lparr>ci_RepositorySpec = repoSpec,
        ci_Component = cs_Component (comp_Spec x), ci_Version = version, ci_Digest = Some ds\<rparr> \<and>
     good_version (ocmlib E) V x version \<and>
     compdesc_Hash (ocmlib E) (cv_GetDescriptor (ocmlib E) cv) JsonNormalisationV3 SHA256_String = Inr (ds_Value ds) \<and>
     compdesc_Hash (ocmlib E) (cv_GetDescriptor (ocmlib E) live) JsonNormalisationV3 SHA256_String = Inr (ds_Value ds) \<and>
     signatures_accepted (ocmlib E) cv (map ver_Signature (cs_Verify (comp_Spec x))))"

text \<open>Marking does not touch the spec and the recorded component.\<close>

lemma component_set_conditions [simp]:
  "comp_Spec (ico_SetConditions Component_ico cs c) = comp_Spec c"
  "cst_Component (comp_Status (ico_SetConditions Component_ico cs c)) = cst_Component (comp_Status c)"
  "comp_Spec (ico_SetObservedGeneration Component_ico v c) = comp_Spec c"
  "cst_Component (comp_Status (ico_SetObservedGeneration Component_ico v c)) = cst_Component (comp_Status c)"
  by (simp_all add: component_method_defs)

lemma component_marks [simp]:
  "comp_Spec (obj (MarkNotReady L Component_ico reason msg s)) = comp_Spec (obj s)"
  "cst_Component (comp_Status (obj (MarkNotReady L Component_ico reason msg s))) = cst_Component (comp_Status (obj s))"
  "comp_Spec (obj (MarkReady L Component_ico msg s)) = comp_Spec (obj s)"
  "cst_Component (comp_Status (obj (MarkReady L Component_ico msg s))) = cst_Component (comp_Status (obj s))"
  by (simp_all only: component_object.obj_MarkNotReady component_object.obj_MarkReady
      component_set_conditions)

lemma VerifyComponentVersion_post:
  "postG (VerifyComponentVersion OL (Some cv) sigs) w
     (\<lambda>r w'. \<forall>d. r = Inr d \<longrightarrow> signatures_accepted OL cv sigs)"
  by (auto simp: VerifyComponentVersion_def go_wp signatures_accepted_def split: sum.splits)
     (metis prod.collapse)

lemma CompareCachedAndLiveHashes_digest:
  assumes OL: "foreign_lib OL"
  shows "postG (CompareCachedAndLiveHashes OL cv liveRepo cname version n h) w
    (\<lambda>(r :: DigestSpec option \<times> goerr option) w'. (\<forall>e. snd r = Some e \<longrightarrow> errors_Is e ErrUnstableHash) \<longrightarrow> (\<exists>live ds. fst r = Some ds \<and>
       compdesc_Hash OL (cv_GetDescriptor OL cv) n h = Inr (ds_Value ds) \<and>
       compdesc_Hash OL (cv_GetDescriptor OL live) n h = Inr (ds_Value ds)))"
proof (rule postG_I, intro impI)
  fix r w'
  assume run: "CompareCachedAndLiveHashes OL cv liveRepo cname version n h w = (Ret r, w')"
    and unstable: "\<forall>e. snd r = Some e \<longrightarrow> errors_Is e ErrUnstableHash"
  show "\<exists>live ds. fst r = Some ds \<and>
       compdesc_Hash OL (cv_GetDescriptor OL cv) n h = Inr (ds_Value ds) \<and>
       compdesc_Hash OL (cv_GetDescriptor OL live) n h = Inr (ds_Value ds)"
  proof (cases "repo_LookupComponentVersion OL liveRepo cname version w")
    case (Pair res w1)
    show ?thesis
    proof (cases res)
      case (Inl e)
      with run unstable Pair have "errors_Is e ErrUnstableHash"
        by (auto simp: CompareCachedAndLiveHashes_run)
      with foreign_libD(4) [OF OL] Pair Inl show ?thesis by (simp add: foreign_def)
    next
      case (Inr live)
      let ?close = "fst (cv_Close OL live w1)"
      obtain d err where cmp: "compare_hashes OL (cv_GetDescriptor OL cv) (cv_GetDescriptor OL live) n h = (d, err)"
        by force
      have r: "fst r = d" "snd r = errors_Join [err, ?close]"
        using run Pair Inr cmp by (auto simp: CompareCachedAndLiveHashes_run)
      have "\<not> errors_Is e ErrUnstableHash" if "?close = Some e" for e
        using foreign_libD(3) [OF OL that] by (simp add: foreign_def)
      then have err: "err = None \<or> (\<exists>e. err = Some e \<and> errors_Is e ErrUnstableHash)"
        using unstable r(2) by (cases err; cases ?close) (auto simp: errors_Join_def)
      then have "\<exists>a. hash_pair OL (cv_GetDescriptor OL cv) (cv_GetDescriptor OL live) n h = Some (a, a)"
        using compare_errors(2) [OF OL cmp] compare_hashes_spec [OF cmp]
        by (auto split: option.splits prod.splits if_splits)
      then show ?thesis
        using compare_hashes_spec [OF cmp] r(1) by (auto simp: hash_pair_def split: sum.splits)
    qed
  qed
qed

text \<open>
  \<open>settled E V x r y\<close>: a run on the component \<open>x\<close> that ends with the result \<open>r\<close> and the object
  \<open>y\<close> either recorded a checked version or failed and left what was recorded.
\<close>

definition same_component :: "Component \<Rightarrow> Component \<Rightarrow> bool" where
  "same_component x y \<longleftrightarrow> comp_Spec y = comp_Spec x \<and>
     cst_Component (comp_Status y) = cst_Component (comp_Status x)"

definition settled ::
  "('w, 'd) controller_env \<Rightarrow> ('v, 'c) version_libs \<Rightarrow> Component \<Rightarrow> reconcile_result \<Rightarrow> Component \<Rightarrow> bool" where
  "settled E V x r y \<longleftrightarrow> same_component x y \<and> snd r \<noteq> None \<or> recorded E V x y"

lemma same_component_marks [simp]:
  "same_component x (obj (MarkNotReady L Component_ico reason msg s)) = same_component x (obj s)"
  "same_component x (obj (MarkReady L Component_ico msg s)) = same_component x (obj s)"
  by (simp_all add: same_component_def)

lemma recorded_marks [simp]:
  "recorded E V x (obj (MarkReady L Component_ico msg s)) = recorded E V x (obj s)"
  by (simp add: recorded_def)

lemma good_version_same: "same_component x y \<Longrightarrow> good_version OL V y v = good_version OL V x v"
  by (simp add: good_version_def same_component_def)

lemma settled_failWith:
  "same_component x (obj s) \<Longrightarrow> postG (component_fail E reason p err) s (\<lambda>r s'. settled E V x r (obj s'))"
  by (simp add: go_wp settled_def)

lemma settled_error:
  "same_component x y \<Longrightarrow> settled E V x (res, Some e) y"
  "same_component x y \<Longrightarrow> settled E V x (res, errors_Join [Some e, c]) y"
  "same_component x y \<Longrightarrow> settled E V x (res, map_option f (errors_Join [Some e, c])) y"
  by (simp_all add: settled_def errors_Join_def)

lemma settled_close: "settled E V x r y \<Longrightarrow> settled E V x (fst r, errors_Join [snd r, c]) y"
  by (auto simp: settled_def errors_Join_def)

lemma component_finish_settled:
  assumes "same_component x (obj s)" "good_version (ocmlib E) V x version"
    "compdesc_Hash (ocmlib E) (cv_GetDescriptor (ocmlib E) cv) JsonNormalisationV3 SHA256_String = Inr (ds_Value ds)"
    "compdesc_Hash (ocmlib E) (cv_GetDescriptor (ocmlib E) live) JsonNormalisationV3 SHA256_String = Inr (ds_Value ds)"
    "signatures_accepted (ocmlib E) cv (map ver_Signature (cs_Verify (comp_Spec x)))"
  shows "postG (component_finish E repo configs version (Some ds)) s (\<lambda>r s'. settled E V x r (obj s'))"
  using assms by (auto simp: component_finish_def go_wp settled_def recorded_def same_component_def)

lemma component_verify_settled:
  assumes "same_component x (obj s)" "good_version (ocmlib E) V x version"
    "compdesc_Hash (ocmlib E) (cv_GetDescriptor (ocmlib E) cv) JsonNormalisationV3 SHA256_String = Inr (ds_Value ds)"
    "compdesc_Hash (ocmlib E) (cv_GetDescriptor (ocmlib E) live) JsonNormalisationV3 SHA256_String = Inr (ds_Value ds)"
  shows "postG (component_verify E repo configs version cv (Some ds)) s (\<lambda>r s'. settled E V x r (obj s'))"
  unfolding component_verify_def go_wp
  by (rule postG_mono [OF VerifyComponentVersion_post])
     (use assms in \<open>auto simp: go_wp settled_error same_component_def [of x "obj s"] split: sum.splits
        intro!: component_finish_settled [OF _ assms(2-4)] settled_failWith\<close>)

lemma component_compare_settled:
  assumes OL: "foreign_lib (ocmlib E)"
    and x: "same_component x (obj s)" and v: "good_version (ocmlib E) V x version"
  shows "postG (component_compare E repo configs session liveRepo version cv) s
    (\<lambda>r s'. settled E V x r (obj s'))"
  unfolding component_compare_def go_wp
proof (rule postG_mono [OF CompareCachedAndLiveHashes_digest [OF OL]])
  fix r :: "DigestSpec option \<times> goerr option" and w'
  assume hyp: "(\<forall>e. snd r = Some e \<longrightarrow> errors_Is e ErrUnstableHash) \<longrightarrow> (\<exists>live ds. fst r = Some ds \<and>
      compdesc_Hash (ocmlib E) (cv_GetDescriptor (ocmlib E) cv) JsonNormalisationV3 SHA256_String = Inr (ds_Value ds) \<and>
      compdesc_Hash (ocmlib E) (cv_GetDescriptor (ocmlib E) live) JsonNormalisationV3 SHA256_String = Inr (ds_Value ds))"
  have verify: "postG (component_verify E repo configs version cv (fst r)) t (\<lambda>r s'. settled E V x r (obj s'))"
    if "\<forall>e. snd r = Some e \<longrightarrow> errors_Is e ErrUnstableHash" and "same_component x (obj t)" for t
    using hyp that by (auto intro: component_verify_settled [OF _ v])
  obtain d err where r: "r = (d, err)" by force
  show "case r of (digestSpec, err) \<Rightarrow> postG (case err of
       None \<Rightarrow> component_verify E repo configs version cv digestSpec
     | Some e \<Rightarrow>
         if errors_Is e ErrUnstableHash
         then thenG (modifyG (record_event (k8s E) Component_ico None EventSeverityInfo (Error_msg e)))
                (component_verify E repo configs version cv digestSpec)
         else if errors_Is e ErrComponentVersionHashMismatch
         then bindG (callG (close_session (ocmlib E) session))
                (\<lambda>closeErr. returnG (Result_zero, errors_Join [Some e, closeErr]))
         else component_fail E CheckVersionFailedReason ''failed to compare cached and live hashes'' e)
      (s\<lparr>world := w'\<rparr>) (\<lambda>r s'. settled E V x r (obj s'))"
    using x verify
    by (cases err; cases "errors_Is (the err) ErrUnstableHash";
        cases "errors_Is (the err) ErrComponentVersionHashMismatch")
       (simp_all add: r go_wp settled_error)
qed

lemma component_lookup_settled:
  assumes OL: "foreign_lib (ocmlib E)"
    and x: "same_component x (obj s)" and v: "good_version (ocmlib E) V x version"
  shows "postG (component_lookup E repo configs octx session spec liveRepo version) s
    (\<lambda>r s'. settled E V x r (obj s'))"
  using x unfolding component_lookup_def go_wp
  by (auto simp: go_wp settled_error split: sum.split
      intro!: component_compare_settled [OF OL _ v])

lemma component_live_settled:
  assumes OL: "foreign_lib (ocmlib E)" and x: "same_component x (obj s)"
  shows "postG (component_live E V repo configs octx session spec liveRepo) s
    (\<lambda>r s'. settled E V x r (obj s'))"
  unfolding component_live_def go_wp
  by (rule postG_mono [OF DetermineEffectiveVersion_post])
     (use x good_version_same [OF x] in \<open>auto simp: go_wp settled_error split: sum.split
        intro!: component_lookup_settled [OF OL]\<close>)

lemma component_session_settled:
  assumes OL: "foreign_lib (ocmlib E)" and x: "same_component x (obj s)"
  shows "postG (component_session E V repo configs) s (\<lambda>r s'. settled E V x r (obj s'))"
  unfolding component_session_def go_wp
  by (rule postG_always) (use x in \<open>auto simp: go_wp settled_error split: sum.split
      intro!: postG_mono [OF component_live_settled [OF OL]] settled_close\<close>)

lemma component_run_settled:
  assumes L: "k8s_contract (k8s E)" and OL: "foreign_lib (ocmlib E)"
    and api: "foreign_get (getRepository (api E))"
    and x: "same_component x (obj s)" and run: "\<not> cs_Suspend (comp_Spec x)"
  shows "postG (component_run E V) s (\<lambda>r s'. settled E V x r (obj s'))"
proof -
  have "\<not> cs_Suspend (comp_Spec (obj s))" using x run by (simp add: same_component_def)
  then show ?thesis
    unfolding component_run_def go_wp
    by (auto simp: go_wp x settled_error foreign_getD [OF api] not_available_key [OF L] Let_def
        split: sum.split intro!: component_session_settled [OF OL]
        postG_always [of _ "GetEffectiveConfig (api E) Component_crp (obj s)"])
qed

lemma same_component_frame: "status_frame Component_ico y z \<Longrightarrow> same_component x y \<Longrightarrow> same_component x z"
  by (auto simp: status_frame_def same_component_def)

lemma recorded_cong:
  "cst_Component (comp_Status y) = cst_Component (comp_Status z) \<Longrightarrow> recorded E V x y = recorded E V x z"
  by (simp add: recorded_def)

lemma recorded_frame:
  assumes "status_frame Component_ico y z" and "recorded E V x y"
  shows "recorded E V x z"
proof -
  have "same_component y z"
    using same_component_frame [OF assms(1), of y] by (simp add: same_component_def)
  then show ?thesis
    using assms(2) recorded_cong [of y z E V x] by (simp add: same_component_def)
qed

lemma settled_frame:
  assumes "status_frame Component_ico y z" "settled E V x r y"
  shows "settled E V x (fst r, errors_Join [snd r, c]) z"
proof (cases "recorded E V x y")
  case True
  with assms(1) show ?thesis by (simp add: settled_def recorded_frame)
next
  case False
  with assms show ?thesis
    using same_component_frame by (auto simp: settled_def errors_Join_def)
qed

lemma component_body_settled:
  assumes L: "k8s_contract (k8s E)" and OL: "foreign_lib (ocmlib E)"
    and api: "foreign_get (getRepository (api E))"
    and x: "obj s = x" "\<not> cs_Suspend (comp_Spec x)" "IsZero_time (om_DeletionTimestamp (comp_meta x))"
    and fin: "ComponentFinalizer \<in> set (om_Finalizers (comp_meta x))"
  shows "postG (component_body E V) s (\<lambda>r s'. settled E V x r (obj s'))"
proof -
  obtain fs where fs: "finalizer_Add (k8s E) ComponentFinalizer (om_Finalizers (comp_meta x)) = (fs, False)"
    using k8s_finalizers(2) [OF L] fin by (metis prod.collapse)
  have "same_component x (Component_setFinalizers fs x)"
    by (simp add: same_component_def Component_setFinalizers_def)
  then show ?thesis
    using fs x by (auto simp: component_body_def go_wp ensureFinalizer_def component_method_defs
        intro!: component_run_settled [OF L OL api])
qed

lemma component_Reconcile_settled:
  assumes L: "k8s_contract (k8s E)" and OL: "foreign_lib (ocmlib E)"
    and api: "foreign_get (getRepository (api E))"
    and get: "getComponent (api E) req (world s) = (Inr x, w)"
    and x: "\<not> cs_Suspend (comp_Spec x)" "IsZero_time (om_DeletionTimestamp (comp_meta x))"
      "ComponentFinalizer \<in> set (om_Finalizers (comp_meta x))"
  shows "postG (component_Reconcile E V req) s (\<lambda>r s'. settled E V x r (obj s'))"
  unfolding component_Reconcile_def
proof (rule component_object.reconcileObject_post [OF L], rule get)
  show "postG (component_body E V) (s\<lparr>world := w, obj := x\<rparr>) (\<lambda>r s1. \<forall>y c.
      status_frame Component_ico (obj s1) y \<longrightarrow>
      cond_Get (k8s E) (ico_GetConditions Component_ico y) ReadyCondition =
        cond_Get (k8s E) (ico_GetConditions Component_ico (obj s1)) ReadyCondition \<longrightarrow>
      settled E V x (fst r, errors_Join [snd r, c]) y)"
    by (rule postG_mono [OF component_body_settled [OF L OL api _ x]]) (auto dest: settled_frame)
qed

text \<open>The handler of a component that is being deleted, from the deletion protocol.\<close>

lemma component_Reconcile_deleting:
  assumes L: "k8s_contract (k8s E)"
    and get: "getComponent (api E) req (world s) = (Inr x, w)"
    and del: "\<not> IsZero_time (om_DeletionTimestamp (comp_meta x))"
    and run: "component_reconcileDelete E (s\<lparr>world := w, obj := x\<rparr>) = (Ret err, s1)"
  obtains y s2 where "component_Reconcile E V req s =
      (Ret (Result_zero, errors_Join [err, fst (patchComponent (api E) x y (world s1))]), s2)"
    and "status_frame Component_ico (obj s1) y" and "obj s2 = y"
    and "world s2 = snd (patchComponent (api E) x y (world s1))"
    and "cond_Get (k8s E) (ico_GetConditions Component_ico y) ReadyCondition =
         cond_Get (k8s E) (ico_GetConditions Component_ico (obj s1)) ReadyCondition"
proof -
  have "component_body E V (s\<lparr>world := w, obj := x\<rparr>) = (Ret (Result_zero, err), s1)"
    using del run by (simp add: component_body_def go_defs)
  from component_object.reconcileObject_ret [where get = "getComponent (api E) req" and s = s
        and body = "component_body E V", OF L get this, of "patchComponent (api E)" Component_GetRequeueAfter]
  show thesis using that by (auto simp: component_Reconcile_def)
qed

text \<open>
  With repositories that have their specification, \<open>Reconcile\<close> returns, and it does not leave a
  ready component without a repository specification where there was none.
\<close>

definition component_kept :: "('w, 'd) controller_env \<Rightarrow> Component \<Rightarrow> Component \<Rightarrow> bool" where
  "component_kept E x y \<longleftrightarrow>
     (ready_status (k8s E) Component_ico x ConditionTrue \<longrightarrow> filled_component x) \<longrightarrow>
     ready_status (k8s E) Component_ico y ConditionTrue \<longrightarrow> filled_component y"

lemma component_kept_refl: "component_kept E x x"
  by (simp add: component_kept_def)

lemma component_kept_NotReady:
  "k8s_contract (k8s E) \<Longrightarrow> component_kept E x (obj (MarkNotReady (k8s E) Component_ico reason msg s))"
  using component_object.ready_status_marks(1) [of "k8s E" reason msg s] ready_status_unique
  unfolding component_kept_def by fastforce

lemma component_kept_finish:
  assumes "rs_RepositorySpec (repo_Spec repo) \<noteq> None"
  shows "retG (\<lambda>s. component_kept E x (obj s)) (component_finish E repo configs version d) anyG"
  using assms by (simp add: retG_def component_finish_def go_defs component_kept_def filled_component_def)

lemma component_run_keeps:
  assumes L: "k8s_contract (k8s E)" and A: "filled_api (k8s E) (api E)" and S: "session_returns E"
  shows "retG (\<lambda>s. component_kept E x (obj s)) (component_run E V) anyG"
proof -
  let ?I = "\<lambda>s :: (Component, 'a) rstate. component_kept E x (obj s)"
  note marks = component_kept_NotReady [OF L]
  have ver: "retG anyG (DetermineEffectiveVersionFromLiveRepo (ocmlib E) V c session repo) anyG" for c session repo
    unfolding DetermineEffectiveVersionFromLiveRepo_def effective_version_def apply_downgrade_policy_def Let_def
    by (rule go_ret)+
  have session: "retG ?I (component_session E V repo configs) anyG"
    if repo: "rs_RepositorySpec (repo_Spec repo) \<noteq> None" for repo configs
  proof -
    have verify: "retG ?I (component_verify E repo configs version cv d) anyG" for version cv d
      unfolding component_verify_def
      by (rule component_kept_finish [OF repo] go_ret marks | (simp; fail))+
    have cmp: "retG ?I (component_compare E repo configs session live version cv) anyG" for session live version cv
      unfolding component_compare_def by (rule verify go_ret marks | (simp; fail))+
    have live: "retG ?I (component_live E V repo configs octx session spec liveRepo) anyG"
      for octx session spec liveRepo
      unfolding component_live_def component_lookup_def by (rule ver cmp go_ret marks | (simp; fail))+
    show ?thesis
      unfolding component_session_def
      by (rule live retG_getSession [OF S] go_ret marks | (simp add: repo; fail))+
  qed
  show ?thesis
    unfolding component_run_def
    by (rule session go_ret marks | (simp; fail) | (blast dest: filled_apiD(1) [OF A]; fail))+
qed

lemma component_returns:
  assumes "k8s_contract (k8s E)" and "filled_api (k8s E) (api E)" and "session_returns E"
    and "getComponent (api E) req (world s) = (Inr x, w)"
    and "IsZero_time (om_DeletionTimestamp (comp_meta x))"
    and "ComponentFinalizer \<in> set (om_Finalizers (comp_meta x))"
  shows "\<exists>r s'. component_Reconcile E V req s = (Ret r, s') \<and> component_kept E x (obj s')"
proof -
  obtain fs where "component_body E V (s\<lparr>world := w, obj := x\<rparr>) =
      component_run E V (s\<lparr>world := w, obj := Component_setFinalizers fs x\<rparr>)"
    using ensureFinalizer_present [where s = "s\<lparr>world := w, obj := x\<rparr>" and io = Component_ico, OF assms(1)] assms(5,6)
    by (force simp: component_body_def bindG_def getG_def Component_ico_def)
  moreover have "component_kept E x (Component_setFinalizers fs x)"
    by (simp add: component_kept_def Component_setFinalizers_def filled_component_def ready_status_def
        component_method_defs)
  ultimately have body: "\<exists>r s1. component_body E V (s\<lparr>world := w, obj := x\<rparr>) = (Ret r, s1) \<and> component_kept E x (obj s1)"
    using retG_D [OF component_run_keeps [OF assms(1-3)], of x "s\<lparr>world := w, obj := Component_setFinalizers fs x\<rparr>" V] by auto
  show ?thesis
    unfolding component_Reconcile_def
  proof (rule component_object.reconcileObject_keeps [where get = "getComponent (api E) req"
        and body = "component_body E V", OF assms(1,4) body])
    fix y z assume f: "status_frame Component_ico y z" and kept: "component_kept E x y"
      and r: "\<And>st. ready_status (k8s E) Component_ico z st = ready_status (k8s E) Component_ico y st"
    have "filled_component z = filled_component y"
      using f by (auto simp: status_frame_def filled_component_def)
    then show "component_kept E x z" using kept r by (simp add: component_kept_def)
  qed
qed

section \<open>A concrete environment\<close>

text \<open>
  For the witnesses: one component and one repository, whose OCM repository lists the versions
  1 and 3 of the component.
\<close>

definition stored_repository :: Repository where
  "stored_repository = Repository_zero\<lparr>repo_Spec := (repo_Spec Repository_zero)\<lparr>rs_RepositorySpec := Some \<lparr>Raw = Some ''spec''\<rparr>\<rparr>,
     repo_Status := (repo_Status Repository_zero)\<lparr>rst_Conditions := [sample_cond ReadyCondition ConditionTrue SucceededReason ''ok'']\<rparr>\<rparr>"

definition stored_component :: "string \<Rightarrow> string \<Rightarrow> Component" where
  "stored_component policy recorded_version = Component_zero\<lparr>
     comp_meta := ObjectMeta_zero\<lparr>om_Name := ''c'', om_Finalizers := [ComponentFinalizer]\<rparr>,
     comp_Spec := (comp_Spec Component_zero)\<lparr>cs_Component := ''c'', cs_Semver := ''1'',
       cs_DowngradePolicy := policy\<rparr>,
     comp_Status := (comp_Status Component_zero)\<lparr>cst_Component := ComponentInfo_zero\<lparr>ci_Version := recorded_version\<rparr>\<rparr>\<rparr>"

definition sample_libs :: "(nat, nat) version_libs" where
  "sample_libs = \<lparr>semver = sample_semver, CompileRegexp = (\<lambda>_. Inl (ErrorString ''regexp'')),
     UnmarshalJSONString = (\<lambda>_. Inr [])\<rparr>"

definition sample_ocm :: "(nat, unit) ocm_lib" where
  "sample_ocm = (empty_ocm_lib ())\<lparr>
     RepositorySpecForConfig := (\<lambda>_ _ w. (Inr 0, w)), RepositoryForSpec := (\<lambda>_ _ w. (Inr 0, w)),
     repo_LookupComponent := (\<lambda>_ _ w. (Inr 0, w)),
     repo_LookupComponentVersion := (\<lambda>_ _ _ w. (Inr 0, w)),
     component_ListVersions := (\<lambda>_ w. (Inr [''1'', ''3''], w)),
     session_LookupRepository := (\<lambda>_ _ _ w. (Inr 0, w)),
     session_LookupComponentVersion := (\<lambda>_ _ _ _ w. (Inr 0, w)),
     compdesc_Hash := (\<lambda>_ _ _. Inr ''digest'')\<rparr>"

definition stored_env :: "Component \<Rightarrow> (nat, unit) controller_env" where
  "stored_env c = \<lparr>k8s = sample_k8s,
     api = empty_client\<lparr>getComponent := (\<lambda>_ w. (Inr c, w)), getRepository := (\<lambda>_ w. (Inr stored_repository, w))\<rparr>,
     ocmlib = sample_ocm, getSession = (\<lambda>_. returnG (Inr (0, 0))), showDuration = (\<lambda>_. [])\<rparr>"

lemma sample_foreign: "foreign_lib sample_ocm"
  by (simp add: foreign_lib_def sample_ocm_def empty_ocm_lib_def)

lemmas stored_defs = stored_env_def sample_libs_def stored_component_def stored_repository_def
  empty_client_def zero_defs

section \<open>Properties\<close>

text \<open>
  C2: The version that \<open>DetermineEffectiveVersionFromLiveRepo\<close> returns is the latest of the
  versions the component lists that satisfies the constraint. When a version has been recorded
  before, the new one is at least that version, unless the policy is \<open>Enforce\<close>, or is \<open>Allow\<close>
  and the library finds the two versions downgradable. In particular the policy \<open>Deny\<close> and an
  unknown policy never downgrade.
\<close>

theorem effective_version_never_downgrades:
  assumes "DetermineEffectiveVersionFromLiveRepo OL V component session liveRepo w = (Ret (Inr v), w')"
  shows "\<exists>ca w1 versions fs latest. fst (component_ListVersions OL ca w1) = Inr versions \<and>
    GetLatestValidVersion (semver V) versions (cs_Semver (comp_Spec component)) fs = Inr latest \<and>
    v = Original (semver V) latest \<and>
    (ci_Version (cst_Component (comp_Status component)) \<noteq> [] \<longrightarrow>
      (\<exists>current. NewVersion (semver V) (ci_Version (cst_Component (comp_Status component))) = Inr current \<and>
        (GreaterThanEqual (semver V) latest current \<or>
         cs_DowngradePolicy (comp_Spec component) = DowngradePolicyEnforce \<or>
         cs_DowngradePolicy (comp_Spec component) = DowngradePolicyAllow \<and>
           downgrade_allowed OL V DowngradePolicyAllow current latest)))"
proof -
  have "good_version OL V component v"
    using postG_D [OF DetermineEffectiveVersion_post assms] by simp
  then obtain ca w1 versions fs latest where
    r: "fst (component_ListVersions OL ca w1) = Inr versions"
      "GetLatestValidVersion (semver V) versions (cs_Semver (comp_Spec component)) fs = Inr latest"
      "v = Original (semver V) latest"
    and c: "ci_Version (cst_Component (comp_Status component)) = [] \<or>
      (\<exists>current. NewVersion (semver V) (ci_Version (cst_Component (comp_Status component))) = Inr current \<and>
        (GreaterThanEqual (semver V) latest current \<or>
         downgrade_allowed OL V (cs_DowngradePolicy (comp_Spec component)) current latest))"
    unfolding good_version_def by blast
  have "cs_DowngradePolicy (comp_Spec component) = DowngradePolicyEnforce \<or>
      cs_DowngradePolicy (comp_Spec component) = DowngradePolicyAllow \<and>
      downgrade_allowed OL V DowngradePolicyAllow current latest"
    if "downgrade_allowed OL V (cs_DowngradePolicy (comp_Spec component)) current latest" for current
    using that by (auto simp: downgrade_allowed_def)
  with c have "ci_Version (cst_Component (comp_Status component)) \<noteq> [] \<longrightarrow>
      (\<exists>current. NewVersion (semver V) (ci_Version (cst_Component (comp_Status component))) = Inr current \<and>
        (GreaterThanEqual (semver V) latest current \<or>
         cs_DowngradePolicy (comp_Spec component) = DowngradePolicyEnforce \<or>
         cs_DowngradePolicy (comp_Spec component) = DowngradePolicyAllow \<and>
           downgrade_allowed OL V DowngradePolicyAllow current latest))" by blast
  with r show ?thesis by blast
qed


text \<open>
  C3: A component that is being deleted while some resource names it in its component reference
  keeps its metadata, finalizer included: nothing is written but the status, \<open>Ready\<close> is false
  with the reason \<open>DeletionFailed\<close>, and \<open>Reconcile\<close> returns an error. The list is by name only,
  so a resource of any namespace blocks the deletion.
\<close>

theorem component_deletion_blocked:
  assumes L: "k8s_contract (k8s E)"
    and get: "getComponent (api E) req (world s) = (Inr x, w)"
    and del: "\<not> IsZero_time (om_DeletionTimestamp (comp_meta x))"
    and lst: "listResources (api E) ''.spec.componentRef.Name'' (om_Name (comp_meta x)) w = (Inr items, w1)"
    and items: "items \<noteq> []"
  shows "\<exists>err s' msg. component_Reconcile E V req s = (Ret (Result_zero, Some err), s') \<and>
    comp_meta (obj s') = comp_meta x \<and> world s' = snd (patchComponent (api E) x (obj s') w1) \<and>
    has_cond (k8s E) (Component_GetConditions (obj s')) ReadyCondition ConditionFalse
      (reason_string DeletionFailedReason) msg"
proof -
  let ?s = "s\<lparr>world := w, obj := x\<rparr>"
  let ?lst = "listResources (api E) ''.spec.componentRef.Name'' (om_Name (comp_meta x))"
  have "?lst (world ?s) = (Inr items, w1)" using lst by simp
  note component_fin.deletion_blocked [where lst = ?lst and s = ?s, OF L this items,
      of "\<lambda>res. om_Namespace (res_meta res) @ ''/'' @ om_Name (res_meta res)" "updateComponent (api E)"
      ComponentFinalizer "''failed to list resource''"
      "''component cannot be removed as resources are still referencing it: ''"
      "''component is being deleted and still has existing finalizers''"]
  then
  obtain msg s1 where run: "component_reconcileDelete E ?s = (Ret (Some (ErrorString msg)), s1)"
    and s1: "world s1 = w1" "comp_meta (obj s1) = comp_meta x"
      "has_cond (k8s E) (ico_GetConditions Component_ico (obj s1)) ReadyCondition ConditionFalse
        (reason_string DeletionFailedReason) msg"
    by (auto simp: component_reconcileDelete_def bindG_def getG_def component_method_defs ObjectKeyFromObject_def)
  from component_Reconcile_deleting [OF L get del run]
  obtain y s2 where r: "component_Reconcile E V req s = (Ret (Result_zero,
        errors_Join [Some (ErrorString msg), fst (patchComponent (api E) x y (world s1))]), s2)"
    and f: "status_frame Component_ico (obj s1) y" "obj s2 = y"
      "world s2 = snd (patchComponent (api E) x y (world s1))"
      "cond_Get (k8s E) (ico_GetConditions Component_ico y) ReadyCondition =
         cond_Get (k8s E) (ico_GetConditions Component_ico (obj s1)) ReadyCondition" by metis
  have "comp_meta y = comp_meta x"
    using component_object.meta_frame [OF f(1)] s1(2) by (simp add: component_method_defs)
  moreover have "has_cond (k8s E) (Component_GetConditions y) ReadyCondition ConditionFalse
      (reason_string DeletionFailedReason) msg"
    using s1(3) f(4) by (simp add: has_cond_def component_method_defs)
  ultimately show ?thesis using r f(2,3) s1(1) by (auto simp: errors_Join_def)
qed

text \<open>
  C4: Once no resource references it, a component that is being deleted is updated with
  exactly its finalizer removed; when the update succeeds, \<open>Reconcile\<close> ends with the error of
  the status patch only.
\<close>

theorem component_deletion_completes:
  assumes L: "k8s_contract (k8s E)"
    and get: "getComponent (api E) req (world s) = (Inr x, w)"
    and del: "\<not> IsZero_time (om_DeletionTimestamp (comp_meta x))"
    and fin: "ComponentFinalizer \<in> set (om_Finalizers (comp_meta x))"
    and lst: "listResources (api E) ''.spec.componentRef.Name'' (om_Name (comp_meta x)) w = (Inr [], w1)"
  shows "\<exists>fs. set fs = set (om_Finalizers (comp_meta x)) - {ComponentFinalizer} \<and>
    (\<forall>y w2. updateComponent (api E) (Component_setFinalizers fs x) w1 = (Inr y, w2) \<longrightarrow>
      (\<exists>s'. component_Reconcile E V req s =
         (Ret (Result_zero, errors_Join [None, fst (patchComponent (api E) x (obj s') w2)]), s') \<and>
         comp_meta (obj s') = comp_meta y))"
proof -
  let ?s = "s\<lparr>world := w, obj := x\<rparr>"
  let ?lst = "listResources (api E) ''.spec.componentRef.Name'' (om_Name (comp_meta x))"
  have "?lst (world ?s) = (Inr [], w1)"
    and "ComponentFinalizer \<in> set (om_Finalizers (ico_ObjectMeta Component_ico (obj ?s)))"
    using lst fin by (simp_all add: component_method_defs)
  note component_fin.deletion_update [where lst = ?lst and s = ?s, OF L this,
      of "\<lambda>res. om_Namespace (res_meta res) @ ''/'' @ om_Name (res_meta res)" "updateComponent (api E)"
      "''failed to list resource''"
      "''component cannot be removed as resources are still referencing it: ''"
      "''component is being deleted and still has existing finalizers''"]
  then obtain fs where fs: "set fs = set (om_Finalizers (comp_meta x)) - {ComponentFinalizer}"
    and run: "component_reconcileDelete E ?s = (case updateComponent (api E) (Component_setFinalizers fs x) w1 of
           (Inr y, w2) \<Rightarrow> (Ret None, ?s\<lparr>obj := y, world := w2\<rparr>)
         | (Inl err, w2) \<Rightarrow> (Ret (Some (Errorf ''failed to remove finalizer'' err)),
             MarkNotReady (k8s E) Component_ico DeletionFailedReason (Error_msg err)
               (?s\<lparr>obj := Component_setFinalizers fs x, world := w2\<rparr>)))"
    by (auto simp: component_reconcileDelete_def bindG_def getG_def component_method_defs ObjectKeyFromObject_def)
  have "\<exists>s'. component_Reconcile E V req s =
         (Ret (Result_zero, errors_Join [None, fst (patchComponent (api E) x (obj s') w2)]), s') \<and>
         comp_meta (obj s') = comp_meta y"
    if "updateComponent (api E) (Component_setFinalizers fs x) w1 = (Inr y, w2)" for y w2
  proof -
    have "component_reconcileDelete E ?s = (Ret None, ?s\<lparr>obj := y, world := w2\<rparr>)"
      using run that by simp
    from component_Reconcile_deleting [OF L get del this]
    show ?thesis using component_object.meta_frame by (metis component_method_defs(1)
        IdentifiableClientObject.select_convs(1) rstate.select_convs(1) rstate.surjective
        rstate.update_convs(1) rstate.update_convs(3) rstate.select_convs(3))
  qed
  with fs show ?thesis by blast
qed

theorem effective_version_never_downgrades_witness:
  "DetermineEffectiveVersionFromLiveRepo sample_ocm sample_libs (stored_component DowngradePolicyDeny ''2'') 0 0 0 =
     (Ret (Inr ''3''), 0) \<and>
   (\<exists>latest current. ''3'' = Original sample_semver latest \<and> NewVersion sample_semver ''2'' = Inr current \<and>
     GreaterThanEqual sample_semver latest current)"
proof -
  have run: "DetermineEffectiveVersionFromLiveRepo sample_ocm sample_libs
      (stored_component DowngradePolicyDeny ''2'') 0 0 0 = (Ret (Inr ''3''), 0)" by code_simp
  have "cs_DowngradePolicy (comp_Spec (stored_component DowngradePolicyDeny ''2'')) = DowngradePolicyDeny"
    and "ci_Version (cst_Component (comp_Status (stored_component DowngradePolicyDeny ''2''))) = ''2''"
    and "semver sample_libs = sample_semver"
    by (simp_all add: stored_defs)
  with effective_version_never_downgrades [OF run] run show ?thesis by auto
qed


text \<open>The component of the deletion witnesses, and an API server that lists \<open>items\<close>.\<close>

definition deleted_component :: Component where
  "deleted_component = (stored_component [] [])\<lparr>comp_meta := ObjectMeta_zero\<lparr>om_Name := ''c'',
     om_Finalizers := [ComponentFinalizer], om_DeletionTimestamp := Some 1\<rparr>\<rparr>"

definition deletion_env :: "Resource list \<Rightarrow> (nat, unit) controller_env" where
  "deletion_env items = (stored_env deleted_component)\<lparr>api := (api (stored_env deleted_component))
     \<lparr>listResources := (\<lambda>_ _ w. (Inr items, w))\<rparr>\<rparr>"

theorem component_deletion_blocked_witness:
  "\<exists>err s' msg. component_Reconcile (deletion_env [Resource_zero]) sample_libs
       \<lparr>nn_Namespace = [], nn_Name = ''c''\<rparr> \<lparr>obj = Component_zero, events = [], world = 0\<rparr> =
       (Ret (Result_zero, Some err), s') \<and>
     comp_meta (obj s') = comp_meta deleted_component \<and> world s' = 0 \<and>
     has_cond sample_k8s (Component_GetConditions (obj s')) ReadyCondition ConditionFalse
       (reason_string DeletionFailedReason) msg"
  using component_deletion_blocked [of "deletion_env [Resource_zero]" "\<lparr>nn_Namespace = [], nn_Name = ''c''\<rparr>"
      "\<lparr>obj = Component_zero, events = [], world = 0\<rparr>" deleted_component 0 "[Resource_zero]" 0 sample_libs]
    sample_k8s_contract
  by (simp add: deletion_env_def deleted_component_def stored_defs IsZero_time_def)

theorem component_deletion_completes_witness:
  "\<exists>fs s'. set fs = {} \<and> component_Reconcile (deletion_env []) sample_libs
       \<lparr>nn_Namespace = [], nn_Name = ''c''\<rparr> \<lparr>obj = Component_zero, events = [], world = 0\<rparr> =
       (Ret (Result_zero, None), s') \<and>
     comp_meta (obj s') = comp_meta (Component_setFinalizers fs deleted_component)"
proof -
  have "k8s_contract (k8s (deletion_env []))"
    "getComponent (api (deletion_env [])) \<lparr>nn_Namespace = [], nn_Name = ''c''\<rparr>
       (world \<lparr>obj = Component_zero, events = [], world = 0\<rparr>) = (Inr deleted_component, 0)"
    "\<not> IsZero_time (om_DeletionTimestamp (comp_meta deleted_component))"
    "ComponentFinalizer \<in> set (om_Finalizers (comp_meta deleted_component))"
    "listResources (api (deletion_env [])) ''.spec.componentRef.Name'' (om_Name (comp_meta deleted_component)) 0 =
       (Inr [], 0)"
    using sample_k8s_contract
    by (simp_all add: deletion_env_def deleted_component_def stored_defs IsZero_time_def)
  from component_deletion_completes [OF this, of sample_libs]
  show ?thesis
    by (auto simp: deletion_env_def deleted_component_def stored_defs errors_Join_def)
qed

end
