(* ===== verification/RepositoryController.thy ===== *)
theory RepositoryController
  imports Controller
begin

text \<open>
  \<open>internal/controller/repository\<close>: the reconciliation of a Repository. A repository is
  validated by a look-up in the OCM library; it stays as long as a component names it.
\<close>

section \<open>Definitions\<close>

definition repositoryKey :: string where "repositoryKey = ''.spec.repositoryRef''"

definition repo_validate ::
  "('w, 'd) controller_env \<Rightarrow> OCMContext \<Rightarrow> OCMSession \<Rightarrow>
   ((Repository, 'w) rstate, goerr option) go" where
  "repo_validate E octx session =
     bindG (getG (\<lambda>s. rs_RepositorySpec (repo_Spec (obj s)))) (\<lambda>raw. derefG raw (\<lambda>rspec.
     tryG (callG (RepositorySpecForConfig (ocmlib E) octx (Raw rspec)))
       (\<lambda>err. returnG (Some (Errorf ''cannot create RepositorySpec from raw data'' err)))
     (\<lambda>spec. checkG (callG (spec_Validate (ocmlib E) spec octx))
       (\<lambda>err. returnG (Some (Errorf ''invalid RepositorySpec'' err)))
     (tryG (callG (session_LookupRepository (ocmlib E) session octx spec))
       (\<lambda>err. returnG (Some (Errorf ''cannot lookup repository for RepositorySpec'' err)))
       (\<lambda>_. returnG None)))))"

definition deleteRepository ::
  "('w, 'd) controller_env \<Rightarrow> ((Repository, 'w) rstate, goerr option) go" where
  "deleteRepository E =
     bindG (getG obj) (\<lambda>repo.
       deletionProtocol E Repository_ico Repository_setFinalizers
         (listComponents (api E) repositoryKey (nn_Name (ObjectKeyFromObject (repo_meta repo))))
         (\<lambda>c. om_Namespace (comp_meta c) @ ''/'' @ om_Name (comp_meta c))
         (updateRepository (api E)) RepositoryFinalizer
         ''failed to list components''
         ''OCM repository cannot be removed as components are still referencing it: ''
         ''OCM repository is being deleted and still has existing finalizers'')"

definition fillRepoStatusFromSpec :: "OCMConfiguration list \<Rightarrow> Repository \<Rightarrow> Repository" where
  "fillRepoStatusFromSpec configs r =
     r\<lparr>repo_Status := (repo_Status r)\<lparr>rst_EffectiveOCMConfig := configs\<rparr>\<rparr>"

text \<open>The validation and the update of the status.\<close>

definition repository_finish ::
  "('w, 'd) controller_env \<Rightarrow> OCMConfiguration list \<Rightarrow> OCMContext \<Rightarrow> OCMSession \<Rightarrow>
   ((Repository, 'w) rstate, reconcile_result) go" where
  "repository_finish E configs octx session =
     checkG (repo_validate E octx session)
       (\<lambda>err. failWith E Repository_ico GetRepositoryFailedReason ''failed to validate ocm repository'' err)
     (thenG (modifyG (\<lambda>s. s\<lparr>obj := fillRepoStatusFromSpec configs (obj s)\<rparr>))
     (markReady E Repository_ico ''Successfully reconciled OCM repository''
     (bindG (getG (\<lambda>s. Repository_GetRequeueAfter (obj s)))
       (\<lambda>rq. returnG (Result_zero\<lparr>RequeueAfter := rq\<rparr>, None)))))"

definition repository_run ::
  "('w, 'd) controller_env \<Rightarrow> ((Repository, 'w) rstate, reconcile_result) go" where
  "repository_run E =
     bindG (getG obj) (\<lambda>ocmRepo.
     if rs_Suspend (repo_Spec ocmRepo) then returnG (Result_zero, None)
     else tryG (liftG (GetEffectiveConfig (api E) Repository_crp ocmRepo))
       (\<lambda>err. failWith E Repository_ico ConfigureContextFailedReason ''failed to get effective config'' err)
     (\<lambda>configs. tryG (liftG (getSession E (Some
            \<lparr>RepositorySpecification = rs_RepositorySpec (repo_Spec ocmRepo),
             OCMConfigurations = configs, opt_VerificationProvider = None\<rparr>)))
       (\<lambda>err. failWith E Repository_ico ConfigureContextFailedReason ''failed to get session'' err)
     (\<lambda>(octx, session). repository_finish E configs octx session)))"

definition repository_body ::
  "('w, 'd) controller_env \<Rightarrow> ((Repository, 'w) rstate, reconcile_result) go" where
  "repository_body E =
     bindG (getG obj) (\<lambda>ocmRepo.
       if \<not> IsZero_time (om_DeletionTimestamp (repo_meta ocmRepo))
       then if \<not> finalizer_Contains (k8s E) RepositoryFinalizer (om_Finalizers (repo_meta ocmRepo))
            then returnG (Result_zero, None)
            else checkG (deleteRepository E)
              (\<lambda>err. failWith E Repository_ico DeletionFailedReason ''failed to delete OCM repository'' err)
              (returnG (Result_zero, None))
       else ensureFinalizer E Repository_ico Repository_setFinalizers (updateRepository (api E))
              RepositoryFinalizer (repository_run E))"

definition repository_Reconcile ::
  "('w, 'd) controller_env \<Rightarrow> NamespacedName \<Rightarrow> ((Repository, 'w) rstate, reconcile_result) go" where
  "repository_Reconcile E req =
     reconcileObject E Repository_ico (getRepository (api E) req) (patchRepository (api E))
       Repository_GetRequeueAfter (repository_body E)"

definition repository_component_index :: "Component \<Rightarrow> string list" where
  "repository_component_index c = [cs_RepositoryRef_Name (comp_Spec c)]"

definition repository_on_component :: "'w client \<Rightarrow> Component \<Rightarrow> ('w, NamespacedName list) go" where
  "repository_on_component cl component =
     enqueue_if_deleting (getRepository cl) repo_meta
       \<lparr>nn_Namespace = om_Namespace (comp_meta component),
        nn_Name = cs_RepositoryRef_Name (comp_Spec component)\<rparr>"

section \<open>Lemmas\<close>

text \<open>The library accepted the specification of the repository and found the repository.\<close>

definition repo_accepted ::
  "('w, 'd) controller_env \<Rightarrow> RepositorySpec \<Rightarrow> bool" where
  "repo_accepted E rs \<longleftrightarrow> (\<exists>octx session j spec r w1 w2 w3. rs_RepositorySpec rs = Some j \<and>
     fst (RepositorySpecForConfig (ocmlib E) octx (Raw j) w1) = Inr spec \<and>
     fst (spec_Validate (ocmlib E) spec octx w2) = None \<and>
     fst (session_LookupRepository (ocmlib E) session octx spec w3) = Inr r)"

lemma repo_validate_post:
  "postG (repo_validate E octx session) s
     (\<lambda>r s'. obj s' = obj s \<and> (r = None \<longrightarrow> repo_accepted E (repo_Spec (obj s))))"
proof -
  have "repo_accepted E (repo_Spec (obj s))"
    if "rs_RepositorySpec (repo_Spec (obj s)) = Some j"
      "fst (RepositorySpecForConfig (ocmlib E) octx (Raw j) w1) = Inr spec"
      "fst (spec_Validate (ocmlib E) spec octx w2) = None"
      "fst (session_LookupRepository (ocmlib E) session octx spec w3) = Inr r" for j w1 spec w2 w3 r
    using that unfolding repo_accepted_def by blast
  then show ?thesis
    by (auto simp: repo_validate_def go_wp split: sum.splits option.splits)
qed

lemma repository_set_conditions [simp]:
  "repo_Spec (ico_SetConditions Repository_ico cs c) = repo_Spec c"
  "rst_EffectiveOCMConfig (repo_Status (ico_SetConditions Repository_ico cs c)) = rst_EffectiveOCMConfig (repo_Status c)"
  "repo_Spec (ico_SetObservedGeneration Repository_ico v c) = repo_Spec c"
  "rst_EffectiveOCMConfig (repo_Status (ico_SetObservedGeneration Repository_ico v c)) = rst_EffectiveOCMConfig (repo_Status c)"
  by (simp_all add: repository_method_defs)

lemma repository_marks [simp]:
  "repo_Spec (obj (MarkNotReady L Repository_ico reason msg s)) = repo_Spec (obj s)"
  "rst_EffectiveOCMConfig (repo_Status (obj (MarkNotReady L Repository_ico reason msg s))) = rst_EffectiveOCMConfig (repo_Status (obj s))"
  "repo_Spec (obj (MarkReady L Repository_ico msg s)) = repo_Spec (obj s)"
  "rst_EffectiveOCMConfig (repo_Status (obj (MarkReady L Repository_ico msg s))) = rst_EffectiveOCMConfig (repo_Status (obj s))"
  by (simp_all only: repository_object.obj_MarkNotReady repository_object.obj_MarkReady
      repository_set_conditions)

text \<open>
  The two ends of a run: ready with the configuration recorded, or failed and not ready.
\<close>

definition repo_settled ::
  "('w, 'd) controller_env \<Rightarrow> Repository \<Rightarrow> reconcile_result \<Rightarrow> Repository \<Rightarrow> bool" where
  "repo_settled E x r y \<longleftrightarrow> repo_Spec y = repo_Spec x \<and>
     (ready_status (k8s E) Repository_ico y ConditionTrue \<and> repo_accepted E (repo_Spec x) \<and>
        (\<exists>w w'. GetEffectiveConfig (api E) Repository_crp x w =
           (Ret (Inr (rst_EffectiveOCMConfig (repo_Status y))), w')) \<or>
      ready_status (k8s E) Repository_ico y ConditionFalse \<and> snd r \<noteq> None \<and>
        rst_EffectiveOCMConfig (repo_Status y) = rst_EffectiveOCMConfig (repo_Status x))"

lemma repo_settled_fail:
  assumes "k8s_contract (k8s E)" and "repo_Spec (obj s) = repo_Spec x"
    and "rst_EffectiveOCMConfig (repo_Status (obj s)) = rst_EffectiveOCMConfig (repo_Status x)"
  shows "repo_settled E x (res, Some e) (obj (MarkNotReady (k8s E) Repository_ico reason msg s))"
  using assms(2,3) repository_object.ready_status_marks(1) [OF assms(1), of reason msg s] by (simp add: repo_settled_def)

lemma repository_run_settled:
  assumes L: "k8s_contract (k8s E)" and x: "obj s = x" and run: "\<not> rs_Suspend (repo_Spec x)"
  shows "postG (repository_run E) s (\<lambda>r s'. repo_settled E x r (obj s'))"
proof -
  note fail = repo_settled_fail [OF L]
  have validated: "postG (repository_finish E configs octx session) t (\<lambda>r s'. repo_settled E x r (obj s'))"
    if t: "obj t = x" and c: "GetEffectiveConfig (api E) Repository_crp x w = (Ret (Inr configs), w')"
    for octx session configs t w w'
    unfolding repository_finish_def go_wp
    by (rule postG_mono [OF repo_validate_post])
       (use t c in \<open>auto simp: go_wp fail repo_settled_def [of _ _ "(_\<lparr>RequeueAfter := _\<rparr>, None)"]
          repository_object.ready_status_marks [OF L] fillRepoStatusFromSpec_def split: option.split\<close>)
  show ?thesis
    using run unfolding repository_run_def go_wp x
    by (auto simp: go_wp x fail split: sum.split intro!: validated
        postG_I [of "GetEffectiveConfig (api E) Repository_crp x"] postG_always [of _ "getSession E _"])
qed

text \<open>The finalizers of the object do not matter for what a run does.\<close>

lemma repo_settled_finalizers:
  "repo_settled E (Repository_setFinalizers fs x) r y = repo_settled E x r y"
proof -
  have "GetEffectiveConfig (api E) Repository_crp (Repository_setFinalizers fs x) =
      GetEffectiveConfig (api E) Repository_crp x"
    by (simp add: Repository_setFinalizers_def GetEffectiveConfig_def Let_def repository_method_defs)
  moreover have "repo_Spec (Repository_setFinalizers fs x) = repo_Spec x"
    "repo_Status (Repository_setFinalizers fs x) = repo_Status x"
    by (simp_all add: Repository_setFinalizers_def)
  ultimately show ?thesis by (simp add: repo_settled_def)
qed

lemma repo_settled_frame:
  assumes "status_frame Repository_ico y z" and "repo_settled E x r y"
    and "cond_Get (k8s E) (ico_GetConditions Repository_ico z) ReadyCondition =
      cond_Get (k8s E) (ico_GetConditions Repository_ico y) ReadyCondition"
  shows "repo_settled E x (fst r, errors_Join [snd r, c]) z"
proof -
  have "repo_Spec z = repo_Spec y"
    "rst_EffectiveOCMConfig (repo_Status z) = rst_EffectiveOCMConfig (repo_Status y)"
    using assms(1) by (auto simp: status_frame_def)
  moreover have "ready_status (k8s E) Repository_ico z st = ready_status (k8s E) Repository_ico y st" for st
    using assms(3) by (simp add: ready_status_def)
  ultimately show ?thesis using assms(2) by (auto simp: repo_settled_def)
qed

lemma repository_body_settled:
  assumes L: "k8s_contract (k8s E)"
    and x: "obj s = x" "\<not> rs_Suspend (repo_Spec x)" "IsZero_time (om_DeletionTimestamp (repo_meta x))"
    and fin: "RepositoryFinalizer \<in> set (om_Finalizers (repo_meta x))"
  shows "postG (repository_body E) s (\<lambda>r s'. repo_settled E x r (obj s'))"
proof -
  obtain fs where fs: "finalizer_Add (k8s E) RepositoryFinalizer (om_Finalizers (repo_meta x)) = (fs, False)"
    using k8s_finalizers(2) [OF L] fin by (metis prod.collapse)
  have "postG (repository_run E) (s\<lparr>obj := Repository_setFinalizers fs x\<rparr>)
      (\<lambda>r s'. repo_settled E (Repository_setFinalizers fs x) r (obj s'))"
    by (rule repository_run_settled [OF L]) (use x in \<open>simp_all add: Repository_setFinalizers_def\<close>)
  then show ?thesis
    using fs x by (simp add: repository_body_def go_wp ensureFinalizer_def Repository_ico_def
        repo_settled_finalizers)
qed

lemma repository_Reconcile_settled:
  assumes L: "k8s_contract (k8s E)" and get: "getRepository (api E) req (world s) = (Inr x, w)"
    and x: "\<not> rs_Suspend (repo_Spec x)" "IsZero_time (om_DeletionTimestamp (repo_meta x))"
      "RepositoryFinalizer \<in> set (om_Finalizers (repo_meta x))"
  shows "postG (repository_Reconcile E req) s (\<lambda>r s'. repo_settled E x r (obj s'))"
  unfolding repository_Reconcile_def
proof (rule repository_object.reconcileObject_post [OF L], rule get)
  show "postG (repository_body E) (s\<lparr>world := w, obj := x\<rparr>) (\<lambda>r s1. \<forall>y c.
      status_frame Repository_ico (obj s1) y \<longrightarrow>
      cond_Get (k8s E) (ico_GetConditions Repository_ico y) ReadyCondition =
        cond_Get (k8s E) (ico_GetConditions Repository_ico (obj s1)) ReadyCondition \<longrightarrow>
      repo_settled E x (fst r, errors_Join [snd r, c]) y)"
    by (rule postG_mono [OF repository_body_settled [OF L _ x]]) (auto intro: repo_settled_frame)
qed

lemma repository_deletion_run:
  assumes L: "k8s_contract (k8s E)"
    and x: "obj s = x" "\<not> IsZero_time (om_DeletionTimestamp (repo_meta x))"
      "RepositoryFinalizer \<in> set (om_Finalizers (repo_meta x))"
    and lst: "listComponents (api E) repositoryKey (om_Name (repo_meta x)) (world s) = (Inr items, w1)"
    and items: "items \<noteq> []"
  obtains err s1 where "repository_body E s = (Ret (Result_zero, Some err), s1)"
    and "world s1 = w1" and "repo_meta (obj s1) = repo_meta x" and "ready_status (k8s E) Repository_ico (obj s1) ConditionFalse"
proof -
  let ?lst = "listComponents (api E) repositoryKey (om_Name (repo_meta x))"
  note repository_fin.deletion_blocked [where lst = ?lst and s = s, OF L lst items,
      of "\<lambda>c. om_Namespace (comp_meta c) @ ''/'' @ om_Name (comp_meta c)" "updateRepository (api E)"
      RepositoryFinalizer "''failed to list components''"
      "''OCM repository cannot be removed as components are still referencing it: ''"
      "''OCM repository is being deleted and still has existing finalizers''"]
  then obtain msg s0 where run: "deleteRepository E s = (Ret (Some (ErrorString msg)), s0)"
    and s0: "world s0 = w1" "repo_meta (obj s0) = repo_meta x"
    using x(1) by (auto simp: deleteRepository_def bindG_def getG_def Repository_ico_def ObjectKeyFromObject_def)
  have "finalizer_Contains (k8s E) RepositoryFinalizer (om_Finalizers (repo_meta x))"
    using k8s_finalizers(1) [OF L] x(3) by simp
  then have "repository_body E s =
      failWith E Repository_ico DeletionFailedReason ''failed to delete OCM repository'' (ErrorString msg) s0"
    using run x by (simp add: repository_body_def go_defs)
  moreover have "repo_meta (obj (MarkNotReady (k8s E) Repository_ico reason m s0)) = repo_meta x" for reason m
    using repository_object.meta_MarkNotReady [of "k8s E" reason m s0] s0(2) by (simp add: Repository_ico_def)
  ultimately show thesis
    using that s0(1) repository_object.ready_status_marks(1) [OF L, of DeletionFailedReason _ s0]
    by (simp add: failWith_def go_defs)
qed

text \<open>A repository with a specification: \<open>Reconcile\<close> returns.\<close>

lemma repository_returns:
  assumes "k8s_contract (k8s E)" and "session_returns E"
    and "getRepository (api E) req (world s) = (Inr x, w)"
    and "IsZero_time (om_DeletionTimestamp (repo_meta x))"
    and "RepositoryFinalizer \<in> set (om_Finalizers (repo_meta x))" and "rs_RepositorySpec (repo_Spec x) \<noteq> None"
  shows "\<exists>r s'. repository_Reconcile E req s = (Ret r, s')"
proof -
  let ?I = "\<lambda>s :: (Repository, 'a) rstate. rs_RepositorySpec (repo_Spec (obj s)) \<noteq> None"
  have validate: "retG ?I (repo_validate E octx session) anyG" for octx session
    unfolding repo_validate_def by (rule go_ret | (auto; fail))+
  have finish: "retG ?I (repository_finish E configs octx session) anyG" for configs octx session
    unfolding repository_finish_def by (rule validate go_ret | (simp add: fillRepoStatusFromSpec_def; fail))+
  have run: "retG ?I (repository_run E) anyG"
    unfolding repository_run_def
    by (rule finish retG_getSession [OF assms(2)] go_ret | (auto; fail))+
  obtain fs where "repository_body E (s\<lparr>world := w, obj := x\<rparr>) =
      repository_run E (s\<lparr>world := w, obj := Repository_setFinalizers fs x\<rparr>)"
    using ensureFinalizer_present [where s = "s\<lparr>world := w, obj := x\<rparr>" and io = Repository_ico, OF assms(1)] assms(4,5)
    by (force simp: repository_body_def bindG_def getG_def Repository_ico_def)
  then have "\<exists>r s1. repository_body E (s\<lparr>world := w, obj := x\<rparr>) = (Ret r, s1)"
    using retG_D [OF run, of "s\<lparr>world := w, obj := Repository_setFinalizers fs x\<rparr>"] assms(6)
    by (auto simp: Repository_setFinalizers_def)
  then show ?thesis
    unfolding repository_Reconcile_def
    by (rule repository_object.reconcileObject_returns
        [where get = "getRepository (api E) req" and body = "repository_body E", OF assms(1,3)])
qed

section \<open>Properties\<close>

text \<open>
  C5: \<open>Reconcile\<close> on a repository that has its finalizer, is not suspended and not being deleted
  ends in one of two states. Either the repository is ready, the library accepted its
  specification and found the repository, and the effective configuration is recorded; or it is
  not ready, an error is returned and what was recorded is untouched. It panics only for a repository without a specification, or when the session cache does.
\<close>

theorem repository_ready_iff_accepted:
  assumes L: "k8s_contract (k8s E)" and get: "getRepository (api E) req (world s) = (Inr x, w)"
    and "\<not> rs_Suspend (repo_Spec x)" and "IsZero_time (om_DeletionTimestamp (repo_meta x))"
    and "RepositoryFinalizer \<in> set (om_Finalizers (repo_meta x))"
  shows "case repository_Reconcile E req s of
    (Ret (res, err), s') \<Rightarrow>
      if ready_status (k8s E) Repository_ico (obj s') ConditionTrue
      then repo_accepted E (repo_Spec x) \<and> (\<exists>w w'. GetEffectiveConfig (api E) Repository_crp x w =
        (Ret (Inr (rst_EffectiveOCMConfig (repo_Status (obj s')))), w'))
      else ready_status (k8s E) Repository_ico (obj s') ConditionFalse \<and> err \<noteq> None \<and>
        rst_EffectiveOCMConfig (repo_Status (obj s')) = rst_EffectiveOCMConfig (repo_Status x)
  | (Panic p, s') \<Rightarrow> rs_RepositorySpec (repo_Spec x) = None \<or> \<not> session_returns E"
proof (cases "repository_Reconcile E req s" rule: outcome_cases)
  case (Ret r s')
  with postG_D [OF repository_Reconcile_settled [OF L get assms(3-5)] Ret] show ?thesis
    by (auto simp: repo_settled_def ready_status_def split: prod.split)
next
  case (Panic p s')
  then show ?thesis using repository_returns [OF L _ get assms(4,5)] by fastforce
qed

text \<open>
  C6: A repository that is being deleted while some component names it keeps its metadata,
  finalizer included, is not ready, and \<open>Reconcile\<close> returns an error; the list is by name only,
  so a component of any namespace blocks the deletion.
\<close>

theorem repository_deletion_blocked:
  assumes L: "k8s_contract (k8s E)"
    and get: "getRepository (api E) req (world s) = (Inr x, w)"
    and del: "\<not> IsZero_time (om_DeletionTimestamp (repo_meta x))"
      "RepositoryFinalizer \<in> set (om_Finalizers (repo_meta x))"
    and lst: "listComponents (api E) repositoryKey (om_Name (repo_meta x)) w = (Inr items, w1)"
    and items: "items \<noteq> []"
  shows "\<exists>err s'. repository_Reconcile E req s = (Ret (Result_zero, Some err), s') \<and>
    repo_meta (obj s') = repo_meta x \<and> world s' = snd (patchRepository (api E) x (obj s') w1) \<and>
    ready_status (k8s E) Repository_ico (obj s') ConditionFalse"
proof -
  let ?s = "s\<lparr>world := w, obj := x\<rparr>"
  have l: "listComponents (api E) repositoryKey (om_Name (repo_meta x)) (world ?s) = (Inr items, w1)"
    using lst by simp
  obtain err s1 where run: "repository_body E ?s = (Ret (Result_zero, Some err), s1)"
    and s1: "world s1 = w1" "repo_meta (obj s1) = repo_meta x" "ready_status (k8s E) Repository_ico (obj s1) ConditionFalse"
    using repository_deletion_run [where s = ?s, OF L _ del l items] by auto
  obtain y s2 where r: "repository_Reconcile E req s =
      (Ret (Result_zero, errors_Join [Some err, fst (patchRepository (api E) x y (world s1))]), s2)"
    and f: "status_frame Repository_ico (obj s1) y" "obj s2 = y"
      "world s2 = snd (patchRepository (api E) x y (world s1))"
      "cond_Get (k8s E) (ico_GetConditions Repository_ico y) ReadyCondition =
         cond_Get (k8s E) (ico_GetConditions Repository_ico (obj s1)) ReadyCondition"
    using repository_object.reconcileObject_ret [where get = "getRepository (api E) req" and s = s
      and body = "repository_body E", OF L get run, of "patchRepository (api E)" Repository_GetRequeueAfter]
    by (auto simp: repository_Reconcile_def)
  have "repo_meta y = repo_meta x"
    using repository_object.meta_frame [OF f(1)] s1(2) by (simp add: Repository_ico_def)
  moreover have "ready_status (k8s E) Repository_ico y ConditionFalse"
    using s1(3) f(4) by (simp add: ready_status_def)
  ultimately show ?thesis using r f(2,3) s1(1) by (auto simp: errors_Join_def)
qed

section \<open>Witnesses\<close>

definition live_repository :: Repository where
  "live_repository = Repository_zero\<lparr>repo_meta := ObjectMeta_zero\<lparr>om_Name := ''r'', om_Finalizers := [RepositoryFinalizer]\<rparr>,
     repo_Spec := (repo_Spec Repository_zero)\<lparr>rs_RepositorySpec := Some \<lparr>Raw = Some ''spec''\<rparr>\<rparr>\<rparr>"

definition deleted_repository :: Repository where
  "deleted_repository = live_repository\<lparr>repo_meta := (repo_meta live_repository)\<lparr>om_DeletionTimestamp := Some 1\<rparr>\<rparr>"

definition repository_env :: "Repository \<Rightarrow> (nat, unit) controller_env" where
  "repository_env r = \<lparr>k8s = sample_k8s,
     api = empty_client\<lparr>getRepository := (\<lambda>_ w. (Inr r, w)), listComponents := (\<lambda>_ _ w. (Inr [Component_zero], w))\<rparr>,
     ocmlib = (empty_ocm_lib ())\<lparr>RepositorySpecForConfig := (\<lambda>_ _ w. (Inr 0, w)),
       session_LookupRepository := (\<lambda>_ _ _ w. (Inr 0, w))\<rparr>,
     getSession = (\<lambda>_. returnG (Inr (0, 0))), showDuration = (\<lambda>_. [])\<rparr>"

lemmas repository_env_defs = repository_env_def live_repository_def deleted_repository_def
  empty_client_def empty_ocm_lib_def zero_defs

abbreviation start_state :: "(Repository, nat) rstate" where
  "start_state \<equiv> \<lparr>obj = Repository_zero, events = [], world = 0\<rparr>"

theorem repository_ready_iff_accepted_witness:
  "\<exists>res s'. repository_Reconcile (repository_env live_repository) \<lparr>nn_Namespace = [], nn_Name = ''r''\<rparr> start_state =
     (Ret (res, None), s') \<and> ready_status sample_k8s Repository_ico (obj s') ConditionTrue \<and>
     repo_accepted (repository_env live_repository) (repo_Spec live_repository)"
proof -
  let ?E = "repository_env live_repository" and ?req = "\<lparr>nn_Namespace = [], nn_Name = ''r''\<rparr>"
  have "(case fst (repository_Reconcile ?E ?req start_state) of Ret r \<Rightarrow> snd r = None | Panic _ \<Rightarrow> False)"
    by code_simp
  then obtain res s' where run: "repository_Reconcile ?E ?req start_state = (Ret (res, None), s')"
    by (auto split: outcome.splits simp: prod_eq_iff)
  have L: "k8s_contract (k8s ?E)" using sample_k8s_contract by (simp add: repository_env_def)
  have "getRepository (api ?E) ?req (world start_state) = (Inr live_repository, 0)"
    "\<not> rs_Suspend (repo_Spec live_repository)" "IsZero_time (om_DeletionTimestamp (repo_meta live_repository))"
    "RepositoryFinalizer \<in> set (om_Finalizers (repo_meta live_repository))"
    by (simp_all add: repository_env_defs IsZero_time_def)
  from repository_ready_iff_accepted [OF L this] run show ?thesis
    by (auto simp: repository_env_def split: if_splits)
qed

theorem repository_deletion_blocked_witness:
  "\<exists>err s'. repository_Reconcile (repository_env deleted_repository) \<lparr>nn_Namespace = [], nn_Name = ''r''\<rparr> start_state =
     (Ret (Result_zero, Some err), s') \<and> om_Finalizers (repo_meta (obj s')) = [RepositoryFinalizer] \<and>
     ready_status sample_k8s Repository_ico (obj s') ConditionFalse"
  using repository_deletion_blocked [of "repository_env deleted_repository" "\<lparr>nn_Namespace = [], nn_Name = ''r''\<rparr>"
      start_state deleted_repository 0 "[Component_zero]" 0] sample_k8s_contract
  by (auto simp: repository_env_defs IsZero_time_def)

end
