(* ===== verification/ReplicationHistory.thy ===== *)
theory ReplicationHistory
  imports ApiInterfaces
begin

text \<open>
  The history of a Replication (\<open>AddHistoryRecord\<close> and \<open>IsInHistory\<close> in
  \<open>api/v1alpha1/replication_types.go\<close>), on the list of records and on the object.
\<close>

section \<open>Definitions\<close>

text \<open>The record repeats the failure of the last one.\<close>

definition same_failure :: "TransferStatus \<Rightarrow> TransferStatus \<Rightarrow> bool" where
  "same_failure rec lastRec \<longleftrightarrow>
     \<not> ts_Success rec \<and> \<not> ts_Success lastRec \<and>
     ts_Error lastRec = ts_Error rec \<and>
     ts_Component lastRec = ts_Component rec \<and>
     ts_Version lastRec = ts_Version rec \<and>
     ts_TargetRepositorySpec lastRec = ts_TargetRepositorySpec rec"

text \<open>
  \<open>AddHistoryRecord\<close> on the capacity and the history. \<open>History[1:]\<close> of an empty slice panics.
\<close>

definition add_record :: "int \<Rightarrow> TransferStatus list \<Rightarrow> TransferStatus \<Rightarrow> TransferStatus list outcome" where
  "add_record cap hist rec =
     (if cap = 0 then Ret hist
      else if int (length hist) \<ge> cap \<and> hist = []
      then Panic ''slice bounds out of range [1:0]''
      else let h = (if int (length hist) \<ge> cap then tl hist else hist) in
        if length h > 0 \<and> same_failure rec (last h)
        then Ret (h[length h - 1 := (last h)\<lparr>ts_StartTime := ts_StartTime rec,
                                             ts_EndTime := ts_EndTime rec\<rparr>])
        else Ret (h @ [rec]))"

definition AddHistoryRecord :: "TransferStatus \<Rightarrow> Replication \<Rightarrow> Replication outcome" where
  "AddHistoryRecord rec repl =
     (case add_record (rpl_HistoryCapacity (repl_Spec repl)) (rpt_History (repl_Status repl)) rec of
        Panic p \<Rightarrow> Panic p
      | Ret h \<Rightarrow> Ret (repl\<lparr>repl_Status := (repl_Status repl)\<lparr>rpt_History := h\<rparr>\<rparr>))"

fun in_history :: "TransferStatus list \<Rightarrow> string \<Rightarrow> string \<Rightarrow> string \<Rightarrow> bool" where
  "in_history [] component version targetSpec = False"
| "in_history (record # rest) component version targetSpec =
     (if ts_Component record = component \<and> ts_Version record = version \<and>
         ts_TargetRepositorySpec record = targetSpec \<and> ts_Success record
      then True else in_history rest component version targetSpec)"

definition IsInHistory :: "Replication \<Rightarrow> string \<Rightarrow> string \<Rightarrow> string \<Rightarrow> bool" where
  "IsInHistory repl component version targetSpec =
     in_history (rpt_History (repl_Status repl)) component version targetSpec"

text \<open>A sequence of transfers, recorded one after the other.\<close>

fun AddHistoryRecords :: "TransferStatus list \<Rightarrow> Replication \<Rightarrow> Replication outcome" where
  "AddHistoryRecords [] repl = Ret repl"
| "AddHistoryRecords (rec # recs) repl =
     (case AddHistoryRecord rec repl of
        Ret repl' \<Rightarrow> AddHistoryRecords recs repl'
      | Panic p \<Rightarrow> Panic p)"

abbreviation history :: "Replication \<Rightarrow> TransferStatus list" where
  "history repl \<equiv> rpt_History (repl_Status repl)"

abbreviation capacity :: "Replication \<Rightarrow> int" where
  "capacity repl \<equiv> rpl_HistoryCapacity (repl_Spec repl)"

section \<open>Lemmas\<close>

definition success_of :: "string \<Rightarrow> string \<Rightarrow> string \<Rightarrow> TransferStatus \<Rightarrow> bool" where
  "success_of c v t r \<longleftrightarrow> ts_Component r = c \<and> ts_Version r = v \<and>
     ts_TargetRepositorySpec r = t \<and> ts_Success r"

lemma in_history_iff: "in_history hist c v t \<longleftrightarrow> (\<exists>r \<in> set hist. success_of c v t r)"
  by (induction hist) (auto simp: success_of_def)

text \<open>With a positive capacity the operation is this one, and never panics.\<close>

definition trim :: "int \<Rightarrow> 'a list \<Rightarrow> 'a list" where
  "trim cap hist = (if int (length hist) \<ge> cap then tl hist else hist)"

definition put_record :: "TransferStatus list \<Rightarrow> TransferStatus \<Rightarrow> TransferStatus list" where
  "put_record h rec =
     (if h \<noteq> [] \<and> same_failure rec (last h)
      then butlast h @ [(last h)\<lparr>ts_StartTime := ts_StartTime rec, ts_EndTime := ts_EndTime rec\<rparr>]
      else h @ [rec])"

lemma update_last: "h \<noteq> [] \<Longrightarrow> h[length h - Suc 0 := x] = butlast h @ [x]"
  by (induction h rule: rev_induct) (simp_all add: list_update_append)

lemma add_record_eq:
  assumes "cap \<noteq> 0" and "0 < cap \<or> hist \<noteq> []"
  shows "add_record cap hist rec = Ret (put_record (trim cap hist) rec)"
proof -
  have "add_record cap hist rec =
      (let h = trim cap hist in
        if h \<noteq> [] \<and> same_failure rec (last h)
        then Ret (h[length h - Suc 0 := (last h)\<lparr>ts_StartTime := ts_StartTime rec,
                                                  ts_EndTime := ts_EndTime rec\<rparr>])
        else Ret (h @ [rec]))"
    using assms by (auto simp: add_record_def trim_def Let_def)
  then show ?thesis by (simp add: put_record_def Let_def update_last)
qed

lemma length_put_record:
  "length (put_record h rec) = (if h \<noteq> [] \<and> same_failure rec (last h) then length h else Suc (length h))"
  by (simp add: put_record_def)

lemma put_record_successes:
  assumes "r \<in> set h" and "success_of c v t r"
  shows "r \<in> set (put_record h rec)"
proof (cases "h \<noteq> [] \<and> same_failure rec (last h)")
  case True
  then have "set h = insert (last h) (set (butlast h))"
    by (metis append_butlast_last_id list.simps(15) rotate1.simps(2) set_rotate1)
  moreover have "r \<noteq> last h" using True assms(2) by (auto simp: same_failure_def success_of_def)
  ultimately show ?thesis using True assms(1) by (simp add: put_record_def)
qed (use assms in \<open>auto simp: put_record_def\<close>)

lemma add_record_panics:
  "(\<exists>p. add_record cap hist rec = Panic p) \<longleftrightarrow> cap < 0 \<and> hist = []"
  by (auto simp: add_record_def Let_def)

lemma length_trim: "length (trim cap hist) = (if int (length hist) \<ge> cap then length hist - 1 else length hist)"
  by (simp add: trim_def)

lemma length_add_record:
  assumes "add_record cap hist rec = Ret h"
  shows "int (length h) \<le> max cap (int (length hist))"
proof (cases "cap = 0")
  case True
  then show ?thesis using assms by (simp add: add_record_def)
next
  case False
  then have "0 < cap \<or> hist \<noteq> []"
    using assms add_record_panics [of cap hist rec] by auto
  then have "h = put_record (trim cap hist) rec"
    using assms False by (simp add: add_record_eq)
  then have "length h \<le> Suc (length (trim cap hist))" by (simp add: length_put_record)
  moreover have "hist \<noteq> [] \<Longrightarrow> length (trim cap hist) < length hist \<or> int (length hist) < cap"
    by (auto simp: length_trim)
  ultimately show ?thesis
    using \<open>0 < cap \<or> hist \<noteq> []\<close> by (cases "hist = []") (auto simp: length_trim)
qed

text \<open>The operation on the object.\<close>

lemma AddHistoryRecord_Ret:
  "AddHistoryRecord rec repl = Ret repl' \<longleftrightarrow>
     (\<exists>h. add_record (capacity repl) (history repl) rec = Ret h \<and>
          repl' = repl\<lparr>repl_Status := (repl_Status repl)\<lparr>rpt_History := h\<rparr>\<rparr>)"
  by (auto simp: AddHistoryRecord_def split: outcome.splits)

lemma AddHistoryRecord_eq:
  assumes "capacity repl \<noteq> 0" and "0 < capacity repl \<or> history repl \<noteq> []"
  shows "AddHistoryRecord rec repl = Ret (repl\<lparr>repl_Status := (repl_Status repl)
           \<lparr>rpt_History := put_record (trim (capacity repl) (history repl)) rec\<rparr>\<rparr>)"
  using assms by (simp add: AddHistoryRecord_def add_record_eq)

lemma AddHistoryRecord_spec:
  "AddHistoryRecord rec repl = Ret repl' \<Longrightarrow> repl_Spec repl' = repl_Spec repl"
  by (auto simp: AddHistoryRecord_Ret)

text \<open>
  A successful record followed by fewer than \<open>capacity\<close> records is still there: every record
  that is added pushes out at most one, from the front.
\<close>

lemma put_record_suffix:
  assumes "ts_Success r"
  shows "\<exists>post'. put_record (pre @ r # post) rec = pre @ r # post' \<and> length post' \<le> Suc (length post)"
  using assms
  by (cases post rule: rev_cases)
     (auto simp: put_record_def same_failure_def butlast_append)

lemma AddHistoryRecords_keep:
  assumes "ts_Success r" and "history repl = pre @ r # post"
    and "0 < capacity repl" and "int (length post + length recs) < capacity repl"
  shows "\<exists>repl'. AddHistoryRecords recs repl = Ret repl' \<and> r \<in> set (history repl')"
  using assms
proof (induction recs arbitrary: repl pre post)
  case Nil
  then show ?case by simp
next
  case (Cons rec recs)
  define h where "h = trim (capacity repl) (history repl)"
  have "\<exists>pre'. h = pre' @ r # post"
    using Cons.prems by (cases pre) (auto simp: h_def trim_def)
  then obtain pre' where h: "h = pre' @ r # post" ..
  obtain post' where post': "put_record h rec = pre' @ r # post'" "length post' \<le> Suc (length post)"
    unfolding h using put_record_suffix [OF Cons.prems(1)] by blast
  define repl1 where "repl1 = repl\<lparr>repl_Status := (repl_Status repl)\<lparr>rpt_History := put_record h rec\<rparr>\<rparr>"
  have step: "AddHistoryRecord rec repl = Ret repl1"
    using Cons.prems(3) by (simp add: AddHistoryRecord_eq repl1_def h_def)
  have "\<exists>repl'. AddHistoryRecords recs repl1 = Ret repl' \<and> r \<in> set (history repl')"
    using Cons.prems post' by (intro Cons.IH [of repl1 pre' post']) (auto simp: repl1_def)
  then show ?case by (simp add: step)
qed

lemma AddHistoryRecord_success:
  assumes "ts_Success r" and "0 < capacity repl"
  shows "\<exists>pre repl'. AddHistoryRecord r repl = Ret repl' \<and> history repl' = pre @ [r] \<and>
           capacity repl' = capacity repl"
  using assms by (auto simp: AddHistoryRecord_eq put_record_def same_failure_def)

lemma AddHistoryRecords_bound:
  assumes "0 \<le> capacity repl" and "int (length (history repl)) \<le> capacity repl"
  shows "\<exists>repl'. AddHistoryRecords recs repl = Ret repl' \<and>
           int (length (history repl')) \<le> capacity repl"
  using assms
proof (induction recs arbitrary: repl)
  case Nil
  then show ?case by simp
next
  case (Cons rec recs)
  have "\<nexists>p. add_record (capacity repl) (history repl) rec = Panic p"
    using Cons.prems(1) by (simp add: add_record_panics)
  then obtain h where h: "add_record (capacity repl) (history repl) rec = Ret h"
    by (metis outcome.exhaust)
  define repl1 where "repl1 = repl\<lparr>repl_Status := (repl_Status repl)\<lparr>rpt_History := h\<rparr>\<rparr>"
  have step: "AddHistoryRecord rec repl = Ret repl1"
    using h by (simp add: AddHistoryRecord_Ret repl1_def)
  have "int (length h) \<le> capacity repl"
    using length_add_record [OF h] Cons.prems(2) by simp
  then have "\<exists>repl'. AddHistoryRecords recs repl1 = Ret repl' \<and>
      int (length (history repl')) \<le> capacity repl1"
    using Cons.prems(1) by (intro Cons.IH) (simp_all add: repl1_def)
  then show ?case by (simp add: step) (simp add: repl1_def)
qed

section \<open>Sample objects for the witnesses\<close>

definition sample_transfer :: "bool \<Rightarrow> TransferStatus" where
  "sample_transfer ok = \<lparr>ts_Component = ''acme.org/app'', ts_Version = ''1.0.0'',
     ts_SourceRepositorySpec = ''src'', ts_TargetRepositorySpec = ''dst'', ts_StartTime = 1,
     ts_EndTime = 2, ts_Error = (if ok then [] else ''boom''), ts_Success = ok\<rparr>"

definition sample_replication :: "int \<Rightarrow> TransferStatus list \<Rightarrow> Replication" where
  "sample_replication cap hist = Replication_zero
     \<lparr>repl_Spec := (repl_Spec Replication_zero)\<lparr>rpl_HistoryCapacity := cap\<rparr>,
      repl_Status := (repl_Status Replication_zero)\<lparr>rpt_History := hist\<rparr>\<rparr>"

section \<open>Properties\<close>



text \<open>
  A successful transfer that was recorded is still found by \<open>IsInHistory\<close> after fewer
  further records than the capacity, so the reconciliation does not transfer it again.
\<close>

theorem success_stays_in_history:
  assumes "ts_Success r" and "int (length recs) < capacity repl"
  shows "\<exists>repl'. AddHistoryRecords (r # recs) repl = Ret repl' \<and>
           IsInHistory repl' (ts_Component r) (ts_Version r) (ts_TargetRepositorySpec r)"
proof -
  have "0 < capacity repl" using assms(2) by linarith
  then obtain pre repl1 where r1: "AddHistoryRecord r repl = Ret repl1"
      "history repl1 = pre @ [r]" "capacity repl1 = capacity repl"
    using AddHistoryRecord_success [OF assms(1)] by blast
  then obtain repl' where "AddHistoryRecords recs repl1 = Ret repl'" "r \<in> set (history repl')"
    using AddHistoryRecords_keep [OF assms(1), of repl1 pre "[]" recs] assms(2) by auto
  then show ?thesis
    using assms(1) r1(1) by (auto simp: IsInHistory_def in_history_iff success_of_def)
qed

theorem success_stays_in_history_witness:
  "\<exists>repl'. AddHistoryRecords [sample_transfer True, sample_transfer False] (sample_replication 2 [])
       = Ret repl' \<and>
     IsInHistory repl' (ts_Component (sample_transfer True)) (ts_Version (sample_transfer True))
       (ts_TargetRepositorySpec (sample_transfer True))"
  by (rule success_stays_in_history)
     (simp_all add: sample_transfer_def sample_replication_def)

text \<open>
  A negative capacity with an empty history makes \<open>AddHistoryRecord\<close> panic, and nothing
  else does: the field has no lower bound in the API, and \<open>History[1:]\<close> is taken of an empty
  slice.
\<close>

theorem add_history_record_panics_iff:
  "(\<exists>p. AddHistoryRecord rec repl = Panic p) \<longleftrightarrow> capacity repl < 0 \<and> history repl = []"
  using add_record_panics [of "capacity repl" "history repl" rec]
  by (auto simp: AddHistoryRecord_def split: outcome.splits)

text \<open>
  Recording a failure that repeats the last one, in a full history of at least two
  records, loses the oldest record although nothing is added: the slot is freed before the
  code finds that it only has to update the last record's times.
\<close>

theorem repeated_failure_drops_oldest:
  assumes "capacity repl \<noteq> 0" and "capacity repl \<le> int (length (history repl))"
    and "2 \<le> length (history repl)" and "same_failure rec (last (history repl))"
  shows "\<exists>repl'. AddHistoryRecord rec repl = Ret repl' \<and>
     history repl' = tl (butlast (history repl)) @
       [(last (history repl))\<lparr>ts_StartTime := ts_StartTime rec, ts_EndTime := ts_EndTime rec\<rparr>]"
proof -
  obtain a b cs where h: "history repl = a # b # cs"
    using assms(3) by (metis One_nat_def Suc_1 Suc_le_length_iff)
  then show ?thesis
    using assms by (simp add: AddHistoryRecord_eq put_record_def trim_def)
qed

theorem repeated_failure_drops_oldest_witness:
  "\<exists>repl'. AddHistoryRecord (sample_transfer False)
       (sample_replication 2 [sample_transfer True, sample_transfer False]) = Ret repl' \<and>
     history repl' = [] @ [sample_transfer False]"
  using repeated_failure_drops_oldest
    [of "sample_replication 2 [sample_transfer True, sample_transfer False]" "sample_transfer False"]
  by (simp add: sample_replication_def sample_transfer_def same_failure_def)

end
