(* ===== verification/ReplicationController.thy ===== *)
theory ReplicationController
  imports Controller ReplicationHistory
begin

text \<open>
  \<open>internal/controller/replication\<close>: the reconciliation of a Replication. A version of a
  component is transferred to a target repository, checked there, and the outcome is recorded in
  the history; a version the history holds as transferred is not transferred again while the
  object is ready.
\<close>

section \<open>The libraries\<close>

text \<open>
  The transfer and check functions of the OCM library, with the options \<open>'p\<close> they fill and read
  and the result \<open>'r\<close> of a check; \<open>metav1_Now\<close> is the clock, \<open>json_Marshal\<close> is \<open>json.Marshal\<close>.
\<close>

record ('w, 'p, 'r) transfer_lib =
  metav1_Now :: "('w, int) ext"
  standard_Options :: 'p
  transferhandler_From :: "OCMContext \<Rightarrow> 'p \<Rightarrow> ('w, goerr option \<times> 'p) ext"
  transfer_Transfer :: "OCMComponentVersion \<Rightarrow> OCMRepository \<Rightarrow> 'p \<Rightarrow> ('w, goerr option) ext"
  check_ForId :: "OCMRepository \<Rightarrow> string \<Rightarrow> string \<Rightarrow> ('w, goerr + 'r) ext"
  check_IsEmpty :: "'r \<Rightarrow> bool"
  json_Marshal :: "'r \<Rightarrow> goerr + bytes"

text \<open>The conversion \<open>string(j.Raw)\<close>; a nil slice gives the empty string.\<close>

definition raw_string :: "JSON \<Rightarrow> string" where
  "raw_string j = (case Raw j of None \<Rightarrow> [] | Some b \<Rightarrow> b)"

section \<open>Definitions\<close>

definition replication_validate ::
  "('w, 'd) controller_env \<Rightarrow> ('w, 'p, 'r) transfer_lib \<Rightarrow> OCMSession \<Rightarrow> OCMRepository \<Rightarrow>
   string \<Rightarrow> string \<Rightarrow> ((Replication, 'w) rstate, goerr option) go" where
  "replication_validate E T session repo compName compVersion =
     tryG (callG (session_LookupComponentVersion (ocmlib E) session repo compName compVersion))
       (\<lambda>err. returnG (Some (Errorf ''cannot lookup component version in repository'' err)))
     (\<lambda>_. tryG (callG (check_ForId T repo compName compVersion))
       (\<lambda>err. returnG (Some (Errorf ''cannot verify that component version exists in repository'' err)))
     (\<lambda>result.
       if \<not> check_IsEmpty T result
       then returnG (case json_Marshal T result of
           Inl err \<Rightarrow> Some (Errorf
             ''cannot marshal the result of component version check in repository'' err)
         | Inr msgBytes \<Rightarrow> Some (ErrorString
             (''component version is not completely contained in repository: '' @ msgBytes)))
       else returnG None))"

text \<open>
  The second half of \<open>transfer\<close>: the options of both contexts, the transfer, the validation and
  the successful record.
\<close>

definition transfer_version ::
  "('w, 'd) controller_env \<Rightarrow> ('w, 'p, 'r) transfer_lib \<Rightarrow> Component \<Rightarrow> TransferStatus \<Rightarrow>
   OCMContext \<Rightarrow> OCMComponentVersion \<Rightarrow> OCMContext \<Rightarrow> OCMSession \<Rightarrow> OCMRepository \<Rightarrow>
   ((Replication, 'w) rstate, TransferStatus \<times> goerr option) go" where
  "transfer_version E T component rec octx cv targetCtx targetSession targetRepo =
     (let fromErr = (\<lambda>err. returnG
            (rec, Some (Errorf ''cannot retrieve transfer options from OCM context'' err)));
          info = cst_Component (comp_Status component) in
      bindG (callG (transferhandler_From T octx (standard_Options T))) (\<lambda>(err1, opts1).
      checkG (returnG err1) fromErr
      (bindG (callG (transferhandler_From T targetCtx opts1)) (\<lambda>(err2, opts).
      checkG (returnG err2) fromErr
      (checkG (callG (transfer_Transfer T cv targetRepo opts))
        (\<lambda>err. returnG (rec, Some (Errorf
           ''cannot transfer component version to target repository'' err)))
      (checkG (replication_validate E T targetSession targetRepo (ci_Component info) (ci_Version info))
        (\<lambda>err. returnG (rec, Some err))
      (bindG (callG (metav1_Now T)) (\<lambda>now.
        returnG (rec\<lparr>ts_Success := True, ts_EndTime := now\<rparr>, None)))))))))"

definition transfer ::
  "('w, 'd) controller_env \<Rightarrow> ('w, 'p, 'r) transfer_lib \<Rightarrow> OCMConfiguration list \<Rightarrow> Component \<Rightarrow>
   Repository \<Rightarrow> ((Replication, 'w) rstate, TransferStatus \<times> goerr option) go" where
  "transfer E T configs component targetOCMRepo =
     (let info = cst_Component (comp_Status component);
          session_for = (\<lambda>spec. liftG (getSession E (Some \<lparr>RepositorySpecification = spec,
             OCMConfigurations = configs, opt_VerificationProvider = None\<rparr>)));
          session_err = (\<lambda>rec err. markNotReady E Replication_ico ConfigureContextFailedReason
             (Error_msg err) (returnG (rec, Some (Errorf ''failed to get session'' err))));
          lookup_err = (\<lambda>rec err. returnG
             (rec, Some (Errorf ''cannot lookup repository for RepositorySpec'' err))) in
      bindG (callG (metav1_Now T)) (\<lambda>now.
      derefG (ci_RepositorySpec info) (\<lambda>source.
      derefG (rs_RepositorySpec (repo_Spec targetOCMRepo)) (\<lambda>target.
      let rec = \<lparr>ts_Component = ci_Component info, ts_Version = ci_Version info,
          ts_SourceRepositorySpec = raw_string source, ts_TargetRepositorySpec = raw_string target,
          ts_StartTime = now, ts_EndTime = 0, ts_Error = [], ts_Success = False\<rparr> in
      tryG (session_for (ci_RepositorySpec info)) (session_err rec) (\<lambda>(octx, session).
      tryG (callG (session_LookupRepositoryForConfig (ocmlib E) session octx (Raw source)))
        (lookup_err rec) (\<lambda>sourceRepo.
      tryG (callG (session_LookupComponentVersion (ocmlib E) session sourceRepo
             (ci_Component info) (ci_Version info)))
        (\<lambda>err. returnG (rec, Some (Errorf
           ''cannot lookup component version in source repository'' err))) (\<lambda>cv.
      tryG (session_for (rs_RepositorySpec (repo_Spec targetOCMRepo))) (session_err rec)
        (\<lambda>(targetCtx, targetSession).
      tryG (callG (session_LookupRepositoryForConfig (ocmlib E) targetSession targetCtx (Raw target)))
        (lookup_err rec) (\<lambda>targetRepo.
      transfer_version E T component rec octx cv targetCtx targetSession targetRepo)))))))))"

definition setReplicationStatus ::
  "OCMConfiguration list \<Rightarrow> TransferStatus \<Rightarrow> ((Replication, 'w) rstate, unit) go" where
  "setReplicationStatus configs rec =
     (\<lambda>s. case AddHistoryRecord rec (obj s) of
        Panic p \<Rightarrow> (Panic p, s)
      | Ret repl \<Rightarrow> (Ret (), s\<lparr>obj := repl\<lparr>repl_Status := (repl_Status repl)
           \<lparr>rpt_EffectiveOCMConfig := configs\<rparr>\<rparr>\<rparr>))"

text \<open>The last part of \<open>Reconcile\<close>: the transfer and what is recorded of it.\<close>

definition replication_record ::
  "('w, 'd) controller_env \<Rightarrow> ('w, 'p, 'r) transfer_lib \<Rightarrow> OCMConfiguration list \<Rightarrow> Component \<Rightarrow>
   Repository \<Rightarrow> TransferStatus \<Rightarrow> goerr option \<Rightarrow> ((Replication, 'w) rstate, reconcile_result) go" where
  "replication_record E T configs component repo rec err =
     (case err of
       Some e \<Rightarrow>
         bindG (callG (metav1_Now T)) (\<lambda>now.
         thenG (setReplicationStatus configs (rec\<lparr>ts_Error := Error_msg e, ts_EndTime := now\<rparr>))
         (markNotReady E Replication_ico ReplicationFailedReason (Error_msg e)
         (returnG (Result_zero, Some e))))
     | None \<Rightarrow>
         thenG (setReplicationStatus configs rec)
         (markReady E Replication_ico (''Successfully replicated '' @ om_Name (comp_meta component) @
            '' to '' @ om_Name (repo_meta repo))
         (bindG (getG (\<lambda>s. Replication_GetRequeueAfter (obj s)))
           (\<lambda>rq. returnG (Result_zero\<lparr>RequeueAfter := rq\<rparr>, None)))))"

definition replication_transfer ::
  "('w, 'd) controller_env \<Rightarrow> ('w, 'p, 'r) transfer_lib \<Rightarrow> OCMConfiguration list \<Rightarrow> Component \<Rightarrow>
   Repository \<Rightarrow> ((Replication, 'w) rstate, reconcile_result) go" where
  "replication_transfer E T configs component repo =
     bindG (transfer E T configs component repo)
       (\<lambda>(rec, err). replication_record E T configs component repo rec err)"

text \<open>The check of the history, when component and repository are there.\<close>

definition replication_objects ::
  "('w, 'd) controller_env \<Rightarrow> ('w, 'p, 'r) transfer_lib \<Rightarrow> Component \<Rightarrow> Repository \<Rightarrow>
   ((Replication, 'w) rstate, reconcile_result) go" where
  "replication_objects E T component repo =
     (let info = cst_Component (comp_Status component);
          proceed = bindG (getG obj) (\<lambda>replication.
            tryG (liftG (GetEffectiveConfig (api E) Replication_crp replication))
              (\<lambda>err. markNotReady E Replication_ico ConfigureContextFailedReason (Error_msg err)
                 (returnG (Result_zero, Some err)))
            (\<lambda>configs. replication_transfer E T configs component repo)) in
      bindG (getG obj) (\<lambda>replication.
      if \<not> cond_IsReady (k8s E) (Replication_GetConditions replication) then proceed
      else derefG (rs_RepositorySpec (repo_Spec repo)) (\<lambda>target.
        if IsInHistory replication (ci_Component info) (ci_Version info) (raw_string target)
        then markReady E Replication_ico (''Replicated in previous reconciliations: '' @
               om_Name (comp_meta component) @ '' to '' @ om_Name (repo_meta repo))
             (bindG (getG (\<lambda>s. Replication_GetRequeueAfter (obj s)))
               (\<lambda>rq. returnG (Result_zero\<lparr>RequeueAfter := rq\<rparr>, None)))
        else proceed)))"

text \<open>A reference without a namespace is to the namespace of the replication.\<close>

definition ref_key :: "Replication \<Rightarrow> ObjectKey \<Rightarrow> NamespacedName" where
  "ref_key replication ref =
     \<lparr>nn_Namespace = (if ok_Namespace ref = [] then om_Namespace (repl_meta replication)
                      else ok_Namespace ref),
      nn_Name = ok_Name ref\<rparr>"

definition replication_unavailable ::
  "('w, 'd) controller_env \<Rightarrow> string \<Rightarrow> string \<Rightarrow> goerr \<Rightarrow>
   ((Replication, 'w) rstate, reconcile_result) go" where
  "replication_unavailable E msg p err =
     markNotReady E Replication_ico GetResourceFailedReason msg
       (if is_not_available err then returnG (Result_zero, None)
        else returnG (Result_zero, Some (Errorf p err)))"

definition replication_body ::
  "('w, 'd) controller_env \<Rightarrow> ('w, 'p, 'r) transfer_lib \<Rightarrow>
   ((Replication, 'w) rstate, reconcile_result) go" where
  "replication_body E T =
     bindG (getG obj) (\<lambda>replication.
     if \<not> IsZero_time (om_DeletionTimestamp (repl_meta replication))
     then returnG (Result_zero\<lparr>Requeue := True\<rparr>, None)
     else if rpl_Suspend (repl_Spec replication) then returnG (Result_zero, None)
     else tryG (GetReadyObject (k8s E) Component_ico (getComponent (api E))
            (ref_key replication (rpl_ComponentRef (repl_Spec replication))))
       (replication_unavailable E ''Component is not ready'' ''failed to get ready component'')
     (\<lambda>component. tryG (GetReadyObject (k8s E) Repository_ico (getRepository (api E))
            (ref_key replication (rpl_TargetRepositoryRef (repl_Spec replication))))
       (replication_unavailable E ''OCM repository is not ready'' ''failed to get ready OCM repository'')
     (\<lambda>repo. replication_objects E T component repo)))"

definition replication_Reconcile ::
  "('w, 'd) controller_env \<Rightarrow> ('w, 'p, 'r) transfer_lib \<Rightarrow> NamespacedName \<Rightarrow>
   ((Replication, 'w) rstate, reconcile_result) go" where
  "replication_Reconcile E T req =
     reconcileObject E Replication_ico (getReplication (api E) req) (patchReplication (api E))
       Replication_GetRequeueAfter (replication_body E T)"

section \<open>Watches\<close>

definition componentNameExtractor :: "Replication \<Rightarrow> string list" where
  "componentNameExtractor replication = [ok_Name (rpl_ComponentRef (repl_Spec replication))]"

definition targetRepoNameExtractor :: "Replication \<Rightarrow> string list" where
  "targetRepoNameExtractor replication = [ok_Name (rpl_TargetRepositoryRef (repl_Spec replication))]"

datatype watched = WatchedComponent Component | WatchedRepository Repository | WatchedOther

definition replicationMapFunc :: "'w client \<Rightarrow> watched \<Rightarrow> ('w, NamespacedName list) go" where
  "replicationMapFunc cl x =
     (case x of
        WatchedComponent component \<Rightarrow> enqueue_referencing
          (listReplications cl ''spec.componentRef.name'') repl_meta (om_Name (comp_meta component))
      | WatchedRepository repo \<Rightarrow> enqueue_referencing
          (listReplications cl ''spec.targetRepositoryRef.name'') repl_meta (om_Name (repo_meta repo))
      | WatchedOther \<Rightarrow> returnG [])"

section \<open>Lemmas\<close>

text \<open>What stays the same of a replication while only its conditions change.\<close>

definition same_replication :: "Replication \<Rightarrow> Replication \<Rightarrow> bool" where
  "same_replication x y \<longleftrightarrow> repl_Spec y = repl_Spec x \<and> history y = history x"

lemma same_replication_refl [simp]: "same_replication x x"
  by (simp add: same_replication_def)

lemma replication_set_conditions [simp]:
  "repl_Spec (ico_SetConditions Replication_ico cs c) = repl_Spec c"
  "history (ico_SetConditions Replication_ico cs c) = history c"
  "repl_Spec (ico_SetObservedGeneration Replication_ico v c) = repl_Spec c"
  "history (ico_SetObservedGeneration Replication_ico v c) = history c"
  by (simp_all add: replication_method_defs)

lemma replication_marks [simp]:
  "repl_Spec (obj (MarkNotReady L Replication_ico reason msg s)) = repl_Spec (obj s)"
  "history (obj (MarkNotReady L Replication_ico reason msg s)) = history (obj s)"
  "repl_Spec (obj (MarkReady L Replication_ico msg s)) = repl_Spec (obj s)"
  "history (obj (MarkReady L Replication_ico msg s)) = history (obj s)"
  by (simp_all only: replication_object.obj_MarkNotReady replication_object.obj_MarkReady
      replication_set_conditions)

lemma same_replication_marks [simp]:
  "same_replication x (obj (MarkNotReady L Replication_ico reason msg s)) = same_replication x (obj s)"
  "same_replication x (obj (MarkReady L Replication_ico msg s)) = same_replication x (obj s)"
  by (simp_all add: same_replication_def)

text \<open>The library transferred the version and found it complete in the target.\<close>

definition replicated ::
  "('w, 'd) controller_env \<Rightarrow> ('w, 'p, 'r) transfer_lib \<Rightarrow> string \<Rightarrow> string \<Rightarrow> bool" where
  "replicated E T name version \<longleftrightarrow> (\<exists>cv target session opts w1 w2 w3 v r.
     fst (transfer_Transfer T cv target opts w1) = None \<and>
     fst (session_LookupComponentVersion (ocmlib E) session target name version w2) = Inr v \<and>
     fst (check_ForId T target name version w3) = Inr r \<and> check_IsEmpty T r)"

lemma replicatedI:
  "fst (transfer_Transfer T cv target opts w1) = None \<Longrightarrow>
   fst (session_LookupComponentVersion (ocmlib E) session target name version w2) = Inr v \<Longrightarrow>
   fst (check_ForId T target name version w3) = Inr r \<Longrightarrow> check_IsEmpty T r \<Longrightarrow> replicated E T name version"
  unfolding replicated_def by blast

text \<open>The record that \<open>transfer\<close> returns.\<close>

definition record_of :: "Component \<Rightarrow> Repository \<Rightarrow> TransferStatus \<Rightarrow> bool" where
  "record_of component repo rec \<longleftrightarrow> (\<exists>target. rs_RepositorySpec (repo_Spec repo) = Some target \<and>
     ts_Component rec = ci_Component (cst_Component (comp_Status component)) \<and>
     ts_Version rec = ci_Version (cst_Component (comp_Status component)) \<and>
     ts_TargetRepositorySpec rec = raw_string target)"

definition transfer_result ::
  "('w, 'd) controller_env \<Rightarrow> ('w, 'p, 'r) transfer_lib \<Rightarrow> Component \<Rightarrow> Repository \<Rightarrow>
   TransferStatus \<times> goerr option \<Rightarrow> bool" where
  "transfer_result E T component repo r \<longleftrightarrow> record_of component repo (fst r) \<and>
     (ts_Success (fst r) \<longleftrightarrow> snd r = None) \<and>
     (snd r = None \<longrightarrow> replicated E T (ts_Component (fst r)) (ts_Version (fst r)))"

lemma replication_validate_post:
  "postG (replication_validate E T session repo n v) s (\<lambda>r s'. obj s' = obj s \<and> (r = None \<longrightarrow>
     (\<exists>w2 w3 x y. fst (session_LookupComponentVersion (ocmlib E) session repo n v w2) = Inr x \<and>
        fst (check_ForId T repo n v w3) = Inr y \<and> check_IsEmpty T y)))"
  by (auto simp: replication_validate_def go_wp split: sum.splits)

lemma transfer_version_post:
  assumes "record_of component repo rec" and "\<not> ts_Success rec"
  shows "postG (transfer_version E T component rec octx cv targetCtx targetSession targetRepo) s
    (\<lambda>r s'. obj s' = obj s \<and> transfer_result E T component repo r)"
proof -
  have fail: "transfer_result E T component repo (rec, Some e)" for e
    using assms by (simp add: transfer_result_def)
  have success: "transfer_result E T component repo (rec\<lparr>ts_Success := True, ts_EndTime := now\<rparr>, None)"
    if "fst (transfer_Transfer T cv targetRepo opts w1) = None"
      "fst (session_LookupComponentVersion (ocmlib E) targetSession targetRepo (ts_Component rec) (ts_Version rec) w2) = Inr v"
      "fst (check_ForId T targetRepo (ts_Component rec) (ts_Version rec) w3) = Inr r" "check_IsEmpty T r"
    for now opts w1 w2 w3 v r
    using assms(1) replicatedI [OF that] by (simp add: transfer_result_def record_of_def)
  have ids: "ci_Component (cst_Component (comp_Status component)) = ts_Component rec"
    "ci_Version (cst_Component (comp_Status component)) = ts_Version rec"
    using assms(1) by (auto simp: record_of_def)
  show ?thesis
    unfolding transfer_version_def Let_def ids
    by (auto simp: go_wp fail split: option.split intro!: postG_mono [OF replication_validate_post] success)
qed

lemma transfer_post:
  assumes "same_replication x (obj s)"
  shows "postG (transfer E T configs component repo) s
    (\<lambda>r s'. same_replication x (obj s') \<and> transfer_result E T component repo r)"
proof -
  have fail: "transfer_result E T component repo (rec, Some e)"
    if "record_of component repo rec" "\<not> ts_Success rec" for rec e
    using that by (simp add: transfer_result_def)
  show ?thesis
    using assms unfolding transfer_def Let_def
    by (auto simp: go_wp split: sum.split prod.split intro!: postG_always [of _ "getSession E _"] fail
        postG_mono [OF transfer_version_post] simp: record_of_def)
qed

text \<open>The ready component and repository that a replication refers to, and what it wants there.\<close>

definition found :: "('w, 'd) controller_env \<Rightarrow> Replication \<Rightarrow> Component \<Rightarrow> Repository \<Rightarrow> bool" where
  "found E x component repo \<longleftrightarrow> (\<exists>w1 w2.
     fst (getComponent (api E) (ref_key x (rpl_ComponentRef (repl_Spec x))) w1) = Inr component \<and>
     ready_object (k8s E) Component_ico component \<and>
     fst (getRepository (api E) (ref_key x (rpl_TargetRepositoryRef (repl_Spec x))) w2) = Inr repo \<and>
     ready_object (k8s E) Repository_ico repo)"

definition wanted ::
  "('w, 'd) controller_env \<Rightarrow> Replication \<Rightarrow> string \<Rightarrow> string \<Rightarrow> string \<Rightarrow> bool" where
  "wanted E x c v t \<longleftrightarrow> (\<exists>component repo target. found E x component repo \<and>
     rs_RepositorySpec (repo_Spec repo) = Some target \<and> t = raw_string target \<and>
     c = ci_Component (cst_Component (comp_Status component)) \<and>
     v = ci_Version (cst_Component (comp_Status component)))"

lemma wanted_record:
  "found E x component repo \<Longrightarrow> record_of component repo rec \<Longrightarrow>
     wanted E x (ts_Component rec) (ts_Version rec) (ts_TargetRepositorySpec rec)"
  unfolding wanted_def record_of_def by blast

text \<open>
  The end of a run on the replication \<open>x\<close>: ready because the version is replicated now or was
  before, or an error; what the history gains is the record of this run.
\<close>

definition repl_settled ::
  "('w, 'd) controller_env \<Rightarrow> ('w, 'p, 'r) transfer_lib \<Rightarrow> Replication \<Rightarrow> reconcile_result \<Rightarrow> Replication \<Rightarrow> bool" where
  "repl_settled E T x r y \<longleftrightarrow> repl_Spec y = repl_Spec x \<and>
     (if ready_status (k8s E) Replication_ico y ConditionTrue
      then history y = history x \<and> (\<exists>c v t. wanted E x c v t \<and> IsInHistory x c v t) \<or>
        (\<exists>rec. ts_Success rec \<and> wanted E x (ts_Component rec) (ts_Version rec) (ts_TargetRepositorySpec rec) \<and>
           replicated E T (ts_Component rec) (ts_Version rec) \<and>
           add_record (capacity x) (history x) rec = Ret (history y))
      else ready_status (k8s E) Replication_ico y ConditionFalse \<and> snd r \<noteq> None \<and>
        (history y = history x \<or>
         (\<exists>rec. \<not> ts_Success rec \<and> add_record (capacity x) (history x) rec = Ret (history y))))"

lemma not_both_ready:
  "ready_status L io y ConditionFalse \<Longrightarrow> \<not> ready_status L io y ConditionTrue"
  using ready_status_unique [of L io y ConditionFalse ConditionTrue] by auto

lemma repl_settled_fail:
  assumes L: "k8s_contract (k8s E)" and "same_replication x (obj s)"
  shows "repl_settled E T x (res, Some e) (obj (MarkNotReady (k8s E) Replication_ico reason msg s))"
  using assms(2) replication_object.ready_status_marks(1) [OF L, of reason msg s]
  by (simp add: repl_settled_def not_both_ready same_replication_def)

lemma repl_settled_failure:
  assumes L: "k8s_contract (k8s E)" and "repl_Spec (obj s) = repl_Spec x"
    and "add_record (capacity x) (history x) rec = Ret (history (obj s))" and "\<not> ts_Success rec"
  shows "repl_settled E T x (res, Some e) (obj (MarkNotReady (k8s E) Replication_ico reason msg s))"
  using assms(2-4) replication_object.ready_status_marks(1) [OF L, of reason msg s]
  by (auto simp: repl_settled_def not_both_ready)

lemma postG_setReplicationStatus:
  "postG (setReplicationStatus configs rec) s Q \<longleftrightarrow> (\<forall>h. add_record (capacity (obj s)) (history (obj s)) rec = Ret h \<longrightarrow>
     Q () (s\<lparr>obj := (obj s)\<lparr>repl_Status := (repl_Status (obj s))\<lparr>rpt_History := h, rpt_EffectiveOCMConfig := configs\<rparr>\<rparr>\<rparr>))"
  by (auto simp: setReplicationStatus_def postG_def AddHistoryRecord_def split: outcome.splits)

lemma replication_record_settled:
  assumes L: "k8s_contract (k8s E)" and x: "same_replication x (obj s)"
    and r: "transfer_result E T component repo (rec, err)" and f: "found E x component repo"
  shows "postG (replication_record E T configs component repo rec err) s (\<lambda>r s'. repl_settled E T x r (obj s'))"
proof -
  note marks = replication_object.ready_status_marks [OF L]
  show ?thesis
  proof (cases err)
    case None
    then show ?thesis
      using x r marks(2) wanted_record [OF f, of rec] by (auto simp: replication_record_def go_wp postG_setReplicationStatus
          repl_settled_def transfer_result_def same_replication_def)
  next
    case (Some e)
    then show ?thesis
      using x r by (auto simp: replication_record_def go_wp postG_setReplicationStatus
          transfer_result_def same_replication_def intro!: repl_settled_failure [OF L])
  qed
qed

lemma replication_transfer_settled:
  assumes L: "k8s_contract (k8s E)" and x: "same_replication x (obj s)" and f: "found E x component repo"
  shows "postG (replication_transfer E T configs component repo) s (\<lambda>r s'. repl_settled E T x r (obj s'))"
  unfolding replication_transfer_def go_wp
  by (rule postG_mono [OF transfer_post [OF x]]) (auto intro: replication_record_settled [OF L _ _ f])

lemma replication_objects_settled:
  assumes L: "k8s_contract (k8s E)" and x: "same_replication x (obj s)" and f: "found E x component repo"
  shows "postG (replication_objects E T component repo) s (\<lambda>r s'. repl_settled E T x r (obj s'))"
proof -
  have hist: "IsInHistory (obj s) c v t = IsInHistory x c v t" for c v t
    using x by (simp add: IsInHistory_def same_replication_def)
  have ready: "repl_settled E T x r (obj (MarkReady (k8s E) Replication_ico msg s))"
    if "rs_RepositorySpec (repo_Spec repo) = Some target"
      "IsInHistory x (ci_Component (cst_Component (comp_Status component)))
        (ci_Version (cst_Component (comp_Status component))) (raw_string target)" for r msg target
  proof -
    have "wanted E x (ci_Component (cst_Component (comp_Status component)))
        (ci_Version (cst_Component (comp_Status component))) (raw_string target)"
      using f that(1) unfolding wanted_def by blast
    then show ?thesis
    using that x replication_object.ready_status_marks(2) [OF L, of msg s]
    by (auto simp: repl_settled_def same_replication_def)
  qed
  show ?thesis
    unfolding replication_objects_def Let_def
    by (auto simp: go_wp x hist split: sum.split intro: ready repl_settled_fail [OF L]
        intro!: replication_transfer_settled [OF L _ f]
          postG_always [of _ "GetEffectiveConfig (api E) Replication_crp (obj s)"])
qed

lemma replication_body_settled:
  assumes L: "k8s_contract (k8s E)"
    and api: "foreign_get (getComponent (api E))" "foreign_get (getRepository (api E))"
    and x: "obj s = x" "\<not> rpl_Suspend (repl_Spec x)" "IsZero_time (om_DeletionTimestamp (repl_meta x))"
  shows "postG (replication_body E T) s (\<lambda>r s'. repl_settled E T x r (obj s'))"
proof -
  have "found E x component repo"
    if "fst (getComponent (api E) (ref_key x (rpl_ComponentRef (repl_Spec x))) w1) = Inr component"
      "ready_object (k8s E) Component_ico component"
      "fst (getRepository (api E) (ref_key x (rpl_TargetRepositoryRef (repl_Spec x))) w2) = Inr repo"
      "ready_object (k8s E) Repository_ico repo" for w1 w2 component repo
    using that unfolding found_def by blast
  then show ?thesis
    using x(2,3) unfolding replication_body_def go_wp x(1)
    by (auto simp: go_wp x(1) Let_def replication_unavailable_def foreign_getD [OF api(1)]
        foreign_getD [OF api(2)] not_available_key [OF L] split: sum.split
        intro!: repl_settled_fail [OF L] replication_objects_settled [OF L])
qed

lemma repl_settled_frame:
  assumes "status_frame Replication_ico y z" and "repl_settled E T x r y"
    and "cond_Get (k8s E) (ico_GetConditions Replication_ico z) ReadyCondition =
      cond_Get (k8s E) (ico_GetConditions Replication_ico y) ReadyCondition"
  shows "repl_settled E T x (fst r, errors_Join [snd r, c]) z"
proof -
  have "repl_Spec z = repl_Spec y" "history z = history y"
    using assms(1) by (auto simp: status_frame_def)
  moreover have "ready_status (k8s E) Replication_ico z st = ready_status (k8s E) Replication_ico y st" for st
    using assms(3) by (simp add: ready_status_def)
  ultimately show ?thesis using assms(2) by (auto simp: repl_settled_def split: if_splits)
qed

lemma replication_Reconcile_settled:
  assumes L: "k8s_contract (k8s E)"
    and api: "foreign_get (getComponent (api E))" "foreign_get (getRepository (api E))"
    and get: "getReplication (api E) req (world s) = (Inr x, w)"
    and x: "\<not> rpl_Suspend (repl_Spec x)" "IsZero_time (om_DeletionTimestamp (repl_meta x))"
  shows "postG (replication_Reconcile E T req) s (\<lambda>r s'. repl_settled E T x r (obj s'))"
  unfolding replication_Reconcile_def
proof (rule replication_object.reconcileObject_post [OF L], rule get)
  show "postG (replication_body E T) (s\<lparr>world := w, obj := x\<rparr>) (\<lambda>r s1. \<forall>y c.
      status_frame Replication_ico (obj s1) y \<longrightarrow>
      cond_Get (k8s E) (ico_GetConditions Replication_ico y) ReadyCondition =
        cond_Get (k8s E) (ico_GetConditions Replication_ico (obj s1)) ReadyCondition \<longrightarrow>
      repl_settled E T x (fst r, errors_Join [snd r, c]) y)"
    by (rule postG_mono [OF replication_body_settled [OF L api _ x]]) (auto intro: repl_settled_frame)
qed

text \<open>With filled objects and a capacity that is not negative, \<open>Reconcile\<close> returns.\<close>

lemma AddHistoryRecord_returns:
  assumes "0 \<le> capacity x"
  shows "\<exists>y. AddHistoryRecord rec x = Ret y \<and> capacity y = capacity x"
proof (cases "AddHistoryRecord rec x")
  case (Panic p)
  then show ?thesis using add_record_panics [of "capacity x" "history x" rec] assms
    by (auto simp: AddHistoryRecord_def split: outcome.splits)
next
  case (Ret y)
  then show ?thesis by (simp add: AddHistoryRecord_spec)
qed

lemma replication_returns:
  assumes "k8s_contract (k8s E)" and "filled_api (k8s E) (api E)" and "session_returns E"
    and "getReplication (api E) req (world s) = (Inr x, w)" and "0 \<le> capacity x"
  shows "\<exists>r s'. replication_Reconcile E T req s = (Ret r, s')"
proof -
  let ?I = "\<lambda>s :: (Replication, 'a) rstate. 0 \<le> capacity (obj s)"
  have recorded: "retG ?I (setReplicationStatus configs rec) anyG" for configs rec
    unfolding retG_def
  proof (intro allI impI)
    fix s :: "(Replication, 'a) rstate"
    assume "0 \<le> capacity (obj s)"
    with AddHistoryRecord_returns [OF this, of rec]
    show "\<exists>a s'. setReplicationStatus configs rec s = (Ret a, s') \<and> 0 \<le> capacity (obj s') \<and> anyG a"
      by (auto simp: setReplicationStatus_def)
  qed
  have transfer: "retG ?I (transfer E T configs component repo) anyG"
    if "filled_component component" "rs_RepositorySpec (repo_Spec repo) \<noteq> None" for configs component repo
    using that unfolding transfer_def transfer_version_def replication_validate_def Let_def filled_component_def
    by - (rule retG_getSession [OF assms(3)] go_ret | (simp; fail))+
  have finish: "retG ?I (replication_record E T configs component repo rec err) anyG"
    for configs component repo rec err
    unfolding replication_record_def by (rule recorded go_ret | (simp; fail))+
  have objects: "retG ?I (replication_objects E T component repo) anyG"
    if "filled_component component" "rs_RepositorySpec (repo_Spec repo) \<noteq> None" for component repo
    using that unfolding replication_objects_def replication_transfer_def Let_def
    by - (rule transfer finish go_ret | (simp; fail))+
  have body: "retG ?I (replication_body E T) anyG"
    unfolding replication_body_def replication_unavailable_def
    by (rule objects go_ret | (simp; fail) | (blast dest: filled_apiD(1,2) [OF assms(2)]; fail))+
  have "\<exists>r s1. replication_body E T (s\<lparr>world := w, obj := x\<rparr>) = (Ret r, s1)"
    using retG_D [OF body, of "s\<lparr>world := w, obj := x\<rparr>"] assms(5) by auto
  then show ?thesis
    unfolding replication_Reconcile_def
    by (rule replication_object.reconcileObject_returns
        [where get = "getReplication (api E) req" and body = "replication_body E T", OF assms(1,4)])
qed

section \<open>Properties\<close>


text \<open>
  C8: A ready replication whose history holds the version as transferred to the target is not
  transferred again: after the three reads nothing outside is called but the patch of the status,
  and the history stays.
\<close>

theorem replication_not_repeated:
  assumes L: "k8s_contract (k8s E)"
    and get: "getReplication (api E) req (world s) = (Inr x, w)"
    and x: "\<not> rpl_Suspend (repl_Spec x)" "IsZero_time (om_DeletionTimestamp (repl_meta x))"
    and c: "getComponent (api E) (ref_key x (rpl_ComponentRef (repl_Spec x))) w = (Inr component, w1)"
      "ready_object (k8s E) Component_ico component"
    and r: "getRepository (api E) (ref_key x (rpl_TargetRepositoryRef (repl_Spec x))) w1 = (Inr repo, w2)"
      "ready_object (k8s E) Repository_ico repo" "rs_RepositorySpec (repo_Spec repo) = Some target"
    and ready: "cond_IsReady (k8s E) (Replication_GetConditions x)"
    and hist: "IsInHistory x (ci_Component (cst_Component (comp_Status component)))
       (ci_Version (cst_Component (comp_Status component))) (raw_string target)"
  shows "\<exists>s'. replication_Reconcile E T req s =
      (Ret (Result_zero\<lparr>RequeueAfter := rpl_Interval (repl_Spec x)\<rparr>,
        errors_Join [None, fst (patchReplication (api E) x (obj s') w2)]), s') \<and>
    history (obj s') = history x \<and> world s' = snd (patchReplication (api E) x (obj s') w2)"
proof -
  let ?s = "s\<lparr>world := w, obj := x\<rparr>"
  let ?s1 = "MarkReady (k8s E) Replication_ico (''Replicated in previous reconciliations: '' @
      om_Name (comp_meta component) @ '' to '' @ om_Name (repo_meta repo)) (?s\<lparr>world := w2\<rparr>)"
  have run: "replication_body E T ?s =
      (Ret (Result_zero\<lparr>RequeueAfter := rpl_Interval (repl_Spec x)\<rparr>, None), ?s1)"
    using x c r ready hist
    by (simp add: replication_body_def GetReadyObject_result replication_objects_def Let_def go_defs
        markReady_def Replication_GetRequeueAfter_def)
  define s1 where "s1 = ?s1"
  have s1: "history (obj s1) = history x" "world s1 = w2" by (simp_all add: s1_def)
  have run: "replication_body E T ?s = (Ret (Result_zero\<lparr>RequeueAfter := rpl_Interval (repl_Spec x)\<rparr>, None), s1)"
    unfolding s1_def by (rule run)
  obtain y s2 where "reconcileObject E Replication_ico (getReplication (api E) req) (patchReplication (api E))
        Replication_GetRequeueAfter (replication_body E T) s =
      (Ret (Result_zero\<lparr>RequeueAfter := rpl_Interval (repl_Spec x)\<rparr>,
        errors_Join [None, fst (patchReplication (api E) x y (world s1))]), s2)"
    and "status_frame Replication_ico (obj s1) y" "obj s2 = y"
      "world s2 = snd (patchReplication (api E) x y (world s1))"
    using replication_object.reconcileObject_ret [where get = "getReplication (api E) req" and s = s
      and body = "replication_body E T", OF L get run, of "patchReplication (api E)" Replication_GetRequeueAfter]
    by (metis fst_conv snd_conv)
  moreover from this(2) have "history y = history x" using s1 by (auto simp: status_frame_def)
  ultimately show ?thesis unfolding replication_Reconcile_def using s1(2) by metis
qed

text \<open>
  \<open>Reconcile\<close> keeps the history within its capacity, whatever the run does.
\<close>

theorem reconcile_keeps_history_bound:
  assumes "k8s_contract (k8s E)"
    and "foreign_get (getComponent (api E))" and "foreign_get (getRepository (api E))"
    and "getReplication (api E) req (world s) = (Inr x, w)"
    and "\<not> rpl_Suspend (repl_Spec x)" and "IsZero_time (om_DeletionTimestamp (repl_meta x))"
    and "replication_Reconcile E T req s = (Ret r, s')"
    and bound: "int (length (history x)) \<le> capacity x"
  shows "int (length (history (obj s'))) \<le> capacity (obj s')"
proof -
  have "repl_settled E T x r (obj s')"
    by (rule postG_D [OF replication_Reconcile_settled [OF assms(1-6)] assms(7)])
  then have "repl_Spec (obj s') = repl_Spec x" and
    "history (obj s') = history x \<or> (\<exists>rec. add_record (capacity x) (history x) rec = Ret (history (obj s')))"
    by (auto simp: repl_settled_def split: if_splits)
  then show ?thesis using bound length_add_record by fastforce
qed

section \<open>Witnesses\<close>

text \<open>A component in version 1, a target, and a library whose transfers succeed.\<close>

definition source_component :: Component where
  "source_component = Component_zero\<lparr>comp_Status := (comp_Status Component_zero)
     \<lparr>cst_Conditions := ready_conditions, cst_Component := \<lparr>ci_RepositorySpec = Some \<lparr>Raw = Some ''src''\<rparr>,
        ci_Component = ''app'', ci_Version = ''1'', ci_Digest = None\<rparr>\<rparr>\<rparr>"

definition target_repository :: Repository where
  "target_repository = Repository_zero\<lparr>repo_Spec := (repo_Spec Repository_zero)
       \<lparr>rs_RepositorySpec := Some \<lparr>Raw = Some ''dst''\<rparr>\<rparr>,
     repo_Status := (repo_Status Repository_zero)\<lparr>rst_Conditions := ready_conditions\<rparr>\<rparr>"

definition success_record :: TransferStatus where
  "success_record = \<lparr>ts_Component = ''app'', ts_Version = ''1'', ts_SourceRepositorySpec = ''src'',
     ts_TargetRepositorySpec = ''dst'', ts_StartTime = 1, ts_EndTime = 1, ts_Error = [], ts_Success = True\<rparr>"

definition replication_env :: "Replication \<Rightarrow> (nat, unit) controller_env" where
  "replication_env x = \<lparr>k8s = sample_k8s,
     api = empty_client\<lparr>getReplication := (\<lambda>_ w. (Inr x, w)),
       getComponent := (\<lambda>_ w. (Inr source_component, w)),
       getRepository := (\<lambda>_ w. (Inr target_repository, w))\<rparr>,
     ocmlib = (empty_ocm_lib ())\<lparr>session_LookupRepositoryForConfig := (\<lambda>_ _ _ w. (Inr 0, w)),
       session_LookupComponentVersion := (\<lambda>_ _ _ _ w. (Inr 0, w))\<rparr>,
     getSession = (\<lambda>_. returnG (Inr (0, 0))), showDuration = (\<lambda>_. [])\<rparr>"

definition sample_transfers :: "(nat, unit, bool) transfer_lib" where
  "sample_transfers = \<lparr>metav1_Now = (\<lambda>w. (1, w)), standard_Options = (),
     transferhandler_From = (\<lambda>_ p w. ((None, p), w)), transfer_Transfer = (\<lambda>_ _ _ w. (None, Suc w)),
     check_ForId = (\<lambda>_ _ _ w. (Inr True, w)), check_IsEmpty = (\<lambda>b. b), json_Marshal = (\<lambda>_. Inr [])\<rparr>"

definition replicated_before :: Replication where
  "replicated_before = sample_replication 2 [success_record]
     \<lparr>repl_Status := (repl_Status (sample_replication 2 [success_record]))\<lparr>rpt_Conditions := ready_conditions\<rparr>\<rparr>"

lemmas replication_env_defs = replication_env_def sample_replication_def source_component_def
  target_repository_def success_record_def replicated_before_def ready_conditions_def
  empty_client_def zero_defs

abbreviation replication_start :: "(Replication, nat) rstate" where
  "replication_start \<equiv> \<lparr>obj = Replication_zero, events = [], world = 0\<rparr>"

abbreviation replication_req :: NamespacedName where
  "replication_req \<equiv> \<lparr>nn_Namespace = [], nn_Name = ''x''\<rparr>"

lemma replication_env_facts:
  "k8s_contract (k8s (replication_env x))"
  "foreign_get (getComponent (api (replication_env x)))"
  "foreign_get (getRepository (api (replication_env x)))"
  "getReplication (api (replication_env x)) req w = (Inr x, w)"
  "\<not> rpl_Suspend (repl_Spec (sample_replication 2 h))"
  "IsZero_time (om_DeletionTimestamp (repl_meta (sample_replication 2 h)))"
  using sample_k8s_contract by (simp_all add: replication_env_defs foreign_get_def IsZero_time_def)


theorem replication_not_repeated_witness:
  "\<exists>s'. replication_Reconcile (replication_env replicated_before) sample_transfers replication_req
     replication_start = (Ret (Result_zero, None), s') \<and> history (obj s') = [success_record] \<and> world s' = 0"
  using replication_not_repeated [of "replication_env replicated_before" replication_req replication_start
      replicated_before 0 source_component 0 target_repository 0 "\<lparr>Raw = Some ''dst''\<rparr>" sample_transfers]
    sample_k8s_contract
  by (simp add: replication_env_defs ready_object_def IsZero_time_def sample_k8s_def sample_true_def sample_cond_def
      component_method_defs repository_method_defs replication_method_defs IsInHistory_def raw_string_def
      errors_Join_def Result_zero_def)

theorem reconcile_keeps_history_bound_witness:
  "int (length (history (obj (snd (replication_Reconcile (replication_env (sample_replication 2 [])) sample_transfers
     replication_req replication_start))))) \<le> 2"
proof -
  let ?x = "sample_replication 2 []"
  let ?run = "replication_Reconcile (replication_env ?x) sample_transfers replication_req replication_start"
  have "(case fst ?run of Ret r \<Rightarrow> True | Panic _ \<Rightarrow> False)" by code_simp
  then obtain r s' where run: "?run = (Ret r, s')"
    by (auto split: outcome.splits simp: prod_eq_iff)
  have c: "capacity (obj (snd ?run)) = 2" by code_simp
  have "int (length (history ?x)) \<le> capacity ?x" by (simp add: sample_replication_def)
  from reconcile_keeps_history_bound [OF replication_env_facts(1-6), OF run this] show ?thesis
    using run c by simp
qed

end
