(* ===== verification/ResourceController.thy ===== *)
theory ResourceController
  imports Controller Verification
begin

text \<open>
  \<open>internal/controller/resource\<close>: the reconciliation of a Resource. The component version is
  verified, the resource is resolved in it and its digest verified, and the status describes the
  resource and the additional fields that CEL expressions compute from it.
\<close>

section \<open>The libraries\<close>

text \<open>\<open>compdesc.Label\<close> and \<open>compdesc.ResourceMeta\<close>; the JSON values are bytes.\<close>

record OCMLabel =
  ol_Name :: string
  ol_Value :: "bytes option"
  ol_Version :: string
  ol_Signing :: bool
  ol_Merge :: "(string \<times> bytes option) option"

record ResourceMeta =
  rm_Name :: string
  rm_Type :: string
  rm_Version :: string
  rm_ExtraIdentity :: Identity
  rm_Digest :: "DigestSpec option"
  rm_Labels :: "OCMLabel list"

text \<open>
  Access specifications \<open>'a\<close>; the CEL library with environments \<open>'e\<close>, compiled expressions
  \<open>'t\<close>, programs \<open>'p\<close> and values \<open>'v\<close>; the JSON library with generic maps \<open>'j\<close>.
  \<open>access_Version\<close> is \<open>Meta().GetVersion()\<close>.
\<close>

record ('w, 'a, 'e, 't, 'p, 'v, 'j) resource_lib =
  access_Meta :: "OCMResourceAccess \<Rightarrow> ResourceMeta"
  access_Access :: "OCMResourceAccess \<Rightarrow> ('w, goerr + 'a) ext"
  marshal_Access :: "'a \<Rightarrow> goerr + bytes"
  marshal_Resource :: "ResourceMeta \<Rightarrow> 'a \<Rightarrow> goerr + bytes"
  unmarshal_Map :: "bytes \<Rightarrow> goerr + 'j"
  marshal_Val :: "'v \<Rightarrow> goerr + bytes"
  digest_String :: "DigestSpec option \<Rightarrow> string"
  cel_BaseEnv :: "goerr + 'e"
  cel_Extend :: "'e \<Rightarrow> goerr + 'e"
  cel_Compile :: "'e \<Rightarrow> string \<Rightarrow> goerr + 't"
  cel_Program :: "'e \<Rightarrow> 't \<Rightarrow> goerr + 'p"
  cel_Eval :: "'p \<Rightarrow> 'j \<Rightarrow> goerr + 'v"

section \<open>The status\<close>

definition convertLabel :: "OCMLabel \<Rightarrow> Label" where
  "convertLabel l = \<lparr>lb_Name = ol_Name l, lb_Value = \<lparr>Raw = ol_Value l\<rparr>, lb_Version = ol_Version l,
     lb_Signing = ol_Signing l,
     lb_Merge = (case ol_Merge l of None \<Rightarrow> None
       | Some (alg, cfg) \<Rightarrow> Some \<lparr>ma_Algorithm = alg, ma_Config = \<lparr>Raw = cfg\<rparr>\<rparr>)\<rparr>"

definition convertLabels :: "OCMLabel list \<Rightarrow> Label list" where
  "convertLabels ls = map convertLabel ls"

definition buildResourceInfo ::
  "('w, 'a, 'e, 't, 'p, 'v, 'j) resource_lib \<Rightarrow> OCMResourceAccess \<Rightarrow> 'a \<Rightarrow> goerr + ResourceInfo" where
  "buildResourceInfo A access spec =
     (let meta = access_Meta A access in
      case marshal_Access A spec of
        Inl err \<Rightarrow> Inl (Errorf ''marshaling access spec'' err)
      | Inr raw \<Rightarrow> Inr \<lparr>ri_Name = rm_Name meta, ri_Type = rm_Type meta, ri_Version = rm_Version meta,
          ri_ExtraIdentity = rm_ExtraIdentity meta, ri_Access = \<lparr>Raw = Some raw\<rparr>,
          ri_Digest = digest_String A (rm_Digest meta), ri_Labels = convertLabels (rm_Labels meta)\<rparr>)"

definition toGenericMapViaJSON ::
  "('w, 'a, 'e, 't, 'p, 'v, 'j) resource_lib \<Rightarrow> ResourceMeta \<Rightarrow> 'a \<Rightarrow> goerr + 'j" where
  "toGenericMapViaJSON A meta spec =
     (case marshal_Resource A meta spec of Inl err \<Rightarrow> Inl err | Inr b \<Rightarrow> unmarshal_Map A b)"

text \<open>The verb \<open>%q\<close> on a name.\<close>

definition quoted :: "string \<Rightarrow> string" where
  "quoted s = CHR 0x22 # s @ [CHR 0x22]"

text \<open>One field: compile, build, evaluate and marshal.\<close>

definition additional_field ::
  "('w, 'a, 'e, 't, 'p, 'v, 'j) resource_lib \<Rightarrow> 'e \<Rightarrow> 'j \<Rightarrow> string \<Rightarrow> string \<Rightarrow> goerr + bytes" where
  "additional_field A env resourceMap name expr =
     (case cel_Compile A env expr of
        Inl err \<Rightarrow> Inl (Errorf (''compiling CEL '' @ quoted name) err)
      | Inr ast \<Rightarrow>
      (case cel_Program A env ast of
        Inl err \<Rightarrow> Inl (Errorf (''building CEL program '' @ quoted name) err)
      | Inr prog \<Rightarrow>
      (case cel_Eval A prog resourceMap of
        Inl err \<Rightarrow> Inl (Errorf (''evaluating CEL '' @ quoted name) err)
      | Inr val \<Rightarrow>
      (case marshal_Val A val of
        Inl err \<Rightarrow> Inl (Errorf (''marshaling CEL result '' @ quoted name) err)
      | Inr raw \<Rightarrow> Inr raw))))"

text \<open>The loop over the fields, in the order the map is ranged over; the map is written in place.\<close>

fun additional_loop ::
  "('w, 'a, 'e, 't, 'p, 'v, 'j) resource_lib \<Rightarrow> 'e \<Rightarrow> 'j \<Rightarrow> (string \<times> string) list \<Rightarrow>
   (string \<rightharpoonup> JSON) \<Rightarrow> goerr option \<times> (string \<rightharpoonup> JSON)" where
  "additional_loop A env resourceMap [] add = (None, add)"
| "additional_loop A env resourceMap ((name, expr) # fs) add =
     (case additional_field A env resourceMap name expr of
        Inl err \<Rightarrow> (Some err, add)
      | Inr raw \<Rightarrow> additional_loop A env resourceMap fs (add(name \<mapsto> \<lparr>Raw = Some raw\<rparr>)))"

definition setAdditional :: "(string \<rightharpoonup> JSON) option \<Rightarrow> Resource \<Rightarrow> Resource" where
  "setAdditional add r = r\<lparr>res_Status := (res_Status r)\<lparr>rss_Additional := add\<rparr>\<rparr>"

definition computeAdditionalStatusFields ::
  "('w, 'a, 'e, 't, 'p, 'v, 'j) resource_lib \<Rightarrow> ResourceMeta \<Rightarrow> 'a \<Rightarrow> Resource \<Rightarrow>
   goerr option \<times> Resource" where
  "computeAdditionalStatusFields A meta spec resource =
     (case cel_BaseEnv A of
        Inl err \<Rightarrow> (Some (Errorf ''getting base CEL env'' err), resource)
      | Inr base \<Rightarrow>
      (case cel_Extend A base of
        Inl err \<Rightarrow> (Some (Errorf ''extending CEL env'' err), resource)
      | Inr env \<Rightarrow>
      (case toGenericMapViaJSON A meta spec of
        Inl err \<Rightarrow> (Some (Errorf ''preparing CEL variables'' err), resource)
      | Inr resourceMap \<Rightarrow>
      (case additional_loop A env resourceMap (rsp_AdditionalStatusFields (res_Spec resource)) Map.empty of
        (err, add) \<Rightarrow> (err, setAdditional (Some add) resource)))))"

definition setResourceStatus ::
  "('w, 'a, 'e, 't, 'p, 'v, 'j) resource_lib \<Rightarrow> OCMConfiguration list \<Rightarrow> OCMResourceAccess \<Rightarrow>
   ComponentInfo \<Rightarrow> ((Resource, 'w) rstate, goerr option) go" where
  "setResourceStatus A configs access component =
     tryG (callG (access_Access A access))
       (\<lambda>err. returnG (Some (Errorf ''getting access spec'' err)))
     (\<lambda>spec. tryG (returnG (buildResourceInfo A access spec))
       (\<lambda>err. returnG (Some (Errorf ''building resource info'' err)))
     (\<lambda>info. thenG (modifyG (\<lambda>s. s\<lparr>obj := (obj s)\<lparr>res_Status := (res_Status (obj s))\<lparr>rss_Resource := Some info\<rparr>\<rparr>\<rparr>))
     (bindG (getG (\<lambda>s. computeAdditionalStatusFields A (access_Meta A access) spec (obj s))) (\<lambda>(err, r).
     thenG (modifyG (\<lambda>s. s\<lparr>obj := r\<rparr>))
     (checkG (returnG err)
       (\<lambda>err. returnG (Some (Errorf ''evaluating additional status fields'' err)))
     (thenG (modifyG (\<lambda>s. s\<lparr>obj := (obj s)\<lparr>res_Status := (res_Status (obj s))
         \<lparr>rss_EffectiveOCMConfig := configs, rss_Component := Some component\<rparr>\<rparr>\<rparr>))
     (returnG None)))))))"

section \<open>Reconcile\<close>

definition deployerIndex :: string where "deployerIndex = ''Resource.spec.resourceRef''"

definition resource_delete ::
  "('w, 'd) controller_env \<Rightarrow> ((Resource, 'w) rstate, goerr option) go" where
  "resource_delete E =
     bindG (getG obj) (\<lambda>resource.
       deletionProtocol E Resource_ico Resource_setFinalizers
         (listDeployers (api E) deployerIndex
            (NamespacedName_String (k8s E) (ObjectKeyFromObject (res_meta resource))))
         (\<lambda>deployer. om_Name (dep_meta deployer))
         (updateResource (api E)) ResourceFinalizer
         ''failed to list deployers''
         ''resource cannot be removed as deployers are still referencing it: ''
         ''resource is being deleted and still has existing finalizers'')"

abbreviation resource_fail ::
  "('w, 'd) controller_env \<Rightarrow> Reason \<Rightarrow> string \<Rightarrow> goerr \<Rightarrow> ((Resource, 'w) rstate, reconcile_result) go" where
  "resource_fail E reason p err \<equiv> failWith E Resource_ico reason p err"

text \<open>From the resource access to the status.\<close>

definition resource_finish ::
  "('w, 'd) controller_env \<Rightarrow> ('w, 'a, 'e, 't, 'p, 'v, 'j) resource_lib \<Rightarrow> OCMConfiguration list \<Rightarrow>
   OCMResourceAccess \<Rightarrow> OCMComponentVersion \<Rightarrow> ((Resource, 'w) rstate, reconcile_result) go" where
  "resource_finish E A configs resourceAccess resourceCV =
     tryG (returnG (spec_Marshal (ocmlib E) (repo_GetSpecification (ocmlib E) (cv_Repository (ocmlib E) resourceCV))))
       (\<lambda>err. resource_fail E MarshalFailedReason ''failed to marshal resource spec'' err)
     (\<lambda>data. checkG (setResourceStatus A configs resourceAccess
          \<lparr>ci_RepositorySpec = Some \<lparr>Raw = Some data\<rparr>, ci_Component = cv_GetName (ocmlib E) resourceCV,
           ci_Version = cv_GetVersion (ocmlib E) resourceCV, ci_Digest = None\<rparr>)
       (\<lambda>err. resource_fail E StatusSetFailedReason ''failed to set resource status'' err)
     (markReady E Resource_ico (''Applied version '' @ rm_Version (access_Meta A resourceAccess))
     (bindG (getG (\<lambda>s. Resource_GetRequeueAfter (obj s)))
       (\<lambda>rq. returnG (Result_zero\<lparr>RequeueAfter := rq\<rparr>, None)))))"

text \<open>The verified descriptors and the resource in them.\<close>

definition resource_resolve ::
  "('w, 'd) controller_env \<Rightarrow> ('w, 'd, 'm) ocm_res_lib \<Rightarrow> ('w, 'a, 'e, 't, 'p, 'v, 'j) resource_lib \<Rightarrow>
   Component \<Rightarrow> OCMConfiguration list \<Rightarrow> OCMContext \<Rightarrow> OCMSession \<Rightarrow> OCMRepository \<Rightarrow>
   OCMComponentVersion \<Rightarrow> ((Resource, 'w) rstate, reconcile_result) go" where
  "resource_resolve E RL A component configs octx session repo cv =
     bindG (getG (\<lambda>s. res_Spec (obj s))) (\<lambda>rspec.
     tryG (liftG (VerifyComponentVersionAndListDescriptors (ocmlib E) octx cv
            (map ver_Signature (cs_Verify (comp_Spec component)))))
       (\<lambda>err. resource_fail E GetComponentVersionFailedReason ''failed to list verified descriptors'' err)
     (\<lambda>cds. tryG (liftG (GetResourceAccessForComponentVersion (ocmlib E) RL session cv
            \<lparr>rr_Resource = rr_Resource (ByReference (rsp_Resource rspec)),
             rr_ReferencePath = rr_ReferencePath (ByReference (rsp_Resource rspec))\<rparr>
            cds repo octx (rsp_SkipVerify rspec)))
       (\<lambda>err. resource_fail E GetOCMResourceFailedReason ''failed to get resource access'' err)
     (\<lambda>(resourceAccess, resourceCV). resource_finish E A configs resourceAccess resourceCV)))"

definition resource_session ::
  "('w, 'd) controller_env \<Rightarrow> ('w, 'd, 'm) ocm_res_lib \<Rightarrow> ('w, 'a, 'e, 't, 'p, 'v, 'j) resource_lib \<Rightarrow>
   Component \<Rightarrow> OCMConfiguration list \<Rightarrow> ((Resource, 'w) rstate, reconcile_result) go" where
  "resource_session E RL A component configs =
     (let info = cst_Component (comp_Status component) in
      tryG (liftG (getSession E (Some \<lparr>RepositorySpecification = ci_RepositorySpec info,
             OCMConfigurations = configs, opt_VerificationProvider = Some (Component_vp component)\<rparr>)))
       (\<lambda>err. resource_fail E ConfigureContextFailedReason ''failed to get session'' err)
     (\<lambda>(octx, session). derefG (ci_RepositorySpec info) (\<lambda>rspec.
      tryG (callG (RepositorySpecForConfig (ocmlib E) octx (Raw rspec)))
       (\<lambda>err. resource_fail E GetComponentVersionFailedReason ''failed to get repository spec'' err)
     (\<lambda>spec. tryG (callG (session_LookupRepository (ocmlib E) session octx spec))
       (\<lambda>err. resource_fail E GetComponentVersionFailedReason ''failed to lookup repository'' err)
     (\<lambda>repo. tryG (callG (session_LookupComponentVersion (ocmlib E) session repo
             (ci_Component info) (ci_Version info)))
       (\<lambda>err. resource_fail E GetComponentVersionFailedReason ''failed to lookup component version'' err)
     (\<lambda>cv. resource_resolve E RL A component configs octx session repo cv))))))"

definition resource_run ::
  "('w, 'd) controller_env \<Rightarrow> ('w, 'd, 'm) ocm_res_lib \<Rightarrow> ('w, 'a, 'e, 't, 'p, 'v, 'j) resource_lib \<Rightarrow>
   ((Resource, 'w) rstate, reconcile_result) go" where
  "resource_run E RL A =
     bindG (getG obj) (\<lambda>resource.
     tryG (GetReadyObject (k8s E) Component_ico (getComponent (api E))
            \<lparr>nn_Namespace = om_Namespace (res_meta resource),
             nn_Name = rsp_ComponentRef_Name (res_Spec resource)\<rparr>)
       (\<lambda>err. markNotReady E Resource_ico ResourceIsNotAvailable (Error_msg err)
          (if is_not_available err then returnG (Result_zero, None)
           else returnG (Result_zero, Some (Errorf ''failed to get ready component'' err))))
     (\<lambda>component. tryG (liftG (GetEffectiveConfig (api E) Resource_crp resource))
       (\<lambda>err. resource_fail E ConfigureContextFailedReason ''failed to configure context'' err)
     (\<lambda>configs. resource_session E RL A component configs)))"

definition resource_body ::
  "('w, 'd) controller_env \<Rightarrow> ('w, 'd, 'm) ocm_res_lib \<Rightarrow> ('w, 'a, 'e, 't, 'p, 'v, 'j) resource_lib \<Rightarrow>
   ((Resource, 'w) rstate, reconcile_result) go" where
  "resource_body E RL A =
     bindG (getG obj) (\<lambda>resource.
       if rsp_Suspend (res_Spec resource) then returnG (Result_zero, None)
       else if \<not> IsZero_time (om_DeletionTimestamp (res_meta resource))
       then bindG (resource_delete E) (\<lambda>err. returnG (Result_zero, err))
       else ensureFinalizer E Resource_ico Resource_setFinalizers (updateResource (api E))
              ResourceFinalizer (resource_run E RL A))"

definition resource_Reconcile ::
  "('w, 'd) controller_env \<Rightarrow> ('w, 'd, 'm) ocm_res_lib \<Rightarrow> ('w, 'a, 'e, 't, 'p, 'v, 'j) resource_lib \<Rightarrow>
   NamespacedName \<Rightarrow> ((Resource, 'w) rstate, reconcile_result) go" where
  "resource_Reconcile E RL A req =
     reconcileObject E Resource_ico (getResource (api E) req) (patchResource (api E))
       Resource_GetRequeueAfter (resource_body E RL A)"

section \<open>Watches\<close>

definition resource_component_index :: "Resource \<Rightarrow> string list" where
  "resource_component_index resource = [rsp_ComponentRef_Name (res_Spec resource)]"

definition resource_deployer_index :: "Deployer \<Rightarrow> string list" where
  "resource_deployer_index deployer =
     [ok_Namespace (dsp_ResourceRef (dep_Spec deployer)) @ ''/'' @ ok_Name (dsp_ResourceRef (dep_Spec deployer))]"

definition resource_on_component :: "'w client \<Rightarrow> Component \<Rightarrow> ('w, NamespacedName list) go" where
  "resource_on_component cl component =
     enqueue_referencing (listResources cl ''spec.componentRef.name'') res_meta (om_Name (comp_meta component))"

definition resource_on_deployer :: "'w client \<Rightarrow> Deployer \<Rightarrow> ('w, NamespacedName list) go" where
  "resource_on_deployer cl deployer =
     enqueue_if_deleting (getResource cl) res_meta
       \<lparr>nn_Namespace = ok_Namespace (dsp_ResourceRef (dep_Spec deployer)),
        nn_Name = ok_Name (dsp_ResourceRef (dep_Spec deployer))\<rparr>"

section \<open>Lemmas on the status\<close>

lemma additional_loop_None:
  assumes "additional_loop A env j fs add = (None, m)" and "distinct (map fst fs)"
  shows "(\<forall>(n, e) \<in> set fs. \<exists>raw. additional_field A env j n e = Inr raw \<and> m n = Some \<lparr>Raw = Some raw\<rparr>) \<and>
    (\<forall>n. n \<notin> fst ` set fs \<longrightarrow> m n = add n)"
  using assms
proof (induction fs arbitrary: add)
  case (Cons f fs)
  obtain n e where f: "f = (n, e)" by force
  from Cons.prems(1) obtain raw where raw: "additional_field A env j n e = Inr raw"
    by (auto simp: f split: sum.splits)
  then have loop: "additional_loop A env j fs (add(n \<mapsto> \<lparr>Raw = Some raw\<rparr>)) = (None, m)"
    using Cons.prems(1) by (simp add: f)
  have n: "n \<notin> fst ` set fs" and d: "distinct (map fst fs)" using Cons.prems(2) by (auto simp: f)
  note IH = Cons.IH [OF loop d]
  then have "m n = Some \<lparr>Raw = Some raw\<rparr>" using n by auto
  then show ?case using IH raw by (auto simp: f)
qed simp

text \<open>Whether all fields can be computed does not depend on the order of the map.\<close>

lemma additional_loop_ok:
  "(\<exists>m. additional_loop A env j fs add = (None, m)) \<longleftrightarrow>
     (\<forall>(n, e) \<in> set fs. \<exists>raw. additional_field A env j n e = Inr raw)"
proof (induction fs arbitrary: add)
  case (Cons f fs)
  obtain n e where f: "f = (n, e)" by force
  show ?case
  proof (cases "additional_field A env j n e")
    case (Inl err)
    then show ?thesis by (simp add: f)
  next
    case (Inr raw)
    then show ?thesis using Cons.IH [of "add(n \<mapsto> \<lparr>Raw = Some raw\<rparr>)"] by (simp add: f del: fun_upd_apply)
  qed
qed simp

lemma additional_loop_order:
  assumes "mset fs = mset gs" and "distinct (map fst fs)" and "additional_loop A env j fs Map.empty = (None, m)"
  shows "additional_loop A env j gs Map.empty = (None, m)"
proof -
  have set: "set fs = set gs" using assms(1) by (metis set_mset_mset)
  have "mset (map fst fs) = mset (map fst gs)" using assms(1) by simp
  then have d: "distinct (map fst gs)" using assms(2) by (metis mset_eq_imp_distinct_iff)
  obtain m' where m': "additional_loop A env j gs Map.empty = (None, m')"
    using additional_loop_ok [of A env j fs Map.empty] additional_loop_ok [of A env j gs Map.empty]
      assms(3) set by auto
  have "m' n = m n" for n
  proof (cases "n \<in> fst ` set fs")
    case True
    then obtain e where e: "(n, e) \<in> set fs" by auto
    have "\<exists>raw. additional_field A env j n e = Inr raw \<and> m n = Some \<lparr>Raw = Some raw\<rparr>"
      using additional_loop_None [OF assms(3,2)] e by blast
    moreover have "\<exists>raw. additional_field A env j n e = Inr raw \<and> m' n = Some \<lparr>Raw = Some raw\<rparr>"
      using additional_loop_None [OF m' d] e set by blast
    ultimately show ?thesis by auto
  next
    case False
    then show ?thesis
      using additional_loop_None [OF assms(3,2)] additional_loop_None [OF m' d] set by auto
  qed
  then have "m' = m" by (rule ext)
  with m' show ?thesis by simp
qed

text \<open>The fields of the status that describe the resource, as computed from its access.\<close>

definition described ::
  "('w, 'd) controller_env \<Rightarrow> ('w, 'a, 'e, 't, 'p, 'v, 'j) resource_lib \<Rightarrow> Resource \<Rightarrow>
   OCMResourceAccess \<Rightarrow> OCMComponentVersion \<Rightarrow> Resource \<Rightarrow> bool" where
  "described E A x access rcv y \<longleftrightarrow> (\<exists>w spec info base env j m data.
     fst (access_Access A access w) = Inr spec \<and> buildResourceInfo A access spec = Inr info \<and>
     rss_Resource (res_Status y) = Some info \<and>
     cel_BaseEnv A = Inr base \<and> cel_Extend A base = Inr env \<and>
     toGenericMapViaJSON A (access_Meta A access) spec = Inr j \<and>
     additional_loop A env j (rsp_AdditionalStatusFields (res_Spec x)) Map.empty = (None, m) \<and>
     rss_Additional (res_Status y) = Some m \<and>
     spec_Marshal (ocmlib E) (repo_GetSpecification (ocmlib E) (cv_Repository (ocmlib E) rcv)) = Inr data \<and>
     rss_Component (res_Status y) = Some \<lparr>ci_RepositorySpec = Some \<lparr>Raw = Some data\<rparr>,
       ci_Component = cv_GetName (ocmlib E) rcv, ci_Version = cv_GetVersion (ocmlib E) rcv, ci_Digest = None\<rparr>)"

text \<open>What a failed run leaves: the component and the configuration that were recorded before.\<close>

definition same_resource :: "Resource \<Rightarrow> Resource \<Rightarrow> bool" where
  "same_resource x y \<longleftrightarrow> res_Spec y = res_Spec x \<and>
     rss_Component (res_Status y) = rss_Component (res_Status x) \<and>
     rss_EffectiveOCMConfig (res_Status y) = rss_EffectiveOCMConfig (res_Status x)"

lemma computeAdditionalStatusFields_None:
  assumes "computeAdditionalStatusFields A meta spec r = (None, r')"
  shows "\<exists>base env j m. cel_BaseEnv A = Inr base \<and> cel_Extend A base = Inr env \<and>
      toGenericMapViaJSON A meta spec = Inr j \<and>
      additional_loop A env j (rsp_AdditionalStatusFields (res_Spec r)) Map.empty = (None, m) \<and>
      r' = setAdditional (Some m) r"
  using assms by (auto simp: computeAdditionalStatusFields_def split: sum.splits prod.splits)

lemma computeAdditionalStatusFields_Some:
  assumes "computeAdditionalStatusFields A meta spec r = (Some e, r')"
  shows "\<exists>add. r' = setAdditional add r"
proof -
  have "r = setAdditional (rss_Additional (res_Status r)) r" by (simp add: setAdditional_def)
  with assms show ?thesis
    by (auto simp: computeAdditionalStatusFields_def split: sum.splits prod.splits)
qed

lemma setResourceStatus_post:
  assumes x: "same_resource x (obj s)"
    and data: "spec_Marshal (ocmlib E) (repo_GetSpecification (ocmlib E) (cv_Repository (ocmlib E) rcv)) = Inr data"
  shows "postG (setResourceStatus A configs access
       \<lparr>ci_RepositorySpec = Some \<lparr>Raw = Some data\<rparr>, ci_Component = cv_GetName (ocmlib E) rcv,
        ci_Version = cv_GetVersion (ocmlib E) rcv, ci_Digest = None\<rparr>) s
     (\<lambda>err s'. if err = None then described E A x access rcv (obj s') \<and> res_Spec (obj s') = res_Spec x \<and>
          rss_EffectiveOCMConfig (res_Status (obj s')) = configs
        else same_resource x (obj s'))"
proof -
  have spec: "res_Spec (obj s) = res_Spec x" using x by (simp add: same_resource_def)
  have ok: "described E A x access rcv (setAdditional (Some m)
        (obj s\<lparr>res_Status := res_Status (obj s)\<lparr>rss_Resource := Some info\<rparr>\<rparr>)
       \<lparr>res_Status := res_Status (setAdditional (Some m)
          (obj s\<lparr>res_Status := res_Status (obj s)\<lparr>rss_Resource := Some info\<rparr>\<rparr>))
         \<lparr>rss_EffectiveOCMConfig := configs, rss_Component := Some
          \<lparr>ci_RepositorySpec = Some \<lparr>Raw = Some data\<rparr>, ci_Component = cv_GetName (ocmlib E) rcv,
           ci_Version = cv_GetVersion (ocmlib E) rcv, ci_Digest = None\<rparr>\<rparr>\<rparr>)"
    if "fst (access_Access A access w) = Inr spec" "buildResourceInfo A access spec = Inr info"
      "cel_BaseEnv A = Inr base" "cel_Extend A base = Inr env"
      "toGenericMapViaJSON A (access_Meta A access) spec = Inr j"
      "additional_loop A env j (rsp_AdditionalStatusFields (res_Spec x)) Map.empty = (None, m)"
    for w spec info base env j m
    unfolding described_def
    by (rule exI [of _ w], rule exI [of _ spec], rule exI [of _ info], rule exI [of _ base],
        rule exI [of _ env], rule exI [of _ j], rule exI [of _ m], rule exI [of _ data])
       (use that data in \<open>simp add: setAdditional_def\<close>)
  show ?thesis
    using x by (auto simp: setResourceStatus_def go_wp spec same_resource_def
        split: sum.splits option.splits
        dest!: computeAdditionalStatusFields_None computeAdditionalStatusFields_Some intro!: ok)
      (simp_all add: setAdditional_def spec)
qed

section \<open>Lemmas on Reconcile\<close>

lemma resource_set_conditions [simp]:
  "res_Spec (ico_SetConditions Resource_ico cs c) = res_Spec c"
  "rss_Resource (res_Status (ico_SetConditions Resource_ico cs c)) = rss_Resource (res_Status c)"
  "rss_Component (res_Status (ico_SetConditions Resource_ico cs c)) = rss_Component (res_Status c)"
  "rss_Additional (res_Status (ico_SetConditions Resource_ico cs c)) = rss_Additional (res_Status c)"
  "rss_EffectiveOCMConfig (res_Status (ico_SetConditions Resource_ico cs c)) = rss_EffectiveOCMConfig (res_Status c)"
  "res_Spec (ico_SetObservedGeneration Resource_ico v c) = res_Spec c"
  "rss_Resource (res_Status (ico_SetObservedGeneration Resource_ico v c)) = rss_Resource (res_Status c)"
  "rss_Component (res_Status (ico_SetObservedGeneration Resource_ico v c)) = rss_Component (res_Status c)"
  "rss_Additional (res_Status (ico_SetObservedGeneration Resource_ico v c)) = rss_Additional (res_Status c)"
  "rss_EffectiveOCMConfig (res_Status (ico_SetObservedGeneration Resource_ico v c)) = rss_EffectiveOCMConfig (res_Status c)"
  by (simp_all add: resource_method_defs)

text \<open>\<open>y\<close> agrees with \<open>z\<close> but for conditions, generation and metadata.\<close>

definition same_but_conditions :: "Resource \<Rightarrow> Resource \<Rightarrow> bool" where
  "same_but_conditions y z \<longleftrightarrow> res_Spec z = res_Spec y \<and>
     rss_Resource (res_Status z) = rss_Resource (res_Status y) \<and>
     rss_Component (res_Status z) = rss_Component (res_Status y) \<and>
     rss_Additional (res_Status z) = rss_Additional (res_Status y) \<and>
     rss_EffectiveOCMConfig (res_Status z) = rss_EffectiveOCMConfig (res_Status y)"

lemma same_but_conditions_marks:
  "same_but_conditions (obj s) (obj (MarkNotReady L Resource_ico reason msg s))"
  "same_but_conditions (obj s) (obj (MarkReady L Resource_ico msg s))"
  by (simp_all only: same_but_conditions_def resource_object.obj_MarkNotReady
      resource_object.obj_MarkReady resource_set_conditions)

lemma same_but_conditions_frame: "status_frame Resource_ico y z \<Longrightarrow> same_but_conditions y z"
  by (auto simp: status_frame_def same_but_conditions_def)

lemma described_cong: "same_but_conditions y z \<Longrightarrow> described E A x access rcv z = described E A x access rcv y"
  by (simp add: described_def same_but_conditions_def)

lemma same_resource_cong: "same_but_conditions y z \<Longrightarrow> same_resource x z = same_resource x y"
  by (simp add: same_resource_def same_but_conditions_def)

text \<open>
  The access was resolved in a component version whose signatures were accepted, and its digest
  was verified unless the spec skips that; the component is the ready one the resource names.
\<close>

definition resolved ::
  "('w, 'd) controller_env \<Rightarrow> ('w, 'd, 'm) ocm_res_lib \<Rightarrow> Resource \<Rightarrow> OCMResourceAccess \<Rightarrow>
   OCMComponentVersion \<Rightarrow> bool" where
  "resolved E RL x access rcv \<longleftrightarrow> (\<exists>component w0 octx session repo cv cds w1 w2 w3 w4.
     fst (getComponent (api E) \<lparr>nn_Namespace = om_Namespace (res_meta x),
       nn_Name = rsp_ComponentRef_Name (res_Spec x)\<rparr> w0) = Inr component \<and>
     ready_object (k8s E) Component_ico component \<and>
     VerifyComponentVersionAndListDescriptors (ocmlib E) octx cv
       (map ver_Signature (cs_Verify (comp_Spec component))) w1 = (Ret (Inr cds), w2) \<and>
     GetResourceAccessForComponentVersion (ocmlib E) RL session cv
       \<lparr>rr_Resource = rr_Resource (ByReference (rsp_Resource (res_Spec x))),
        rr_ReferencePath = rr_ReferencePath (ByReference (rsp_Resource (res_Spec x)))\<rparr>
       cds repo octx (rsp_SkipVerify (res_Spec x)) w3 = (Ret (Inr (access, rcv)), w4))"

definition res_settled ::
  "('w, 'd) controller_env \<Rightarrow> ('w, 'd, 'm) ocm_res_lib \<Rightarrow> ('w, 'a, 'e, 't, 'p, 'v, 'j) resource_lib \<Rightarrow>
   Resource \<Rightarrow> reconcile_result \<Rightarrow> Resource \<Rightarrow> bool" where
  "res_settled E RL A x r y \<longleftrightarrow>
     (if ready_status (k8s E) Resource_ico y ConditionTrue
      then (\<exists>access rcv. resolved E RL x access rcv \<and> described E A x access rcv y) \<and>
        (\<exists>w w'. GetEffectiveConfig (api E) Resource_crp x w =
           (Ret (Inr (rss_EffectiveOCMConfig (res_Status y))), w'))
      else ready_status (k8s E) Resource_ico y ConditionFalse \<and> snd r \<noteq> None \<and> same_resource x y)"

lemma res_settled_fail:
  assumes L: "k8s_contract (k8s E)" and "same_resource x (obj s)"
  shows "res_settled E RL A x (res, Some e) (obj (MarkNotReady (k8s E) Resource_ico reason msg s))"
proof -
  note false = resource_object.ready_status_marks(1) [OF L, of reason msg s]
  then have "\<not> ready_status (k8s E) Resource_ico (obj (MarkNotReady (k8s E) Resource_ico reason msg s)) ConditionTrue"
    using ready_status_unique by fastforce
  moreover have "same_resource x (obj (MarkNotReady (k8s E) Resource_ico reason msg s)) = same_resource x (obj s)"
    by (rule same_resource_cong [OF same_but_conditions_marks(1)])
  ultimately show ?thesis using false assms(2) by (simp add: res_settled_def)
qed

lemma resource_finish_settled:
  assumes L: "k8s_contract (k8s E)" and x: "same_resource x (obj s)"
    and c: "GetEffectiveConfig (api E) Resource_crp x w = (Ret (Inr configs), w')"
    and r: "resolved E RL x access rcv"
  shows "postG (resource_finish E A configs access rcv) s (\<lambda>r s'. res_settled E RL A x r (obj s'))"
proof -
  have ready: "res_settled E RL A x r' (obj (MarkReady (k8s E) Resource_ico msg t))"
    if "described E A x access rcv (obj t)" "rss_EffectiveOCMConfig (res_Status (obj t)) = configs" for r' msg t
  proof -
    have "rss_EffectiveOCMConfig (res_Status (obj (MarkReady (k8s E) Resource_ico msg t))) = configs"
      using that(2) same_but_conditions_marks(2) [of t "k8s E" msg] by (simp add: same_but_conditions_def)
    moreover have "described E A x access rcv (obj (MarkReady (k8s E) Resource_ico msg t))"
      using that(1) described_cong [OF same_but_conditions_marks(2)] by blast
    ultimately show ?thesis
      using resource_object.ready_status_marks(2) [OF L, of msg t] r c by (auto simp: res_settled_def)
  qed
  show ?thesis
    unfolding resource_finish_def
    by (auto simp: go_wp res_settled_fail [OF L x] split: sum.split option.split
        intro!: postG_mono [OF setResourceStatus_post [OF x]] res_settled_fail [OF L] ready)
qed

lemma resource_resolve_settled:
  assumes L: "k8s_contract (k8s E)" and x: "same_resource x (obj s)"
    and c: "GetEffectiveConfig (api E) Resource_crp x w = (Ret (Inr configs), w')"
    and g: "fst (getComponent (api E) \<lparr>nn_Namespace = om_Namespace (res_meta x),
       nn_Name = rsp_ComponentRef_Name (res_Spec x)\<rparr> w0) = Inr component"
      "ready_object (k8s E) Component_ico component"
  shows "postG (resource_resolve E RL A component configs octx session repo cv) s
    (\<lambda>r s'. res_settled E RL A x r (obj s'))"
proof -
  have spec: "res_Spec (obj s) = res_Spec x" using x by (simp add: same_resource_def)
  have r: "resolved E RL x access rcv"
    if "VerifyComponentVersionAndListDescriptors (ocmlib E) octx cv
       (map ver_Signature (cs_Verify (comp_Spec component))) w1 = (Ret (Inr cds), w2)"
     "GetResourceAccessForComponentVersion (ocmlib E) RL session cv
       \<lparr>rr_Resource = rr_Resource (ByReference (rsp_Resource (res_Spec x))),
        rr_ReferencePath = rr_ReferencePath (ByReference (rsp_Resource (res_Spec x)))\<rparr>
       cds repo octx (rsp_SkipVerify (res_Spec x)) w3 = (Ret (Inr (access, rcv)), w4)"
    for w1 cds w2 w3 access rcv w4
    using g that unfolding resolved_def by blast
  show ?thesis
    unfolding resource_resolve_def go_wp spec
    by (auto simp: go_wp x split: sum.split
        intro!: res_settled_fail [OF L] resource_finish_settled [OF L _ c] r
          postG_I [of "VerifyComponentVersionAndListDescriptors _ _ _ _"]
          postG_I [of "GetResourceAccessForComponentVersion _ _ _ _ _ _ _ _ _"])
qed


lemma resource_session_settled:
  assumes L: "k8s_contract (k8s E)" and x: "same_resource x (obj s)"
    and c: "GetEffectiveConfig (api E) Resource_crp x w = (Ret (Inr configs), w')"
    and g: "fst (getComponent (api E) \<lparr>nn_Namespace = om_Namespace (res_meta x),
       nn_Name = rsp_ComponentRef_Name (res_Spec x)\<rparr> w0) = Inr component"
      "ready_object (k8s E) Component_ico component"
  shows "postG (resource_session E RL A component configs) s (\<lambda>r s'. res_settled E RL A x r (obj s'))"
  unfolding resource_session_def Let_def go_wp
  by (rule postG_always)
     (auto simp: go_wp x split: sum.split
       intro!: res_settled_fail [OF L] resource_resolve_settled [OF L _ c g])

lemma resource_run_settled:
  assumes L: "k8s_contract (k8s E)" and F: "foreign_get (getComponent (api E))" and x: "obj s = x"
  shows "postG (resource_run E RL A) s (\<lambda>r s'. res_settled E RL A x r (obj s'))"
proof -
  have same: "same_resource x x" by (simp add: same_resource_def)
  show ?thesis
    unfolding resource_run_def go_wp x
    by (auto simp: go_wp x same Let_def not_available_key [OF L] foreign_getD [OF F] split: sum.split
        intro!: res_settled_fail [OF L] resource_session_settled [OF L]
          postG_I [of "GetEffectiveConfig (api E) Resource_crp x"])
qed

text \<open>The finalizers of the object do not matter for what a run does.\<close>

lemma res_settled_finalizers:
  "res_settled E RL A (Resource_setFinalizers fs x) r y = res_settled E RL A x r y"
proof -
  have c: "GetEffectiveConfig (api E) Resource_crp (Resource_setFinalizers fs x) =
      GetEffectiveConfig (api E) Resource_crp x"
    by (simp add: Resource_setFinalizers_def GetEffectiveConfig_def Let_def resource_method_defs)
  have s: "res_Spec (Resource_setFinalizers fs x) = res_Spec x"
    "res_Status (Resource_setFinalizers fs x) = res_Status x"
    "om_Namespace (res_meta (Resource_setFinalizers fs x)) = om_Namespace (res_meta x)"
    by (simp_all add: Resource_setFinalizers_def)
  show ?thesis by (simp only: res_settled_def resolved_def described_def same_resource_def c s)
qed

lemma res_settled_frame:
  assumes f: "status_frame Resource_ico y z" and r: "res_settled E RL A x r y"
    and c: "cond_Get (k8s E) (ico_GetConditions Resource_ico z) ReadyCondition =
      cond_Get (k8s E) (ico_GetConditions Resource_ico y) ReadyCondition"
  shows "res_settled E RL A x (fst r, errors_Join [snd r, e]) z"
proof -
  note same = same_but_conditions_frame [OF f]
  have "ready_status (k8s E) Resource_ico z st = ready_status (k8s E) Resource_ico y st" for st
    using c by (simp add: ready_status_def)
  moreover have "described E A x access rcv z = described E A x access rcv y" for access rcv
    by (rule described_cong [OF same])
  moreover have "same_resource x z = same_resource x y" by (rule same_resource_cong [OF same])
  moreover have "rss_EffectiveOCMConfig (res_Status z) = rss_EffectiveOCMConfig (res_Status y)"
    using same by (simp add: same_but_conditions_def)
  ultimately show ?thesis using r by (simp add: res_settled_def split: if_splits)
qed

lemma resource_body_settled:
  assumes L: "k8s_contract (k8s E)" and F: "foreign_get (getComponent (api E))"
    and x: "obj s = x" "\<not> rsp_Suspend (res_Spec x)" "IsZero_time (om_DeletionTimestamp (res_meta x))"
    and fin: "ResourceFinalizer \<in> set (om_Finalizers (res_meta x))"
  shows "postG (resource_body E RL A) s (\<lambda>r s'. res_settled E RL A x r (obj s'))"
proof -
  obtain fs where fs: "finalizer_Add (k8s E) ResourceFinalizer (om_Finalizers (res_meta x)) = (fs, False)"
    using k8s_finalizers(2) [OF L] fin by (metis prod.collapse)
  have "postG (resource_run E RL A) (s\<lparr>obj := Resource_setFinalizers fs x\<rparr>)
      (\<lambda>r s'. res_settled E RL A (Resource_setFinalizers fs x) r (obj s'))"
    by (rule resource_run_settled [OF L F]) simp
  then show ?thesis
    using fs x by (simp add: resource_body_def go_wp ensureFinalizer_def Resource_ico_def
        res_settled_finalizers)
qed

lemma resource_Reconcile_settled:
  assumes L: "k8s_contract (k8s E)" and F: "foreign_get (getComponent (api E))"
    and get: "getResource (api E) req (world s) = (Inr x, w)"
    and x: "\<not> rsp_Suspend (res_Spec x)" "IsZero_time (om_DeletionTimestamp (res_meta x))"
      "ResourceFinalizer \<in> set (om_Finalizers (res_meta x))"
  shows "postG (resource_Reconcile E RL A req) s (\<lambda>r s'. res_settled E RL A x r (obj s'))"
  unfolding resource_Reconcile_def
proof (rule resource_object.reconcileObject_post [OF L], rule get)
  show "postG (resource_body E RL A) (s\<lparr>world := w, obj := x\<rparr>) (\<lambda>r s1. \<forall>y c.
      status_frame Resource_ico (obj s1) y \<longrightarrow>
      cond_Get (k8s E) (ico_GetConditions Resource_ico y) ReadyCondition =
        cond_Get (k8s E) (ico_GetConditions Resource_ico (obj s1)) ReadyCondition \<longrightarrow>
      res_settled E RL A x (fst r, errors_Join [snd r, c]) y)"
    by (rule postG_mono [OF resource_body_settled [OF L F _ x]]) (auto intro: res_settled_frame)
qed


lemma resource_deletion_run:
  assumes L: "k8s_contract (k8s E)"
    and x: "obj s = x" "\<not> rsp_Suspend (res_Spec x)" "\<not> IsZero_time (om_DeletionTimestamp (res_meta x))"
    and lst: "listDeployers (api E) deployerIndex (om_Namespace (res_meta x) @ ''/'' @ om_Name (res_meta x))
      (world s) = (Inr items, w1)" and items: "items \<noteq> []"
  obtains err s1 where "resource_body E RL A s = (Ret (Result_zero, Some err), s1)"
    and "world s1 = w1" and "res_meta (obj s1) = res_meta x"
    and "ready_status (k8s E) Resource_ico (obj s1) ConditionFalse"
proof -
  let ?lst = "listDeployers (api E) deployerIndex (om_Namespace (res_meta x) @ ''/'' @ om_Name (res_meta x))"
  note resource_fin.deletion_blocked [where lst = ?lst and s = s, OF L lst items,
      of "\<lambda>d. om_Name (dep_meta d)" "updateResource (api E)" ResourceFinalizer "''failed to list deployers''"
      "''resource cannot be removed as deployers are still referencing it: ''"
      "''resource is being deleted and still has existing finalizers''"]
  then obtain msg s1 where run: "resource_delete E s = (Ret (Some (ErrorString msg)), s1)"
    and s1: "world s1 = w1" "res_meta (obj s1) = res_meta x"
      "ready_status (k8s E) Resource_ico (obj s1) ConditionFalse"
    using x(1) by (auto simp: resource_delete_def bindG_def getG_def Resource_ico_def ObjectKeyFromObject_def
        k8s_key_string [OF L] has_cond_def ready_status_def)
  have "resource_body E RL A s = (Ret (Result_zero, Some (ErrorString msg)), s1)"
    using run x by (simp add: resource_body_def go_defs)
  then show thesis using that s1 by blast
qed

text \<open>With components whose status is filled, \<open>Reconcile\<close> returns.\<close>

lemma resource_returns:
  assumes "k8s_contract (k8s E)" and "filled_api (k8s E) (api E)" and "session_returns E"
    and "getResource (api E) req (world s) = (Inr x, w)"
    and "\<not> rsp_Suspend (res_Spec x)" and "IsZero_time (om_DeletionTimestamp (res_meta x))"
    and "ResourceFinalizer \<in> set (om_Finalizers (res_meta x))"
  shows "\<exists>r s'. resource_Reconcile E RL A req s = (Ret r, s')"
proof -
  have finish: "retG anyG (resource_finish E A configs access cv) anyG" for configs access cv
    unfolding resource_finish_def setResourceStatus_def by (rule go_ret | (simp; fail))+
  have resolve: "retG anyG (resource_resolve E RL A component configs octx session repo cv) anyG"
    for component configs octx session repo cv
    unfolding resource_resolve_def by (rule finish go_ret | (simp; fail))+
  have session: "retG anyG (resource_session E RL A component configs) anyG"
    if "filled_component component" for component configs
    using that unfolding resource_session_def Let_def filled_component_def
    by - (rule resolve retG_getSession [OF assms(3)] go_ret | (simp; fail))+
  have run: "retG anyG (resource_run E RL A) anyG"
    unfolding resource_run_def
    by (rule session go_ret | (simp; fail) | (blast dest: filled_apiD(2) [OF assms(2)]; fail))+
  obtain fs where "resource_body E RL A (s\<lparr>world := w, obj := x\<rparr>) =
      resource_run E RL A (s\<lparr>world := w, obj := Resource_setFinalizers fs x\<rparr>)"
    using ensureFinalizer_present [where s = "s\<lparr>world := w, obj := x\<rparr>" and io = Resource_ico, OF assms(1)] assms(5-7)
    by (force simp: resource_body_def bindG_def getG_def Resource_ico_def)
  then have "\<exists>r s1. resource_body E RL A (s\<lparr>world := w, obj := x\<rparr>) = (Ret r, s1)"
    using retG_D [OF run] by auto
  then show ?thesis
    unfolding resource_Reconcile_def
    by (rule resource_object.reconcileObject_returns
        [where get = "getResource (api E) req" and body = "resource_body E RL A", OF assms(1,4)])
qed

section \<open>Properties\<close>





section \<open>Witnesses\<close>

definition live_resource :: Resource where
  "live_resource = Resource_zero\<lparr>
     res_meta := ObjectMeta_zero\<lparr>om_Name := ''r'', om_Finalizers := [ResourceFinalizer]\<rparr>,
     res_Spec := (res_Spec Resource_zero)\<lparr>rsp_AdditionalStatusFields := [(''tag'', ''t'')]\<rparr>\<rparr>"

definition deleted_resource :: Resource where
  "deleted_resource = live_resource\<lparr>res_meta := (res_meta live_resource)\<lparr>om_DeletionTimestamp := Some 1\<rparr>\<rparr>"

definition verified_component :: Component where
  "verified_component = Component_zero\<lparr>comp_Status := (comp_Status Component_zero)
     \<lparr>cst_Conditions := ready_conditions, cst_Component := \<lparr>ci_RepositorySpec = Some \<lparr>Raw = Some ''src''\<rparr>,
        ci_Component = ''app'', ci_Version = ''1'', ci_Digest = None\<rparr>\<rparr>\<rparr>"

definition resource_env :: "Resource \<Rightarrow> (unit, string) controller_env" where
  "resource_env r = \<lparr>k8s = sample_k8s,
     api = empty_client\<lparr>getResource := (\<lambda>_ w. (Inr r, w)), getComponent := (\<lambda>_ w. (Inr verified_component, w)),
       listDeployers := (\<lambda>_ _ w. (Inr [Deployer_zero], w))\<rparr>,
     ocmlib = (empty_ocm_lib ''d'')\<lparr>RepositorySpecForConfig := (\<lambda>_ _ w. (Inr 0, w)),
       session_LookupRepository := (\<lambda>_ _ _ w. (Inr 0, w)),
       session_LookupComponentVersion := (\<lambda>_ _ _ _ w. (Inr 0, w)), utils_Walk := (\<lambda>_ _ _ w. (Inr [''d''], w))\<rparr>,
     getSession = (\<lambda>_. returnG (Inr (0, 0))), showDuration = (\<lambda>_. [])\<rparr>"

definition sample_resource_lib :: "(unit, string, unit, string, string, string, unit) resource_lib" where
  "sample_resource_lib = \<lparr>
     access_Meta = (\<lambda>_. \<lparr>rm_Name = ''image'', rm_Type = ''oci'', rm_Version = ''1'', rm_ExtraIdentity = [],
       rm_Digest = None, rm_Labels = []\<rparr>),
     access_Access = (\<lambda>_ w. (Inr ''ref'', w)), marshal_Access = (\<lambda>a. Inr a),
     marshal_Resource = (\<lambda>_ a. Inr a), unmarshal_Map = (\<lambda>_. Inr ()), marshal_Val = (\<lambda>v. Inr v),
     digest_String = (\<lambda>_. []), cel_BaseEnv = Inr (), cel_Extend = (\<lambda>e. Inr e),
     cel_Compile = (\<lambda>_ t. Inr t), cel_Program = (\<lambda>_ t. Inr t), cel_Eval = (\<lambda>p _. Inr p)\<rparr>"

lemmas resource_env_defs = resource_env_def live_resource_def deleted_resource_def
  verified_component_def empty_client_def zero_defs

abbreviation resource_start :: "(Resource, unit) rstate" where
  "resource_start \<equiv> \<lparr>obj = Resource_zero, events = [], world = ()\<rparr>"




end
