(* ===== verification/DigestCache.thy ===== *)
theory DigestCache
  imports ContextCache
begin

text \<open>
  \<open>internal/controller/deployer/cache\<close>: the cache of decoded manifests, by digest. It is an LRU
  cache of \<open>k8s.io/utils/lru\<close> with counters. The code reaches it through a pointer, which may be
  nil, and the fallback that fills it runs in between, so the cache is a cell of the state \<open>'s\<close>
  that the fallback works on.
\<close>

section \<open>State\<close>

text \<open>
  \<open>mc_cache\<close> is nil for the zero value. The eviction function captures the name and \<open>onEvict\<close> of
  the constructor; \<open>mc_onEvict\<close> tells that \<open>onEvict\<close> is not nil (what it does is not part of the
  cache). The metrics are global, by name.
\<close>

record 'l MemoryDigestObjectCache =
  mc_name :: string
  mc_cache :: "'l option"
  mc_evict_name :: string
  mc_onEvict :: bool

record cache_metrics =
  objectCacheSize :: "string \<Rightarrow> int"
  missCount :: "string \<Rightarrow> int"
  hitCount :: "string \<Rightarrow> int"
  evictCount :: "string \<Rightarrow> int"

record 'l cache_cell =
  cell_cache :: "'l MemoryDigestObjectCache option"
  cell_metrics :: cache_metrics

text \<open>Where the cell lies in the state.\<close>

record ('s, 'l) cell_ref =
  cell_of :: "'s \<Rightarrow> 'l cache_cell"
  set_cell :: "'l cache_cell \<Rightarrow> 's \<Rightarrow> 's"

definition ref_laws :: "('s, 'l) cell_ref \<Rightarrow> bool" where
  "ref_laws r \<longleftrightarrow> (\<forall>c s. cell_of r (set_cell r c s) = c) \<and>
     (\<forall>c d s. set_cell r c (set_cell r d s) = set_cell r c s) \<and>
     (\<forall>s. set_cell r (cell_of r s) s = s)"

text \<open>The library: the LRU cache of before, with \<open>Len\<close>.\<close>

record ('l, 'k, 'v) sized_lru_lib = "('l, 'k, 'v) lru_lib" +
  lru_Len :: "'l \<Rightarrow> nat"

definition sized_lru_contract :: "('l, 'k, 'v) sized_lru_lib \<Rightarrow> bool" where
  "sized_lru_contract R \<longleftrightarrow> lru_contract R \<and> (\<forall>n. lru_Len R (lru_New R n) = 0) \<and>
     (\<forall>l k. lru_Len R (snd (lru_Get R l k)) = lru_Len R l)"

section \<open>Operations\<close>

definition DefaultMemoryDigestObjectCacheSize :: nat where
  "DefaultMemoryDigestObjectCacheSize = 1000"

definition NewMemoryDigestObjectCache ::
  "('l, 'k, 'v) sized_lru_lib \<Rightarrow> string \<Rightarrow> nat \<Rightarrow> bool \<Rightarrow> 'l MemoryDigestObjectCache" where
  "NewMemoryDigestObjectCache R name n onEvict =
     \<lparr>mc_name = name, mc_cache = Some (lru_New R n), mc_evict_name = name, mc_onEvict = onEvict\<rparr>"

definition modifyMetrics ::
  "('s, 'l) cell_ref \<Rightarrow> (cache_metrics \<Rightarrow> cache_metrics) \<Rightarrow> ('s, unit) go" where
  "modifyMetrics r f = modifyG (\<lambda>s. set_cell r ((cell_of r s)\<lparr>cell_metrics := f (cell_metrics (cell_of r s))\<rparr>) s)"

text \<open>The assignment \<open>*m = c\<close>.\<close>

definition storeCache ::
  "('s, 'l) cell_ref \<Rightarrow> 'l MemoryDigestObjectCache \<Rightarrow> ('s, unit) go" where
  "storeCache r c = bindG (getG (\<lambda>s. cell_cache (cell_of r s))) (\<lambda>p. derefG p (\<lambda>_.
     modifyG (\<lambda>s. set_cell r ((cell_of r s)\<lparr>cell_cache := Some c\<rparr>) s)))"

text \<open>The eviction function, on each entry that \<open>Add\<close> gives up.\<close>

fun evict_entries :: "('s, 'l) cell_ref \<Rightarrow> 'l MemoryDigestObjectCache \<Rightarrow> ('k \<times> 'v) list \<Rightarrow> ('s, unit) go" where
  "evict_entries r m [] = returnG ()"
| "evict_entries r m (e # es) =
     thenG (modifyMetrics r (\<lambda>mt. mt\<lparr>objectCacheSize := gauge_add (mc_evict_name m) (-1) (objectCacheSize mt)\<rparr>))
    (thenG (modifyMetrics r (\<lambda>mt. mt\<lparr>evictCount := gauge_add (mc_evict_name m) 1 (evictCount mt)\<rparr>))
    (if mc_onEvict m then evict_entries r m es else panicG ''nil function call''))"

text \<open>A method of the LRU cache behind the pointer; its result is stored in place.\<close>

definition onLRU ::
  "('s, 'l) cell_ref \<Rightarrow> ('l \<Rightarrow> 'a \<times> 'l) \<Rightarrow> ('l MemoryDigestObjectCache \<Rightarrow> 'a \<Rightarrow> ('s, 'b) go) \<Rightarrow> ('s, 'b) go" where
  "onLRU r f k = bindG (getG (\<lambda>s. cell_cache (cell_of r s))) (\<lambda>p. derefG p (\<lambda>m. derefG (mc_cache m) (\<lambda>l.
     case f l of (a, l') \<Rightarrow> thenG (storeCache r (m\<lparr>mc_cache := Some l'\<rparr>)) (k m a))))"

text \<open>What \<open>Load\<close> does after a miss for which the fallback gave a value.\<close>

definition add_entry ::
  "('l, 'k, 'v) sized_lru_lib \<Rightarrow> ('s, 'l) cell_ref \<Rightarrow> 'k \<Rightarrow> 'v \<Rightarrow> ('s, goerr + 'v) go" where
  "add_entry R r key v =
     onLRU r (\<lambda>l. lru_Add R l key v) (\<lambda>m evicted.
     thenG (evict_entries r m evicted)
     (onLRU r (\<lambda>l. (lru_Len R l, l)) (\<lambda>m n.
     thenG (modifyMetrics r (\<lambda>mt. mt\<lparr>objectCacheSize := (objectCacheSize mt)(mc_name m := int n)\<rparr>))
     (returnG (Inr v)))))"

definition look_up ::
  "('l, 'k, 'v) sized_lru_lib \<Rightarrow> ('s, 'l) cell_ref \<Rightarrow> 'k \<Rightarrow> ('s, goerr + 'v) go \<Rightarrow> ('s, goerr + 'v) go" where
  "look_up R r key fallback =
     onLRU r (\<lambda>l. lru_Get R l key) (\<lambda>m v.
     case v of
       Some v \<Rightarrow>
         thenG (modifyMetrics r (\<lambda>mt. mt\<lparr>hitCount := gauge_add (mc_name m) 1 (hitCount mt)\<rparr>))
         (returnG (Inr v))
     | None \<Rightarrow>
         thenG (modifyMetrics r (\<lambda>mt. mt\<lparr>missCount := gauge_add (mc_name m) 1 (missCount mt)\<rparr>))
         (tryG fallback (\<lambda>err. returnG (Inl err)) (\<lambda>v. add_entry R r key v)))"

definition Load ::
  "('l, 'k, 'v) sized_lru_lib \<Rightarrow> ('s, 'l) cell_ref \<Rightarrow> 'k \<Rightarrow> ('s, goerr + 'v) go \<Rightarrow> ('s, goerr + 'v) go" where
  "Load R r key fallback =
     bindG (getG (\<lambda>s. cell_cache (cell_of r s))) (\<lambda>p.
     if (case p of None \<Rightarrow> True | Some m \<Rightarrow> mc_cache m = None)
     then thenG (storeCache r (NewMemoryDigestObjectCache R ''default'' DefaultMemoryDigestObjectCacheSize False))
            (look_up R r key fallback)
     else look_up R r key fallback)"


section \<open>Single steps\<close>

lemma ref_lawsD [simp]:
  assumes "ref_laws r"
  shows "cell_of r (set_cell r c s) = c" and "set_cell r c (set_cell r d s) = set_cell r c s"
    and "set_cell r (cell_of r s) s = s"
  using assms by (simp_all add: ref_laws_def)

lemma modifyMetrics_run:
  "thenG (modifyMetrics r f) k s =
     k (set_cell r ((cell_of r s)\<lparr>cell_metrics := f (cell_metrics (cell_of r s))\<rparr>) s)"
  by (simp add: modifyMetrics_def go_defs)

lemma storeCache_run:
  "cell_cache (cell_of r s) = Some m \<Longrightarrow>
     thenG (storeCache r m') k s = k (set_cell r ((cell_of r s)\<lparr>cell_cache := Some m'\<rparr>) s)"
  by (simp add: storeCache_def go_defs)

lemma onLRU_run:
  assumes "cell_cache (cell_of r s) = Some m" and "mc_cache m = Some l"
  shows "onLRU r f k s = k m (fst (f l))
    (set_cell r ((cell_of r s)\<lparr>cell_cache := Some (m\<lparr>mc_cache := Some (snd (f l))\<rparr>)\<rparr>) s)"
proof -
  obtain a l' where "f l = (a, l')" by force
  with assms show ?thesis
    by (simp add: onLRU_def bindG_def getG_def derefG_def storeCache_run)
qed

lemma evict_entries_run:
  assumes "ref_laws r" and "mc_onEvict m"
  shows "\<exists>mt. evict_entries r m es s = (Ret (), set_cell r ((cell_of r s)\<lparr>cell_metrics := mt\<rparr>) s)"
proof (induction es arbitrary: s)
  case Nil
  have "evict_entries r m [] s =
      (Ret (), set_cell r ((cell_of r s)\<lparr>cell_metrics := cell_metrics (cell_of r s)\<rparr>) s)"
    using assms(1) by (simp add: returnG_def)
  then show ?case by blast
next
  case (Cons e es)
  obtain t where "evict_entries r m (e # es) s = evict_entries r m es t"
    and t: "\<exists>mt. t = set_cell r ((cell_of r s)\<lparr>cell_metrics := mt\<rparr>) s"
    using assms by (auto simp: modifyMetrics_run)
  moreover obtain mt where "evict_entries r m es t = (Ret (), set_cell r ((cell_of r t)\<lparr>cell_metrics := mt\<rparr>) t)"
    using Cons by blast
  moreover obtain mt' where "t = set_cell r ((cell_of r s)\<lparr>cell_metrics := mt'\<rparr>) s" using t by blast
  ultimately show ?case using assms(1) by auto
qed

lemma evict_entries_panic:
  "\<not> mc_onEvict m \<Longrightarrow> es \<noteq> [] \<Longrightarrow> fst (evict_entries r m es s) = Panic ''nil function call''"
  by (cases es) (simp_all add: modifyMetrics_run panicG_def)

text \<open>What the cache holds, and that it was made by the constructor with an eviction function.\<close>

definition entries ::
  "('l, 'k, 'v) sized_lru_lib \<Rightarrow> ('s, 'l) cell_ref \<Rightarrow> 's \<Rightarrow> 'k \<rightharpoonup> 'v" where
  "entries R r s key = (case cell_cache (cell_of r s) of None \<Rightarrow> None
     | Some m \<Rightarrow> (case mc_cache m of None \<Rightarrow> None | Some l \<Rightarrow> fst (lru_Get R l key)))"

definition cache_ready :: "('l, 'k, 'v) sized_lru_lib \<Rightarrow> ('s, 'l) cell_ref \<Rightarrow> 's \<Rightarrow> bool" where
  "cache_ready R r s \<longleftrightarrow> ref_laws r \<and> sized_lru_contract R \<and>
     (\<exists>m. cell_cache (cell_of r s) = Some m \<and> mc_cache m \<noteq> None \<and> mc_onEvict m)"

text \<open>Two states that differ in the cell only.\<close>

definition same_but_cell :: "('s, 'l) cell_ref \<Rightarrow> 's \<Rightarrow> 's \<Rightarrow> bool" where
  "same_but_cell r s s' \<longleftrightarrow> (\<exists>c. s' = set_cell r c s)"

lemma cell_updated:
  "c\<lparr>cell_cache := m, cell_metrics := mt\<rparr> = \<lparr>cell_cache = m, cell_metrics = mt\<rparr>"
  by (cases c) simp

lemma add_entry_run:
  assumes "ref_laws r" and "cell_cache (cell_of r s) = Some m" and "mc_cache m = Some l" and "mc_onEvict m"
  shows "\<exists>mt. add_entry R r key v s = (Ret (Inr v), set_cell r
      \<lparr>cell_cache = Some (m\<lparr>mc_cache := Some (snd (lru_Add R l key v))\<rparr>), cell_metrics = mt\<rparr> s) \<and>
    objectCacheSize mt (mc_name m) = int (lru_Len R (snd (lru_Add R l key v)))"
proof -
  let ?m = "m\<lparr>mc_cache := Some (snd (lru_Add R l key v))\<rparr>"
  let ?t = "set_cell r ((cell_of r s)\<lparr>cell_cache := Some ?m\<rparr>) s"
  obtain mt where ev: "evict_entries r m (fst (lru_Add R l key v)) ?t =
      (Ret (), set_cell r ((cell_of r ?t)\<lparr>cell_metrics := mt\<rparr>) ?t)"
    using evict_entries_run [OF assms(1,4)] by blast
  then have ev': "evict_entries r m (fst (lru_Add R l key v)) ?t =
      (Ret (), set_cell r \<lparr>cell_cache = Some ?m, cell_metrics = mt\<rparr> s)"
    using assms(1) by (simp add: cell_updated)
  show ?thesis
    unfolding add_entry_def onLRU_run [OF assms(2,3)]
    using ev' assms(1)
    by (simp add: thenG_def bindG_def cell_updated onLRU_run [where m = ?m and l = "snd (lru_Add R l key v)"])
       (simp add: modifyMetrics_def modifyG_def returnG_def, rule exI, rule conjI, rule refl, simp)
qed


lemma entries_set_cell:
  "ref_laws r \<Longrightarrow> entries R r (set_cell r \<lparr>cell_cache = Some (m\<lparr>mc_cache := Some l\<rparr>), cell_metrics = mt\<rparr> s) key =
     fst (lru_Get R l key)"
  by (simp add: entries_def)

lemma ready_set_cell:
  "cache_ready R r s \<Longrightarrow> mc_onEvict m \<Longrightarrow>
     cache_ready R r (set_cell r \<lparr>cell_cache = Some (m\<lparr>mc_cache := Some l\<rparr>), cell_metrics = mt\<rparr> t)"
  by (simp add: cache_ready_def)

lemma sized_lru_laws:
  assumes "sized_lru_contract R"
  shows "fst (lru_Get R (snd (lru_Get R l k)) j) = fst (lru_Get R l j)"
    and "fst (lru_Get R (snd (lru_Add R l k v)) k) = Some v"
    and "j \<noteq> k \<Longrightarrow> fst (lru_Get R (snd (lru_Add R l k v)) j) \<in> {fst (lru_Get R l j), None}"
    and "lru_Len R (snd (lru_Get R l k)) = lru_Len R l"
  using assms unfolding sized_lru_contract_def lru_contract_def by blast+

lemma add_entry_ready:
  assumes "cache_ready R r s"
  shows "\<exists>s'. add_entry R r key v s = (Ret (Inr v), s') \<and> same_but_cell r s s' \<and> cache_ready R r s' \<and>
    entries R r s' key = Some v \<and> (\<forall>j. j \<noteq> key \<longrightarrow> entries R r s' j \<in> {entries R r s j, None})"
proof -
  obtain m l where m: "cell_cache (cell_of r s) = Some m" "mc_cache m = Some l" "mc_onEvict m"
    and r: "ref_laws r" and R: "sized_lru_contract R"
    using assms by (auto simp: cache_ready_def)
  obtain mt where run: "add_entry R r key v s = (Ret (Inr v), set_cell r
      \<lparr>cell_cache = Some (m\<lparr>mc_cache := Some (snd (lru_Add R l key v))\<rparr>), cell_metrics = mt\<rparr> s)"
    using add_entry_run [OF r m, of R key v] by auto
  have old: "entries R r s j = fst (lru_Get R l j)" for j using m by (simp add: entries_def)
  show ?thesis
    using run ready_set_cell [OF assms m(3)] sized_lru_laws [OF R]
    by (auto simp: same_but_cell_def entries_set_cell [OF r] old)
qed

lemma Load_ready: "cache_ready R r s \<Longrightarrow> Load R r key f s = look_up R r key f s"
  by (auto simp: Load_def go_defs cache_ready_def)

text \<open>A look-up touches nothing but recency and counters, and runs the fallback after a miss only.\<close>

lemma Load_cases:
  assumes "cache_ready R r s"
  obtains s0 where "same_but_cell r s s0" and "cache_ready R r s0" and "entries R r s0 = entries R r s"
    and "Load R r key f s = (case entries R r s key of Some v \<Rightarrow> (Ret (Inr v), s0)
      | None \<Rightarrow> tryG f (\<lambda>err. returnG (Inl err)) (\<lambda>v. add_entry R r key v) s0)"
proof -
  obtain m l where m: "cell_cache (cell_of r s) = Some m" "mc_cache m = Some l" "mc_onEvict m"
    and r: "ref_laws r" and R: "sized_lru_contract R"
    using assms by (auto simp: cache_ready_def)
  have old: "entries R r s j = fst (lru_Get R l j)" for j using m by (simp add: entries_def)
  let ?m = "m\<lparr>mc_cache := Some (snd (lru_Get R l key))\<rparr>"
  obtain mt where run: "Load R r key f s = (case entries R r s key of
        Some v \<Rightarrow> (Ret (Inr v), set_cell r \<lparr>cell_cache = Some ?m, cell_metrics = mt\<rparr> s)
      | None \<Rightarrow> tryG f (\<lambda>err. returnG (Inl err)) (\<lambda>v. add_entry R r key v)
          (set_cell r \<lparr>cell_cache = Some ?m, cell_metrics = mt\<rparr> s))"
    unfolding Load_ready [OF assms] look_up_def onLRU_run [OF m(1,2)] old
    using r by (cases "fst (lru_Get R l key)") (simp_all add: modifyMetrics_run returnG_def cell_updated)
  show thesis
    by (rule that [OF _ _ _ run])
       (use ready_set_cell [OF assms m(3)] sized_lru_laws(1) [OF R] in
         \<open>simp_all add: same_but_cell_def entries_set_cell [OF r] old fun_eq_iff, blast\<close>)
qed


text \<open>When adding and looking up panic.\<close>

lemma thenG_panics: "fst (m s) = Panic p \<Longrightarrow> fst (thenG m k s) = Panic p"
  by (cases "m s") (simp add: thenG_def bindG_def)

lemma add_entry_panics:
  assumes r: "ref_laws r" and m: "cell_cache (cell_of r s) = Some m" "mc_cache m = Some l"
  shows "(\<exists>p. fst (add_entry R r key v s) = Panic p) \<longleftrightarrow> fst (lru_Add R l key v) \<noteq> [] \<and> \<not> mc_onEvict m"
proof (cases "mc_onEvict m")
  case True
  then show ?thesis using add_entry_run [OF r m True, of R key v] by auto
next
  case False
  show ?thesis
  proof (cases "fst (lru_Add R l key v) = []")
    case True
    then show ?thesis
      unfolding add_entry_def onLRU_run [OF m] using r
      by (simp add: thenG_def bindG_def returnG_def onLRU_run modifyMetrics_def modifyG_def)
  next
    case gives: False
    show ?thesis
      unfolding add_entry_def onLRU_run [OF m]
      using thenG_panics [of "evict_entries r m (fst (lru_Add R l key v))"]
        evict_entries_panic [OF False gives, of r] gives False by fastforce
  qed
qed

lemma look_up_panics:
  assumes r: "ref_laws r" and m: "cell_cache (cell_of r s) = Some m" "mc_cache m = Some l"
    and f: "\<And>t. \<exists>t'. f t = (Ret x, t') \<and> cell_of r t' = cell_of r t"
  shows "(\<exists>p. fst (look_up R r key f s) = Panic p) \<longleftrightarrow> fst (lru_Get R l key) = None \<and>
    (\<exists>v. x = Inr v \<and> fst (lru_Add R (snd (lru_Get R l key)) key v) \<noteq> []) \<and> \<not> mc_onEvict m"
proof (cases "fst (lru_Get R l key)")
  case (Some v)
  then show ?thesis
    unfolding look_up_def onLRU_run [OF m] by (simp add: modifyMetrics_run returnG_def)
next
  case None
  let ?m = "m\<lparr>mc_cache := Some (snd (lru_Get R l key))\<rparr>"
  obtain t where run: "look_up R r key f s = tryG f (\<lambda>err. returnG (Inl err)) (\<lambda>v. add_entry R r key v) t"
    and t: "cell_cache (cell_of r t) = Some ?m"
    unfolding look_up_def onLRU_run [OF m] using r None by (simp add: modifyMetrics_run cell_updated)
  obtain t' where t': "f t = (Ret x, t')" "cell_of r t' = cell_of r t" using f by blast
  with t have c: "cell_cache (cell_of r t') = Some ?m" "mc_cache ?m = Some (snd (lru_Get R l key))" by simp_all
  show ?thesis
    using run t'(1) None add_entry_panics [OF r c, of R key]
    by (cases x) (simp_all add: tryG_def bindG_def returnG_def)
qed

section \<open>The interface of the cache\<close>

text \<open>
  What a user of \<open>DigestObjectCache\<close> relies on: a held value is returned without running the
  fallback; after a miss the result is that of the fallback, and a value is held from then on,
  possibly at the cost of others. \<open>same\<close> relates states that agree outside of the cache.
\<close>

locale digest_object_cache =
  fixes load :: "'k \<Rightarrow> ('s, goerr + 'v) go \<Rightarrow> ('s, goerr + 'v) go"
    and held :: "'s \<Rightarrow> 'k \<rightharpoonup> 'v"
    and ready :: "'s \<Rightarrow> bool"
    and same :: "'s \<Rightarrow> 's \<Rightarrow> bool"
  assumes load_hit: "ready s \<Longrightarrow> held s key = Some v \<Longrightarrow>
      \<exists>s'. load key f s = (Ret (Inr v), s') \<and> same s s' \<and> ready s' \<and> held s' = held s"
    and load_miss: "ready s \<Longrightarrow> held s key = None \<Longrightarrow>
      \<exists>s0. same s s0 \<and> ready s0 \<and> held s0 = held s \<and>
        (\<forall>p s1. f s0 = (Panic p, s1) \<longrightarrow> load key f s = (Panic p, s1)) \<and>
        (\<forall>e s1. f s0 = (Ret (Inl e), s1) \<longrightarrow> load key f s = (Ret (Inl e), s1)) \<and>
        (\<forall>v s1. f s0 = (Ret (Inr v), s1) \<and> ready s1 \<longrightarrow>
          (\<exists>s2. load key f s = (Ret (Inr v), s2) \<and> same s1 s2 \<and> ready s2 \<and> held s2 key = Some v \<and>
            (\<forall>j. j \<noteq> key \<longrightarrow> held s2 j \<in> {held s1 j, None})))"
begin

text \<open>A postcondition of the fallback and of the held values is one of \<open>load\<close>.\<close>

lemma load_post:
  assumes s: "ready s"
    and hit: "\<And>v s'. held s key = Some v \<Longrightarrow> same s s' \<Longrightarrow> ready s' \<Longrightarrow> held s' = held s \<Longrightarrow> Q (Inr v) s'"
    and miss: "\<And>s0. same s s0 \<Longrightarrow> ready s0 \<Longrightarrow> held s0 = held s \<Longrightarrow> held s key = None \<Longrightarrow>
      postG f s0 (\<lambda>r s1. case r of Inl e \<Rightarrow> Q (Inl e) s1
        | Inr v \<Rightarrow> ready s1 \<and> (\<forall>s2. same s1 s2 \<longrightarrow> ready s2 \<longrightarrow> held s2 key = Some v \<longrightarrow>
            (\<forall>j. j \<noteq> key \<longrightarrow> held s2 j \<in> {held s1 j, None}) \<longrightarrow> Q (Inr v) s2))"
  shows "postG (load key f) s Q"
proof (cases "held s key")
  case (Some v)
  with load_hit [OF s this, of f] hit show ?thesis by (auto simp: postG_def)
next
  case None
  then obtain s0 where s0: "same s s0" "ready s0" "held s0 = held s"
    and panics: "\<And>p s1. f s0 = (Panic p, s1) \<Longrightarrow> load key f s = (Panic p, s1)"
    and fails: "\<And>e s1. f s0 = (Ret (Inl e), s1) \<Longrightarrow> load key f s = (Ret (Inl e), s1)"
    and gives: "\<And>v s1. f s0 = (Ret (Inr v), s1) \<Longrightarrow> ready s1 \<Longrightarrow>
      \<exists>s2. load key f s = (Ret (Inr v), s2) \<and> same s1 s2 \<and> ready s2 \<and> held s2 key = Some v \<and>
        (\<forall>j. j \<noteq> key \<longrightarrow> held s2 j \<in> {held s1 j, None})"
    using load_miss [OF s None, of f] by blast
  note post = miss [OF s0 None]
  obtain out s1 where f: "f s0 = (out, s1)" by force
  show ?thesis
  proof (cases out)
    case (Panic p)
    with panics f show ?thesis by (simp add: postG_def)
  next
    case (Ret x)
    show ?thesis
    proof (cases x)
      case (Inl e)
      with Ret f fails postG_D [OF post, of x s1] show ?thesis by (simp add: postG_def)
    next
      case (Inr v)
      with Ret f postG_D [OF post, of x s1] gives show ?thesis by (fastforce simp: postG_def)
    qed
  qed
qed

text \<open>With a fallback that returns and leaves the cache usable, \<open>load\<close> returns.\<close>

lemma load_returns:
  assumes s: "ready s" and f: "\<And>s0. ready s0 \<Longrightarrow> \<exists>x s1. f s0 = (Ret x, s1) \<and> ready s1"
  shows "\<exists>x s'. load key f s = (Ret x, s')"
proof (cases "held s key")
  case (Some v)
  then show ?thesis using load_hit [OF s, of key v f] by blast
next
  case None
  from load_miss [OF s None, of f] obtain s0 where "ready s0"
    and fails: "\<And>e s1. f s0 = (Ret (Inl e), s1) \<Longrightarrow> load key f s = (Ret (Inl e), s1)"
    and gives: "\<And>v s1. f s0 = (Ret (Inr v), s1) \<Longrightarrow> ready s1 \<Longrightarrow> \<exists>s2. load key f s = (Ret (Inr v), s2)"
    by blast
  obtain x s1 where "f s0 = (Ret x, s1)" "ready s1" using f [OF \<open>ready s0\<close>] by blast
  then show ?thesis using fails gives by (cases x) blast+
qed

text \<open>What holds of every value a fallback gives for a key holds of every value the cache holds.\<close>

lemma load_sound:
  assumes "ready s" and "\<forall>k v. held s k = Some v \<longrightarrow> P k v"
    and "\<And>s0. ready s0 \<Longrightarrow> \<forall>k v. held s0 k = Some v \<longrightarrow> P k v \<Longrightarrow>
      postG f s0 (\<lambda>r s1. ready s1 \<and> (\<forall>k v. held s1 k = Some v \<longrightarrow> P k v) \<and> (\<forall>v. r = Inr v \<longrightarrow> P key v))"
  shows "postG (load key f) s (\<lambda>r s'. ready s' \<and> (\<forall>k v. held s' k = Some v \<longrightarrow> P k v) \<and>
    (\<forall>v. r = Inr v \<longrightarrow> P key v))"
proof (rule load_post [OF assms(1)])
  fix s0 assume s0: "ready s0" "held s0 = held s"
  have stored: "P k v" if "held s2 key = Some v'" "\<forall>j. j \<noteq> key \<longrightarrow> held s2 j \<in> {held s1 j, None}"
    "\<forall>k v. held s1 k = Some v \<longrightarrow> P k v" "P key v'" "held s2 k = Some v" for s1 s2 v' k v
    using that by (cases "k = key") auto
  have old: "\<forall>k v. held s0 k = Some v \<longrightarrow> P k v" using assms(2) s0(2) by simp
  show "postG f s0 (\<lambda>r s1. case r of
      Inl e \<Rightarrow> ready s1 \<and> (\<forall>k v. held s1 k = Some v \<longrightarrow> P k v) \<and> (\<forall>v. Inl e = Inr v \<longrightarrow> P key v)
    | Inr v \<Rightarrow> ready s1 \<and> (\<forall>s2. same s1 s2 \<longrightarrow> ready s2 \<longrightarrow> held s2 key = Some v \<longrightarrow>
        (\<forall>j. j \<noteq> key \<longrightarrow> held s2 j \<in> {held s1 j, None}) \<longrightarrow>
        ready s2 \<and> (\<forall>k v. held s2 k = Some v \<longrightarrow> P k v) \<and> (\<forall>v'. Inr v = Inr v' \<longrightarrow> P key v')))"
  proof (rule postG_mono [OF assms(3) [OF s0(1) old]], goal_cases)
    case (1 r s1)
    then show ?case
    proof (cases r)
      case (Inr v)
      with 1 stored [of _ v s1] show ?thesis by simp
    qed simp
  qed
qed (use assms(2) in auto)

end

text \<open>The memory cache provides the interface.\<close>

lemma Load_hit:
  assumes "cache_ready R r s" and "entries R r s key = Some v"
  shows "\<exists>s'. Load R r key f s = (Ret (Inr v), s') \<and> same_but_cell r s s' \<and> cache_ready R r s' \<and>
    entries R r s' = entries R r s"
  using Load_cases [OF assms(1), of key f] assms(2) by (metis option.simps(5))

lemma Load_miss:
  assumes "cache_ready R r s" and "entries R r s key = None"
  shows "\<exists>s0. same_but_cell r s s0 \<and> cache_ready R r s0 \<and> entries R r s0 = entries R r s \<and>
    Load R r key f s = tryG f (\<lambda>err. returnG (Inl err)) (\<lambda>v. add_entry R r key v) s0"
  using Load_cases [OF assms(1), of key f] assms(2) by (metis option.simps(4))

interpretation memory_cache: digest_object_cache "Load R r" "entries R r" "cache_ready R r" "same_but_cell r"
  for R r
proof
  fix s key v f assume "cache_ready R r s" "entries R r s key = Some v"
  then show "\<exists>s'. Load R r key f s = (Ret (Inr v), s') \<and> same_but_cell r s s' \<and> cache_ready R r s' \<and>
      entries R r s' = entries R r s" by (rule Load_hit)
next
  fix s key f assume "cache_ready R r s" "entries R r s key = None"
  from Load_miss [OF this, of f] obtain s0 where "same_but_cell r s s0" "cache_ready R r s0"
      "entries R r s0 = entries R r s"
    and "Load R r key f s = tryG f (\<lambda>err. returnG (Inl err)) (\<lambda>v. add_entry R r key v) s0" by blast
  then show "\<exists>s0. same_but_cell r s s0 \<and> cache_ready R r s0 \<and> entries R r s0 = entries R r s \<and>
        (\<forall>p s1. f s0 = (Panic p, s1) \<longrightarrow> Load R r key f s = (Panic p, s1)) \<and>
        (\<forall>e s1. f s0 = (Ret (Inl e), s1) \<longrightarrow> Load R r key f s = (Ret (Inl e), s1)) \<and>
        (\<forall>v s1. f s0 = (Ret (Inr v), s1) \<and> cache_ready R r s1 \<longrightarrow>
          (\<exists>s2. Load R r key f s = (Ret (Inr v), s2) \<and> same_but_cell r s1 s2 \<and> cache_ready R r s2 \<and>
            entries R r s2 key = Some v \<and>
            (\<forall>j. j \<noteq> key \<longrightarrow> entries R r s2 j \<in> {entries R r s1 j, None})))"
    using add_entry_ready [of R r _ key]
    by (intro exI [of _ s0]) (simp add: tryG_def bindG_def returnG_def)
qed


section \<open>Partial correctness\<close>

text \<open>
  Whatever the pointer and the cache are, a look-up that returns gives a held value, or what the
  fallback gives, and touches nothing but the cell besides.
\<close>

locale object_cache =
  fixes load :: "'k \<Rightarrow> ('s, goerr + 'v) go \<Rightarrow> ('s, goerr + 'v) go"
    and held :: "'s \<Rightarrow> 'k \<rightharpoonup> 'v"
    and usable :: "'s \<Rightarrow> bool"
    and same :: "'s \<Rightarrow> 's \<Rightarrow> bool"
  assumes load_partial: "usable s \<Longrightarrow>
      (\<And>v s'. held s key = Some v \<Longrightarrow> same s s' \<Longrightarrow> Q (Inr v) s') \<Longrightarrow>
      (\<And>s0. same s s0 \<Longrightarrow> postG f s0 (\<lambda>r s1. case r of Inl e \<Rightarrow> Q (Inl e) s1
        | Inr v \<Rightarrow> \<forall>s2. same s1 s2 \<longrightarrow> Q (Inr v) s2)) \<Longrightarrow>
      postG (load key f) s Q"

lemma same_refl: "ref_laws r \<Longrightarrow> same_but_cell r s s"
  unfolding same_but_cell_def using ref_lawsD(3) by metis

lemma same_set: "same_but_cell r s (set_cell r c s)"
  by (auto simp: same_but_cell_def)

lemma same_trans: "ref_laws r \<Longrightarrow> same_but_cell r s t \<Longrightarrow> same_but_cell r t u \<Longrightarrow> same_but_cell r s u"
  by (auto simp: same_but_cell_def)

lemma postG_modifyMetrics [go_wp]:
  "postG (modifyMetrics r f) s Q =
     Q () (set_cell r ((cell_of r s)\<lparr>cell_metrics := f (cell_metrics (cell_of r s))\<rparr>) s)"
  by (simp add: modifyMetrics_def go_wp)

lemma postG_onLRU [go_wp]:
  "postG (onLRU r f k) s Q = (\<forall>m l. cell_cache (cell_of r s) = Some m \<longrightarrow> mc_cache m = Some l \<longrightarrow>
     postG (k m (fst (f l)))
       (set_cell r ((cell_of r s)\<lparr>cell_cache := Some (m\<lparr>mc_cache := Some (snd (f l))\<rparr>)\<rparr>) s) Q)"
proof (cases "\<exists>m l. cell_cache (cell_of r s) = Some m \<and> mc_cache m = Some l")
  case True
  then obtain m l where m: "cell_cache (cell_of r s) = Some m" "mc_cache m = Some l" by blast
  show ?thesis unfolding postG_def onLRU_run [OF m] using m by simp
next
  case False
  then show ?thesis
    by (auto simp: onLRU_def bindG_def getG_def derefG_def panicG_def postG_def split: option.split)
qed

lemma same_set_left: "ref_laws r \<Longrightarrow> same_but_cell r (set_cell r c s) u \<longleftrightarrow> same_but_cell r s u"
  by (simp add: same_but_cell_def)

lemma same_set_right: "ref_laws r \<Longrightarrow> same_but_cell r s u \<Longrightarrow> same_but_cell r s (set_cell r c u)"
  using same_trans same_set by metis

lemma evict_entries_same:
  assumes "ref_laws r"
  shows "postG (evict_entries r m es) s (\<lambda>_ s'. same_but_cell r s s')"
proof (induction es arbitrary: s)
  case (Cons e es)
  show ?case
    unfolding evict_entries.simps go_wp
    by (cases "mc_onEvict m")
       (simp_all add: go_wp, rule postG_mono [OF Cons], simp add: same_set_left [OF assms] assms)
qed (simp add: go_wp same_refl [OF assms])

lemma add_entry_same:
  assumes "ref_laws r"
  shows "postG (add_entry R r key v) s (\<lambda>res s'. res = Inr v \<and> same_but_cell r s s')"
  unfolding add_entry_def
  by (auto simp: go_wp same_set_left [OF assms] intro!: postG_mono [OF evict_entries_same [OF assms]]
      same_set_right [OF assms])

lemma look_up_partial:
  assumes r: "ref_laws r" and s: "same_but_cell r s t"
    and hit: "\<And>m l v s'. cell_cache (cell_of r t) = Some m \<Longrightarrow> mc_cache m = Some l \<Longrightarrow>
      fst (lru_Get R l key) = Some v \<Longrightarrow> same_but_cell r s s' \<Longrightarrow> Q (Inr v) s'"
    and miss: "\<And>s0. same_but_cell r s s0 \<Longrightarrow> postG f s0 (\<lambda>x s1. case x of Inl e \<Rightarrow> Q (Inl e) s1
        | Inr v \<Rightarrow> \<forall>s2. same_but_cell r s1 s2 \<longrightarrow> Q (Inr v) s2)"
  shows "postG (look_up R r key f) t Q"
proof -
  have cells: "same_but_cell r s (set_cell r c t)" for c
    using same_trans [OF r s same_set] .
  show ?thesis
    unfolding look_up_def postG_onLRU
  proof (intro allI impI, goal_cases)
    case (1 m l)
    show ?case
    proof (cases "fst (lru_Get R l key)")
      case (Some v)
      with 1 r cells show ?thesis by (simp add: go_wp hit)
    next
      case None
      with r cells show ?thesis
        by (auto simp: go_wp split: sum.split intro!: postG_mono [OF miss] postG_mono [OF add_entry_same [OF r]])
    qed
  qed
qed

lemma Load_partial:
  assumes r: "ref_laws r" and R: "sized_lru_contract R"
    and hit: "\<And>v s'. entries R r s key = Some v \<Longrightarrow> same_but_cell r s s' \<Longrightarrow> Q (Inr v) s'"
    and miss: "\<And>s0. same_but_cell r s s0 \<Longrightarrow> postG f s0 (\<lambda>x s1. case x of Inl e \<Rightarrow> Q (Inl e) s1
        | Inr v \<Rightarrow> \<forall>s2. same_but_cell r s1 s2 \<longrightarrow> Q (Inr v) s2)"
  shows "postG (Load R r key f) s Q"
proof -
  have new: "fst (lru_Get R (lru_New R n) key) = None" for n
    using R unfolding sized_lru_contract_def lru_contract_def by blast
  have fresh: "postG (look_up R r key f) (set_cell r
      ((cell_of r s)\<lparr>cell_cache := Some (NewMemoryDigestObjectCache R ''default'' n b)\<rparr>) s) Q" for n b
    by (rule look_up_partial [OF r same_set _ miss])
       (use r new in \<open>auto simp: NewMemoryDigestObjectCache_def\<close>)
  have "postG (look_up R r key f) s Q"
    by (rule look_up_partial [OF r same_refl [OF r] _ miss]) (auto intro!: hit simp: entries_def)
  with fresh show ?thesis by (auto simp: Load_def storeCache_def go_wp split: option.split)
qed

interpretation memory_partial: object_cache
  "Load R r" "entries R r" "\<lambda>_. ref_laws r \<and> sized_lru_contract R" "same_but_cell r" for R r
  by unfold_locales (blast intro: Load_partial)

section \<open>Properties\<close>

text \<open>
  The abstract cache is a partial map \<open>M\<close>. A look-up of \<open>key\<close> calls the fallback or not
  (\<open>called\<close>), gives a result, and leaves \<open>M'\<close>, in which other keys may have been dropped.
\<close>

definition cache_spec ::
  "('k \<rightharpoonup> 'v) \<Rightarrow> 'k \<Rightarrow> (goerr + 'v) option \<Rightarrow> goerr + 'v \<Rightarrow> ('k \<rightharpoonup> 'v) \<Rightarrow> bool" where
  "cache_spec M key called res M' \<longleftrightarrow>
     (case called of
        None \<Rightarrow> (\<exists>v. M key = Some v \<and> res = Inr v \<and> M' = M)
      | Some (Inl e) \<Rightarrow> M key = None \<and> res = Inl e \<and> M' = M
      | Some (Inr v) \<Rightarrow> M key = None \<and> res = Inr v \<and> M' key = Some v \<and>
          (\<forall>j. j \<noteq> key \<longrightarrow> M' j \<in> {M j, None}))"

text \<open>
  C22: \<open>Load\<close> implements the abstract cache. With a fallback that returns and leaves the cache
  alone it returns, the map it holds before and after and its result are related by the
  specification, and outside of the cache the state changes exactly as by the fallback, which is
  run only after a miss.
\<close>

theorem load_refines_map:
  assumes s: "cache_ready R r s"
    and f: "\<And>t. \<exists>x t'. f t = (Ret x, t') \<and> cell_of r t' = cell_of r t"
  shows "\<exists>res s' called. Load R r key f s = (Ret res, s') \<and>
    cache_spec (entries R r s) key called res (entries R r s') \<and> cache_ready R r s' \<and>
    (case called of None \<Rightarrow> same_but_cell r s s'
     | Some x \<Rightarrow> \<exists>s0 s1. same_but_cell r s s0 \<and> f s0 = (Ret x, s1) \<and> same_but_cell r s1 s')"
proof (cases "entries R r s key")
  case (Some v)
  with memory_cache.load_hit [OF s this, of f] show ?thesis
    by (fastforce simp: cache_spec_def intro: exI [of _ None])
next
  case None
  from Load_miss [OF s this, of f] obtain s0 where s0: "same_but_cell r s s0" "cache_ready R r s0"
      "entries R r s0 = entries R r s"
    and run: "Load R r key f s = tryG f (\<lambda>err. returnG (Inl err)) (\<lambda>v. add_entry R r key v) s0" by blast
  obtain x s1 where x: "f s0 = (Ret x, s1)" and "cell_of r s1 = cell_of r s0" using f by blast
  then have s1: "entries R r s1 = entries R r s" "cache_ready R r s1"
    using s0(2,3) by (auto simp: entries_def fun_eq_iff cache_ready_def)
  have r: "ref_laws r" using s by (simp add: cache_ready_def)
  show ?thesis
  proof (cases x)
    case (Inl e)
    have "same_but_cell r s1 s1" using r ref_lawsD(3) unfolding same_but_cell_def by metis
    with Inl x run s0(1) s1 None show ?thesis
      by (intro exI [of _ "Inl e"] exI [of _ s1] exI [of _ "Some x"])
         (auto simp: cache_spec_def tryG_def bindG_def returnG_def)
  next
    case (Inr v)
    obtain s2 where "add_entry R r key v s1 = (Ret (Inr v), s2)" "same_but_cell r s1 s2" "cache_ready R r s2"
        "entries R r s2 key = Some v" "\<forall>j. j \<noteq> key \<longrightarrow> entries R r s2 j \<in> {entries R r s1 j, None}"
      using add_entry_ready [OF s1(2)] by blast
    with Inr x run s0(1) s1 None show ?thesis
      by (intro exI [of _ "Inr v"] exI [of _ s2] exI [of _ "Some x"])
         (auto simp: cache_spec_def tryG_def bindG_def)
  qed
qed

text \<open>
  C23: A look-up panics in two cases only. The pointer is nil: the test for nil is followed by
  an assignment through it. Or a value is added, the cache gives up entries, and it has no
  eviction function, which is so for the cache that \<open>Load\<close> makes for a zero value.
\<close>

theorem load_panics_iff:
  assumes r: "ref_laws r"
    and f: "\<And>t. \<exists>t'. f t = (Ret x, t') \<and> cell_of r t' = cell_of r t"
  shows "(\<exists>p. fst (Load R r key f s) = Panic p) \<longleftrightarrow>
    (case cell_cache (cell_of r s) of
       None \<Rightarrow> True
     | Some m \<Rightarrow> (let m' = if mc_cache m = None
           then NewMemoryDigestObjectCache R ''default'' DefaultMemoryDigestObjectCacheSize False else m;
         (cached, l) = lru_Get R (the (mc_cache m')) key in
         cached = None \<and> (\<exists>v. x = Inr v \<and> fst (lru_Add R l key v) \<noteq> []) \<and> \<not> mc_onEvict m'))"
proof (cases "cell_cache (cell_of r s)")
  case None
  then show ?thesis by (simp add: Load_def go_defs storeCache_def)
next
  case (Some m)
  let ?new = "NewMemoryDigestObjectCache R ''default'' DefaultMemoryDigestObjectCacheSize False"
  note look = look_up_panics [where f = f, OF r _ _ f, of _ _ _ R key]
  have new: "mc_cache ?new = Some (lru_New R DefaultMemoryDigestObjectCacheSize)"
    by (simp add: NewMemoryDigestObjectCache_def)
  show ?thesis
  proof (cases "mc_cache m")
    case N: None
    have "Load R r key f s = look_up R r key f (set_cell r ((cell_of r s)\<lparr>cell_cache := Some ?new\<rparr>) s)"
      using Some N by (simp add: Load_def bindG_def getG_def storeCache_run)
    then show ?thesis using look [OF _ new, of "set_cell r ((cell_of r s)\<lparr>cell_cache := Some ?new\<rparr>) s"] Some N new r
      by (simp add: case_prod_beta Let_def)
  next
    case (Some l)
    have "Load R r key f s = look_up R r key f s"
      using \<open>cell_cache (cell_of r s) = Some m\<close> Some by (simp add: Load_def bindG_def getG_def)
    then show ?thesis
      using look [OF \<open>cell_cache (cell_of r s) = Some m\<close> Some] \<open>cell_cache (cell_of r s) = Some m\<close> Some
      by (simp add: case_prod_beta Let_def)
  qed
qed


section \<open>Witnesses\<close>

definition sample_sized_lru :: "(nat \<times> ('k \<times> 'v) list, 'k, 'v) sized_lru_lib" where
  "sample_sized_lru = \<lparr>lru_New = lru_New sample_lru, lru_Get = lru_Get sample_lru, lru_Add = lru_Add sample_lru,
     lru_Clear = lru_Clear sample_lru, lru_Len = (\<lambda>l. length (snd l))\<rparr>"

lemma sample_sized_lru_contract: "sized_lru_contract sample_sized_lru"
  using sample_lru_contract unfolding sized_lru_contract_def lru_contract_def
  by (simp add: sample_sized_lru_def) (simp add: sample_lru_def)

text \<open>A state that holds the cell and a number; the fallback increments the number.\<close>

definition pair_ref :: "('l cache_cell \<times> nat, 'l) cell_ref" where
  "pair_ref = \<lparr>cell_of = fst, set_cell = (\<lambda>c s. (c, snd s))\<rparr>"

definition full_cell :: "bool \<Rightarrow> (nat \<times> (string \<times> nat) list) cache_cell" where
  "full_cell onEvict = \<lparr>cell_cache = Some \<lparr>mc_name = ''cache'', mc_cache = Some (1, [(''a'', 7)]),
     mc_evict_name = ''cache'', mc_onEvict = onEvict\<rparr>,
     cell_metrics = \<lparr>objectCacheSize = (\<lambda>_. 1), missCount = (\<lambda>_. 1), hitCount = (\<lambda>_. 0), evictCount = (\<lambda>_. 0)\<rparr>\<rparr>"

definition sample_fallback :: "('l cache_cell \<times> nat, goerr + nat) go" where
  "sample_fallback s = (Ret (Inr 5), (fst s, Suc (snd s)))"

lemma pair_ref_laws: "ref_laws pair_ref"
  by (simp add: ref_laws_def pair_ref_def)

theorem load_refines_map_witness:
  "\<exists>res s' called. Load sample_sized_lru pair_ref ''b'' sample_fallback (full_cell True, 0) = (Ret res, s') \<and>
     cache_spec (entries sample_sized_lru pair_ref (full_cell True, 0)) ''b'' called res
       (entries sample_sized_lru pair_ref s')"
proof -
  have "cache_ready sample_sized_lru pair_ref (full_cell True, 0)"
    using pair_ref_laws sample_sized_lru_contract by (simp add: cache_ready_def pair_ref_def full_cell_def)
  moreover have "\<exists>x t'. sample_fallback t = (Ret x, t') \<and> cell_of pair_ref t' = cell_of pair_ref t"
    for t :: "(nat \<times> (string \<times> nat) list) cache_cell \<times> nat"
    by (simp add: sample_fallback_def pair_ref_def)
  ultimately show ?thesis
    using load_refines_map [of sample_sized_lru pair_ref "(full_cell True, 0)" sample_fallback "''b''"] by blast
qed

theorem load_panics_iff_witness:
  "\<exists>p. fst (Load sample_sized_lru pair_ref ''b'' sample_fallback (full_cell False, 0)) = Panic p"
proof -
  have f: "\<exists>t'. sample_fallback t = (Ret (Inr 5), t') \<and> cell_of pair_ref t' = cell_of pair_ref t"
    for t :: "(nat \<times> (string \<times> nat) list) cache_cell \<times> nat"
    by (simp add: sample_fallback_def pair_ref_def)
  show ?thesis unfolding load_panics_iff [OF pair_ref_laws f]
    by (simp add: pair_ref_def full_cell_def sample_sized_lru_def sample_lru_def Let_def)
qed

end
