(* ===== verification/InformerManager.thy ===== *)
theory InformerManager
  imports Client
begin

text \<open>
  \<open>internal/controller/deployer/dynamic\<close>: the manager of dynamic informers. Its state are the
  active watch tasks, the two channels of requests, the queue events are sent to, and the
  metrics; the cache of informers is the parameter \<open>informer_lib\<close>. A worker handles a
  registration in two steps (the look-up and the rest), since the lock of the task map is not
  held in between; the other operations are one step each.
\<close>

section \<open>Objects and keys\<close>

text \<open>A \<open>client.Object\<close> as the deployer handles it: kind, metadata, and the rest of its content.\<close>

record KObject =
  ko_GVK :: GroupVersionKind
  ko_Meta :: ObjectMeta
  ko_Body :: string

record watchTaskKey =
  wk_parent :: GroupVersionKind
  wk_gvk :: GroupVersionKind
  wk_namespace :: string

record watchTask =
  wt_informer :: nat
  wt_registration :: nat

definition task_key :: "KObject \<Rightarrow> KObject \<Rightarrow> watchTaskKey" where
  "task_key parent child = \<lparr>wk_parent = ko_GVK parent, wk_gvk = ko_GVK child,
     wk_namespace = om_Namespace (ko_Meta child)\<rparr>"

text \<open>\<open>GroupVersionKind.String\<close>.\<close>

definition gvk_String :: "GroupVersionKind \<Rightarrow> string" where
  "gvk_String g = gvk_Group g @ ''/'' @ gvk_Version g @
     '', Kind='' @ gvk_Kind g"

text \<open>\<open>Event\<close>: a parent and a child.\<close>

record watch_event =
  we_Parent :: KObject
  we_Child :: KObject

section \<open>State\<close>

record 'w informer_lib =
  GetInformer :: "KObject \<Rightarrow> ('w, goerr + nat) ext"
  AddEventHandler :: "nat \<Rightarrow> ('w, goerr + nat) ext"
  RemoveEventHandler :: "nat \<Rightarrow> nat \<Rightarrow> ('w, goerr option) ext"
  RemoveInformer :: "GroupVersionKind \<Rightarrow> ('w, goerr option) ext"
  informer_IsStopped :: "nat \<Rightarrow> 'w \<Rightarrow> bool"
  informer_HasSynced :: "nat \<Rightarrow> 'w \<Rightarrow> bool"
  registration_HasSynced :: "nat \<Rightarrow> 'w \<Rightarrow> bool"
  handle_event :: "string \<Rightarrow> KObject \<Rightarrow> nat \<Rightarrow> ('w, unit) ext"

text \<open>
  The task map is an association list with distinct keys, in the order in which \<open>Range\<close> visits
  it. A channel is the list of what is buffered; \<open>im_inflight\<close> are the registrations whose
  worker has looked up the key and not finished.
\<close>

record 'w manager =
  im_workers :: nat
  im_shutdownTimeout :: int
  im_tasks :: "(watchTaskKey \<times> watchTask) list"
  im_register :: "watch_event list"
  im_unregister :: "watch_event list"
  im_closed :: bool
  im_queue :: "nat option"
  im_activeTasks :: int
  im_registerTotal :: "watchTaskKey list"
  im_unregisterTotal :: "watchTaskKey list"
  im_eventCount :: "string list"
  im_inflight :: "watch_event list"
  im_world :: 'w

section \<open>Construction\<close>

definition DefaultShutdownTimeout :: int where
  "DefaultShutdownTimeout = 30 * 10 ^ 9"

record Options =
  opt_RESTMapper :: "nat option"
  opt_Workers :: int
  opt_ShutdownTimeout :: int

text \<open>
  \<open>newMapper\<close> is \<open>apiutil.NewDynamicRESTMapper\<close>, \<open>newCache\<close> the constructor of the metadata cache.
\<close>

definition NewInformerManager ::
  "(goerr + nat) \<Rightarrow> (nat \<Rightarrow> goerr option) \<Rightarrow> Options \<Rightarrow> 'w \<Rightarrow> goerr + 'w manager" where
  "NewInformerManager newMapper newCache opts w =
     (case (case opt_RESTMapper opts of
              Some mapper \<Rightarrow> Inr mapper
            | None \<Rightarrow> (case newMapper of
                 Inl err \<Rightarrow> Inl (Errorf ''failed to create REST mapper'' err)
               | Inr mapper \<Rightarrow> Inr mapper)) of
        Inl err \<Rightarrow> Inl err
      | Inr mapper \<Rightarrow>
          (case newCache mapper of
             Some err \<Rightarrow> Inl (Errorf ''failed to create cache'' err)
           | None \<Rightarrow> Inr
              \<lparr>im_workers = (if opt_Workers opts > 0 then nat (opt_Workers opts) else 1),
               im_shutdownTimeout = (if opt_ShutdownTimeout opts \<le> 0 then DefaultShutdownTimeout
                  else opt_ShutdownTimeout opts),
               im_tasks = [], im_register = [], im_unregister = [], im_closed = False,
               im_queue = None, im_activeTasks = 0, im_registerTotal = [], im_unregisterTotal = [],
               im_eventCount = [], im_inflight = [], im_world = w\<rparr>))"

definition SetQueue :: "nat \<Rightarrow> ('w manager, goerr option) go" where
  "SetQueue queue =
     bindG (getG im_queue) (\<lambda>q.
       if q \<noteq> None then returnG (Some (ErrorString ''another queue is already registered''))
       else thenG (modifyG (\<lambda>m. m\<lparr>im_queue := Some queue\<rparr>)) (returnG None))"

section \<open>Queries\<close>

definition getTask :: "'w manager \<Rightarrow> KObject \<Rightarrow> KObject \<Rightarrow> (watchTaskKey \<times> watchTask) option" where
  "getTask m parent child =
     (case map_of (im_tasks m) (task_key parent child) of
        None \<Rightarrow> None | Some t \<Rightarrow> Some (task_key parent child, t))"

definition IsStopped :: "'w informer_lib \<Rightarrow> 'w manager \<Rightarrow> KObject \<Rightarrow> KObject \<Rightarrow> bool" where
  "IsStopped I m parent child =
     (case getTask m parent child of
        None \<Rightarrow> False | Some (k, t) \<Rightarrow> informer_IsStopped I (wt_informer t) (im_world m))"

definition HasSynced :: "'w informer_lib \<Rightarrow> 'w manager \<Rightarrow> KObject \<Rightarrow> KObject \<Rightarrow> bool" where
  "HasSynced I m parent child =
     (case getTask m parent child of
        None \<Rightarrow> False
      | Some (k, t) \<Rightarrow> informer_HasSynced I (wt_informer t) (im_world m) \<and>
          registration_HasSynced I (wt_registration t) (im_world m))"

definition PartialObject :: "GroupVersionKind \<Rightarrow> string \<Rightarrow> KObject" where
  "PartialObject gvk ns =
     \<lparr>ko_GVK = gvk, ko_Meta = ObjectMeta_zero\<lparr>om_Namespace := ns\<rparr>, ko_Body = []\<rparr>"

definition ActiveForParent :: "'w manager \<Rightarrow> KObject \<Rightarrow> KObject list" where
  "ActiveForParent m parent =
     map (\<lambda>(k, _). PartialObject (wk_gvk k) (wk_namespace k))
       (filter (\<lambda>(k, _). wk_parent k = ko_GVK parent) (im_tasks m))"

section \<open>Events\<close>

text \<open>The three functions of the event handler: an event before \<open>SetQueue\<close> is dropped.\<close>

definition deliver :: "'w informer_lib \<Rightarrow> string \<Rightarrow> KObject \<Rightarrow> 'w manager \<Rightarrow> 'w manager" where
  "deliver I label child m =
     (case im_queue m of
        None \<Rightarrow> m
      | Some queue \<Rightarrow> m\<lparr>im_eventCount := label # im_eventCount m,
          im_world := snd (handle_event I label child queue (im_world m))\<rparr>)"

section \<open>Registration\<close>

text \<open>A call of the cache on the world of the manager.\<close>

definition onCache :: "('w, 'a) ext \<Rightarrow> ('w manager, 'a) go" where
  [go_defs]: "onCache f = (\<lambda>m. (Ret (fst (f (im_world m))), m\<lparr>im_world := snd (f (im_world m))\<rparr>))"

lemma postG_onCache [go_wp]:
  "postG (onCache f) m Q = Q (fst (f (im_world m))) (m\<lparr>im_world := snd (f (im_world m))\<rparr>)"
  by (simp add: postG_def onCache_def)

lemma invG_onCache [go_inv]: "(\<And>m w. P m \<Longrightarrow> P (m\<lparr>im_world := w\<rparr>)) \<Longrightarrow> invG P (onCache f)"
  by (simp add: invG_def onCache_def)

text \<open>\<open>sync.Map.Store\<close> and \<open>Delete\<close>.\<close>

definition store_task ::
  "watchTaskKey \<Rightarrow> watchTask \<Rightarrow> (watchTaskKey \<times> watchTask) list \<Rightarrow> (watchTaskKey \<times> watchTask) list" where
  "store_task k t ts =
     (if map_of ts k = None then ts @ [(k, t)]
      else map (\<lambda>(j, u). (j, if j = k then t else u)) ts)"

definition delete_task ::
  "watchTaskKey \<Rightarrow> (watchTaskKey \<times> watchTask) list \<Rightarrow> (watchTaskKey \<times> watchTask) list" where
  "delete_task k ts = filter (\<lambda>(j, u). j \<noteq> k) ts"

text \<open>The part of \<open>Register\<close> after the look-up.\<close>

definition register_rest ::
  "'w informer_lib \<Rightarrow> KObject \<Rightarrow> KObject \<Rightarrow> ('w manager, goerr option) go" where
  "register_rest I parent child =
     (let k = task_key parent child; name = om_Name (ko_Meta child) in
      tryG (onCache (GetInformer I child))
        (\<lambda>err. returnG (Some (Errorf (''failed to get informer for '' @ name) err)))
      (\<lambda>inf. tryG (onCache (AddEventHandler I inf))
        (\<lambda>err. returnG (Some (Errorf (''failed to add event handler for '' @ name) err)))
      (\<lambda>reg. thenG (modifyG (\<lambda>m. m\<lparr>im_tasks := store_task k \<lparr>wt_informer = inf, wt_registration = reg\<rparr>
                                      (im_tasks m)\<rparr>))
       (thenG (modifyG (\<lambda>m. m\<lparr>im_activeTasks := im_activeTasks m + 1\<rparr>))
       (thenG (modifyG (\<lambda>m. m\<lparr>im_registerTotal := k # im_registerTotal m\<rparr>))
       (returnG None))))))"

definition Register ::
  "'w informer_lib \<Rightarrow> KObject \<Rightarrow> KObject \<Rightarrow> ('w manager, goerr option) go" where
  "Register I parent child =
     bindG (getG (\<lambda>m. map_of (im_tasks m) (task_key parent child))) (\<lambda>t.
       if t \<noteq> None then returnG None else register_rest I parent child)"

section \<open>Stopping a watch\<close>

definition other_parent :: "watchTaskKey \<Rightarrow> watchTaskKey \<Rightarrow> bool" where
  "other_parent k existing \<longleftrightarrow> wk_gvk existing = wk_gvk k \<and>
     wk_namespace existing = wk_namespace k \<and> wk_parent existing \<noteq> wk_parent k"

definition isLastWatch :: "watchTaskKey \<Rightarrow> (watchTaskKey \<times> watchTask) list \<Rightarrow> bool" where
  "isLastWatch k ts \<longleftrightarrow> \<not> list_ex (\<lambda>(ek, _). other_parent k ek) ts"

definition stopTask ::
  "'w informer_lib \<Rightarrow> watchTaskKey \<Rightarrow> watchTask \<Rightarrow> ('w manager, goerr option) go" where
  "stopTask I k t =
     bindG (getG (\<lambda>m. isLastWatch k (im_tasks m))) (\<lambda>last.
       if \<not> last then returnG None
       else checkG (onCache (RemoveEventHandler I (wt_informer t) (wt_registration t)))
         (\<lambda>err. returnG (Some (Errorf (''failed to remove event handler for '' @ gvk_String (wk_gvk k)) err)))
       (checkG (onCache (RemoveInformer I (wk_gvk k)))
         (\<lambda>err. returnG (Some (Errorf (''failed to remove informer for '' @ gvk_String (wk_gvk k)) err)))
       (thenG (modifyG (\<lambda>m. m\<lparr>im_tasks := delete_task k (im_tasks m)\<rparr>))
       (thenG (modifyG (\<lambda>m. m\<lparr>im_activeTasks := im_activeTasks m - 1\<rparr>))
       (returnG None)))))"

definition Unregister ::
  "'w informer_lib \<Rightarrow> KObject \<Rightarrow> KObject \<Rightarrow> ('w manager, goerr option) go" where
  "Unregister I parent child =
     bindG (getG (\<lambda>m. getTask m parent child)) (\<lambda>r.
       case r of
         None \<Rightarrow> returnG None
       | Some (k, task) \<Rightarrow>
           checkG (stopTask I k task)
             (\<lambda>err. returnG (Some (Errorf (''failed to stop task for '' @ om_Name (ko_Meta child)) err)))
           (thenG (modifyG (\<lambda>m. m\<lparr>im_unregisterTotal := k # im_unregisterTotal m\<rparr>))
           (returnG None)))"

fun stop_all ::
  "'w informer_lib \<Rightarrow> (watchTaskKey \<times> watchTask) list \<Rightarrow> goerr option \<Rightarrow> ('w manager, goerr option) go" where
  "stop_all I [] err = returnG err"
| "stop_all I ((k, t) # ts) err =
     bindG (stopTask I k t) (\<lambda>e. stop_all I ts (errors_Join [err, e]))"

text \<open>Closing a closed channel panics.\<close>

definition GracefulShutdown :: "'w informer_lib \<Rightarrow> ('w manager, goerr option) go" where
  "GracefulShutdown I =
     bindG (getG im_tasks) (\<lambda>ts.
     bindG (stop_all I ts None) (\<lambda>err.
     thenG (modifyG (\<lambda>m. m\<lparr>im_queue := None\<rparr>))
     (bindG (getG im_closed) (\<lambda>closed.
      if closed then panicG ''close of closed channel''
      else thenG (modifyG (\<lambda>m. m\<lparr>im_closed := True\<rparr>)) (returnG err)))))"

section \<open>The workers\<close>

text \<open>
  What can happen next: a request is sent, a worker takes one and finishes it, a queue is bound,
  the environment changes. A worker that looked up a key it did not find is in flight until it
  has stored its task; at most \<open>im_workers\<close> are.
\<close>

inductive manager_step :: "'w informer_lib \<Rightarrow> 'w manager \<Rightarrow> 'w manager \<Rightarrow> bool" for I where
  send_register: "manager_step I m (m\<lparr>im_register := im_register m @ [e]\<rparr>)"
| send_unregister: "manager_step I m (m\<lparr>im_unregister := im_unregister m @ [e]\<rparr>)"
| take_known: "im_register m = e # es \<Longrightarrow>
    map_of (im_tasks m) (task_key (we_Parent e) (we_Child e)) \<noteq> None \<Longrightarrow>
    length (im_inflight m) < im_workers m \<Longrightarrow>
    manager_step I m (m\<lparr>im_register := es\<rparr>)"
| take_unknown: "im_register m = e # es \<Longrightarrow>
    map_of (im_tasks m) (task_key (we_Parent e) (we_Child e)) = None \<Longrightarrow>
    length (im_inflight m) < im_workers m \<Longrightarrow>
    manager_step I m (m\<lparr>im_register := es, im_inflight := im_inflight m @ [e]\<rparr>)"
| finish: "im_inflight m = es @ e # fs \<Longrightarrow>
    register_rest I (we_Parent e) (we_Child e) (m\<lparr>im_inflight := es @ fs\<rparr>) = (r, m') \<Longrightarrow>
    manager_step I m m'"
| unregister: "im_unregister m = e # es \<Longrightarrow> length (im_inflight m) < im_workers m \<Longrightarrow>
    Unregister I (we_Parent e) (we_Child e) (m\<lparr>im_unregister := es\<rparr>) = (r, m') \<Longrightarrow>
    manager_step I m m'"
| bind_queue: "SetQueue q m = (r, m') \<Longrightarrow> manager_step I m m'"
| event: "manager_step I m (deliver I label x m)"
| environment: "manager_step I m (m\<lparr>im_world := w\<rparr>)"

inductive manager_reachable :: "'w informer_lib \<Rightarrow> nat \<Rightarrow> 'w manager \<Rightarrow> bool" for I n where
  init: "NewInformerManager nm nc opts w = Inr m \<Longrightarrow> im_workers m = n \<Longrightarrow> manager_reachable I n m"
| step: "manager_reachable I n m \<Longrightarrow> manager_step I m m' \<Longrightarrow> manager_reachable I n m'"

section \<open>The transformer of the cache\<close>

record PartialObjectMetadata =
  pom_TypeMeta :: TypeMeta
  pom_ObjectMeta :: ObjectMeta

text \<open>\<open>Accessor\<close> and \<open>TypeAccessor\<close> are those of the package \<open>meta\<close>.\<close>

definition TransformPartialObjectMetadata ::
  "('a \<Rightarrow> goerr + ObjectMeta) \<Rightarrow> ('a \<Rightarrow> goerr + TypeMeta) \<Rightarrow> 'a \<Rightarrow> goerr + PartialObjectMetadata" where
  "TransformPartialObjectMetadata Accessor TypeAccessor child =
     (case Accessor child of
        Inl err \<Rightarrow> Inl (Errorf ''unable to access metadata'' err)
      | Inr m \<Rightarrow>
          (case TypeAccessor child of
             Inl err \<Rightarrow> Inl (Errorf ''unable to access type'' err)
           | Inr t \<Rightarrow> Inr
               \<lparr>pom_TypeMeta = \<lparr>tm_Kind = tm_Kind t, tm_APIVersion = tm_APIVersion t\<rparr>,
                pom_ObjectMeta = \<lparr>om_Name = om_Name m, om_GenerateName = om_GenerateName m,
                  om_Namespace = om_Namespace m, om_UID = om_UID m,
                  om_ResourceVersion = om_ResourceVersion m, om_Generation = om_Generation m,
                  om_CreationTimestamp = om_CreationTimestamp m,
                  om_DeletionTimestamp = om_DeletionTimestamp m,
                  om_DeletionGracePeriodSeconds = om_DeletionGracePeriodSeconds m,
                  om_Labels = om_Labels m, om_Annotations = om_Annotations m,
                  om_OwnerReferences = om_OwnerReferences m, om_Finalizers = om_Finalizers m,
                  om_ManagedFields = om_ManagedFields m\<rparr>\<rparr>))"

section \<open>Lemmas\<close>

abbreviation task_keys :: "'w manager \<Rightarrow> watchTaskKey list" where
  "task_keys m \<equiv> map fst (im_tasks m)"

lemma keys_store [simp]:
  "map fst (store_task k t ts) = (if k \<in> set (map fst ts) then map fst ts else map fst ts @ [k])"
proof (cases "map_of ts k")
  case None
  then have "k \<notin> set (map fst ts)" by (simp add: map_of_eq_None_iff)
  with None show ?thesis by (simp add: store_task_def)
next
  case (Some u)
  then have "k \<in> set (map fst ts)" using map_of_eq_None_iff [of ts k] by simp
  with Some show ?thesis by (simp add: store_task_def comp_def split_beta)
qed

lemma keys_delete [simp]: "map fst (delete_task k ts) = filter (\<lambda>j. j \<noteq> k) (map fst ts)"
  by (induction ts) (auto simp: delete_task_def)

lemma map_of_delete_other: "j \<noteq> k \<Longrightarrow> map_of (delete_task k ts) j = map_of ts j"
  by (induction ts) (auto simp: delete_task_def)

lemma length_delete:
  "distinct (map fst ts) \<Longrightarrow> k \<in> set (map fst ts) \<Longrightarrow> int (length (delete_task k ts)) = int (length ts) - 1"
proof (induction ts)
  case (Cons x ts)
  show ?case
  proof (cases "fst x = k")
    case True
    then have "k \<notin> set (map fst ts)" using Cons.prems(1) by auto
    then have "delete_task k ts = ts" by (force simp: delete_task_def filter_id_conv)
    then show ?thesis using True by (simp add: delete_task_def split_beta)
  next
    case False
    then show ?thesis using Cons by (auto simp: delete_task_def split_beta)
  qed
qed simp

lemma length_store:
  "length (store_task k t ts) = (if k \<in> set (map fst ts) then length ts else Suc (length ts))"
  by (metis keys_store length_append_singleton length_map)

lemma isLastWatch_iff: "isLastWatch k (im_tasks m) \<longleftrightarrow> (\<forall>j \<in> set (task_keys m). \<not> other_parent k j)"
  by (auto simp: isLastWatch_def list_ex_iff)

text \<open>The outcome of \<open>stopTask\<close>: nothing, or the task is gone and counted.\<close>

lemma stopTask_elim:
  assumes run: "stopTask I k t m = (r, m')"
  obtains (not_last) "\<not> isLastWatch k (im_tasks m)" "r = Ret None" "m' = m"
    | (failed) e w where "isLastWatch k (im_tasks m)" "r = Ret (Some e)" "m' = m\<lparr>im_world := w\<rparr>"
    | (stopped) w w' where "isLastWatch k (im_tasks m)" "r = Ret None"
        "RemoveInformer I (wk_gvk k) w = (None, w')"
        "m' = m\<lparr>im_world := w', im_tasks := delete_task k (im_tasks m),
                im_activeTasks := im_activeTasks m - 1\<rparr>"
proof (cases "isLastWatch k (im_tasks m)")
  case False
  then have "r = Ret None" "m' = m" using run by (simp_all add: stopTask_def go_defs)
  with False show ?thesis by (rule not_last)
next
  case True
  obtain e1 w1 where h: "RemoveEventHandler I (wt_informer t) (wt_registration t) (im_world m) = (e1, w1)"
    by force
  obtain e2 w2 where i: "RemoveInformer I (wk_gvk k) w1 = (e2, w2)" by force
  show ?thesis
  proof (cases "e1 = None \<and> e2 = None")
    case True
    then have "r = Ret None" "m' = m\<lparr>im_world := w2, im_tasks := delete_task k (im_tasks m),
        im_activeTasks := im_activeTasks m - 1\<rparr>"
      using run h i \<open>isLastWatch k (im_tasks m)\<close> by (simp_all add: stopTask_def go_defs)
    with i True \<open>isLastWatch k (im_tasks m)\<close> show ?thesis using stopped by blast
  next
    case False
    then have "\<exists>e w. r = Ret (Some e) \<and> m' = m\<lparr>im_world := w\<rparr>"
      using run h i \<open>isLastWatch k (im_tasks m)\<close>
      by (cases e1; cases e2) (auto simp: stopTask_def go_defs)
    then show ?thesis using failed \<open>isLastWatch k (im_tasks m)\<close> by blast
  qed
qed

lemma Unregister_eq:
  "Unregister I parent child m =
     (case map_of (im_tasks m) (task_key parent child) of
        None \<Rightarrow> (Ret None, m)
      | Some t \<Rightarrow>
          (case stopTask I (task_key parent child) t m of
             (Ret None, m') \<Rightarrow> (Ret None,
                m'\<lparr>im_unregisterTotal := task_key parent child # im_unregisterTotal m'\<rparr>)
           | (Ret (Some e), m') \<Rightarrow>
               (Ret (Some (Errorf (''failed to stop task for '' @ om_Name (ko_Meta child)) e)), m')
           | (Panic p, m') \<Rightarrow> (Panic p, m')))"
  by (simp add: Unregister_def getTask_def go_defs split: option.splits prod.splits outcome.splits)

lemma register_rest_elim:
  assumes run: "register_rest I parent child m = (r, m')"
  obtains (failed) e w where "r = Ret (Some e)" "m' = m\<lparr>im_world := w\<rparr>"
    | (stored) t w where "r = Ret None"
        "m' = m\<lparr>im_world := w, im_tasks := store_task (task_key parent child) t (im_tasks m),
           im_activeTasks := im_activeTasks m + 1,
           im_registerTotal := task_key parent child # im_registerTotal m\<rparr>"
proof -
  obtain x w1 where g: "GetInformer I child (im_world m) = (x, w1)" by force
  show ?thesis
  proof (cases x)
    case (Inl e)
    with run g have "\<exists>e w. r = Ret (Some e) \<and> m' = m\<lparr>im_world := w\<rparr>"
      by (auto simp: register_rest_def go_defs Let_def)
    then show ?thesis using failed by blast
  next
    case (Inr inf)
    obtain y w2 where a: "AddEventHandler I inf w1 = (y, w2)" by force
    show ?thesis
    proof (cases y)
      case (Inl e)
      with run g Inr a have "\<exists>e w. r = Ret (Some e) \<and> m' = m\<lparr>im_world := w\<rparr>"
        by (auto simp: register_rest_def go_defs Let_def)
      then show ?thesis using failed by blast
    next
      case (Inr reg)
      with run g \<open>x = Inr inf\<close> a have "r = Ret None"
        "m' = m\<lparr>im_world := w2, im_tasks := store_task (task_key parent child)
             \<lparr>wt_informer = inf, wt_registration = reg\<rparr> (im_tasks m),
           im_activeTasks := im_activeTasks m + 1,
           im_registerTotal := task_key parent child # im_registerTotal m\<rparr>"
        by (simp_all add: register_rest_def go_defs Let_def)
      then show ?thesis by (rule stored)
    qed
  qed
qed

subsection \<open>One worker\<close>

abbreviation event_key :: "watch_event \<Rightarrow> watchTaskKey" where
  "event_key e \<equiv> task_key (we_Parent e) (we_Child e)"

definition single_inv :: "'w manager \<Rightarrow> bool" where
  "single_inv m \<longleftrightarrow> im_workers m = 1 \<and> distinct (task_keys m) \<and>
     im_activeTasks m = int (length (im_tasks m)) \<and>
     (im_inflight m = [] \<or> (\<exists>e. im_inflight m = [e] \<and> event_key e \<notin> set (task_keys m)))"

lemma single_inv_frame:
  "single_inv m \<Longrightarrow> single_inv (m\<lparr>im_world := w\<rparr>)"
  "single_inv m \<Longrightarrow> single_inv (m\<lparr>im_register := r\<rparr>)"
  "single_inv m \<Longrightarrow> single_inv (m\<lparr>im_unregister := r\<rparr>)"
  "single_inv m \<Longrightarrow> single_inv (m\<lparr>im_unregisterTotal := r2\<rparr>)"
  "single_inv m \<Longrightarrow> single_inv (m\<lparr>im_queue := q\<rparr>)"
  "single_inv m \<Longrightarrow> single_inv (deliver I label x m)"
  by (simp_all add: single_inv_def deliver_def split: option.splits)

lemma single_inv_store:
  assumes "single_inv m" and "im_inflight m = es @ e # fs"
    and "register_rest I (we_Parent e) (we_Child e) (m\<lparr>im_inflight := es @ fs\<rparr>) = (r, m')"
  shows "single_inv m'"
proof -
  have one: "es = []" "fs = []" and new: "event_key e \<notin> set (task_keys m)"
    using assms(1,2) by (auto simp: single_inv_def append_eq_Cons_conv Cons_eq_append_conv)
  show ?thesis
    using assms(3)
  proof (cases rule: register_rest_elim)
    case (failed x w)
    then show ?thesis using assms(1) one by (simp add: single_inv_def)
  next
    case (stored t w)
    then show ?thesis using assms(1) one new by (simp add: single_inv_def length_store)
  qed
qed

lemma single_inv_stop:
  assumes "single_inv m" and "im_inflight m = []" and "map_of (im_tasks m) k = Some u"
    and "stopTask I k t m = (r, m')"
  shows "single_inv m'"
  using assms(4)
proof (cases rule: stopTask_elim)
  case (stopped w w')
  have "k \<in> set (task_keys m)" using assms(3) by (metis map_of_eq_None_iff option.discI set_map)
  then show ?thesis using stopped assms(1,2) by (simp add: single_inv_def length_delete)
qed (use assms in \<open>simp_all add: single_inv_frame\<close>)

lemma single_inv_Unregister:
  assumes "single_inv m" and "im_inflight m = []" and "Unregister I parent child m = (r, m')"
  shows "single_inv m'"
proof (cases "map_of (im_tasks m) (task_key parent child)")
  case None
  then show ?thesis using assms by (simp add: Unregister_eq)
next
  case (Some t)
  obtain q m1 where stop: "stopTask I (task_key parent child) t m = (q, m1)" by force
  have "single_inv m1" by (rule single_inv_stop [OF assms(1,2) Some stop])
  then show ?thesis
    using assms(3) Some stop
    by (auto simp: Unregister_eq single_inv_frame split: outcome.splits option.splits)
qed

lemma single_inv_step:
  assumes "manager_step I m m'" and "single_inv m"
  shows "single_inv m'"
  using assms(1)
proof (cases rule: manager_step.cases)
  case (take_unknown e es)
  then show ?thesis using assms(2) by (auto simp: single_inv_def map_of_eq_None_iff)
next
  case (finish es e fs r)
  then show ?thesis using single_inv_store [OF assms(2)] by blast
next
  case (unregister e es r)
  have "im_inflight m = []" using unregister(2) assms(2) by (auto simp: single_inv_def)
  then show ?thesis
    using single_inv_Unregister [OF single_inv_frame(3) [OF assms(2)] _ unregister(3)] by simp
next
  case (bind_queue q r)
  then show ?thesis using assms(2) by (auto simp: SetQueue_def go_defs single_inv_frame split: if_splits)
qed (use assms(2) in \<open>simp_all add: single_inv_frame\<close>)

lemma single_inv_reachable: "manager_reachable I n m \<Longrightarrow> n = 1 \<Longrightarrow> single_inv m"
proof (induction rule: manager_reachable.induct)
  case (init nm nc opts w m)
  then show ?case
    by (auto simp: NewInformerManager_def single_inv_def split: sum.splits option.splits)
next
  case (step m m')
  then show ?case using single_inv_step by blast
qed

subsection \<open>Watches that share a child\<close>

text \<open>A sequence of requests to stop a watch.\<close>

fun unregister_all ::
  "'w informer_lib \<Rightarrow> (KObject \<times> KObject) list \<Rightarrow> 'w manager \<Rightarrow> 'w manager" where
  "unregister_all I [] m = m"
| "unregister_all I ((p, c) # es) m = unregister_all I es (snd (Unregister I p c m))"

lemma other_parent_sym: "other_parent k j \<Longrightarrow> other_parent j k"
  by (auto simp: other_parent_def)

lemma Unregister_keeps_shared:
  assumes "k1 \<in> set (task_keys m)" "k2 \<in> set (task_keys m)" "other_parent k1 k2"
  shows "k1 \<in> set (task_keys (snd (Unregister I p c m))) \<and> k2 \<in> set (task_keys (snd (Unregister I p c m)))"
proof (cases "map_of (im_tasks m) (task_key p c)")
  case None
  then show ?thesis using assms by (simp add: Unregister_eq)
next
  case (Some t)
  obtain r m1 where stop: "stopTask I (task_key p c) t m = (r, m1)" by force
  have shared: "k1 \<noteq> task_key p c \<and> k2 \<noteq> task_key p c" if "isLastWatch (task_key p c) (im_tasks m)"
    using that assms other_parent_sym by (auto simp: isLastWatch_iff)
  have "k1 \<in> set (task_keys m1) \<and> k2 \<in> set (task_keys m1)"
    using stop
  proof (cases rule: stopTask_elim)
    case (stopped w w')
    then show ?thesis using shared assms(1,2) by simp
  qed (use assms(1,2) in simp_all)
  moreover have "task_keys (snd (Unregister I p c m)) = task_keys m1"
    using Some stop by (simp add: Unregister_eq split: outcome.splits option.splits)
  ultimately show ?thesis by simp
qed

lemma stop_all_keys:
  assumes "stop_all I ts err m = (Ret None, m')" and "distinct (map fst ts)"
    and "\<forall>k \<in> set (task_keys m). \<forall>j \<in> set (task_keys m). \<not> other_parent k j"
    and "set (map fst ts) \<subseteq> set (task_keys m)"
  shows "set (task_keys m') = set (task_keys m) - set (map fst ts) \<and> im_closed m' = im_closed m"
  using assms
proof (induction ts arbitrary: err m)
  case Nil
  then show ?case by (simp add: go_defs)
next
  case (Cons x ts)
  obtain k t where x: "x = (k, t)" by force
  obtain r m1 where stop: "stopTask I k t m = (r, m1)" by force
  obtain e where r: "r = Ret e" and next1: "stop_all I ts (errors_Join [err, e]) m1 = (Ret None, m')"
    using Cons.prems(1) stop by (auto simp: x go_defs split: outcome.splits)
  have None_only: "err0 = None" if "stop_all I us err0 m2 = (Ret None, m3)" for us err0 m2 m3
    using that
  proof (induction us arbitrary: err0 m2)
    case (Cons y us)
    then obtain e2 m4 where "stop_all I us (errors_Join [err0, e2]) m4 = (Ret None, m3)"
      by (cases y) (auto simp: go_defs split: prod.splits outcome.splits)
    then have "errors_Join [err0, e2] = None" by (rule Cons.IH)
    then show ?case by simp
  qed (simp add: go_defs)
  have "errors_Join [err, e] = None" by (rule None_only [OF next1])
  then have "e = None" by simp
  have last: "isLastWatch k (im_tasks m)"
    using Cons.prems(3,4) by (auto simp: isLastWatch_iff x)
  have keys: "set (task_keys m1) = set (task_keys m) - {k}" and closed: "im_closed m1 = im_closed m"
    using stop by (cases rule: stopTask_elim; use last r \<open>e = None\<close> in auto)+
  have "set (task_keys m') = set (task_keys m1) - set (map fst ts) \<and> im_closed m' = im_closed m1"
  proof (rule Cons.IH [OF next1])
    show "distinct (map fst ts)" using Cons.prems(2) by simp
    show "\<forall>k \<in> set (task_keys m1). \<forall>j \<in> set (task_keys m1). \<not> other_parent k j"
      using keys Cons.prems(3) by auto
    show "set (map fst ts) \<subseteq> set (task_keys m1)"
      using keys Cons.prems(2,4) by (simp add: x) blast
  qed
  then show ?case using keys closed by (auto simp: x)
qed

section \<open>Properties\<close>

text \<open>
  C36: With one worker, in every reachable state of the manager each watch has one task and the
  gauge of active tasks is the number of tasks.
\<close>

theorem single_worker_gauge:
  assumes "manager_reachable I 1 m"
  shows "im_activeTasks m = int (length (im_tasks m)) \<and> distinct (map fst (im_tasks m))"
  using single_inv_reachable [OF assms] by (simp add: single_inv_def)

text \<open>
  C37: With two workers (the deployer starts one per CPU) two requests for the same watch can
  both miss the task of the other: the event handler is added twice, one registration is lost,
  and the gauge counts two tasks where there is one.
\<close>

theorem register_race:
  fixes I :: "'w informer_lib"
  assumes "\<forall>c w. \<exists>inf w'. GetInformer I c w = (Inr inf, w')"
    and "\<forall>inf w. \<exists>reg w'. AddEventHandler I inf w = (Inr reg, w')"
  shows "\<exists>m. manager_reachable I 2 m \<and> map fst (im_tasks m) = [task_key parent child] \<and>
    im_registerTotal m = [task_key parent child, task_key parent child] \<and> im_activeTasks m = 2"
proof -
  let ?e = "\<lparr>we_Parent = parent, we_Child = child\<rparr>" and ?k = "task_key parent child"
  have stored: "\<exists>t w m'. register_rest I parent child m = (Ret None, m') \<and>
      m' = m\<lparr>im_world := w, im_tasks := store_task ?k t (im_tasks m),
         im_activeTasks := im_activeTasks m + 1, im_registerTotal := ?k # im_registerTotal m\<rparr>" for m
  proof -
    obtain inf w1 where g: "GetInformer I child (im_world m) = (Inr inf, w1)" using assms(1) by blast
    obtain reg w2 where a: "AddEventHandler I inf w1 = (Inr reg, w2)" using assms(2) by blast
    show ?thesis
      by (rule exI [of _ "\<lparr>wt_informer = inf, wt_registration = reg\<rparr>"], rule exI [of _ w2])
         (simp add: register_rest_def go_defs Let_def g a)
  qed
  define m0 :: "'w manager" where "m0 = \<lparr>im_workers = 2, im_shutdownTimeout = DefaultShutdownTimeout, im_tasks = [],
    im_register = [], im_unregister = [], im_closed = False, im_queue = None, im_activeTasks = 0,
    im_registerTotal = [], im_unregisterTotal = [], im_eventCount = [], im_inflight = [],
    im_world = undefined\<rparr>"
  have "NewInformerManager (Inr 0) (\<lambda>_. None)
      \<lparr>opt_RESTMapper = None, opt_Workers = 2, opt_ShutdownTimeout = 0\<rparr> undefined = Inr m0"
    by (simp add: NewInformerManager_def m0_def)
  then have r0: "manager_reachable I 2 m0" by (rule manager_reachable.init) (simp add: m0_def)
  have r1: "manager_reachable I 2 (m0\<lparr>im_register := [?e]\<rparr>)"
    using manager_reachable.step [OF r0 manager_step.send_register [of I m0 ?e]] by (simp add: m0_def)
  have r2: "manager_reachable I 2 (m0\<lparr>im_register := [?e, ?e]\<rparr>)"
    using manager_reachable.step [OF r1 manager_step.send_register [of I _ ?e]] by (simp add: m0_def)
  have r3: "manager_reachable I 2 (m0\<lparr>im_register := [?e], im_inflight := [?e]\<rparr>)"
    using manager_reachable.step [OF r2 manager_step.take_unknown [of _ ?e "[?e]" I]]
    by (simp add: m0_def)
  have r4: "manager_reachable I 2 (m0\<lparr>im_inflight := [?e, ?e]\<rparr>)"
    using manager_reachable.step [OF r3 manager_step.take_unknown [of _ ?e "[]" I]]
    by (simp add: m0_def)
  obtain t5 w5 m5 where f5: "register_rest I parent child (m0\<lparr>im_inflight := [?e]\<rparr>) = (Ret None, m5)"
      and m5: "m5 = m0\<lparr>im_inflight := [?e], im_world := w5, im_tasks := [(?k, t5)],
         im_activeTasks := 1, im_registerTotal := [?k]\<rparr>"
    using stored [of "m0\<lparr>im_inflight := [?e]\<rparr>"] by (auto simp: m0_def store_task_def)
  have r5: "manager_reachable I 2 m5"
    using manager_reachable.step [OF r4 manager_step.finish [of _ "[]" ?e "[?e]" I]] f5 by simp
  obtain t6 w6 m6 where f6: "register_rest I parent child (m5\<lparr>im_inflight := []\<rparr>) = (Ret None, m6)"
      and m6: "m6 = m5\<lparr>im_inflight := [], im_world := w6, im_tasks := [(?k, t6)],
         im_activeTasks := 2, im_registerTotal := [?k, ?k]\<rparr>"
    using stored [of "m5\<lparr>im_inflight := []\<rparr>"] by (auto simp: m5 store_task_def)
  have "manager_reachable I 2 m6"
    using manager_reachable.step [OF r5 manager_step.finish [of _ "[]" ?e "[]" I]] f6 by (simp add: m5)
  then show ?thesis by (auto simp: m6)
qed

text \<open>
  C38: When two parents of different kinds watch the same children, no sequence of requests to
  unregister ever removes either watch: each waits for the other.
\<close>

theorem shared_watch_never_stops:
  assumes "k1 \<in> set (map fst (im_tasks m))" and "k2 \<in> set (map fst (im_tasks m))"
    and "other_parent k1 k2"
  shows "k1 \<in> set (map fst (im_tasks (unregister_all I es m))) \<and>
    k2 \<in> set (map fst (im_tasks (unregister_all I es m)))"
  using assms
proof (induction I es m rule: unregister_all.induct)
  case (2 I p c es m)
  then show ?case using Unregister_keeps_shared [OF 2(2,3,4), of I p c] by simp
qed simp

text \<open>
  Stopping the watch on one namespace stops the informer of the kind, so the watch on
  another namespace is dead although its task stays active. \<open>serves\<close> is the kind an informer
  was made for; the cache stops the informers of a kind when it removes it.
\<close>

theorem unregister_stops_other_namespaces:
  assumes removes: "\<forall>g w w' inf. RemoveInformer I g w = (None, w') \<longrightarrow> serves inf = g \<longrightarrow>
      informer_IsStopped I inf w'"
    and "map_of (im_tasks m) (task_key p c) = Some t1" and "isLastWatch (task_key p c) (im_tasks m)"
    and "map_of (im_tasks m) k2 = Some t2" and "wk_gvk k2 = ko_GVK c"
    and "wk_namespace k2 \<noteq> om_Namespace (ko_Meta c)" and "serves (wt_informer t2) = ko_GVK c"
    and "Unregister I p c m = (Ret None, m')"
  shows "map_of (im_tasks m') k2 = Some t2 \<and> informer_IsStopped I (wt_informer t2) (im_world m')"
proof -
  have other: "k2 \<noteq> task_key p c" using assms(6) by (auto simp: task_key_def)
  obtain r m1 where stop: "stopTask I (task_key p c) t1 m = (r, m1)" by force
  show ?thesis
    using stop
  proof (cases rule: stopTask_elim)
    case (stopped w w')
    then have "informer_IsStopped I (wt_informer t2) w'"
      using removes assms(7) by (auto simp: task_key_def)
    then show ?thesis
      using stopped stop assms(2,4,8) other by (auto simp: Unregister_eq map_of_delete_other)
  qed (use stop assms(2,3,8) in \<open>auto simp: Unregister_eq\<close>)
qed

text \<open>
  When no two parents share a watch, a \<open>GracefulShutdown\<close> without error leaves no task
  and no queue and closes the channels.
\<close>

theorem shutdown_stops_all:
  assumes "distinct (map fst (im_tasks m))"
    and "\<forall>k \<in> set (map fst (im_tasks m)). \<forall>j \<in> set (map fst (im_tasks m)). \<not> other_parent k j"
    and "GracefulShutdown I m = (Ret None, m')"
  shows "im_tasks m' = [] \<and> im_queue m' = None \<and> im_closed m'"
proof -
  obtain e m1 where s: "stop_all I (im_tasks m) None m = (Ret e, m1)" and "e = None"
      and m': "m' = m1\<lparr>im_queue := None, im_closed := True\<rparr>"
    using assms(3) by (auto simp: GracefulShutdown_def go_defs split: prod.splits outcome.splits if_splits)
  have "set (task_keys m1) = {}"
    using stop_all_keys [of I "im_tasks m" None m m1] s \<open>e = None\<close> assms(1,2) by simp
  then show ?thesis using m' by simp
qed

section \<open>Witnesses\<close>

text \<open>A cache that knows config maps only; its world is the list of the kinds it stopped.\<close>

definition sample_gvk :: "string \<Rightarrow> GroupVersionKind" where
  "sample_gvk kind = \<lparr>gvk_Group = [], gvk_Version = ''v1'', gvk_Kind = kind\<rparr>"

definition sample_informers :: "GroupVersionKind list informer_lib" where
  "sample_informers = \<lparr>GetInformer = (\<lambda>c w. (Inr 0, w)), AddEventHandler = (\<lambda>i w. (Inr 7, w)),
     RemoveEventHandler = (\<lambda>i r w. (None, w)), RemoveInformer = (\<lambda>g w. (None, g # w)),
     informer_IsStopped = (\<lambda>i w. sample_gvk ''ConfigMap'' \<in> set w),
     informer_HasSynced = (\<lambda>i w. True), registration_HasSynced = (\<lambda>i w. True),
     handle_event = (\<lambda>l c q w. ((), w))\<rparr>"

definition sample_object :: "string \<Rightarrow> string \<Rightarrow> KObject" where
  "sample_object kind ns = PartialObject (sample_gvk kind) ns"

definition sample_manager :: "(watchTaskKey \<times> watchTask) list \<Rightarrow> GroupVersionKind list manager" where
  "sample_manager ts = \<lparr>im_workers = 1, im_shutdownTimeout = DefaultShutdownTimeout, im_tasks = ts,
    im_register = [], im_unregister = [], im_closed = False, im_queue = None,
    im_activeTasks = int (length ts), im_registerTotal = map fst ts, im_unregisterTotal = [],
    im_eventCount = [], im_inflight = [], im_world = []\<rparr>"

definition sample_task :: "string \<Rightarrow> string \<Rightarrow> watchTaskKey \<times> watchTask" where
  "sample_task parent ns = (task_key (sample_object parent []) (sample_object ''ConfigMap'' ns),
     \<lparr>wt_informer = 0, wt_registration = 7\<rparr>)"

lemmas sample_manager_defs = sample_gvk_def sample_informers_def sample_object_def
  sample_manager_def sample_task_def task_key_def PartialObject_def

theorem single_worker_gauge_witness:
  "im_activeTasks (sample_manager [] \<lparr>im_queue := Some 3\<rparr>) = 0"
proof -
  have "NewInformerManager (Inr 0) (\<lambda>_. None)
      \<lparr>opt_RESTMapper = None, opt_Workers = 0, opt_ShutdownTimeout = 0\<rparr> [] = Inr (sample_manager [])"
    by (simp add: NewInformerManager_def sample_manager_def)
  then have "manager_reachable sample_informers 1 (sample_manager [])"
    by (rule manager_reachable.init) (simp add: sample_manager_def)
  moreover have "SetQueue 3 (sample_manager []) = (Ret None, sample_manager [] \<lparr>im_queue := Some 3\<rparr>)"
    by (simp add: SetQueue_def go_defs sample_manager_def)
  ultimately have "manager_reachable sample_informers 1 (sample_manager [] \<lparr>im_queue := Some 3\<rparr>)"
    using manager_reachable.step manager_step.bind_queue by metis
  from single_worker_gauge [OF this] show ?thesis by (simp add: sample_manager_def)
qed

theorem register_race_witness:
  "\<exists>m. manager_reachable sample_informers 2 m \<and> length (im_tasks m) = 1 \<and> im_activeTasks m = 2"
proof -
  have "\<forall>c w. \<exists>inf w'. GetInformer sample_informers c w = (Inr inf, w')"
    and "\<forall>i w. \<exists>reg w'. AddEventHandler sample_informers i w = (Inr reg, w')"
    by (simp_all add: sample_informers_def)
  from register_race [OF this, of "sample_object ''Deployer'' []" "sample_object ''ConfigMap'' ''a''"]
  show ?thesis by (metis length_map length_Cons list.size(3) One_nat_def)
qed

theorem shared_watch_never_stops_witness:
  "fst (sample_task ''Deployer'' ''a'') \<in> set (map fst (im_tasks (unregister_all sample_informers
     [(sample_object ''Deployer'' [], sample_object ''ConfigMap'' ''a''),
      (sample_object ''Other'' [], sample_object ''ConfigMap'' ''a'')]
     (sample_manager [sample_task ''Deployer'' ''a'', sample_task ''Other'' ''a'']))))"
  using shared_watch_never_stops [of "fst (sample_task ''Deployer'' ''a'')"
      "sample_manager [sample_task ''Deployer'' ''a'', sample_task ''Other'' ''a'']"
      "fst (sample_task ''Other'' ''a'')" sample_informers
      "[(sample_object ''Deployer'' [], sample_object ''ConfigMap'' ''a''),
        (sample_object ''Other'' [], sample_object ''ConfigMap'' ''a'')]"]
  by (simp add: other_parent_def sample_manager_defs)

theorem unregister_stops_other_namespaces_witness:
  "let m = sample_manager [sample_task ''Deployer'' ''a'', sample_task ''Deployer'' ''b''];
       m' = snd (Unregister sample_informers (sample_object ''Deployer'' []) (sample_object ''ConfigMap'' ''a'') m)
   in map_of (im_tasks m') (fst (sample_task ''Deployer'' ''b'')) = Some \<lparr>wt_informer = 0, wt_registration = 7\<rparr> \<and>
      informer_IsStopped sample_informers 0 (im_world m')"
proof -
  let ?m = "sample_manager [sample_task ''Deployer'' ''a'', sample_task ''Deployer'' ''b'']"
  let ?p = "sample_object ''Deployer'' []" and ?c = "sample_object ''ConfigMap'' ''a''"
  let ?m' = "snd (Unregister sample_informers ?p ?c ?m)"
  have "Unregister sample_informers ?p ?c ?m = (Ret None, ?m')"
    by (simp add: Unregister_def getTask_def stopTask_def isLastWatch_def other_parent_def go_defs
        sample_manager_defs)
  then have "map_of (im_tasks ?m') (fst (sample_task ''Deployer'' ''b'')) =
        Some \<lparr>wt_informer = 0, wt_registration = 7\<rparr> \<and>
      informer_IsStopped sample_informers (wt_informer \<lparr>wt_informer = 0, wt_registration = 7\<rparr>) (im_world ?m')"
    by (rule unregister_stops_other_namespaces [where serves = "\<lambda>_. sample_gvk ''ConfigMap''"
          and ?t1.0 = "\<lparr>wt_informer = 0, wt_registration = 7\<rparr>", rotated 7])
       (auto simp: isLastWatch_def other_parent_def sample_manager_defs)
  then show ?thesis by (simp add: Let_def)
qed

theorem shutdown_stops_all_witness:
  "im_tasks (snd (GracefulShutdown sample_informers (sample_manager [sample_task ''Deployer'' ''a'']))) = []"
proof -
  let ?m = "sample_manager [sample_task ''Deployer'' ''a'']"
  have "GracefulShutdown sample_informers ?m = (Ret None, snd (GracefulShutdown sample_informers ?m))"
    by (simp add: GracefulShutdown_def stopTask_def isLastWatch_def other_parent_def go_defs
        sample_manager_defs errors_Join_def)
  from shutdown_stops_all [OF _ _ this] show ?thesis
    by (simp add: sample_manager_defs other_parent_def)
qed

end
