(* ===== verification/ManifestDownload.thy ===== *)
theory ManifestDownload
  imports Controller InformerManager
begin

text \<open>
  The download half of \<open>internal/controller/deployer/deployer_controller.go\<close>: the manifest that a
  resource refers to is fetched through the OCM library, its digest compared with that of the
  resource, and its documents decoded into objects.
\<close>

section \<open>The libraries\<close>

text \<open>The entry of a resource in a component descriptor, with access specifications \<open>'x\<close>.\<close>

record 'x raw_resource =
  raw_Type :: string
  raw_Access :: 'x
  raw_Digest :: "DigestSpec option"

text \<open>
  What the code calls of the OCM library and of the YAML decoder, with accesses \<open>'acc\<close> and
  readers \<open>'r\<close>. \<open>desc_ResourceAt\<close> is \<open>&cd.Resources[cd.GetResourceIndex(meta)]\<close>, with nothing
  when the index is \<open>-1\<close>. \<open>DetermineDigests\<close> gets the type of the resource, the access method
  redirected to the other one, and the requested digester. \<open>yaml_Decode\<close> gives a document, or an
  error, and the reader after it.
\<close>

record ('w, 'd, 'x, 'acc, 'r) manifest_lib =
  desc_ResourceAt :: "'d \<Rightarrow> OCMResourceAccess \<Rightarrow> 'x raw_resource option"
  AccessSpecForSpec :: "OCMContext \<Rightarrow> 'x \<Rightarrow> ('w, goerr + 'acc) ext"
  acc_AccessMethod :: "'acc \<Rightarrow> OCMComponentVersion \<Rightarrow> ('w, goerr + nat) ext"
  DetermineDigests ::
    "OCMContext \<Rightarrow> string \<Rightarrow> nat \<Rightarrow> nat \<Rightarrow> string \<times> string \<Rightarrow> ('w, goerr + DigestSpec list) ext"
  blob_Reader :: "nat \<Rightarrow> ('w, goerr + 'r) ext"
  DigestSpec_String :: "DigestSpec \<Rightarrow> string"
  manifest_Close :: "'r \<Rightarrow> ('w, goerr option) ext"
  yaml_Decode :: "'r \<Rightarrow> ('w, (goerr + KObject) \<times> 'r) ext"

definition io_EOF :: goerr where "io_EOF = Sentinel ''EOF''"

section \<open>Decoding\<close>

text \<open>
  The loop ends with the input, or with a document that cannot be decoded. It may run for ever
  on a decoder that never reports the end; then its value is \<open>None\<close>.
\<close>

partial_function (option) decode_loop ::
  "('w, 'd, 'x, 'acc, 'r) manifest_lib \<Rightarrow> 'r \<Rightarrow> KObject list \<Rightarrow> 'w \<Rightarrow>
   ((goerr + KObject list) \<times> 'w) option" where
  "decode_loop M r objs w =
     (case yaml_Decode M r w of
        ((Inl err, _), w') \<Rightarrow>
          if errors_Is err io_EOF then Some (Inr objs, w')
          else Some (Inl (Errorf ''failed to unmarshal manifest'' err), w')
      | ((Inr x, r'), w') \<Rightarrow> decode_loop M r' (objs @ [x]) w')"

declare decode_loop.simps [code]

definition decodeObjectsFromManifest ::
  "('w, 'd, 'x, 'acc, 'r) manifest_lib \<Rightarrow> 'r \<Rightarrow> ('w, goerr + KObject list) go" where
  "decodeObjectsFromManifest M manifest = (\<lambda>w.
     case decode_loop M manifest [] w of
       None \<Rightarrow> (Panic ''does not return'', w)
     | Some (Inl err, w') \<Rightarrow> (Ret (Inl err), w')
     | Some (Inr objs, w') \<Rightarrow>
         (if objs = [] then (Ret (Inl (ErrorString ''no objects found in  manifest'')), w')
          else (Ret (Inr objs), w')))"

section \<open>Download\<close>

definition deployer_getResource ::
  "('w, 'd) ocm_lib \<Rightarrow> ('w, 'd, 'm) ocm_res_lib \<Rightarrow> ('w, 'd, 'x, 'acc, 'r) manifest_lib \<Rightarrow>
   OCMComponentVersion \<Rightarrow> OCMResourceAccess \<Rightarrow> ('w, goerr + ('r \<times> string)) go" where
  "deployer_getResource OL RL M cv resourceAccess =
     (let octx = cv_GetContext OL cv; fail = (\<lambda>p err. returnG (Inl (Errorf p err))) in
      derefG (desc_ResourceAt M (cv_GetDescriptor OL cv) resourceAccess) (\<lambda>raw.
      case raw_Digest raw of
        None \<Rightarrow> returnG (Inl (ErrorString ''digest not found in resource access''))
      | Some resAccDigest \<Rightarrow>
      tryG (extG (AccessSpecForSpec M octx (raw_Access raw))) (fail ''failed getting access for resource'') (\<lambda>acc.
      tryG (extG (acc_AccessMethod M acc cv)) (fail ''failed getting access method'') (\<lambda>meth.
      tryG (extG (access_AccessMethod RL resourceAccess)) (fail ''failed to create access method'') (\<lambda>accessMethod.
      tryG (extG (DetermineDigests M octx (raw_Type raw) meth accessMethod
             (ds_HashAlgorithm resAccDigest, ds_NormalisationAlgorithm resAccDigest)))
        (fail ''failed determining digest for resource'') (\<lambda>digest.
      tryG (extG (blob_Reader M accessMethod)) (fail ''failed getting resource data'') (\<lambda>data.
      case digest of
        [] \<Rightarrow> panicG ''index out of range''
      | d # _ \<Rightarrow> returnG (Inr (data, DigestSpec_String M d)))))))))"

abbreviation download_fail ::
  "('w, 'e) controller_env \<Rightarrow> Reason \<Rightarrow> string \<Rightarrow> goerr \<Rightarrow> ((Deployer, 'w) rstate, goerr + 'a) go" where
  "download_fail E reason p err \<equiv>
     markNotReady E Deployer_ico reason (Error_msg err) (returnG (Inl (Errorf p err)))"

text \<open>\<open>defer func() { err = errors.Join(err, manifest.Close()) }()\<close>.\<close>

definition closing ::
  "('w, 'd, 'x, 'acc, 'r) manifest_lib \<Rightarrow> 'r \<Rightarrow> (('o, 'w) rstate, goerr + 'a) go \<Rightarrow>
   (('o, 'w) rstate, goerr + 'a) go" where
  "closing M manifest body =
     deferG body
       (\<lambda>r. bindG (callG (manifest_Close M manifest)) (\<lambda>e. returnG (case r of
          Inl err \<Rightarrow> Inl (the (errors_Join [Some err, e]))
        | Inr objs \<Rightarrow> (case errors_Join [None, e] of None \<Rightarrow> Inr objs | Some err \<Rightarrow> Inl err))))
       (Inl (ErrorString []))"

text \<open>From the access of the resource to the objects.\<close>

definition download_manifest ::
  "('w, 'd) controller_env \<Rightarrow> ('w, 'd, 'm) ocm_res_lib \<Rightarrow> ('w, 'd, 'x, 'acc, 'r) manifest_lib \<Rightarrow>
   Resource \<Rightarrow> OCMComponentVersion \<Rightarrow> OCMResourceAccess \<Rightarrow>
   ((Deployer, 'w) rstate, goerr + KObject list) go" where
  "download_manifest E RL M resource cv resourceAccess =
     tryG (liftG (deployer_getResource (ocmlib E) RL M cv resourceAccess))
       (\<lambda>err. download_fail E GetOCMResourceFailedReason ''failed to get  manifest'' err)
     (\<lambda>(manifest, digest). closing M manifest
       (derefG (rss_Resource (res_Status resource)) (\<lambda>info. let expected = ri_Digest info in
        if expected \<noteq> digest
        then markNotReady E Deployer_ico GetOCMResourceFailedReason ''resource digest mismatch''
          (returnG (Inl (ErrorString (''resource digest mismatch: expected '' @ expected @ '', got '' @ digest))))
        else tryG (liftG (decodeObjectsFromManifest M manifest))
          (\<lambda>err. download_fail E MarshalFailedReason ''failed to decode objects'' err)
          (\<lambda>objs. returnG (Inr objs)))))"

text \<open>From the session to the access of the resource.\<close>

definition download_version ::
  "('w, 'd) controller_env \<Rightarrow> ('w, 'd, 'm) ocm_res_lib \<Rightarrow> ('w, 'd, 'x, 'acc, 'r) manifest_lib \<Rightarrow>
   Resource \<Rightarrow> ComponentInfo \<Rightarrow> OCMContext \<Rightarrow> OCMSession \<Rightarrow>
   ((Deployer, 'w) rstate, goerr + KObject list) go" where
  "download_version E RL M resource info octx session =
     derefG (ci_RepositorySpec info) (\<lambda>rspec.
     tryG (callG (RepositorySpecForConfig (ocmlib E) octx (Raw rspec)))
       (\<lambda>err. download_fail E GetComponentVersionFailedReason ''failed to get repository spec'' err)
     (\<lambda>spec. tryG (callG (session_LookupRepository (ocmlib E) session octx spec))
       (\<lambda>err. download_fail E GetComponentVersionFailedReason ''invalid repository spec'' err)
     (\<lambda>repo. tryG (callG (session_LookupComponentVersion (ocmlib E) session repo
             (ci_Component info) (ci_Version info)))
       (\<lambda>err. download_fail E GetComponentVersionFailedReason ''failed to get component version'' err)
     (\<lambda>cv. tryG (liftG (GetResourceAccessForComponentVersion (ocmlib E) RL session cv
            \<lparr>rr_Resource = rr_Resource (ByReference (rsp_Resource (res_Spec resource))),
             rr_ReferencePath = rr_ReferencePath (ByReference (rsp_Resource (res_Spec resource)))\<rparr>
            \<lparr>desc_List = [cv_GetDescriptor (ocmlib E) cv]\<rparr> repo octx (rsp_SkipVerify (res_Spec resource))))
       (\<lambda>err. download_fail E GetOCMResourceFailedReason ''failed to get resource access'' err)
     (\<lambda>(resourceAccess, _). download_manifest E RL M resource cv resourceAccess)))))"

definition DownloadResourceWithOCM ::
  "('w, 'd) controller_env \<Rightarrow> ('w, 'd, 'm) ocm_res_lib \<Rightarrow> ('w, 'd, 'x, 'acc, 'r) manifest_lib \<Rightarrow>
   Resource \<Rightarrow> ((Deployer, 'w) rstate, goerr + KObject list) go" where
  "DownloadResourceWithOCM E RL M resource =
     bindG (getG obj) (\<lambda>deployer.
     tryG (liftG (GetEffectiveConfig (api E) Deployer_crp deployer))
       (\<lambda>err. download_fail E ConfigureContextFailedReason ''failed to get effective config'' err)
     (\<lambda>configs. derefG (rss_Component (res_Status resource)) (\<lambda>info.
     tryG (liftG (getSession E (Some \<lparr>RepositorySpecification = ci_RepositorySpec info,
            OCMConfigurations = configs, opt_VerificationProvider = None\<rparr>)))
       (\<lambda>err. download_fail E ConfigureContextFailedReason ''failed to get session'' err)
     (\<lambda>(octx, session). download_version E RL M resource info octx session))))"


section \<open>Lemmas on decoding\<close>

text \<open>\<open>documents M r w xs w'\<close>: the decoder gives the objects \<open>xs\<close> and then the end of the input.\<close>

inductive documents ::
  "('w, 'd, 'x, 'acc, 'r) manifest_lib \<Rightarrow> 'r \<Rightarrow> 'w \<Rightarrow> KObject list \<Rightarrow> 'w \<Rightarrow> bool" for M where
  at_end: "yaml_Decode M r w = ((Inl err, r'), w') \<Longrightarrow> errors_Is err io_EOF \<Longrightarrow> documents M r w [] w'"
| document: "yaml_Decode M r w = ((Inr x, r'), w') \<Longrightarrow> documents M r' w' xs w'' \<Longrightarrow> documents M r w (x # xs) w''"

inductive_cases documents_NilE: "documents M r w [] w'"
inductive_cases documents_ConsE: "documents M r w (x # xs) w'"

text \<open>A decoder that makes progress: every document it gives leaves less to read.\<close>

definition decoder_progress :: "('w, 'd, 'x, 'acc, 'r) manifest_lib \<Rightarrow> ('r \<Rightarrow> nat) \<Rightarrow> bool" where
  "decoder_progress M unread \<longleftrightarrow>
     (\<forall>r w x r' w'. yaml_Decode M r w = ((Inr x, r'), w') \<longrightarrow> unread r' < unread r)"

lemma decode_loop_total:
  assumes "decoder_progress M unread"
  shows "\<exists>res w'. decode_loop M r objs w = Some (res, w') \<and>
    (\<forall>ys. res = Inr ys \<longrightarrow> (\<exists>xs. ys = objs @ xs \<and> documents M r w xs w' \<and> length xs \<le> unread r))"
proof (induction "unread r" arbitrary: r objs w rule: less_induct)
  case less
  obtain out r1 w1 where d: "yaml_Decode M r w = ((out, r1), w1)" by (metis surj_pair)
  show ?case
  proof (cases out)
    case (Inl err)
    then show ?thesis using d
      by (subst decode_loop.simps) (auto intro: documents.at_end)
  next
    case (Inr x)
    then have "unread r1 < unread r" using assms d unfolding decoder_progress_def by blast
    from less [OF this, of "objs @ [x]" w1] obtain res w2
      where run: "decode_loop M r1 (objs @ [x]) w1 = Some (res, w2)"
        and docs: "\<And>ys. res = Inr ys \<Longrightarrow>
          \<exists>xs. ys = (objs @ [x]) @ xs \<and> documents M r1 w1 xs w2 \<and> length xs \<le> unread r1" by blast
    have "\<exists>xs. ys = objs @ xs \<and> documents M r w xs w2 \<and> length xs \<le> unread r" if res: "res = Inr ys" for ys
    proof -
      obtain xs where "ys = (objs @ [x]) @ xs" "documents M r1 w1 xs w2" "length xs \<le> unread r1"
        using docs [OF res] by blast
      with d Inr \<open>unread r1 < unread r\<close> show ?thesis
        by (intro exI [of _ "x # xs"]) (auto intro: documents.document)
    qed
    with run d Inr show ?thesis by (subst decode_loop.simps) simp
  qed
qed

section \<open>Lemmas on the download\<close>

text \<open>What stays the same of a deployer while only its conditions change.\<close>

definition same_deployer :: "Deployer \<Rightarrow> Deployer \<Rightarrow> bool" where
  "same_deployer x y \<longleftrightarrow> dep_Spec y = dep_Spec x \<and> dep_meta y = dep_meta x \<and>
     dst_Deployed (dep_Status y) = dst_Deployed (dep_Status x) \<and>
     dst_EffectiveOCMConfig (dep_Status y) = dst_EffectiveOCMConfig (dep_Status x)"

lemma same_deployer_refl [simp]: "same_deployer x x"
  by (simp add: same_deployer_def)

lemma deployer_set_conditions [simp]:
  "dep_Spec (ico_SetConditions Deployer_ico cs c) = dep_Spec c"
  "dep_meta (ico_SetConditions Deployer_ico cs c) = dep_meta c"
  "dst_Deployed (dep_Status (ico_SetConditions Deployer_ico cs c)) = dst_Deployed (dep_Status c)"
  "dst_EffectiveOCMConfig (dep_Status (ico_SetConditions Deployer_ico cs c)) = dst_EffectiveOCMConfig (dep_Status c)"
  "dep_Spec (ico_SetObservedGeneration Deployer_ico v c) = dep_Spec c"
  "dep_meta (ico_SetObservedGeneration Deployer_ico v c) = dep_meta c"
  "dst_Deployed (dep_Status (ico_SetObservedGeneration Deployer_ico v c)) = dst_Deployed (dep_Status c)"
  "dst_EffectiveOCMConfig (dep_Status (ico_SetObservedGeneration Deployer_ico v c)) = dst_EffectiveOCMConfig (dep_Status c)"
  by (simp_all add: deployer_method_defs)

lemma same_deployer_marks [simp]:
  "same_deployer x (obj (MarkNotReady L Deployer_ico reason msg s)) = same_deployer x (obj s)"
  "same_deployer x (obj (MarkReady L Deployer_ico msg s)) = same_deployer x (obj s)"
  by (simp_all only: same_deployer_def deployer_object.obj_MarkNotReady deployer_object.obj_MarkReady
      deployer_set_conditions)

text \<open>
  Objects that were decoded from a manifest with this digest, which was fetched through an
  access that was found, and verified unless its resource skips that.
\<close>

definition downloaded ::
  "('w, 'd) controller_env \<Rightarrow> ('w, 'd, 'm) ocm_res_lib \<Rightarrow> ('w, 'd, 'x, 'acc, 'r) manifest_lib \<Rightarrow>
   string \<Rightarrow> KObject list \<Rightarrow> bool" where
  "downloaded E RL M digest objs \<longleftrightarrow>
     (\<exists>session cv ref cds repo octx skip access rcv manifest w1 w2 w3 w4 w5 w6.
       GetResourceAccessForComponentVersion (ocmlib E) RL session cv ref cds repo octx skip w1 =
         (Ret (Inr (access, rcv)), w2) \<and>
       deployer_getResource (ocmlib E) RL M cv access w3 = (Ret (Inr (manifest, digest)), w4) \<and>
       decodeObjectsFromManifest M manifest w5 = (Ret (Inr objs), w6))"

text \<open>The end of a download: the objects, with the deployer untouched, or an error.\<close>

definition download_post ::
  "('w, 'd) controller_env \<Rightarrow> ('w, 'd, 'm) ocm_res_lib \<Rightarrow> ('w, 'd, 'x, 'acc, 'r) manifest_lib \<Rightarrow>
   Resource \<Rightarrow> Deployer \<Rightarrow> goerr + KObject list \<Rightarrow> Deployer \<Rightarrow> bool" where
  "download_post E RL M resource x res y \<longleftrightarrow>
     (case res of
        Inl e \<Rightarrow> same_deployer x y
      | Inr objs \<Rightarrow> y = x \<and> (\<exists>info. rss_Resource (res_Status resource) = Some info \<and>
          downloaded E RL M (ri_Digest info) objs))"

lemma download_manifest_post:
  assumes x: "obj s = x"
    and access: "GetResourceAccessForComponentVersion (ocmlib E) RL session cv ref cds repo octx skip w1 =
         (Ret (Inr (access, rcv)), w2)"
  shows "postG (download_manifest E RL M resource cv access) s
    (\<lambda>res s'. download_post E RL M resource x res (obj s'))"
proof -
  have fetched: "downloaded E RL M digest objs"
    if "deployer_getResource (ocmlib E) RL M cv access w3 = (Ret (Inr (manifest, digest)), w4)"
      "decodeObjectsFromManifest M manifest w5 = (Ret (Inr objs), w6)" for manifest digest objs w3 w4 w5 w6
    using access that unfolding downloaded_def by blast
  show ?thesis
    unfolding download_manifest_def closing_def go_wp
    by (auto simp: go_wp x Let_def download_post_def split: sum.split option.split
        intro!: fetched postG_I [of "deployer_getResource _ _ _ _ _"]
          postG_I [of "decodeObjectsFromManifest _ _"])
qed

lemma DownloadResourceWithOCM_post:
  assumes x: "obj s = x"
  shows "postG (DownloadResourceWithOCM E RL M resource) s
    (\<lambda>res s'. download_post E RL M resource x res (obj s'))"
proof -
  have failed: "download_post E RL M resource x (Inl err) (obj (MarkNotReady (k8s E) Deployer_ico reason msg t))"
    if "obj t = x" for err reason msg t
    using that by (simp add: download_post_def)
  have version: "postG (download_version E RL M resource info octx session) t
      (\<lambda>res s'. download_post E RL M resource x res (obj s'))" if "obj t = x" for info octx session t
    unfolding download_version_def go_wp
    by (auto simp: go_wp that split: sum.split intro!: failed download_manifest_post
        postG_I [of "GetResourceAccessForComponentVersion _ _ _ _ _ _ _ _ _"])
  show ?thesis
    unfolding DownloadResourceWithOCM_def go_wp
    by (auto simp: go_wp x split: sum.split intro!: failed version
        postG_always [of _ "GetEffectiveConfig _ _ _"] postG_always [of _ "getSession E _"])
qed

section \<open>The download returns\<close>

text \<open>
  What it needs of the libraries: a decoder that makes progress, the resource in the descriptor
  of the version, and a digest for the one that was requested.
\<close>

definition manifest_returns :: "('w, 'd, 'x, 'acc, 'r) manifest_lib \<Rightarrow> bool" where
  "manifest_returns M \<longleftrightarrow> (\<exists>unread. decoder_progress M unread) \<and>
     (\<forall>d access. desc_ResourceAt M d access \<noteq> None) \<and>
     (\<forall>octx t m n d w. fst (DetermineDigests M octx t m n d w) \<noteq> Inr [])"

lemma retG_decode:
  assumes "decoder_progress M unread"
  shows "retG anyG (decodeObjectsFromManifest M r) anyG"
  unfolding retG_def decodeObjectsFromManifest_def
proof (intro allI impI)
  fix w
  obtain res w' where "decode_loop M r [] w = Some (res, w')"
    using decode_loop_total [OF assms] by blast
  then show "\<exists>a s'. (case decode_loop M r [] w of None \<Rightarrow> (Panic ''does not return'', w)
      | Some (Inl err, w') \<Rightarrow> (Ret (Inl err), w')
      | Some (Inr objs, w') \<Rightarrow> if objs = [] then (Ret (Inl (ErrorString ''no objects found in  manifest'')), w')
          else (Ret (Inr objs), w')) = (Ret a, s') \<and> anyG s' \<and> anyG a"
    by (simp split: sum.split)
qed

lemma retG_deployer_getResource:
  assumes "manifest_returns M"
  shows "retG anyG (deployer_getResource OL RL M cv access) anyG"
proof -
  have "desc_ResourceAt M d a \<noteq> None" for d a
    using assms by (simp add: manifest_returns_def)
  moreover have "ds \<noteq> []" if "fst (DetermineDigests M octx t m n d w) = Inr ds" for octx t m n d w ds
    using assms that unfolding manifest_returns_def by metis
  ultimately show ?thesis
    unfolding deployer_getResource_def Let_def
    by - (rule retG_ext_result go_ret | (simp; fail) | (blast; fail))+
qed

lemma DownloadResourceWithOCM_returns:
  assumes M: "manifest_returns M" and E: "session_returns E" and res: "filled_resource resource"
  shows "retG anyG (DownloadResourceWithOCM E RL M resource) anyG"
proof -
  obtain unread where unread: "decoder_progress M unread" using M by (auto simp: manifest_returns_def)
  have manifest: "retG anyG (download_manifest E RL M resource cv access) anyG" for cv access
    unfolding download_manifest_def closing_def Let_def
    by (rule retG_deployer_getResource [OF M] retG_decode [OF unread] go_ret
        | (use res in \<open>simp add: filled_resource_def\<close>; fail))+
  have version: "retG anyG (download_version E RL M resource info octx session) anyG"
    if "ci_RepositorySpec info \<noteq> None" for info octx session
    unfolding download_version_def by (rule manifest go_ret | (simp add: that; fail))+
  show ?thesis
    unfolding DownloadResourceWithOCM_def
    by (rule version retG_getSession [OF E] go_ret | (use res in \<open>force simp: filled_resource_def\<close>; fail))+
qed

section \<open>Properties\<close>

text \<open>
  C26: Decoding a manifest terminates when the decoder makes progress. It then gives every
  document of the input in order, and at least one, or an error.
\<close>

theorem decode_terminates:
  assumes "decoder_progress M unread"
  shows "\<exists>res w'. decodeObjectsFromManifest M r w = (Ret res, w') \<and>
    (case res of Inl e \<Rightarrow> True
     | Inr objs \<Rightarrow> objs \<noteq> [] \<and> documents M r w objs w' \<and> length objs \<le> unread r)"
proof -
  obtain res w' where run: "decode_loop M r [] w = Some (res, w')"
    and docs: "\<And>ys. res = Inr ys \<Longrightarrow> documents M r w ys w' \<and> length ys \<le> unread r"
    using decode_loop_total [OF assms, of r "[]" w] by auto
  show ?thesis
  proof (cases res)
    case (Inl e)
    then show ?thesis using run by (simp add: decodeObjectsFromManifest_def)
  next
    case (Inr ys)
    then show ?thesis using run docs by (cases "ys = []") (simp_all add: decodeObjectsFromManifest_def)
  qed
qed


section \<open>Witnesses\<close>

text \<open>A registry with one manifest; a reader is the list of the objects still to be read.\<close>

definition sample_manifests :: "KObject list \<Rightarrow> ('w, 'd, unit, unit, KObject list) manifest_lib" where
  "sample_manifests objs = \<lparr>
     desc_ResourceAt = (\<lambda>d a. Some \<lparr>raw_Type = ''blob'', raw_Access = (), raw_Digest =
       Some \<lparr>ds_HashAlgorithm = ''sha'', ds_NormalisationAlgorithm = ''n'', ds_Value = ''0a''\<rparr>\<rparr>),
     AccessSpecForSpec = (\<lambda>c a w. (Inr (), w)), acc_AccessMethod = (\<lambda>a v w. (Inr 1, w)),
     DetermineDigests = (\<lambda>c t m b r w. (Inr [\<lparr>ds_HashAlgorithm = fst r, ds_NormalisationAlgorithm = snd r,
       ds_Value = ''0a''\<rparr>], w)),
     blob_Reader = (\<lambda>b w. (Inr objs, w)),
     DigestSpec_String = (\<lambda>d. ds_HashAlgorithm d @ '':'' @ ds_Value d @ ''['' @ ds_NormalisationAlgorithm d @ '']''),
     manifest_Close = (\<lambda>r w. (None, w)),
     yaml_Decode = (\<lambda>r w. case r of [] \<Rightarrow> ((Inl io_EOF, []), w) | x # xs \<Rightarrow> ((Inr x, xs), w))\<rparr>"

lemma sample_manifests_progress: "decoder_progress (sample_manifests objs) length"
  by (auto simp: decoder_progress_def sample_manifests_def split: list.splits)

theorem decode_terminates_witness:
  "let M = (sample_manifests [] :: (unit, unit, unit, unit, KObject list) manifest_lib);
       r = [sample_object ''ConfigMap'' ''a'']
   in \<exists>objs. decodeObjectsFromManifest M r () = (Ret (Inr objs), ()) \<and> objs \<noteq> [] \<and> documents M r () objs ()"
proof -
  let ?M = "sample_manifests [] :: (unit, unit, unit, unit, KObject list) manifest_lib"
  have "decodeObjectsFromManifest ?M [sample_object ''ConfigMap'' ''a''] () =
      (Ret (Inr [sample_object ''ConfigMap'' ''a'']), ())"
    by (simp add: decodeObjectsFromManifest_def decode_loop.simps sample_manifests_def io_EOF_def)
  with decode_terminates [where M = ?M, OF sample_manifests_progress, of "[sample_object ''ConfigMap'' ''a'']" "()"]
  show ?thesis by (auto simp: Let_def)
qed

end
