(* ===== verification/Ownership.thy ===== *)
theory Ownership
  imports InformerManager
begin

text \<open>
  \<open>internal/controller/deployer/labels.go\<close>, \<open>annotations.go\<close> and the function \<open>digestSpec\<close>: the
  labels and annotations by which a deployed object tells where it comes from.
\<close>

section \<open>Labels\<close>

definition managedByLabel :: string where "managedByLabel = ''app.kubernetes.io/managed-by''"
definition versionLabel :: string where "versionLabel = ''app.kubernetes.io/version''"
definition partOfLabel :: string where "partOfLabel = ''app.kubernetes.io/part-of''"
definition instanceLabel :: string where "instanceLabel = ''app.kubernetes.io/instance''"
definition nameLabel :: string where "nameLabel = ''app.kubernetes.io/name''"
definition componentLabel :: string where "componentLabel = ''app.kubernetes.io/component''"

definition deployerManager :: string where "deployerManager = ''deployer.delivery.ocm.software''"

text \<open>\<open>validation.LabelValueMaxLength\<close>; a string is its bytes.\<close>

definition LabelValueMaxLength :: nat where "LabelValueMaxLength = 63"

definition limit :: "string \<Rightarrow> string" where
  "limit v = (if length v > LabelValueMaxLength then take LabelValueMaxLength v else v)"

definition ko_setLabels :: "(string \<rightharpoonup> string) \<Rightarrow> KObject \<Rightarrow> KObject" where
  "ko_setLabels m x = x\<lparr>ko_Meta := (ko_Meta x)\<lparr>om_Labels := Some m\<rparr>\<rparr>"

definition ko_setAnnotations :: "(string \<rightharpoonup> string) \<Rightarrow> KObject \<Rightarrow> KObject" where
  "ko_setAnnotations m x = x\<lparr>ko_Meta := (ko_Meta x)\<lparr>om_Annotations := Some m\<rparr>\<rparr>"

text \<open>
  The labels are stored by a deferred function, so after a panic at the nil resource info those
  that were set before it are stored as well.
\<close>

definition setOwnershipLabels :: "Resource \<Rightarrow> Deployer \<Rightarrow> (KObject, unit) go" where
  "setOwnershipLabels resource deployer = (\<lambda>x.
     let existing = (case om_Labels (ko_Meta x) of Some m \<Rightarrow> m | None \<Rightarrow> Map.empty);
         lbls = existing(componentLabel \<mapsto> limit (om_Name (res_meta resource)),
                         nameLabel \<mapsto> limit (om_Name (res_meta resource)))
     in case rss_Resource (res_Status resource) of
          None \<Rightarrow> (Panic ''nil pointer dereference'', ko_setLabels lbls x)
        | Some info \<Rightarrow> (Ret (), ko_setLabels
            (lbls(versionLabel \<mapsto> limit (ri_Version info),
                  instanceLabel \<mapsto> limit (om_UID (res_meta resource)),
                  partOfLabel \<mapsto> limit (om_Name (dep_meta deployer)),
                  managedByLabel \<mapsto> deployerManager)) x))"

section \<open>The digest of a resource as a string\<close>

text \<open>The character classes \<open>[\w\-]\<close>, \<open>[a-fA-F0-9]\<close> and \<open>[\w\/]\<close> of \<open>digestSpecStringPattern\<close>.\<close>

definition char_between :: "char \<Rightarrow> char \<Rightarrow> char \<Rightarrow> bool" where
  "char_between a b c \<longleftrightarrow> (of_char a :: nat) \<le> of_char c \<and> (of_char c :: nat) \<le> of_char b"

definition is_word :: "char \<Rightarrow> bool" where
  "is_word c \<longleftrightarrow> char_between CHR ''0'' CHR ''9'' c \<or> char_between CHR ''A'' CHR ''Z'' c \<or>
     c = CHR ''_'' \<or> char_between CHR ''a'' CHR ''z'' c"

definition is_algo :: "char \<Rightarrow> bool" where "is_algo c \<longleftrightarrow> is_word c \<or> c = CHR ''-''"

definition is_hex :: "char \<Rightarrow> bool" where
  "is_hex c \<longleftrightarrow> char_between CHR ''0'' CHR ''9'' c \<or> char_between CHR ''a'' CHR ''f'' c \<or>
     char_between CHR ''A'' CHR ''F'' c"

definition is_norm :: "char \<Rightarrow> bool" where "is_norm c \<longleftrightarrow> is_word c \<or> c = CHR ''/''"

text \<open>
  The match of the pattern. None of the three classes contains the character that follows it in
  the pattern, so each group is the longest run of its class.
\<close>

definition FindStringSubmatch :: "string \<Rightarrow> (string \<times> string \<times> string) option" where
  "FindStringSubmatch s =
     (let algo = takeWhile is_algo s; r1 = dropWhile is_algo s in
      case r1 of
        [] \<Rightarrow> None
      | c1 # t1 \<Rightarrow>
      (let digest = takeWhile is_hex t1; r2 = dropWhile is_hex t1 in
      case r2 of
        [] \<Rightarrow> None
      | c2 # t2 \<Rightarrow>
      (let norm = takeWhile is_norm t2; r3 = dropWhile is_norm t2 in
       if c1 = CHR '':'' \<and> c2 = CHR ''['' \<and> r3 = '']'' \<and> algo \<noteq> [] \<and> digest \<noteq> [] \<and> norm \<noteq> []
       then Some (algo, digest, norm) else None)))"

definition digestSpec :: "string \<Rightarrow> goerr + DigestSpec" where
  "digestSpec s =
     (case FindStringSubmatch s of
        None \<Rightarrow> Inl (ErrorString (''invalid digest spec format: '' @ s))
      | Some (algo, digest, norm) \<Rightarrow>
          Inr \<lparr>ds_HashAlgorithm = algo, ds_NormalisationAlgorithm = norm, ds_Value = digest\<rparr>)"

section \<open>Annotations\<close>

definition annotationResourceDigestPrefix :: string where
  "annotationResourceDigestPrefix = ''digest.resource.delivery.ocm.software/''"
definition annotationResourceAccess :: string where
  "annotationResourceAccess = ''resource.delivery.ocm.software/access''"
definition annotationResourceIdentityPrefix :: string where
  "annotationResourceIdentityPrefix = ''identity.resource.delivery.ocm.software/''"
definition annotationComponentName :: string where
  "annotationComponentName = ''component.delivery.ocm.software/name''"
definition annotationComponentVersion :: string where
  "annotationComponentVersion = ''component.delivery.ocm.software/version''"

lemmas annotation_keys = annotationResourceDigestPrefix_def annotationResourceAccess_def
  annotationResourceIdentityPrefix_def annotationComponentName_def annotationComponentVersion_def

definition identity_annotations :: "ResourceInfo \<Rightarrow> (string \<rightharpoonup> string) \<Rightarrow> (string \<rightharpoonup> string)" where
  "identity_annotations info anns =
     put_all (map (\<lambda>(k, v). (annotationResourceIdentityPrefix @ k, v)) (ri_ExtraIdentity info))
       (anns(annotationResourceIdentityPrefix @ ''name'' \<mapsto> ri_Name info,
             annotationResourceIdentityPrefix @ ''version'' \<mapsto> ri_Version info))"

definition digest_annotations :: "ResourceInfo \<Rightarrow> (string \<rightharpoonup> string) \<Rightarrow> (string \<rightharpoonup> string)" where
  "digest_annotations info anns =
     (if ri_Digest info = [] then anns
      else case digestSpec (ri_Digest info) of
        Inr spec \<Rightarrow> anns(annotationResourceDigestPrefix @ ''value'' \<mapsto> ds_Value spec,
          annotationResourceDigestPrefix @ ''hashAlgorithm'' \<mapsto> ds_HashAlgorithm spec,
          annotationResourceDigestPrefix @ ''normalisationAlgorithm'' \<mapsto> ds_NormalisationAlgorithm spec)
      | Inl err \<Rightarrow> anns(annotationResourceDigestPrefix @ ''raw'' \<mapsto> ri_Digest info))"

definition setOwnershipAnnotations :: "Resource \<Rightarrow> (KObject, unit) go" where
  "setOwnershipAnnotations resource = (\<lambda>x.
     let anns = (case om_Annotations (ko_Meta x) of Some m \<Rightarrow> m | None \<Rightarrow> Map.empty)
     in case rss_Resource (res_Status resource) of
          None \<Rightarrow> (Panic ''nil pointer dereference'', ko_setAnnotations anns x)
        | Some info \<Rightarrow>
            (let anns' = (digest_annotations info (identity_annotations info anns))
                   (annotationResourceAccess \<mapsto> (case Raw (ri_Access info) of None \<Rightarrow> [] | Some b \<Rightarrow> b))
             in case rss_Component (res_Status resource) of
                  None \<Rightarrow> (Panic ''nil pointer dereference'', ko_setAnnotations anns' x)
                | Some component \<Rightarrow> (Ret (), ko_setAnnotations
                    (anns'(annotationComponentName \<mapsto> ci_Component component,
                           annotationComponentVersion \<mapsto> ci_Version component)) x)))"


section \<open>Lemmas\<close>

lemma separators [simp]:
  "\<not> is_algo CHR '':''" "\<not> is_hex CHR ''[''" "\<not> is_norm CHR '']''"
  by (simp_all add: is_algo_def is_norm_def is_hex_def is_word_def char_between_def)

text \<open>Cutting a list at the first element outside of a class.\<close>

lemma takeWhile_cut:
  "list_all P xs \<Longrightarrow> \<not> P c \<Longrightarrow> takeWhile P (xs @ c # ys) = xs \<and> dropWhile P (xs @ c # ys) = c # ys"
  by (induction xs) auto

lemma cut_takeWhile: "dropWhile P s = c # t \<Longrightarrow> s = takeWhile P s @ c # t"
  by (metis takeWhile_dropWhile_id)

lemma list_all_takeWhile: "list_all P (takeWhile P xs)"
  by (induction xs) auto

lemma FindStringSubmatch_iff:
  "FindStringSubmatch s = Some (algo, digest, norm) \<longleftrightarrow>
     s = algo @ '':'' @ digest @ ''['' @ norm @ '']'' \<and> algo \<noteq> [] \<and> digest \<noteq> [] \<and> norm \<noteq> [] \<and>
     list_all is_algo algo \<and> list_all is_hex digest \<and> list_all is_norm norm"
  (is "?l \<longleftrightarrow> ?r")
proof
  assume ?l
  then obtain t1 t2 where cut: "dropWhile is_algo s = CHR '':'' # t1" "dropWhile is_hex t1 = CHR ''['' # t2"
      "dropWhile is_norm t2 = '']''"
    and groups: "algo = takeWhile is_algo s" "digest = takeWhile is_hex t1" "norm = takeWhile is_norm t2"
      "algo \<noteq> []" "digest \<noteq> []" "norm \<noteq> []"
    by (auto simp: FindStringSubmatch_def Let_def split: list.splits if_splits)
  show ?r
    using cut_takeWhile [OF cut(1)] cut_takeWhile [OF cut(2)] cut_takeWhile [OF cut(3)] groups
    by (simp add: list_all_takeWhile)
next
  assume r: ?r
  then have "takeWhile is_algo s = algo \<and> dropWhile is_algo s = CHR '':'' # digest @ ''['' @ norm @ '']''"
    "takeWhile is_hex (digest @ ''['' @ norm @ '']'') = digest \<and>
       dropWhile is_hex (digest @ ''['' @ norm @ '']'') = CHR ''['' # norm @ '']''"
    "takeWhile is_norm (norm @ '']'') = norm \<and> dropWhile is_norm (norm @ '']'') = '']''"
    by (simp_all add: takeWhile_cut)
  with r show ?l by (simp add: FindStringSubmatch_def Let_def)
qed

text \<open>What the API server takes as the value of a label.\<close>

definition is_alnum :: "char \<Rightarrow> bool" where
  "is_alnum c \<longleftrightarrow> char_between CHR ''0'' CHR ''9'' c \<or> char_between CHR ''A'' CHR ''Z'' c \<or>
     char_between CHR ''a'' CHR ''z'' c"

definition valid_label_value :: "string \<Rightarrow> bool" where
  "valid_label_value v \<longleftrightarrow> v = [] \<or> length v \<le> LabelValueMaxLength \<and> is_alnum (hd v) \<and> is_alnum (last v) \<and>
     list_all (\<lambda>c. is_alnum c \<or> c = CHR ''-'' \<or> c = CHR ''_'' \<or> c = CHR ''.'') v"

text \<open>What it takes as the name of an object, without the rules on upper case and on dots.\<close>

definition plausible_name :: "string \<Rightarrow> bool" where
  "plausible_name v \<longleftrightarrow> v \<noteq> [] \<and> is_alnum (hd v) \<and> is_alnum (last v) \<and>
     list_all (\<lambda>c. is_alnum c \<or> c = CHR ''-'' \<or> c = CHR ''.'') v"

lemma limit_short: "length v \<le> LabelValueMaxLength \<Longrightarrow> limit v = v"
  by (simp add: limit_def)

lemma limit_length: "length (limit v) \<le> LabelValueMaxLength"
  by (simp add: limit_def)

lemma limit_take: "limit v = take LabelValueMaxLength v"
  by (simp add: limit_def)

definition ownership_keys :: "string set" where
  "ownership_keys = {componentLabel, nameLabel, versionLabel, instanceLabel, partOfLabel, managedByLabel}"

lemmas label_keys = managedByLabel_def versionLabel_def partOfLabel_def instanceLabel_def
  nameLabel_def componentLabel_def

lemma prefixed_put_all:
  assumes "distinct (map fst ps)"
  shows "put_all (map (\<lambda>(k, v). (p @ k, v)) ps) m (p @ k) = (case map_of ps k of Some v \<Rightarrow> Some v | None \<Rightarrow> m (p @ k))"
  using assms
proof (induction ps arbitrary: m)
  case (Cons x ps)
  obtain j v where x: "x = (j, v)" by force
  from Cons.prems have "j \<notin> fst ` set ps" by (simp add: x)
  then have "map_of ps j = None" by (simp add: map_of_eq_None_iff)
  then show ?case using Cons by (auto simp: x split: option.split)
qed simp

lemma label_keys_distinct [simp]:
  "distinct [componentLabel, nameLabel, versionLabel, instanceLabel, partOfLabel, managedByLabel]"
  by (simp add: label_keys)

lemma digest_annotations_identity [simp]:
  "digest_annotations info m (annotationResourceIdentityPrefix @ k) = m (annotationResourceIdentityPrefix @ k)"
  by (simp add: digest_annotations_def annotation_keys split: sum.split)

lemma identity_keys_other [simp]:
  "annotationResourceIdentityPrefix @ k \<noteq> annotationResourceAccess"
  "annotationResourceIdentityPrefix @ k \<noteq> annotationComponentName"
  "annotationResourceIdentityPrefix @ k \<noteq> annotationComponentVersion"
  "annotationComponentName \<noteq> annotationComponentVersion"
  by (simp_all add: annotation_keys)

lemma deployerManager_length [simp]: "length deployerManager \<le> LabelValueMaxLength"
  by (simp add: deployerManager_def LabelValueMaxLength_def)

section \<open>Properties\<close>

text \<open>
  C27: \<open>digestSpec\<close> reads exactly the strings that \<open>DigestSpec.String\<close> writes for a digest whose
  three parts are not empty and of the right characters, and gives the digest back.
\<close>

theorem digest_spec_roundtrip:
  "digestSpec s = Inr d \<longleftrightarrow>
     s = ds_HashAlgorithm d @ '':'' @ ds_Value d @ ''['' @ ds_NormalisationAlgorithm d @ '']'' \<and>
     ds_HashAlgorithm d \<noteq> [] \<and> ds_Value d \<noteq> [] \<and> ds_NormalisationAlgorithm d \<noteq> [] \<and>
     list_all is_algo (ds_HashAlgorithm d) \<and> list_all is_hex (ds_Value d) \<and>
     list_all is_norm (ds_NormalisationAlgorithm d)"
proof -
  have "digestSpec s = Inr d \<longleftrightarrow>
      FindStringSubmatch s = Some (ds_HashAlgorithm d, ds_Value d, ds_NormalisationAlgorithm d)"
    by (auto simp: digestSpec_def split: option.splits)
  then show ?thesis by (simp only: FindStringSubmatch_iff)
qed

text \<open>
  The six ownership labels are set as documented, cut to the length that the API server
  allows, and every other label of the object stays.
\<close>

theorem ownership_labels_set:
  assumes "rss_Resource (res_Status resource) = Some info"
  shows "\<exists>lbls. setOwnershipLabels resource deployer x = (Ret (), ko_setLabels lbls x) \<and>
    lbls componentLabel = Some (limit (om_Name (res_meta resource))) \<and>
    lbls nameLabel = Some (limit (om_Name (res_meta resource))) \<and>
    lbls versionLabel = Some (limit (ri_Version info)) \<and>
    lbls instanceLabel = Some (limit (om_UID (res_meta resource))) \<and>
    lbls partOfLabel = Some (limit (om_Name (dep_meta deployer))) \<and>
    lbls managedByLabel = Some deployerManager \<and>
    (\<forall>k. k \<notin> ownership_keys \<longrightarrow> lbls k = (case om_Labels (ko_Meta x) of None \<Rightarrow> None | Some m \<Rightarrow> m k)) \<and>
    (\<forall>k v. k \<in> ownership_keys \<longrightarrow> lbls k = Some v \<longrightarrow> length v \<le> LabelValueMaxLength)"
proof -
  define old where "old = (case om_Labels (ko_Meta x) of Some m \<Rightarrow> m | None \<Rightarrow> Map.empty)"
  define lbls where "lbls = old(componentLabel \<mapsto> limit (om_Name (res_meta resource)),
     nameLabel \<mapsto> limit (om_Name (res_meta resource)), versionLabel \<mapsto> limit (ri_Version info),
     instanceLabel \<mapsto> limit (om_UID (res_meta resource)), partOfLabel \<mapsto> limit (om_Name (dep_meta deployer)),
     managedByLabel \<mapsto> deployerManager)"
  have "setOwnershipLabels resource deployer x = (Ret (), ko_setLabels lbls x)"
    using assms by (simp add: setOwnershipLabels_def lbls_def old_def Let_def)
  moreover have "lbls k = (case om_Labels (ko_Meta x) of None \<Rightarrow> None | Some m \<Rightarrow> m k)" if "k \<notin> ownership_keys" for k
    using that by (simp add: lbls_def ownership_keys_def old_def split: option.split)
  moreover have "length v \<le> LabelValueMaxLength" if "k \<in> ownership_keys" "lbls k = Some v" for k v
    using that limit_length by (auto simp: lbls_def ownership_keys_def split: if_splits)
  moreover have "lbls componentLabel = Some (limit (om_Name (res_meta resource)))"
    "lbls nameLabel = Some (limit (om_Name (res_meta resource)))"
    "lbls versionLabel = Some (limit (ri_Version info))"
    "lbls instanceLabel = Some (limit (om_UID (res_meta resource)))"
    "lbls partOfLabel = Some (limit (om_Name (dep_meta deployer)))"
    "lbls managedByLabel = Some deployerManager"
    using label_keys_distinct by (simp_all add: lbls_def del: label_keys_distinct)
  ultimately show ?thesis by blast
qed

text \<open>
  A cut label need not be valid. The name of an object gives a valid label exactly when it
  is short enough or the last byte that is kept is a letter or digit; a version with build
  metadata, that is, with a plus sign in what is kept, never does.
\<close>

theorem cut_label_validity:
  assumes "plausible_name name" and "CHR ''+'' \<in> set (take LabelValueMaxLength version)"
  shows "(valid_label_value (limit name) \<longleftrightarrow>
      length name \<le> LabelValueMaxLength \<or> is_alnum (name ! (LabelValueMaxLength - 1))) \<and>
    \<not> valid_label_value (limit version)"
proof
  have all: "list_all (\<lambda>c. is_alnum c \<or> c = CHR ''-'' \<or> c = CHR ''_'' \<or> c = CHR ''.'') (take n name)" for n
    using assms(1) by (auto simp: plausible_name_def list_all_iff dest: in_set_takeD)
  show "valid_label_value (limit name) \<longleftrightarrow>
      length name \<le> LabelValueMaxLength \<or> is_alnum (name ! (LabelValueMaxLength - 1))"
  proof (cases "length name \<le> LabelValueMaxLength")
    case True
    then show ?thesis using assms(1) all [of "length name"]
      by (simp add: limit_short valid_label_value_def plausible_name_def)
  next
    case False
    then have "take LabelValueMaxLength name = take 62 name @ [name ! (LabelValueMaxLength - 1)]"
      using take_Suc_conv_app_nth [of 62 name] by (simp add: LabelValueMaxLength_def)
    then have "last (take LabelValueMaxLength name) = name ! (LabelValueMaxLength - 1)" by simp
    with False show ?thesis using assms(1) all
      by (auto simp: limit_take valid_label_value_def plausible_name_def LabelValueMaxLength_def)
  qed
  have "version \<noteq> []" using assms(2) by auto
  moreover have "\<not> is_alnum CHR ''+''" by (simp add: is_alnum_def char_between_def)
  ultimately show "\<not> valid_label_value (limit version)"
    using assms(2) by (auto simp: limit_take valid_label_value_def list_all_iff LabelValueMaxLength_def)
qed

text \<open>
  The identity annotations are the entries of the extra identity, in whatever order Go
  ranges over it, on top of name and version; an extra identity called \<open>name\<close> or \<open>version\<close> takes
  their place. The component annotations are those of the status.
\<close>

theorem identity_annotations_set:
  assumes "rss_Resource (res_Status resource) = Some info"
    and "rss_Component (res_Status resource) = Some component"
    and "distinct (map fst (ri_ExtraIdentity info))"
  shows "\<exists>anns. setOwnershipAnnotations resource x = (Ret (), ko_setAnnotations anns x) \<and>
    anns annotationComponentName = Some (ci_Component component) \<and>
    anns annotationComponentVersion = Some (ci_Version component) \<and>
    (\<forall>k. anns (annotationResourceIdentityPrefix @ k) =
      (case map_of (ri_ExtraIdentity info) k of
         Some v \<Rightarrow> Some v
       | None \<Rightarrow> if k = ''name'' then Some (ri_Name info)
           else if k = ''version'' then Some (ri_Version info)
           else case om_Annotations (ko_Meta x) of
             None \<Rightarrow> None | Some m \<Rightarrow> m (annotationResourceIdentityPrefix @ k)))"
proof -
  define old where "old = (case om_Annotations (ko_Meta x) of Some m \<Rightarrow> m | None \<Rightarrow> Map.empty)"
  define anns where "anns = (digest_annotations info (identity_annotations info old))
     (annotationResourceAccess \<mapsto> (case Raw (ri_Access info) of None \<Rightarrow> [] | Some b \<Rightarrow> b),
      annotationComponentName \<mapsto> ci_Component component, annotationComponentVersion \<mapsto> ci_Version component)"
  have "setOwnershipAnnotations resource x = (Ret (), ko_setAnnotations anns x)"
    using assms by (simp add: setOwnershipAnnotations_def anns_def old_def Let_def)
  moreover have "anns (annotationResourceIdentityPrefix @ k) = (case map_of (ri_ExtraIdentity info) k of
        Some v \<Rightarrow> Some v
      | None \<Rightarrow> (old(annotationResourceIdentityPrefix @ ''name'' \<mapsto> ri_Name info,
            annotationResourceIdentityPrefix @ ''version'' \<mapsto> ri_Version info))
          (annotationResourceIdentityPrefix @ k))" for k
    by (simp only: anns_def fun_upd_apply identity_keys_other if_False digest_annotations_identity
        identity_annotations_def prefixed_put_all [OF assms(3)])
  moreover have "anns annotationComponentName = Some (ci_Component component)"
    "anns annotationComponentVersion = Some (ci_Version component)" by (simp_all add: anns_def)
  ultimately show ?thesis by (auto simp: old_def split: option.split)
qed

section \<open>Witnesses\<close>

definition labelled_resource :: Resource where
  "labelled_resource = Resource_zero\<lparr>res_meta := ObjectMeta_zero\<lparr>om_Name := ''app'', om_UID := ''u1''\<rparr>,
     res_Status := (res_Status Resource_zero)\<lparr>
       rss_Resource := Some \<lparr>ri_Name = ''image'', ri_Type = ''oci'', ri_Version = ''1'',
         ri_ExtraIdentity = [(''os'', ''linux''), (''version'', ''x'')], ri_Access = \<lparr>Raw = Some ''{}''\<rparr>,
         ri_Digest = ''sha:0a[n]'', ri_Labels = []\<rparr>,
       rss_Component := Some \<lparr>ci_RepositorySpec = None, ci_Component = ''c'', ci_Version = ''2'', ci_Digest = None\<rparr>\<rparr>\<rparr>"

theorem ownership_labels_set_witness:
  "\<exists>lbls. setOwnershipLabels labelled_resource Deployer_zero (sample_object ''ConfigMap'' ''a'') =
      (Ret (), ko_setLabels lbls (sample_object ''ConfigMap'' ''a'')) \<and>
    lbls nameLabel = Some ''app'' \<and> lbls versionLabel = Some ''1'' \<and> lbls managedByLabel = Some deployerManager"
  using ownership_labels_set [of labelled_resource "the (rss_Resource (res_Status labelled_resource))" Deployer_zero
      "sample_object ''ConfigMap'' ''a''"]
  by (auto simp: labelled_resource_def zero_defs limit_def LabelValueMaxLength_def)

theorem cut_label_validity_witness:
  "\<not> valid_label_value (limit (replicate 62 CHR ''a'' @ ''.b'')) \<and> \<not> valid_label_value (limit ''1.0.0+b'')"
proof -
  have "plausible_name (replicate 62 CHR ''a'' @ ''.b'')"
    by (simp add: plausible_name_def is_alnum_def char_between_def list_all_iff)
  moreover have "CHR ''+'' \<in> set (take LabelValueMaxLength ''1.0.0+b'')" by (simp add: LabelValueMaxLength_def)
  ultimately show ?thesis
    using cut_label_validity [of "replicate 62 CHR ''a'' @ ''.b''" "''1.0.0+b''"]
    by (simp add: LabelValueMaxLength_def is_alnum_def char_between_def nth_append)
qed

theorem identity_annotations_set_witness:
  "\<exists>anns. setOwnershipAnnotations labelled_resource (sample_object ''ConfigMap'' ''a'') =
      (Ret (), ko_setAnnotations anns (sample_object ''ConfigMap'' ''a'')) \<and>
    anns (annotationResourceIdentityPrefix @ ''name'') = Some ''image'' \<and>
    anns (annotationResourceIdentityPrefix @ ''version'') = Some ''x''"
proof -
  let ?info = "the (rss_Resource (res_Status labelled_resource))"
  and ?c = "the (rss_Component (res_Status labelled_resource))"
  have "rss_Resource (res_Status labelled_resource) = Some ?info"
    "rss_Component (res_Status labelled_resource) = Some ?c" "distinct (map fst (ri_ExtraIdentity ?info))"
    "map_of (ri_ExtraIdentity ?info) ''name'' = None" "map_of (ri_ExtraIdentity ?info) ''version'' = Some ''x''"
    "ri_Name ?info = ''image''"
    by (simp_all add: labelled_resource_def zero_defs)
  with identity_annotations_set [OF this(1,2,3), of "sample_object ''ConfigMap'' ''a''"] show ?thesis by fastforce
qed

end
