(* ===== verification/DeployedObjects.thy ===== *)
theory DeployedObjects
  imports ManifestDownload Ownership
begin

text \<open>
  The cluster half of \<open>internal/controller/deployer/deployer_controller.go\<close>: the objects are
  applied and tracked by one goroutine each, and the status lists them.
\<close>

section \<open>Groups of goroutines\<close>

text \<open>
  \<open>errgroup.WithContext\<close>: each call runs once, in the order of the scheduler, and \<open>Wait\<close> gives
  the first error. That error cancels the context of the others; whether a call sees this is up
  to the scheduler too. A schedule is a list of indices with that choice. A call is one step:
  the calls work on copies of their own and share no state but the world.
\<close>

type_synonym schedule = "(nat \<times> bool) list"

definition schedule_ok :: "nat \<Rightarrow> schedule \<Rightarrow> bool" where
  "schedule_ok n sched \<longleftrightarrow> distinct (map fst sched) \<and> set (map fst sched) = {0..<n}"

fun run_group ::
  "(bool \<Rightarrow> 'a \<Rightarrow> ('s, goerr option) go) \<Rightarrow> 'a list \<Rightarrow> schedule \<Rightarrow> goerr option \<Rightarrow> ('s, goerr option) go" where
  "run_group f xs [] first = returnG first"
| "run_group f xs ((i, sees) # sched) first =
     bindG (f (sees \<and> first \<noteq> None) (xs ! i))
       (\<lambda>e. run_group f xs sched (case first of Some _ \<Rightarrow> first | None \<Rightarrow> e))"

section \<open>The libraries\<close>

text \<open>
  The watches of the informer manager as the reconciler sees them, and the API calls. A send to
  a channel is a \<open>select\<close> with the context: it gives \<open>None\<close>, or the error of the context when
  that is done first; on a closed channel it panics. \<open>patchApply\<close> is the server-side apply, told whether its context is
  cancelled; \<open>deployer_GVK\<close> is the type that the API client notes on a deployer.
\<close>

record 'w deployer_lib =
  deployer_GVK :: GroupVersionKind
  resourceWatches :: "KObject \<Rightarrow> 'w \<Rightarrow> KObject list"
  resourceWatchIsStopped :: "KObject \<Rightarrow> KObject \<Rightarrow> 'w \<Rightarrow> bool"
  resourceWatchHasSynced :: "KObject \<Rightarrow> KObject \<Rightarrow> 'w \<Rightarrow> bool"
  resourceWatchChannel :: "watch_event \<Rightarrow> ('w, goerr option) go"
  stopResourceWatchChannel :: "watch_event \<Rightarrow> ('w, goerr option) go"
  SetControllerReference :: "Deployer \<Rightarrow> KObject \<Rightarrow> goerr + KObject"
  patchApply :: "bool \<Rightarrow> KObject \<Rightarrow> string \<Rightarrow> ('w, goerr option) ext"
  applySchedule :: "KObject list \<Rightarrow> 'w \<Rightarrow> schedule"
  trackSchedule :: "KObject list \<Rightarrow> 'w \<Rightarrow> schedule"

definition deployer_object :: "'w deployer_lib \<Rightarrow> Deployer \<Rightarrow> KObject" where
  "deployer_object D deployer = \<lparr>ko_GVK = deployer_GVK D, ko_Meta = dep_meta deployer, ko_Body = []\<rparr>"

text \<open>A send works on the world of the reconciler.\<close>

definition onWatches :: "('w, 'a) go \<Rightarrow> (('o, 'w) rstate, 'a) go" where
  [go_defs]: "onWatches m = (\<lambda>s. case m (world s) of (r, w) \<Rightarrow> (r, s\<lparr>world := w\<rparr>))"

section \<open>Apply\<close>

text \<open>A function that works on an object in place, on a copy.\<close>

definition onCopy :: "(KObject, unit) go \<Rightarrow> KObject \<Rightarrow> ('s, KObject) go" where
  [go_defs]: "onCopy m x = (\<lambda>s. case m x of (Ret _, y) \<Rightarrow> (Ret y, s) | (Panic p, _) \<Rightarrow> (Panic p, s))"

definition deployer_apply ::
  "'w deployer_lib \<Rightarrow> Resource \<Rightarrow> Deployer \<Rightarrow> bool \<Rightarrow> KObject \<Rightarrow> ((Deployer, 'w) rstate, goerr option) go" where
  "deployer_apply D resource deployer cancelled x =
     bindG (onCopy (setOwnershipLabels resource deployer) x) (\<lambda>x1.
     bindG (onCopy (setOwnershipAnnotations resource) x1) (\<lambda>x2.
     case SetControllerReference D deployer x2 of
       Inl err \<Rightarrow> returnG (Some (Errorf ''failed to set controller reference on object'' err))
     | Inr x3 \<Rightarrow>
         checkG (callG (patchApply D cancelled x3 (deployerManager @ ''/'' @ om_UID (dep_meta deployer))))
           (\<lambda>err. returnG (Some (Errorf ''failed to apply object'' err)))
         (returnG None)))"

definition multiple_objects_msg :: string where
  "multiple_objects_msg = ''multiple objects found in manifest,'' @
     ''the current deployer implementation does not officially support this yet,'' @
     ''and will not prune diffs properly.''"

definition applyConcurrently ::
  "('w, 'd) controller_env \<Rightarrow> 'w deployer_lib \<Rightarrow> Resource \<Rightarrow> KObject list \<Rightarrow>
   ((Deployer, 'w) rstate, goerr option) go" where
  "applyConcurrently E D resource objs =
     bindG (getG obj) (\<lambda>deployer.
     thenG (if length objs > 1
        then modifyG (record_event (k8s E) Deployer_ico None EventSeverityInfo multiple_objects_msg)
        else returnG ())
     (bindG (getG (\<lambda>s. applySchedule D objs (world s))) (\<lambda>sched.
       run_group (deployer_apply D resource deployer) objs sched None)))"

section \<open>Track\<close>

definition track ::
  "'w deployer_lib \<Rightarrow> Deployer \<Rightarrow> bool \<Rightarrow> KObject \<Rightarrow> ((Deployer, 'w) rstate, goerr option) go" where
  "track D deployer cancelled x =
     bindG (getG (\<lambda>s. resourceWatchHasSynced D (deployer_object D deployer) x (world s))) (\<lambda>synced.
     if synced then returnG None
     else checkG (onWatches (resourceWatchChannel D \<lparr>we_Parent = deployer_object D deployer, we_Child = x\<rparr>))
       (\<lambda>err. returnG (Some (Errorf (''context canceled while unregistering resource watch for deployer '' @
          om_Name (dep_meta deployer)) err)))
     (returnG (Some (ErrorString ''object is not yet registered and synced, waiting for registration''))))"

definition trackConcurrently ::
  "'w deployer_lib \<Rightarrow> KObject list \<Rightarrow> ((Deployer, 'w) rstate, goerr option) go" where
  "trackConcurrently D objs =
     bindG (getG obj) (\<lambda>deployer.
     bindG (getG (\<lambda>s. trackSchedule D objs (world s))) (\<lambda>sched.
       run_group (track D deployer) objs sched None))"

section \<open>Untrack\<close>

text \<open>The loop over the watches; it gives whether one had to be stopped, or the error of the context.\<close>

fun untrack_loop ::
  "'w deployer_lib \<Rightarrow> Deployer \<Rightarrow> KObject list \<Rightarrow> bool \<Rightarrow> ((Deployer, 'w) rstate, goerr + bool) go" where
  "untrack_loop D deployer [] atLeastOne = returnG (Inr atLeastOne)"
| "untrack_loop D deployer (x # xs) atLeastOne =
     bindG (getG (\<lambda>s. resourceWatchIsStopped D (deployer_object D deployer) x (world s))) (\<lambda>stopped.
     if stopped then untrack_loop D deployer xs atLeastOne
     else checkG (onWatches (stopResourceWatchChannel D \<lparr>we_Parent = deployer_object D deployer, we_Child = x\<rparr>))
       (\<lambda>err. returnG (Inl (Errorf (''context canceled while unregistering resource watch for deployer '' @
          om_Name (dep_meta deployer)) err)))
     (untrack_loop D deployer xs True))"

definition resourceWatchFinalizer :: string where
  "resourceWatchFinalizer = ''delivery.ocm.software/watch''"

definition Untrack ::
  "('w, 'd) controller_env \<Rightarrow> 'w deployer_lib \<Rightarrow> ((Deployer, 'w) rstate, goerr option) go" where
  "Untrack E D =
     bindG (getG obj) (\<lambda>deployer.
     bindG (getG (\<lambda>s. resourceWatches D (deployer_object D deployer) (world s))) (\<lambda>watches.
     tryG (untrack_loop D deployer watches False)
       (\<lambda>err. returnG (Some err))
     (\<lambda>atLeastOne.
       if atLeastOne then returnG (Some (ErrorString ''waiting for at least one resource watch to be removed''))
       else thenG (modifyG (\<lambda>s. s\<lparr>obj := Deployer_setFinalizers
              (fst (finalizer_Remove (k8s E) resourceWatchFinalizer (om_Finalizers (dep_meta (obj s))))) (obj s)\<rparr>))
            (returnG None))))"

section \<open>The references of the status\<close>

text \<open>\<open>GroupVersionKind.ToAPIVersionAndKind\<close>.\<close>

definition ToAPIVersionAndKind :: "GroupVersionKind \<Rightarrow> string \<times> string" where
  "ToAPIVersionAndKind g =
     (if gvk_Group g = [] \<and> gvk_Version g = [] \<and> gvk_Kind g = [] then ([], [])
      else (if gvk_Group g = [] then gvk_Version g else gvk_Group g @ ''/'' @ gvk_Version g, gvk_Kind g))"

definition object_reference :: "KObject \<Rightarrow> DeployedObjectReference" where
  "object_reference x =
     (case ToAPIVersionAndKind (ko_GVK x) of (apiVersion, kind) \<Rightarrow>
        \<lparr>do_APIVersion = apiVersion, do_Kind = kind, do_Name = om_Name (ko_Meta x),
         do_Namespace = om_Namespace (ko_Meta x), do_UID = om_UID (ko_Meta x)\<rparr>)"

text \<open>\<open>slices.IndexFunc\<close>; no index is \<open>-1\<close> in the source.\<close>

fun index_func :: "('a \<Rightarrow> bool) \<Rightarrow> 'a list \<Rightarrow> nat option" where
  "index_func P [] = None"
| "index_func P (x # xs) = (if P x then Some 0 else map_option Suc (index_func P xs))"

definition update_reference ::
  "KObject \<Rightarrow> DeployedObjectReference list \<Rightarrow> DeployedObjectReference list" where
  "update_reference x refs =
     (case index_func (\<lambda>ref. do_UID ref = om_UID (ko_Meta x)) refs of
        None \<Rightarrow> refs @ [object_reference x]
      | Some idx \<Rightarrow> refs[idx := object_reference x])"

definition updateDeployedObjectStatusReferences :: "KObject list \<Rightarrow> Deployer \<Rightarrow> Deployer" where
  "updateDeployedObjectStatusReferences objs deployer =
     deployer\<lparr>dep_Status := (dep_Status deployer)
       \<lparr>dst_Deployed := fold update_reference objs (dst_Deployed (dep_Status deployer))\<rparr>\<rparr>"


section \<open>Lemmas on groups\<close>

text \<open>A group without error: no call failed, none was cancelled, and each kept the invariant.\<close>

lemma run_group_None:
  assumes "run_group f xs sched first s = (Ret None, s')" and "\<And>b x. invG I (f b x)" and "I s"
  shows "first = None \<and> I s' \<and> (\<forall>i \<in> fst ` set sched. \<exists>t t'. I t \<and> f False (xs ! i) t = (Ret None, t'))"
  using assms(1,3)
proof (induction sched arbitrary: first s)
  case Nil
  then show ?case by (simp add: go_defs)
next
  case (Cons c sched)
  obtain i sees where c: "c = (i, sees)" by force
  obtain e s1 where run: "f (sees \<and> first \<noteq> None) (xs ! i) s = (Ret e, s1)"
    and rest: "run_group f xs sched (case first of Some _ \<Rightarrow> first | None \<Rightarrow> e) s1 = (Ret None, s')"
    using Cons.prems(1) by (auto simp: c bindG_def split: prod.splits outcome.splits)
  have s1: "I s1" using invG_D [OF assms(2) Cons.prems(2) run] .
  note IH = Cons.IH [OF rest s1]
  then have "first = None" "e = None" by (auto split: option.splits)
  with run IH Cons.prems(2) show ?case by (auto simp: c)
qed

lemma run_group_inv: "(\<And>b x. invG I (f b x)) \<Longrightarrow> invG I (run_group f xs sched first)"
  by (induction sched arbitrary: first) (auto intro!: go_inv)

lemma schedule_covers:
  "schedule_ok (length xs) sched \<Longrightarrow> (\<forall>i \<in> fst ` set sched. P (xs ! i)) \<longleftrightarrow> (\<forall>x \<in> set xs. P x)"
  by (auto simp: schedule_ok_def all_set_conv_all_nth)

section \<open>Lemmas on apply and track\<close>

text \<open>The object was applied with its labels, annotations and owner, by a call that succeeded.\<close>

definition applied :: "'w deployer_lib \<Rightarrow> Resource \<Rightarrow> Deployer \<Rightarrow> KObject \<Rightarrow> bool" where
  "applied D resource deployer x \<longleftrightarrow> (\<exists>x1 x2 x3 w w'.
     setOwnershipLabels resource deployer x = (Ret (), x1) \<and>
     setOwnershipAnnotations resource x1 = (Ret (), x2) \<and>
     SetControllerReference D deployer x2 = Inr x3 \<and>
     patchApply D False x3 (deployerManager @ ''/'' @ om_UID (dep_meta deployer)) w = (None, w'))"

definition tracked :: "'w deployer_lib \<Rightarrow> Deployer \<Rightarrow> KObject \<Rightarrow> bool" where
  "tracked D deployer x \<longleftrightarrow> (\<exists>w. resourceWatchHasSynced D (deployer_object D deployer) x w)"

lemma deployer_apply_None:
  assumes "deployer_apply D resource deployer False x s = (Ret None, s')"
  shows "applied D resource deployer x"
proof -
  obtain x1 where 1: "setOwnershipLabels resource deployer x = (Ret (), x1)"
    using assms by (auto simp: deployer_apply_def go_defs split: prod.splits outcome.splits)
  obtain x2 where 2: "setOwnershipAnnotations resource x1 = (Ret (), x2)"
    using assms 1 by (auto simp: deployer_apply_def go_defs split: prod.splits outcome.splits)
  obtain x3 where 3: "SetControllerReference D deployer x2 = Inr x3"
    using assms 1 2 by (auto simp: deployer_apply_def go_defs split: sum.splits)
  have "fst (patchApply D False x3 (deployerManager @ ''/'' @ om_UID (dep_meta deployer)) (world s)) = None"
    using assms 1 2 3 by (auto simp: deployer_apply_def go_defs split: option.splits)
  with 1 2 3 show ?thesis unfolding applied_def by (metis prod.collapse)
qed

lemma invG_onCopy [go_inv]: "invG I (onCopy m x)"
  by (auto simp: invG_def onCopy_def split: prod.splits outcome.splits)

lemma invG_callG_obj [go_inv]: "invG (\<lambda>s. P (obj s)) (callG f)"
  by (simp add: invG_def callG_def)

lemma invG_onWatches_obj [go_inv]: "invG (\<lambda>s. P (obj s)) (onWatches m)"
  by (auto simp: invG_def onWatches_def split: prod.splits)

lemma deployer_apply_inv: "invG (\<lambda>s. P (obj s)) (deployer_apply D resource deployer b x)"
  unfolding deployer_apply_def by (intro go_inv) (auto split: sum.split intro!: go_inv)

lemma track_inv: "invG (\<lambda>s. P (obj s)) (track D deployer b x)"
  unfolding track_def by (intro go_inv)

lemma track_None: "track D deployer b x s = (Ret None, s') \<Longrightarrow> tracked D deployer x"
  by (auto simp: track_def tracked_def go_defs split: if_splits option.splits prod.splits outcome.splits)

lemma applyConcurrently_post:
  assumes "\<And>w. schedule_ok (length objs) (applySchedule D objs w)" and "obj s = x"
  shows "postG (applyConcurrently E D resource objs) s
    (\<lambda>r s'. obj s' = x \<and> (r = None \<longrightarrow> (\<forall>y \<in> set objs. applied D resource x y)))"
proof (rule postG_I)
  fix r s' assume run: "applyConcurrently E D resource objs s = (Ret r, s')"
  define s1 where "s1 = (if length objs > 1
     then record_event (k8s E) Deployer_ico None EventSeverityInfo multiple_objects_msg s else s)"
  have "obj s1 = x" using assms(2) by (simp add: s1_def record_event_def)
  have group: "run_group (deployer_apply D resource x) objs (applySchedule D objs (world s1)) None s1 = (Ret r, s')"
    using run assms(2) by (auto simp: applyConcurrently_def go_defs s1_def)
  let ?I = "\<lambda>s. obj s = x"
  have keep: "obj s' = x"
    using run_group_inv [of ?I, OF deployer_apply_inv] \<open>obj s1 = x\<close> group by (rule invG_D)
  show "obj s' = x \<and> (r = None \<longrightarrow> (\<forall>y \<in> set objs. applied D resource x y))"
  proof (intro conjI impI)
    assume "r = None"
    then have "\<forall>i \<in> fst ` set (applySchedule D objs (world s1)). \<exists>t t'. obj t = x \<and>
        deployer_apply D resource x False (objs ! i) t = (Ret None, t')"
      using run_group_None [where I = ?I and f = "deployer_apply D resource x", OF _ deployer_apply_inv] group \<open>obj s1 = x\<close> by blast
    then have "\<forall>i \<in> fst ` set (applySchedule D objs (world s1)). applied D resource x (objs ! i)"
      using deployer_apply_None by blast
    then show "\<forall>y \<in> set objs. applied D resource x y" using schedule_covers [OF assms(1)] by blast
  qed (rule keep)
qed

lemma trackConcurrently_post:
  assumes "\<And>w. schedule_ok (length objs) (trackSchedule D objs w)" and "obj s = x"
  shows "postG (trackConcurrently D objs) s
    (\<lambda>r s'. obj s' = x \<and> (r = None \<longrightarrow> (\<forall>y \<in> set objs. tracked D x y)))"
proof (rule postG_I)
  fix r s' assume run: "trackConcurrently D objs s = (Ret r, s')"
  then have group: "run_group (track D x) objs (trackSchedule D objs (world s)) None s = (Ret r, s')"
    using assms(2) by (simp add: trackConcurrently_def go_defs)
  let ?I = "\<lambda>s. obj s = x"
  have keep: "obj s' = x"
    using run_group_inv [of ?I, OF track_inv] assms(2) group by (rule invG_D)
  show "obj s' = x \<and> (r = None \<longrightarrow> (\<forall>y \<in> set objs. tracked D x y))"
  proof (intro conjI impI)
    assume "r = None"
    then have "\<forall>i \<in> fst ` set (trackSchedule D objs (world s)). \<exists>t t'. obj t = x \<and>
        track D x False (objs ! i) t = (Ret None, t')"
      using run_group_None [where I = ?I and f = "track D x", OF _ track_inv] group assms(2) by blast
    then have "\<forall>i \<in> fst ` set (trackSchedule D objs (world s)). tracked D x (objs ! i)"
      using track_None by blast
    then show "\<forall>y \<in> set objs. tracked D x y" using schedule_covers [OF assms(1)] by blast
  qed (rule keep)
qed


text \<open>Both return, for a resource with a status.\<close>

lemma retG_run_group: "(\<And>b x. retG I (f b x) anyG) \<Longrightarrow> retG I (run_group f xs sched first) anyG"
proof (induction sched arbitrary: first)
  case (Cons c sched)
  obtain i sees where c: "c = (i, sees)" by force
  show ?case unfolding c run_group.simps by (rule retG_bind [OF Cons.prems Cons.IH [OF Cons.prems]])
qed (simp add: retG_return)

text \<open>\<open>P\<close> is what the calls need of the world, and keep: that the channels are open.\<close>

lemma retG_onWatches:
  "(\<And>w. P w \<Longrightarrow> \<exists>a w'. m w = (Ret a, w') \<and> P w') \<Longrightarrow> retG (\<lambda>s. P (world s)) (onWatches m) anyG"
  by (fastforce simp: retG_def onWatches_def)

lemma retG_call_world:
  "(\<And>w. P w \<Longrightarrow> P (snd (f w))) \<Longrightarrow> retG (\<lambda>s. P (world s)) (callG f) anyG"
  by (simp add: retG_def callG_def)

lemma deployer_apply_returns:
  assumes "filled_resource resource" and P: "\<And>c x f w. P w \<Longrightarrow> P (snd (patchApply D c x f w))"
  shows "retG (\<lambda>s. P (world s)) (deployer_apply D resource deployer b x) anyG"
proof -
  have "retG (\<lambda>s. P (world s)) (onCopy (setOwnershipLabels resource deployer) y) anyG"
    "retG (\<lambda>s. P (world s)) (onCopy (setOwnershipAnnotations resource) y) anyG" for y
    using assms(1) by (auto simp: retG_def onCopy_def setOwnershipLabels_def setOwnershipAnnotations_def
        Let_def filled_resource_def)
  then show ?thesis unfolding deployer_apply_def
    by - (rule retG_call_world P go_ret | assumption | (simp; fail))+
qed

lemma applyConcurrently_returns:
  assumes "filled_resource resource" and "\<And>c x f w. P w \<Longrightarrow> P (snd (patchApply D c x f w))"
  shows "retG (\<lambda>s. P (world s)) (applyConcurrently E D resource objs) anyG"
  unfolding applyConcurrently_def
  by (rule retG_run_group deployer_apply_returns [where P = P, OF assms] go_ret | assumption | (simp add: record_event_def; fail))+

lemma trackConcurrently_returns:
  assumes "\<And>e w. P w \<Longrightarrow> \<exists>a w'. resourceWatchChannel D e w = (Ret a, w') \<and> P w'"
  shows "retG (\<lambda>s. P (world s)) (trackConcurrently D objs) anyG"
  unfolding trackConcurrently_def track_def
  by (rule retG_run_group retG_onWatches assms go_ret | assumption | (simp; fail))+

section \<open>Lemmas on the references\<close>

abbreviation by_uid :: "string \<Rightarrow> DeployedObjectReference list \<Rightarrow> DeployedObjectReference option" where
  "by_uid u \<equiv> List.find (\<lambda>ref. do_UID ref = u)"

lemma object_reference_UID [simp]: "do_UID (object_reference x) = om_UID (ko_Meta x)"
  by (simp add: object_reference_def split: prod.split)

lemma index_func_None: "index_func P xs = None \<longleftrightarrow> (\<forall>x \<in> set xs. \<not> P x)"
  by (induction xs) auto

lemma index_func_Some: "index_func P xs = Some i \<Longrightarrow> i < length xs \<and> P (xs ! i) \<and> (\<forall>j < i. \<not> P (xs ! j))"
proof (induction xs arbitrary: i)
  case (Cons x xs)
  then show ?case by (auto split: if_splits simp: less_Suc_eq_0_disj)
qed simp

lemma find_append: "List.find P (xs @ ys) = (case List.find P xs of Some x \<Rightarrow> Some x | None \<Rightarrow> List.find P ys)"
  by (induction xs) auto

lemma by_uid_update:
  "by_uid u (update_reference x refs) = (if u = om_UID (ko_Meta x) then Some (object_reference x) else by_uid u refs)"
proof (induction refs)
  case Nil
  then show ?case by (simp add: update_reference_def)
next
  case (Cons ref refs)
  show ?case
  proof (cases "do_UID ref = om_UID (ko_Meta x)")
    case True
    then show ?thesis by (simp add: update_reference_def)
  next
    case False
    then have "update_reference x (ref # refs) = ref # update_reference x refs"
      by (simp add: update_reference_def split: option.split)
    with Cons False show ?thesis by (cases "u = om_UID (ko_Meta x)") simp_all
  qed
qed

lemma update_reference_distinct:
  assumes "distinct (map do_UID refs)"
  shows "distinct (map do_UID (update_reference x refs))"
proof (cases "index_func (\<lambda>ref. do_UID ref = om_UID (ko_Meta x)) refs")
  case None
  then have "om_UID (ko_Meta x) \<notin> set (map do_UID refs)" by (auto simp: index_func_None)
  with None assms show ?thesis by (simp add: update_reference_def)
next
  case (Some i)
  then have "i < length refs" "do_UID (refs ! i) = om_UID (ko_Meta x)" by (auto dest: index_func_Some)
  then have "map do_UID (refs[i := object_reference x]) = map do_UID refs"
    by (simp add: map_update) (metis list_update_id map_update nth_map)
  with Some assms show ?thesis by (simp add: update_reference_def)
qed

lemma references_fold:
  assumes "distinct (map do_UID refs)"
  shows "distinct (map do_UID (fold update_reference objs refs)) \<and>
    by_uid u (fold update_reference objs refs) =
      (case List.find (\<lambda>x. om_UID (ko_Meta x) = u) (rev objs) of
         Some x \<Rightarrow> Some (object_reference x) | None \<Rightarrow> by_uid u refs)"
  using assms
proof (induction objs arbitrary: refs)
  case (Cons x objs)
  from Cons.IH [OF update_reference_distinct [OF Cons.prems], of x] show ?case
    by (auto simp: by_uid_update find_append split: option.split)
qed simp

section \<open>The watches of the informer manager\<close>

text \<open>
  What the deployer sees of the watches. They are kept by the kind of the parent, not by the
  parent, and a watch that has synced is one of those listed for its kind.
\<close>

locale watch_registry =
  fixes watches :: "KObject \<Rightarrow> 'm \<Rightarrow> KObject list"
    and stopped :: "KObject \<Rightarrow> KObject \<Rightarrow> 'm \<Rightarrow> bool"
    and synced :: "KObject \<Rightarrow> KObject \<Rightarrow> 'm \<Rightarrow> bool"
  assumes watches_kind: "ko_GVK p = ko_GVK q \<Longrightarrow> watches p m = watches q m"
    and stopped_kind: "ko_GVK p = ko_GVK q \<Longrightarrow> stopped p c m = stopped q c m"
    and stopped_child: "ko_GVK c = ko_GVK d \<Longrightarrow> om_Namespace (ko_Meta c) = om_Namespace (ko_Meta d) \<Longrightarrow>
      stopped p c m = stopped p d m"
    and synced_listed: "synced p c m \<Longrightarrow> \<exists>x \<in> set (watches p m). task_key p x = task_key p c"
begin

lemma other_parent_listed:
  assumes "ko_GVK p = ko_GVK q" and "synced q c m" and "\<not> stopped q c m"
  shows "\<exists>x \<in> set (watches p m). \<not> stopped p x m \<and> task_key p x = task_key q c"
proof -
  obtain x where x: "x \<in> set (watches q m)" "task_key q x = task_key q c" using synced_listed [OF assms(2)] by blast
  then have "ko_GVK x = ko_GVK c" "om_Namespace (ko_Meta x) = om_Namespace (ko_Meta c)"
    by (simp_all add: task_key_def)
  then have "\<not> stopped p x m" using stopped_child stopped_kind [OF assms(1)] assms(3) by metis
  moreover have "task_key p x = task_key q c" using x(2) assms(1) by (simp add: task_key_def)
  ultimately show ?thesis using x(1) watches_kind [OF assms(1)] by auto
qed

end

lemma manager_listed:
  assumes "HasSynced I m p c"
  shows "\<exists>x \<in> set (ActiveForParent m p). task_key p x = task_key p c"
proof -
  obtain t where "map_of (im_tasks m) (task_key p c) = Some t"
    using assms by (auto simp: HasSynced_def getTask_def split: option.splits)
  then have "(task_key p c, t) \<in> set (im_tasks m)" by (rule map_of_SomeD)
  then have "PartialObject (ko_GVK c) (om_Namespace (ko_Meta c)) \<in> set (ActiveForParent m p)"
    by (force simp: ActiveForParent_def task_key_def)
  then show ?thesis by (rule bexI [rotated]) (simp add: task_key_def PartialObject_def)
qed

lemma watch_queries_key:
  assumes "task_key p c = task_key q d"
  shows "IsStopped I m p c = IsStopped I m q d" and "HasSynced I m p c = HasSynced I m q d"
  using assms by (simp_all add: IsStopped_def HasSynced_def getTask_def split: option.split)

interpretation manager_watches: watch_registry
  "\<lambda>p m. ActiveForParent m p" "\<lambda>p c m. IsStopped I m p c" "\<lambda>p c m. HasSynced I m p c" for I :: "'w informer_lib"
proof
  show "ActiveForParent m p = ActiveForParent m q" if "ko_GVK p = ko_GVK q" for p q and m :: "'w manager"
    using that by (simp add: ActiveForParent_def)
  show "IsStopped I m p c = IsStopped I m q c" if "ko_GVK p = ko_GVK q" for p q c m
    by (rule watch_queries_key) (use that in \<open>simp add: task_key_def\<close>)
  show "IsStopped I m p c = IsStopped I m p d"
    if "ko_GVK c = ko_GVK d" "om_Namespace (ko_Meta c) = om_Namespace (ko_Meta d)" for c d p m
    by (rule watch_queries_key) (use that in \<open>simp add: task_key_def\<close>)
  show "\<exists>x \<in> set (ActiveForParent m p). task_key p x = task_key p c" if "HasSynced I m p c" for p c m
    using that by (rule manager_listed)
qed

text \<open>A send on a channel of the manager. After \<open>GracefulShutdown\<close> both are closed.\<close>

definition send_event :: "('w manager \<Rightarrow> 'w manager) \<Rightarrow> ('w manager, goerr option) go" where
  "send_event put = (\<lambda>m. if im_closed m then (Panic ''send on closed channel'', m) else (Ret None, put m))"

text \<open>
  The reconciler set up with an informer manager: \<open>setupDynamicResourceWatcherWithManager\<close>. The
  channels are those of the manager; the rest of the library stays.
\<close>

definition setupDynamicResourceWatcher ::
  "'w informer_lib \<Rightarrow> 'w manager deployer_lib \<Rightarrow> 'w manager deployer_lib" where
  "setupDynamicResourceWatcher I D = D\<lparr>
     resourceWatches := (\<lambda>p m. ActiveForParent m p),
     resourceWatchIsStopped := (\<lambda>p c m. IsStopped I m p c),
     resourceWatchHasSynced := (\<lambda>p c m. HasSynced I m p c),
     resourceWatchChannel := (\<lambda>e. send_event (\<lambda>m. m\<lparr>im_register := im_register m @ [e]\<rparr>)),
     stopResourceWatchChannel := (\<lambda>e. send_event (\<lambda>m. m\<lparr>im_unregister := im_unregister m @ [e]\<rparr>))\<rparr>"


lemma deployer_object_setup [simp]: "deployer_object (setupDynamicResourceWatcher I D) d = deployer_object D d"
  by (simp add: deployer_object_def setupDynamicResourceWatcher_def)

lemma setup_fields [simp]:
  "resourceWatches (setupDynamicResourceWatcher I D) = (\<lambda>p m. ActiveForParent m p)"
  "resourceWatchIsStopped (setupDynamicResourceWatcher I D) = (\<lambda>p c m. IsStopped I m p c)"
  "stopResourceWatchChannel (setupDynamicResourceWatcher I D) =
     (\<lambda>e. send_event (\<lambda>m. m\<lparr>im_unregister := im_unregister m @ [e]\<rparr>))"
  by (simp_all add: setupDynamicResourceWatcher_def)

text \<open>With the manager, \<open>Untrack\<close> asks to stop every watch of its kind that is not stopped.\<close>

lemma untrack_loop_manager:
  assumes "im_closed (world s) \<longrightarrow> list_all (IsStopped I (world s) (deployer_object D d)) xs"
  shows "untrack_loop (setupDynamicResourceWatcher I D) d xs b s =
     (Ret (Inr (b \<or> list_ex (\<lambda>x. \<not> IsStopped I (world s) (deployer_object D d) x) xs)),
      s\<lparr>world := (world s)\<lparr>im_unregister := im_unregister (world s) @
        map (\<lambda>x. \<lparr>we_Parent = deployer_object D d, we_Child = x\<rparr>)
          (filter (\<lambda>x. \<not> IsStopped I (world s) (deployer_object D d) x) xs)\<rparr>\<rparr>)"
  using assms
proof (induction xs arbitrary: b s)
  case Nil
  then show ?case by (simp add: go_defs)
next
  case (Cons x xs)
  have frame: "IsStopped I (m\<lparr>im_unregister := q\<rparr>) p c = IsStopped I m p c" for m q p c
    by (simp add: IsStopped_def getTask_def split: option.split)
  show ?case
    using Cons.prems
    by (auto simp: Cons.IH frame bindG_def getG_def checkG_def onWatches_def send_event_def)
qed

lemma untrack_loop_closed:
  assumes "im_closed (world s)" and "\<not> list_all (IsStopped I (world s) (deployer_object D d)) xs"
  shows "untrack_loop (setupDynamicResourceWatcher I D) d xs b s = (Panic ''send on closed channel'', s)"
  using assms
  by (induction xs arbitrary: b) (auto simp: bindG_def getG_def checkG_def onWatches_def send_event_def)

lemma map_of_delete_same: "map_of (delete_task k ts) k = None"
  by (induction ts) (auto simp: delete_task_def)

lemma Unregister_last_gone:
  assumes "isLastWatch (task_key p c) (im_tasks m)" and "Unregister I p c m = (Ret None, m')"
  shows "map_of (im_tasks m') (task_key p c) = None"
proof (cases "map_of (im_tasks m) (task_key p c)")
  case None
  then show ?thesis using assms(2) by (simp add: Unregister_eq)
next
  case (Some t)
  obtain r m1 where stop: "stopTask I (task_key p c) t m = (r, m1)" by force
  show ?thesis
    using stop
  proof (cases rule: stopTask_elim)
    case (stopped w w')
    then show ?thesis using assms(2) Some stop by (auto simp: Unregister_eq map_of_delete_same)
  qed (use assms Some stop in \<open>auto simp: Unregister_eq\<close>)
qed

section \<open>Properties\<close>

text \<open>
  C24: The status holds one reference for each UID: after the update the reference with a UID is
  that of the last object with it, or the one it was.
\<close>

theorem references_by_uid:
  assumes "distinct (map do_UID (dst_Deployed (dep_Status d)))"
  shows "let refs = dst_Deployed (dep_Status (updateDeployedObjectStatusReferences objs d)) in
    distinct (map do_UID refs) \<and>
    by_uid u refs = (case List.find (\<lambda>x. om_UID (ko_Meta x) = u) (rev objs) of
      Some x \<Rightarrow> Some (object_reference x)
    | None \<Rightarrow> by_uid u (dst_Deployed (dep_Status d)))"
  using references_fold [OF assms] by (simp add: updateDeployedObjectStatusReferences_def)

text \<open>
  Objects as a manifest gives them have no UID, and the update is given these, not what the
  API server returned. However many objects a manifest has, a new deployer lists the last one
  only, without UID.
\<close>

theorem manifest_objects_collapse:
  assumes "objs \<noteq> []" and "list_all (\<lambda>x. om_UID (ko_Meta x) = []) objs"
    and "dst_Deployed (dep_Status d) = []"
  shows "dst_Deployed (dep_Status (updateDeployedObjectStatusReferences objs d)) = [object_reference (last objs)] \<and>
    do_UID (object_reference (last objs)) = []"
proof -
  have "fold update_reference objs [] = [object_reference (last objs)]"
    using assms(1,2)
  proof (induction objs rule: rev_induct)
    case (snoc x objs)
    show ?case
    proof (cases "objs = []")
      case False
      then have "om_UID (ko_Meta (last objs)) = []" using snoc.prems(2) by (simp add: list_all_iff)
      then show ?thesis using snoc False by (simp add: update_reference_def)
    qed (simp add: update_reference_def)
  qed simp
  moreover have "om_UID (ko_Meta (last objs)) = []" using assms(1,2) by (simp add: list_all_iff)
  ultimately show ?thesis using assms(3) by (simp add: updateDeployedObjectStatusReferences_def)
qed

text \<open>
  C25: Deleting a deployer stops the watches of the other deployers. Let another deployer watch
  an object \<open>c\<close>. Then \<open>Untrack\<close> for this one returns an error and sends a request to stop that very
  watch; once a worker has handled the request, the other deployer's object is not watched.
\<close>

theorem untrack_stops_other_deployers:
  assumes "HasSynced I (world s) (deployer_object D other) c"
    and "\<not> IsStopped I (world s) (deployer_object D other) c" and opened: "\<not> im_closed (world s)"
  shows "\<exists>err s' e. Untrack E (setupDynamicResourceWatcher I D) s = (Ret (Some err), s') \<and>
    e \<in> set (im_unregister (world s')) \<and> we_Parent e = deployer_object D (obj s) \<and>
    task_key (we_Parent e) (we_Child e) = task_key (deployer_object D other) c \<and>
    (\<forall>m m'. isLastWatch (task_key (deployer_object D other) c) (im_tasks m) \<longrightarrow>
      Unregister I (we_Parent e) (we_Child e) m = (Ret None, m') \<longrightarrow>
      \<not> HasSynced I m' (deployer_object D other) c)"
proof -
  let ?p = "deployer_object D (obj s)" and ?q = "deployer_object D other" and ?m = "world s"
  have "ko_GVK ?p = ko_GVK ?q" by (simp add: deployer_object_def)
  then obtain x where x: "x \<in> set (ActiveForParent ?m ?p)" "\<not> IsStopped I ?m ?p x"
      "task_key ?p x = task_key ?q c"
    using manager_watches.other_parent_listed assms by blast
  let ?e = "\<lparr>we_Parent = ?p, we_Child = x\<rparr>"
  define s' where "s' = s\<lparr>world := ?m\<lparr>im_unregister := im_unregister ?m @
        map (\<lambda>x. \<lparr>we_Parent = ?p, we_Child = x\<rparr>) (filter (\<lambda>x. \<not> IsStopped I ?m ?p x) (ActiveForParent ?m ?p))\<rparr>\<rparr>"
  have "list_ex (\<lambda>x. \<not> IsStopped I ?m ?p x) (ActiveForParent ?m ?p)" using x by (auto simp: list_ex_iff)
  then obtain err where run: "Untrack E (setupDynamicResourceWatcher I D) s = (Ret (Some err), s')"
    by (simp add: Untrack_def bindG_def getG_def tryG_def untrack_loop_manager opened s'_def returnG_def)
  have "?e \<in> set (im_unregister (world s'))" using x by (simp add: s'_def)
  moreover have "\<not> HasSynced I m' ?q c"
    if "isLastWatch (task_key ?q c) (im_tasks m)" "Unregister I ?p x m = (Ret None, m')" for m m'
    using Unregister_last_gone [OF _ that(2)] that(1) x(3) by (simp add: HasSynced_def getTask_def)
  ultimately show ?thesis
    using run x(3) by (intro exI [of _ err] exI [of _ s'] exI [of _ ?e]) simp
qed


section \<open>Witnesses\<close>

definition sample_deployer_lib :: "'w deployer_lib" where
  "sample_deployer_lib = \<lparr>deployer_GVK = sample_gvk ''Deployer'', resourceWatches = (\<lambda>p w. []),
     resourceWatchIsStopped = (\<lambda>p c w. False), resourceWatchHasSynced = (\<lambda>p c w. True),
     resourceWatchChannel = (\<lambda>e. returnG None), stopResourceWatchChannel = (\<lambda>e. returnG None),
     SetControllerReference = (\<lambda>d x. Inr x), patchApply = (\<lambda>c x m w. (None, w)),
     applySchedule = (\<lambda>xs w. map (\<lambda>i. (i, False)) [0..<length xs]),
     trackSchedule = (\<lambda>xs w. map (\<lambda>i. (i, True)) (rev [0..<length xs]))\<rparr>"

lemma sample_schedules:
  "schedule_ok (length xs) (applySchedule sample_deployer_lib xs w)"
  "schedule_ok (length xs) (trackSchedule sample_deployer_lib xs w)"
  by (simp_all add: schedule_ok_def sample_deployer_lib_def comp_def distinct_rev flip: rev_map)

definition sample_controller_env :: "('w, unit) controller_env" where
  "sample_controller_env = \<lparr>k8s = sample_k8s, api = empty_client, ocmlib = empty_ocm_lib (),
     getSession = (\<lambda>_. returnG (Inr (0, 0))), showDuration = (\<lambda>_. [])\<rparr>"

definition sample_reference :: "string \<Rightarrow> DeployedObjectReference" where
  "sample_reference u = \<lparr>do_APIVersion = ''v1'', do_Kind = ''ConfigMap'', do_Name = [], do_Namespace = ''a'', do_UID = u\<rparr>"

theorem references_by_uid_witness:
  "by_uid ''1'' (dst_Deployed (dep_Status (updateDeployedObjectStatusReferences [sample_object ''ConfigMap'' ''a'']
     (Deployer_zero\<lparr>dep_Status := (dep_Status Deployer_zero)\<lparr>dst_Deployed := [sample_reference ''1'']\<rparr>\<rparr>)))) =
   Some (sample_reference ''1'')"
  using references_by_uid [of "Deployer_zero\<lparr>dep_Status := (dep_Status Deployer_zero)\<lparr>dst_Deployed := [sample_reference ''1'']\<rparr>\<rparr>"
      "[sample_object ''ConfigMap'' ''a'']" "''1''"]
  by (simp add: Let_def sample_reference_def sample_object_def PartialObject_def zero_defs)

theorem manifest_objects_collapse_witness:
  "dst_Deployed (dep_Status (updateDeployedObjectStatusReferences
     [sample_object ''ConfigMap'' ''a'', sample_object ''Secret'' ''a''] Deployer_zero)) =
   [object_reference (sample_object ''Secret'' ''a'')]"
  using manifest_objects_collapse [of "[sample_object ''ConfigMap'' ''a'', sample_object ''Secret'' ''a'']" Deployer_zero]
  by (simp add: sample_object_def PartialObject_def zero_defs)

theorem untrack_stops_other_deployers_witness:
  "\<exists>err s' e. Untrack sample_controller_env (setupDynamicResourceWatcher sample_informers sample_deployer_lib)
       \<lparr>obj = Deployer_zero, events = [], world = sample_manager [sample_task ''Deployer'' ''a'']\<rparr> = (Ret (Some err), s') \<and>
     e \<in> set (im_unregister (world s')) \<and> task_key (we_Parent e) (we_Child e) = fst (sample_task ''Deployer'' ''a'')"
proof -
  let ?s = "\<lparr>obj = Deployer_zero, events = [], world = sample_manager [sample_task ''Deployer'' ''a'']\<rparr>"
  let ?c = "sample_object ''ConfigMap'' ''a''" and ?q = "deployer_object (sample_deployer_lib :: GroupVersionKind list manager deployer_lib) Deployer_zero"
  have "task_key ?q ?c = fst (sample_task ''Deployer'' ''a'')"
    by (simp add: sample_manager_defs deployer_object_def sample_deployer_lib_def)
  moreover have "HasSynced sample_informers (world ?s) ?q ?c"
    by (simp add: HasSynced_def getTask_def sample_manager_defs deployer_object_def sample_deployer_lib_def)
  moreover have "\<not> IsStopped sample_informers (world ?s) ?q ?c"
    by (simp add: IsStopped_def getTask_def sample_manager_defs deployer_object_def sample_deployer_lib_def)
  moreover have "\<not> im_closed (world ?s)" by (simp add: sample_manager_def)
  ultimately show ?thesis
    using untrack_stops_other_deployers [of sample_informers ?s sample_deployer_lib Deployer_zero ?c
        sample_controller_env] by metis
qed

end
