(* ===== verification/DeployerController.thy ===== *)
theory DeployerController
  imports ResourceController DigestCache DeployedObjects
begin

text \<open>
  \<open>internal/controller/deployer\<close>: the reconciliation of a Deployer. The manifest of the resource is
  taken from the cache or downloaded, its objects are applied and tracked, and the status lists
  them; a deployer that is being deleted waits until its watches are stopped.
\<close>

section \<open>Definitions\<close>

text \<open>A reference without a namespace is to the namespace of the deployer.\<close>

definition resource_key :: "Deployer \<Rightarrow> NamespacedName" where
  "resource_key deployer =
     \<lparr>nn_Namespace = (if ok_Namespace (dsp_ResourceRef (dep_Spec deployer)) = []
        then om_Namespace (dep_meta deployer) else ok_Namespace (dsp_ResourceRef (dep_Spec deployer))),
      nn_Name = ok_Name (dsp_ResourceRef (dep_Spec deployer))\<rparr>"

text \<open>From the applied and tracked objects to the status.\<close>

definition deployer_finish ::
  "('w, 'd) controller_env \<Rightarrow> Resource \<Rightarrow> ResourceInfo \<Rightarrow> KObject list \<Rightarrow>
   ((Deployer, 'w) rstate, reconcile_result) go" where
  "deployer_finish E resource info objs =
     thenG (modifyG (\<lambda>s. s\<lparr>obj := updateDeployedObjectStatusReferences objs (obj s)\<rparr>))
     (thenG (modifyG (\<lambda>s. s\<lparr>obj := Deployer_setFinalizers
        (fst (finalizer_Add (k8s E) resourceWatchFinalizer (om_Finalizers (dep_meta (obj s))))) (obj s)\<rparr>))
     (markReady E Deployer_ico (''Applied version '' @ ri_Version info)
     (returnG (Result_zero\<lparr>RequeueAfter := Resource_GetRequeueAfter resource\<rparr>, None))))"

definition deployer_track ::
  "('w, 'd) controller_env \<Rightarrow> 'w deployer_lib \<Rightarrow> Resource \<Rightarrow> ResourceInfo \<Rightarrow> KObject list \<Rightarrow>
   ((Deployer, 'w) rstate, reconcile_result) go" where
  "deployer_track E D resource info objs =
     checkG (trackConcurrently D objs)
       (\<lambda>err. failWith E Deployer_ico ResourceNotSynced ''failed to sync deployed resources'' err)
     (deployer_finish E resource info objs)"

definition deployer_deploy ::
  "('w, 'd) controller_env \<Rightarrow> 'w deployer_lib \<Rightarrow> Resource \<Rightarrow> ResourceInfo \<Rightarrow> KObject list \<Rightarrow>
   ((Deployer, 'w) rstate, reconcile_result) go" where
  "deployer_deploy E D resource info objs =
     checkG (applyConcurrently E D resource objs)
       (\<lambda>err. failWith E Deployer_ico ApplyFailed ''failed to apply resources'' err)
     (deployer_track E D resource info objs)"

text \<open>\<open>load\<close> is the method \<open>Load\<close> of the field \<open>DownloadCache\<close>.\<close>

definition deployer_run ::
  "('w, 'd) controller_env \<Rightarrow> ('w, 'd, 'm) ocm_res_lib \<Rightarrow> ('w, 'd, 'x, 'acc, 'r) manifest_lib \<Rightarrow>
   'w deployer_lib \<Rightarrow> (string \<Rightarrow> ((Deployer, 'w) rstate, goerr + KObject list) go \<Rightarrow>
     ((Deployer, 'w) rstate, goerr + KObject list) go) \<Rightarrow>
   ((Deployer, 'w) rstate, reconcile_result) go" where
  "deployer_run E RL M D load =
     bindG (getG obj) (\<lambda>deployer.
     tryG (GetReadyObject (k8s E) Resource_ico (getResource (api E)) (resource_key deployer))
       (\<lambda>err. markNotReady E Deployer_ico ResourceIsNotAvailable (Error_msg err)
          (if is_not_available err then returnG (Result_zero, None)
           else returnG (Result_zero, Some (Errorf ''failed to get ready resource'' err))))
     (\<lambda>resource. derefG (rss_Resource (res_Status resource)) (\<lambda>info.
     tryG (load (ri_Digest info) (DownloadResourceWithOCM E RL M resource))
       (\<lambda>err. returnG (Result_zero,
          Some (Errorf ''failed to download resource from OCM or retrieve it from the cache'' err)))
     (\<lambda>objs. deployer_deploy E D resource info objs))))"

definition deployer_delete ::
  "('w, 'd) controller_env \<Rightarrow> 'w deployer_lib \<Rightarrow> ((Deployer, 'w) rstate, reconcile_result) go" where
  "deployer_delete E D =
     checkG (Untrack E D)
       (\<lambda>err. returnG (Result_zero, Some (Errorf ''failed to untrack deployer'' err)))
     (returnG (Result_zero,
        Some (ErrorString ''deployer is being deleted, waiting for resource watches to be removed'')))"

definition deployer_body ::
  "('w, 'd) controller_env \<Rightarrow> ('w, 'd, 'm) ocm_res_lib \<Rightarrow> ('w, 'd, 'x, 'acc, 'r) manifest_lib \<Rightarrow>
   'w deployer_lib \<Rightarrow> (string \<Rightarrow> ((Deployer, 'w) rstate, goerr + KObject list) go \<Rightarrow>
     ((Deployer, 'w) rstate, goerr + KObject list) go) \<Rightarrow>
   ((Deployer, 'w) rstate, reconcile_result) go" where
  "deployer_body E RL M D load =
     bindG (getG obj) (\<lambda>deployer.
     if dsp_Suspend (dep_Spec deployer) then returnG (Result_zero, None)
     else if \<not> IsZero_time (om_DeletionTimestamp (dep_meta deployer)) then deployer_delete E D
     else deployer_run E RL M D load)"

definition deployer_Reconcile ::
  "('w, 'd) controller_env \<Rightarrow> ('w, 'd, 'm) ocm_res_lib \<Rightarrow> ('w, 'd, 'x, 'acc, 'r) manifest_lib \<Rightarrow>
   'w deployer_lib \<Rightarrow> (string \<Rightarrow> ((Deployer, 'w) rstate, goerr + KObject list) go \<Rightarrow>
     ((Deployer, 'w) rstate, goerr + KObject list) go) \<Rightarrow> NamespacedName \<Rightarrow>
   ((Deployer, 'w) rstate, reconcile_result) go" where
  "deployer_Reconcile E RL M D load req =
     reconcileObject E Deployer_ico (getDeployer (api E) req) (patchDeployer (api E))
       (\<lambda>_. 0) (deployer_body E RL M D load)"

section \<open>Watches\<close>

definition deployer_resource_index :: "Deployer \<Rightarrow> string list" where
  "deployer_resource_index deployer =
     [ok_Namespace (dsp_ResourceRef (dep_Spec deployer)) @ ''/'' @ ok_Name (dsp_ResourceRef (dep_Spec deployer))]"

definition deployer_on_resource :: "k8s_lib \<Rightarrow> 'w client \<Rightarrow> Resource \<Rightarrow> ('w, NamespacedName list) go" where
  "deployer_on_resource L cl resource =
     enqueue_referencing (listDeployers cl ''.spec.resourceRef'') dep_meta
       (NamespacedName_String L (ObjectKeyFromObject (res_meta resource)))"

section \<open>Lemmas\<close>

text \<open>A cell of the world, seen from the state of a reconciliation.\<close>

definition world_cell :: "('w, 'l) cell_ref \<Rightarrow> (('o, 'w) rstate, 'l) cell_ref" where
  "world_cell r = \<lparr>cell_of = (\<lambda>s. cell_of r (world s)),
     set_cell = (\<lambda>c s. s\<lparr>world := set_cell r c (world s)\<rparr>)\<rparr>"

lemma world_cell_laws: "ref_laws r \<Longrightarrow> ref_laws (world_cell r)"
  unfolding ref_laws_def world_cell_def by (simp del: ref_lawsD)

lemma entries_world_cell [simp]: "entries R (world_cell r) s = entries R r (world s)"
proof -
  have "cell_of (world_cell r) s = cell_of r (world s)" by (simp add: world_cell_def)
  then show ?thesis unfolding entries_def by (simp only:)
qed

text \<open>
  The objects come from the cache (\<open>h\<close> is what it held) or were downloaded, with the digest of
  the resource in both cases; each was applied and its watch had synced; the status lists them
  and the deployer has its finalizer.
\<close>

definition deployed ::
  "('w, 'd) controller_env \<Rightarrow> ('w, 'd, 'm) ocm_res_lib \<Rightarrow> ('w, 'd, 'x, 'acc, 'r) manifest_lib \<Rightarrow>
   'w deployer_lib \<Rightarrow> (string \<rightharpoonup> KObject list) \<Rightarrow> Resource \<Rightarrow> Deployer \<Rightarrow> Deployer \<Rightarrow> bool" where
  "deployed E RL M D h resource x y \<longleftrightarrow>
     (\<exists>info objs. rss_Resource (res_Status resource) = Some info \<and>
       (h (ri_Digest info) = Some objs \<or> downloaded E RL M (ri_Digest info) objs) \<and>
       list_all (\<lambda>z. applied D resource x z \<and> tracked D x z) objs \<and>
       dst_Deployed (dep_Status y) = fold update_reference objs (dst_Deployed (dep_Status x)) \<and>
       resourceWatchFinalizer \<in> set (om_Finalizers (dep_meta y)))"

text \<open>The two ends of a run, for a resource \<open>res\<close> that was found ready (if any was).\<close>

definition dep_settled ::
  "('w, 'd) controller_env \<Rightarrow> ('w, 'd, 'm) ocm_res_lib \<Rightarrow> ('w, 'd, 'x, 'acc, 'r) manifest_lib \<Rightarrow>
   'w deployer_lib \<Rightarrow> (string \<rightharpoonup> KObject list) \<Rightarrow> (goerr + Resource) \<Rightarrow> Deployer \<Rightarrow>
   reconcile_result \<Rightarrow> Deployer \<Rightarrow> bool" where
  "dep_settled E RL M D h res x r y \<longleftrightarrow>
     dst_EffectiveOCMConfig (dep_Status y) = dst_EffectiveOCMConfig (dep_Status x) \<and>
     (ready_status (k8s E) Deployer_ico y ConditionTrue \<and>
        (\<exists>resource. res = Inr resource \<and> ready_object (k8s E) Resource_ico resource \<and>
          deployed E RL M D h resource x y) \<or>
      snd r \<noteq> None \<and> same_deployer x y)"

lemma dep_settled_fail: "same_deployer x y \<Longrightarrow> dep_settled E RL M D h res x (rs, Some e) y"
  by (simp add: dep_settled_def same_deployer_def)

lemma finish_settled:
  assumes L: "k8s_contract (k8s E)" and x: "obj s = x"
    and res: "ready_object (k8s E) Resource_ico resource" "rss_Resource (res_Status resource) = Some info"
    and objs: "h (ri_Digest info) = Some objs \<or> downloaded E RL M (ri_Digest info) objs"
    and ok: "\<forall>z \<in> set objs. applied D resource x z" "\<forall>z \<in> set objs. tracked D x z"
  shows "postG (deployer_finish E resource info objs) s
    (\<lambda>r s'. dep_settled E RL M D h (Inr resource) x r (obj s'))"
proof -
  let ?y = "Deployer_setFinalizers (fst (finalizer_Add (k8s E) resourceWatchFinalizer (om_Finalizers (dep_meta x))))
          (updateDeployedObjectStatusReferences objs x)"
  let ?z = "obj (MarkReady (k8s E) Deployer_ico (''Applied version '' @ ri_Version info) (s\<lparr>obj := ?y\<rparr>))"
  have z: "same_deployer ?y ?z" using same_deployer_marks(2) [of ?y "k8s E" _ "s\<lparr>obj := ?y\<rparr>"] by simp
  have y: "dst_Deployed (dep_Status ?y) = fold update_reference objs (dst_Deployed (dep_Status x))"
    "dst_EffectiveOCMConfig (dep_Status ?y) = dst_EffectiveOCMConfig (dep_Status x)"
    "om_Finalizers (dep_meta ?y) = fst (finalizer_Add (k8s E) resourceWatchFinalizer (om_Finalizers (dep_meta x)))"
    by (simp_all add: set_finalizers_defs updateDeployedObjectStatusReferences_def)
  have "resourceWatchFinalizer \<in> set (om_Finalizers (dep_meta ?z))"
    using z y(3) k8s_finalizers(3) [OF L] by (simp add: same_deployer_def)
  then have "deployed E RL M D h resource x ?z"
    using ok res(2) objs z y(1) unfolding deployed_def same_deployer_def list_all_iff by metis
  moreover have "ready_status (k8s E) Deployer_ico ?z ConditionTrue"
    by (rule deployer_object.ready_status_marks(2) [OF L])
  moreover have "dst_EffectiveOCMConfig (dep_Status ?z) = dst_EffectiveOCMConfig (dep_Status x)"
    using z y(2) by (simp add: same_deployer_def)
  ultimately have "dep_settled E RL M D h (Inr resource) x r ?z" for r
    using res(1) by (auto simp: dep_settled_def)
  moreover have "dep_meta (updateDeployedObjectStatusReferences objs x) = dep_meta x"
    by (simp add: updateDeployedObjectStatusReferences_def)
  ultimately show ?thesis by (simp add: deployer_finish_def go_wp x)
qed

lemma deploy_settled:
  assumes L: "k8s_contract (k8s E)" and x: "obj s = x"
    and sched: "\<And>w. schedule_ok (length objs) (applySchedule D objs w)"
      "\<And>w. schedule_ok (length objs) (trackSchedule D objs w)"
    and res: "ready_object (k8s E) Resource_ico resource" "rss_Resource (res_Status resource) = Some info"
    and objs: "h (ri_Digest info) = Some objs \<or> downloaded E RL M (ri_Digest info) objs"
  shows "postG (deployer_deploy E D resource info objs) s
    (\<lambda>r s'. dep_settled E RL M D h (Inr resource) x r (obj s'))"
proof -
  note finish = finish_settled [where h = h, OF L _ res objs]
  have track: "postG (deployer_track E D resource info objs) t
      (\<lambda>r s'. dep_settled E RL M D h (Inr resource) x r (obj s'))"
    if t: "obj t = x" and a: "\<forall>z \<in> set objs. applied D resource x z" for t
    unfolding deployer_track_def go_wp
  proof (rule postG_mono [OF trackConcurrently_post [OF sched(2) t]], goal_cases)
    case (1 q s2)
    then show ?case using finish [OF _ a] by (cases q) (simp_all add: go_wp dep_settled_fail)
  qed
  show ?thesis
    unfolding deployer_deploy_def go_wp
  proof (rule postG_mono [OF applyConcurrently_post [OF sched(1) x]], goal_cases)
    case (1 r s1)
    then show ?case using track by (cases r) (simp_all add: go_wp dep_settled_fail)
  qed
qed


section \<open>Reconcile with a cache\<close>

text \<open>
  The reconciler relies on the interface of the cache only, for a cache that lies outside of the
  deployer it works on.
\<close>

locale deployer_cache =
  object_cache load held usable same
  for load :: "string \<Rightarrow> ((Deployer, 'w) rstate, goerr + KObject list) go \<Rightarrow>
      ((Deployer, 'w) rstate, goerr + KObject list) go"
    and held :: "(Deployer, 'w) rstate \<Rightarrow> string \<rightharpoonup> KObject list"
    and usable :: "(Deployer, 'w) rstate \<Rightarrow> bool"
    and same :: "(Deployer, 'w) rstate \<Rightarrow> (Deployer, 'w) rstate \<Rightarrow> bool" +
  assumes same_obj: "same s s' \<Longrightarrow> obj s' = obj s"
begin

lemma run_settled:
  assumes L: "k8s_contract (k8s E)" and F: "foreign_get (getResource (api E))"
    and sched: "\<And>objs w. schedule_ok (length objs) (applySchedule D objs w)"
      "\<And>objs w. schedule_ok (length objs) (trackSchedule D objs w)"
    and x: "obj s = x" and get: "getResource (api E) (resource_key x) (world s) = (res, w)"
    and u: "usable (s\<lparr>world := w\<rparr>)"
  shows "postG (deployer_run E RL M D load) s
    (\<lambda>r s'. dep_settled E RL M D (held (s\<lparr>world := w\<rparr>)) res x r (obj s'))"
proof (cases res)
  case (Inl err)
  then show ?thesis
    using get x foreign_getD [OF F, of "resource_key x" "world s" err]
    by (simp add: deployer_run_def go_wp Let_def dep_settled_fail)
next
  case (Inr resource)
  let ?t = "s\<lparr>world := w\<rparr>"
  show ?thesis
  proof (cases "ready_object (k8s E) Resource_ico resource")
    case False
    then show ?thesis
      using get x Inr not_available_key [OF L]
      by (auto simp: deployer_run_def go_wp Let_def intro!: dep_settled_fail)
  next
    case True
    have deploy: "postG (deployer_deploy E D resource info objs) t
        (\<lambda>r s'. dep_settled E RL M D (held ?t) res x r (obj s'))"
      if "obj t = x" "rss_Resource (res_Status resource) = Some info"
        "held ?t (ri_Digest info) = Some objs \<or> downloaded E RL M (ri_Digest info) objs" for t info objs
      unfolding Inr by (rule deploy_settled [where h = "held ?t", OF L that(1) sched True that(2,3)])
    have "postG (load (ri_Digest info) (DownloadResourceWithOCM E RL M resource)) ?t
        (\<lambda>q s'. case q of
          Inl err \<Rightarrow> postG (returnG (Result_zero,
              Some (Errorf ''failed to download resource from OCM or retrieve it from the cache'' err))) s'
            (\<lambda>r s'. dep_settled E RL M D (held ?t) res x r (obj s'))
        | Inr objs \<Rightarrow> postG (deployer_deploy E D resource info objs) s'
            (\<lambda>r s'. dep_settled E RL M D (held ?t) res x r (obj s')))"
      if info: "rss_Resource (res_Status resource) = Some info" for info
    proof (rule load_partial [OF u], goal_cases)
      case (1 objs s')
      then have "obj s' = x" using same_obj x by fastforce
      then show ?case using deploy [OF _ info, of s' objs] 1 by simp
    next
      case (2 s0)
      then have "obj s0 = x" using same_obj x by fastforce
      show ?case
      proof (rule postG_mono [OF DownloadResourceWithOCM_post [OF \<open>obj s0 = x\<close>]], goal_cases)
        case (1 q s1)
        show ?case
        proof (cases q)
          case (Inl err)
          with 1 show ?thesis by (simp add: go_wp download_post_def dep_settled_fail)
        next
          case objs: (Inr objs)
          with 1 info have "obj s1 = x" "downloaded E RL M (ri_Digest info) objs"
            by (simp_all add: download_post_def)
          then have "postG (deployer_deploy E D resource info objs) s2
              (\<lambda>r s'. dep_settled E RL M D (held ?t) res x r (obj s'))" if "same s1 s2" for s2
            using deploy [OF _ info, of s2 objs] same_obj [OF that] by simp
          with objs show ?thesis by simp
        qed
      qed
    qed
    then show ?thesis using get x True unfolding Inr by (simp add: deployer_run_def go_wp Let_def)
  qed
qed

end

lemma world_cell_obj: "same_but_cell (world_cell r) s s' \<Longrightarrow> obj s' = obj s"
  by (auto simp: same_but_cell_def world_cell_def)

interpretation deployer_memory: deployer_cache
  "Load R (world_cell r)" "entries R (world_cell r)"
  "\<lambda>_. ref_laws (world_cell r :: ((Deployer, 'w) rstate, 'l) cell_ref) \<and> sized_lru_contract R"
  "same_but_cell (world_cell r)"
  for R :: "('l, string, KObject list) sized_lru_lib" and r :: "('w, 'l) cell_ref"
  by unfold_locales (rule world_cell_obj)


lemma dep_settled_frame:
  assumes f: "status_frame Deployer_ico y z" and r: "dep_settled E RL M D h res x r y"
    and c: "cond_Get (k8s E) (ico_GetConditions Deployer_ico z) ReadyCondition =
      cond_Get (k8s E) (ico_GetConditions Deployer_ico y) ReadyCondition"
  shows "dep_settled E RL M D h res x (fst r, errors_Join [snd r, e]) z"
proof -
  have "same_deployer y z" using f by (auto simp: status_frame_def same_deployer_def)
  moreover have "ready_status (k8s E) Deployer_ico z st = ready_status (k8s E) Deployer_ico y st" for st
    using c by (simp add: ready_status_def)
  ultimately show ?thesis using r by (auto simp: dep_settled_def deployed_def same_deployer_def)
qed

text \<open>
  The informer manager still runs: sends on its channels return in the worlds \<open>P\<close>, and what the
  reconciler calls does not leave \<open>P\<close>.
\<close>

definition sends_return ::
  "('w, 'd) controller_env \<Rightarrow> ('w, 'd, 'm) ocm_res_lib \<Rightarrow> ('w, 'd, 'x, 'acc, 'r) manifest_lib \<Rightarrow>
   'w deployer_lib \<Rightarrow> ('w, 'l) cell_ref \<Rightarrow> ('w \<Rightarrow> bool) \<Rightarrow> bool" where
  "sends_return E RL M D r P \<longleftrightarrow>
     (\<forall>e w. P w \<longrightarrow> (\<exists>q w'. resourceWatchChannel D e w = (Ret q, w') \<and> P w')) \<and>
     (\<forall>c x f w. P w \<longrightarrow> P (snd (patchApply D c x f w))) \<and> (\<forall>c w. P w \<longrightarrow> P (set_cell r c w)) \<and>
     (\<forall>resource s. P (world s) \<longrightarrow> P (world (snd (DownloadResourceWithOCM E RL M resource s))))"

text \<open>
  When \<open>Reconcile\<close> with the memory cache returns: the pointers of the API objects are set, the
  libraries return, the cache was made with an eviction function, no library call reaches
  into it, and the informer manager still runs.
\<close>

definition deployer_sound ::
  "('w, 'd) controller_env \<Rightarrow> ('w, 'd, 'm) ocm_res_lib \<Rightarrow> ('w, 'd, 'x, 'acc, 'r) manifest_lib \<Rightarrow>
   'w deployer_lib \<Rightarrow> ('l, string, KObject list) sized_lru_lib \<Rightarrow> ('w, 'l) cell_ref \<Rightarrow> 'w \<Rightarrow> bool" where
  "deployer_sound E RL M D R r w \<longleftrightarrow> (\<exists>P. P w \<and> sends_return E RL M D r P) \<and> filled_api (k8s E) (api E) \<and> session_returns E \<and> manifest_returns M \<and>
     cache_ready R r w \<and> (\<forall>resource s. cell_of r (world (snd (DownloadResourceWithOCM E RL M resource s))) =
       cell_of r (world s))"

lemma retG_world:
  "(\<And>s. world (f s) = world s) \<Longrightarrow> retG (\<lambda>s. P (world s)) (modifyG f) anyG"
  by (rule retG_modify) simp

lemma deploy_returns:
  assumes "filled_resource resource" and "sends_return E RL M D r P"
  shows "retG (\<lambda>s. P (world s)) (deployer_deploy E D resource info objs) anyG"
proof -
  have "retG (\<lambda>s. P (world s)) (applyConcurrently E D resource objs) anyG"
    by (rule applyConcurrently_returns [OF assms(1)]) (use assms(2) in \<open>simp add: sends_return_def\<close>)
  moreover have "retG (\<lambda>s. P (world s)) (trackConcurrently D objs) anyG"
    by (rule trackConcurrently_returns) (use assms(2) in \<open>simp add: sends_return_def\<close>)
  ultimately show ?thesis
    unfolding deployer_deploy_def deployer_track_def deployer_finish_def failWith_def markReady_def markNotReady_def
    by - (assumption | rule retG_world go_ret | (simp; fail))+
qed

lemma deployer_run_returns:
  assumes S: "deployer_sound E RL M D R r w1" and x: "obj s = x"
    and get: "getResource (api E) (resource_key x) (world s) = (res, w1)"
  shows "\<exists>q s'. deployer_run E RL M D (Load R (world_cell r)) s = (Ret q, s')"
proof (cases "\<exists>resource. res = Inr resource \<and> ready_object (k8s E) Resource_ico resource")
  case False
  then show ?thesis
    using get x by (auto simp: deployer_run_def tryG_def bindG_def getG_def GetReadyObject_result
        markNotReady_def thenG_def modifyG_def returnG_def split: sum.split)
next
  case True
  then obtain resource where res: "res = Inr resource" "ready_object (k8s E) Resource_ico resource" by blast
  have filled: "filled_resource resource"
    using filled_apiD(3) [of "k8s E" "api E"] S get res unfolding deployer_sound_def by (metis fst_conv)
  then obtain info where info: "rss_Resource (res_Status resource) = Some info"
    by (auto simp: filled_resource_def)
  let ?f = "DownloadResourceWithOCM E RL M resource" and ?t = "s\<lparr>world := w1\<rparr>"
  have ready: "cache_ready R (world_cell r) t = cache_ready R r (world t)" for t :: "(Deployer, 'a) rstate"
    using S world_cell_laws [of r] by (auto simp: cache_ready_def deployer_sound_def world_cell_def)
  have fallback: "\<exists>q s1. ?f s0 = (Ret q, s1) \<and> cache_ready R (world_cell r) s1"
    if "cache_ready R (world_cell r) s0" for s0
  proof -
    obtain q s1 where run: "?f s0 = (Ret q, s1)"
      using DownloadResourceWithOCM_returns [of M E resource RL] S filled retG_D [of anyG ?f anyG s0]
      by (auto simp: deployer_sound_def)
    have "cell_of r (world s1) = cell_of r (world s0)"
      using S run unfolding deployer_sound_def by (metis snd_conv)
    then have "cache_ready R (world_cell r) s1" using that unfolding ready by (simp add: cache_ready_def)
    with run show ?thesis by blast
  qed
  have "cache_ready R (world_cell r) ?t" unfolding ready using S by (simp add: deployer_sound_def)
  then obtain q s1 where load: "Load R (world_cell r) (ri_Digest info) ?f ?t = (Ret q, s1)"
    using memory_cache.load_returns [of R "world_cell r" ?t ?f "ri_Digest info"] fallback by blast
  obtain P where P: "P w1" "sends_return E RL M D r P" using S by (auto simp: deployer_sound_def)
  then have keep: "P (world t')" if "same_but_cell (world_cell r) t t'" "P (world t)" for t t'
    using that by (auto simp: sends_return_def same_but_cell_def world_cell_def)
  have "ref_laws (world_cell r :: ((Deployer, 'a) rstate, 'g) cell_ref) \<and> sized_lru_contract R"
    using S world_cell_laws by (auto simp: deployer_sound_def cache_ready_def)
  then have "postG (Load R (world_cell r) (ri_Digest info) ?f) ?t (\<lambda>_ s'. P (world s'))"
  proof (rule memory_partial.load_partial, goal_cases)
    case (1 v s')
    show ?case by (rule keep [OF 1(2)]) (simp add: P(1))
  next
    case (2 s0)
    have "P (world s0)" by (rule keep [OF 2]) (simp add: P(1))
    then have "P (world (snd (?f s0)))" using P(2) by (simp add: sends_return_def)
    then show ?case using keep by (auto simp: postG_def split: prod.splits outcome.splits sum.splits)
  qed
  then have "P (world s1)" using postG_D load by fastforce
  then have "\<exists>q s2. deployer_deploy E D resource info objs s1 = (Ret q, s2)" for objs
    using retG_D [where s = s1, OF deploy_returns [where info = info and objs = objs, OF filled P(2)]] by blast
  then show ?thesis
    using get x res info load by (cases q)
      (auto simp: deployer_run_def tryG_def bindG_def getG_def GetReadyObject_result derefG_def returnG_def)
qed

text \<open>A panic of the handler is one of \<open>Reconcile\<close>.\<close>

lemma reconcileObject_panics:
  assumes "get (world s) = (Inr x, w)" and "body (s\<lparr>world := w, obj := x\<rparr>) = (Panic p, s1)"
  shows "\<exists>s2. reconcileObject E io get patch requeueAfter body s = (Panic p, s2)"
  using assms by (simp add: reconcileObject_def deferStatus_def deferG_def go_defs)

text \<open>A deployer that is being deleted, with the watches of the informer manager.\<close>

lemma deletion_body:
  "obj s = x \<Longrightarrow> \<not> dsp_Suspend (dep_Spec x) \<Longrightarrow> \<not> IsZero_time (om_DeletionTimestamp (dep_meta x)) \<Longrightarrow>
   deployer_body E RL M D load s = deployer_delete E D s"
  by (simp add: deployer_body_def go_defs)

lemma deletion_run:
  assumes L: "k8s_contract (k8s E)" and x: "obj s = x" "\<not> dsp_Suspend (dep_Spec x)"
      "\<not> IsZero_time (om_DeletionTimestamp (dep_meta x))"
    and opened: "im_closed (world s) \<longrightarrow>
      list_all (IsStopped I (world s) (deployer_object D x)) (ActiveForParent (world s) (deployer_object D x))"
  obtains err s1 where "deployer_body E RL M (setupDynamicResourceWatcher I D) load s = (Ret (Result_zero, Some err), s1)"
    and "if list_all (IsStopped I (world s) (deployer_object D x)) (ActiveForParent (world s) (deployer_object D x))
      then set (om_Finalizers (dep_meta (obj s1))) = set (om_Finalizers (dep_meta x)) - {resourceWatchFinalizer}
      else dep_meta (obj s1) = dep_meta x"
proof -
  let ?D = "setupDynamicResourceWatcher I D" and ?w = "world s"
  let ?watches = "ActiveForParent ?w (deployer_object D x)"
  define t where "t = snd (untrack_loop ?D x ?watches False s)"
  have t: "obj t = x" using x(1) by (simp add: t_def untrack_loop_manager [OF opened])
  have loop: "untrack_loop ?D x ?watches False s =
      (Ret (Inr (list_ex (\<lambda>c. \<not> IsStopped I ?w (deployer_object D x) c) ?watches)), t)"
    by (simp add: t_def untrack_loop_manager [OF opened])
  note body = deletion_body [OF x, of E RL M ?D load]
  show thesis
  proof (cases "list_all (IsStopped I ?w (deployer_object D x)) ?watches")
    case True
    then have "\<not> list_ex (\<lambda>c. \<not> IsStopped I ?w (deployer_object D x) c) ?watches"
      by (simp add: list_ex_iff list_all_iff)
    with loop x t have "deployer_body E RL M ?D load s = (Ret (Result_zero, Some (ErrorString
          ''deployer is being deleted, waiting for resource watches to be removed'')),
        t\<lparr>obj := Deployer_setFinalizers (fst (finalizer_Remove (k8s E) resourceWatchFinalizer
          (om_Finalizers (dep_meta x)))) x\<rparr>)"
      unfolding body by (simp add: deployer_delete_def Untrack_def go_defs)
    then show thesis
      by (rule that) (use True in \<open>simp add: set_finalizers_defs k8s_finalizers(5) [OF L]\<close>)
  next
    case False
    then have "list_ex (\<lambda>c. \<not> IsStopped I ?w (deployer_object D x) c) ?watches"
      by (simp add: list_ex_iff list_all_iff)
    with loop x t have "deployer_body E RL M ?D load s = (Ret (Result_zero, Some (Errorf ''failed to untrack deployer''
        (ErrorString ''waiting for at least one resource watch to be removed''))), t)"
      unfolding body by (simp add: deployer_delete_def Untrack_def go_defs)
    then show thesis by (rule that) (use False t in simp)
  qed
qed

lemma deletion_world:
  assumes "obj s = x" and "\<not> dsp_Suspend (dep_Spec x)" and "\<not> IsZero_time (om_DeletionTimestamp (dep_meta x))"
    and opened: "im_closed (world s) \<longrightarrow>
      list_all (IsStopped I (world s) (deployer_object D x)) (ActiveForParent (world s) (deployer_object D x))"
    and "deployer_body E RL M (setupDynamicResourceWatcher I D) load s = (Ret r, s1)"
  shows "world s1 = (world s)\<lparr>im_unregister := im_unregister (world s) @
    map (\<lambda>c. \<lparr>we_Parent = deployer_object D x, we_Child = c\<rparr>)
      (filter (\<lambda>c. \<not> IsStopped I (world s) (deployer_object D x) c) (ActiveForParent (world s) (deployer_object D x)))\<rparr>"
  using assms
  by (cases "list_ex (\<lambda>c. \<not> IsStopped I (world s) (deployer_object D x) c) (ActiveForParent (world s) (deployer_object D x))")
     (auto simp: deployer_body_def deployer_delete_def Untrack_def untrack_loop_manager [OF opened] go_defs)

lemma deletion_reconcile:
  assumes L: "k8s_contract (k8s E)" and get: "getDeployer (api E) req (world s) = (Inr x, w)"
    and x: "\<not> dsp_Suspend (dep_Spec x)" "\<not> IsZero_time (om_DeletionTimestamp (dep_meta x))"
    and opened: "im_closed w \<longrightarrow>
      list_all (IsStopped I w (deployer_object D x)) (ActiveForParent w (deployer_object D x))"
  obtains err s1 where "deployer_Reconcile E RL M (setupDynamicResourceWatcher I D) load req s =
      (Ret (Result_zero, Some err), s1)"
    and "if list_all (IsStopped I w (deployer_object D x)) (ActiveForParent w (deployer_object D x))
      then set (om_Finalizers (dep_meta (obj s1))) = set (om_Finalizers (dep_meta x)) - {resourceWatchFinalizer}
      else dep_meta (obj s1) = dep_meta x"
    and "\<exists>y. world s1 = snd (patchDeployer (api E) x y (w\<lparr>im_unregister := im_unregister w @
      map (\<lambda>c. \<lparr>we_Parent = deployer_object D x, we_Child = c\<rparr>)
        (filter (\<lambda>c. \<not> IsStopped I w (deployer_object D x) c) (ActiveForParent w (deployer_object D x)))\<rparr>))"
proof -
  let ?D = "setupDynamicResourceWatcher I D" and ?s = "s\<lparr>world := w, obj := x\<rparr>" and ?p = "deployer_object D x"
  have opened': "im_closed (world ?s) \<longrightarrow> list_all (IsStopped I (world ?s) ?p) (ActiveForParent (world ?s) ?p)"
    using opened by simp
  obtain err s1 where body: "deployer_body E RL M ?D load ?s = (Ret (Result_zero, Some err), s1)"
    and s1: "if list_all (IsStopped I (world ?s) ?p) (ActiveForParent (world ?s) ?p)
      then set (om_Finalizers (dep_meta (obj s1))) = set (om_Finalizers (dep_meta x)) - {resourceWatchFinalizer}
      else dep_meta (obj s1) = dep_meta x"
    by (rule deletion_run [where s = ?s and I = I and D = D and RL = RL and M = M and load = load, OF L _ x opened']) simp
  obtain y s2 where run: "reconcileObject E Deployer_ico (getDeployer (api E) req) (patchDeployer (api E))
        (\<lambda>_. 0) (deployer_body E RL M ?D load) s =
      (Ret (Result_zero, errors_Join [Some err, fst (patchDeployer (api E) x y (world s1))]), s2)"
    and f: "status_frame Deployer_ico (obj s1) y" "obj s2 = y"
    and s2: "world s2 = snd (patchDeployer (api E) x y (world s1))"
    using deployer_object.reconcileObject_ret [where get = "getDeployer (api E) req" and s = s
      and body = "deployer_body E RL M ?D load", OF L get body, of "patchDeployer (api E)" "\<lambda>_. 0"]
    by (metis fst_conv snd_conv)
  have w1: "world s1 = w\<lparr>im_unregister := im_unregister w @ map (\<lambda>c. \<lparr>we_Parent = ?p, we_Child = c\<rparr>)
      (filter (\<lambda>c. \<not> IsStopped I w ?p c) (ActiveForParent w ?p))\<rparr>"
    using deletion_world [OF _ x opened' body] by simp
  show thesis
  proof (rule that)
    show "deployer_Reconcile E RL M ?D load req s =
        (Ret (Result_zero, Some (the (errors_Join [Some err, fst (patchDeployer (api E) x y (world s1))]))), s2)"
      using run by (simp add: deployer_Reconcile_def errors_Join_def)
    have "dep_meta y = dep_meta (obj s1)"
      using deployer_object.meta_frame [OF f(1)] by (simp add: Deployer_ico_def)
    with s1 f(2) show "if list_all (IsStopped I w ?p) (ActiveForParent w ?p)
      then set (om_Finalizers (dep_meta (obj s2))) = set (om_Finalizers (dep_meta x)) - {resourceWatchFinalizer}
      else dep_meta (obj s2) = dep_meta x" by simp
    show "\<exists>y. world s2 = snd (patchDeployer (api E) x y (w\<lparr>im_unregister := im_unregister w @
        map (\<lambda>c. \<lparr>we_Parent = ?p, we_Child = c\<rparr>)
          (filter (\<lambda>c. \<not> IsStopped I w ?p c) (ActiveForParent w ?p))\<rparr>))"
      using s2 w1 by auto
  qed
qed

section \<open>Properties\<close>


text \<open>
  A deployer names its resource with a namespace, or without for its own. The two indexes by
  which a resource finds its deployers, to have them reconciled and to delay its deletion, take
  the reference as it is written. A deployer that leaves the namespace out is in neither.
\<close>

theorem defaulted_reference_not_indexed:
  assumes "k8s_contract L" and "ok_Namespace (dsp_ResourceRef (dep_Spec d)) = []"
    and "om_Namespace (dep_meta d) \<noteq> []"
  shows "NamespacedName_String L (resource_key d) \<notin> set (deployer_resource_index d) \<and>
    NamespacedName_String L (resource_key d) \<notin> set (resource_deployer_index d)"
proof -
  have "length (NamespacedName_String L (resource_key d)) >
      length (''/'' @ ok_Name (dsp_ResourceRef (dep_Spec d)))"
    using assms by (simp add: k8s_key_string resource_key_def)
  then show ?thesis using assms(2) by (auto simp: deployer_resource_index_def resource_deployer_index_def)
qed



section \<open>Witnesses\<close>

definition deploy_resource :: Resource where
  "deploy_resource = labelled_resource\<lparr>res_Status := (res_Status labelled_resource)
     \<lparr>rss_Conditions := ready_conditions,
      rss_Component := Some \<lparr>ci_RepositorySpec = Some \<lparr>Raw = Some ''spec''\<rparr>, ci_Component = ''c'', ci_Version = ''2'', ci_Digest = None\<rparr>\<rparr>\<rparr>"

definition live_deployer :: Deployer where
  "live_deployer = Deployer_zero\<lparr>dep_meta := ObjectMeta_zero\<lparr>om_Name := ''d'', om_Namespace := ''ns''\<rparr>\<rparr>"

definition deleted_deployer :: Deployer where
  "deleted_deployer = Deployer_zero\<lparr>dep_meta := ObjectMeta_zero
     \<lparr>om_DeletionTimestamp := Some 1, om_Finalizers := [resourceWatchFinalizer]\<rparr>\<rparr>"

definition deployer_env :: "Deployer \<Rightarrow> ('w, string) controller_env" where
  "deployer_env d = \<lparr>k8s = sample_k8s,
     api = empty_client\<lparr>getDeployer := (\<lambda>_ w. (Inr d, w)), getResource := (\<lambda>_ w. (Inr deploy_resource, w))\<rparr>,
     ocmlib = (empty_ocm_lib ''d'')\<lparr>RepositorySpecForConfig := (\<lambda>_ _ w. (Inr 0, w)),
       session_LookupRepository := (\<lambda>_ _ _ w. (Inr 0, w)),
       session_LookupComponentVersion := (\<lambda>_ _ _ _ w. (Inr 0, w))\<rparr>,
     getSession = (\<lambda>_. returnG (Inr (0, 0))), showDuration = (\<lambda>_. [])\<rparr>"

definition deployer_res_lib :: "('w, string, nat) ocm_res_lib" where
  "deployer_res_lib = \<lparr>
     ResolveResourceReference = (\<lambda>d r ds. Inr (0, d)), GetIdentity = (\<lambda>m d. []),
     cv_SelectResources = (\<lambda>cv i w. (Inr [5], w)), session_LookupResolver = (\<lambda>s r c n v w. (Inr 1, w)),
     access_AccessMethod = (\<lambda>a w. (Inr 9, w)), VerifyResourceDigest = (\<lambda>cv a m ds w. ((True, None), w))\<rparr>"

abbreviation deployer_req :: NamespacedName where
  "deployer_req \<equiv> \<lparr>nn_Namespace = [], nn_Name = ''d''\<rparr>"

type_synonym sample_world = "(nat \<times> (string \<times> KObject list) list) cache_cell \<times> nat"

definition empty_cell :: "(nat \<times> (string \<times> KObject list) list) cache_cell" where
  "empty_cell = \<lparr>cell_cache = Some (NewMemoryDigestObjectCache sample_sized_lru ''cache'' 1 True),
     cell_metrics = \<lparr>objectCacheSize = (\<lambda>_. 0), missCount = (\<lambda>_. 0), hitCount = (\<lambda>_. 0), evictCount = (\<lambda>_. 0)\<rparr>\<rparr>"

definition deployer_start :: "(Deployer, sample_world) rstate" where
  "deployer_start = \<lparr>obj = Deployer_zero, events = [], world = (empty_cell, 0)\<rparr>"

definition deployer_run_sample :: "reconcile_result outcome \<times> (Deployer, sample_world) rstate" where
  "deployer_run_sample = deployer_Reconcile (deployer_env live_deployer) deployer_res_lib
     (sample_manifests [sample_object ''ConfigMap'' ''a'']) sample_deployer_lib
     (Load sample_sized_lru (world_cell pair_ref)) deployer_req deployer_start"


lemma deployer_run_sample_ok: "(case fst deployer_run_sample of Ret r \<Rightarrow> snd r = None | Panic _ \<Rightarrow> False)"
  by code_simp

lemma deployer_env_facts:
  "k8s_contract (k8s (deployer_env d))" "foreign_get (getResource (api (deployer_env d)))"
  "getDeployer (api (deployer_env d)) req w = (Inr d, w)"
  "getResource (api (deployer_env d)) key w = (Inr deploy_resource, w)"
  using sample_k8s_contract by (simp_all add: deployer_env_def empty_client_def foreign_get_def)


theorem defaulted_reference_not_indexed_witness:
  "NamespacedName_String sample_k8s (resource_key live_deployer) \<notin> set (deployer_resource_index live_deployer)"
  using defaulted_reference_not_indexed [OF sample_k8s_contract, of live_deployer]
  by (simp add: live_deployer_def zero_defs)


end
