(* ===== verification/Setup.thy ===== *)
theory Setup
  imports ComponentController RepositoryController ReplicationController DeployerController
begin

text \<open>
  \<open>cmd/main.go\<close> with the functions \<open>SetupWithManager\<close> of the controllers, the registration of
  the metrics and of the API types, and the method \<open>Start\<close> of the informer manager. The state is
  what the process has registered so far. The manager, the metrics registry and the flag parser
  are libraries: each call of them that can fail is a field of \<open>setup_lib\<close>, which sees what has
  been registered before.
\<close>

section \<open>State\<close>

text \<open>A field index: the indexed field and the function that gives the values of an object.\<close>

datatype indexer =
    IndexComponents string "Component \<Rightarrow> string list"
  | IndexResources string "Resource \<Rightarrow> string list"
  | IndexDeployers string "Deployer \<Rightarrow> string list"
  | IndexReplications string "Replication \<Rightarrow> string list"

fun indexed :: "indexer \<Rightarrow> string \<times> string" where
  "indexed (IndexComponents f g) = (''Component'', f)"
| "indexed (IndexResources f g) = (''Resource'', f)"
| "indexed (IndexDeployers f g) = (''Deployer'', f)"
| "indexed (IndexReplications f g) = (''Replication'', f)"

text \<open>A controller as the builder makes it; \<open>MaxConcurrentReconciles\<close> is nil without options.\<close>

record registration =
  reg_For :: string
  reg_GenerationChanged :: bool
  reg_Watches :: "string list"
  reg_InformerSource :: bool
  reg_MaxConcurrentReconciles :: "int option"

definition controller_for :: "string \<Rightarrow> string list \<Rightarrow> registration" where
  "controller_for kind watches = \<lparr>reg_For = kind, reg_GenerationChanged = True, reg_Watches = watches,
     reg_InformerSource = False, reg_MaxConcurrentReconciles = None\<rparr>"

record tls_config =
  NextProtos :: "string list"

record ManagerOptions =
  mo_MetricsAddr :: string
  mo_SecureServing :: bool
  mo_MetricsTLS :: "(tls_config \<Rightarrow> tls_config) list"
  mo_WebhookTLS :: "(tls_config \<Rightarrow> tls_config) list"
  mo_ProbeAddr :: string
  mo_LeaderElection :: bool
  mo_LeaderElectionID :: string

text \<open>A metric of prometheus: its name and its labels.\<close>

type_synonym collector = "string \<times> string list"

text \<open>What the manager runs besides the controllers.\<close>

datatype 'w runnable =
    ContextCacheRunnable string nat nat    \<comment> \<open>name, size for contexts, size for sessions\<close>
  | InformerManagerRunnable "'w manager"

record ('w, 'l) process =
  p_types :: "GroupVersionKind list"
  p_metrics :: "collector list"
  p_manager :: "ManagerOptions option"
  p_runnables :: "'w runnable list"
  p_indexes :: "indexer list"
  p_controllers :: "registration list"
  p_downloads :: "'l MemoryDigestObjectCache option"
  p_healthz :: "string list"
  p_readyz :: "string list"
  p_started :: bool
  p_log :: "(string \<times> goerr) list"

definition process_start :: "('w, 'l) process" where
  "process_start = \<lparr>p_types = [], p_metrics = [], p_manager = None, p_runnables = [], p_indexes = [],
     p_controllers = [], p_downloads = None, p_healthz = [], p_readyz = [], p_started = False, p_log = []\<rparr>"

record flags =
  metricsAddr :: string
  probeAddr :: string
  enableLeaderElection :: bool
  secureMetrics :: bool
  enableHTTP2 :: bool
  eventsAddr :: string
  deployerDownloadCacheSize :: nat
  ocmContextCacheSize :: nat
  ocmSessionCacheSize :: nat
  resourceConcurrency :: int

text \<open>The values of the flags that are not given.\<close>

definition default_flags :: flags where
  "default_flags = \<lparr>metricsAddr = ''0'', probeAddr = '':8081'', enableLeaderElection = False,
     secureMetrics = False, enableHTTP2 = False, eventsAddr = [], deployerDownloadCacheSize = 1000,
     ocmContextCacheSize = 100, ocmSessionCacheSize = 100, resourceConcurrency = 4\<rparr>"

section \<open>The library\<close>

record ('w, 'l) setup_lib =
  lib_clientgoscheme :: "goerr option"
  lib_AddKnownTypes :: "GroupVersionKind list \<Rightarrow> GroupVersionKind list \<Rightarrow> goerr option"
  lib_RegisterMetric :: "collector list \<Rightarrow> collector \<Rightarrow> goerr option"
  lib_GetConfig :: "goerr option"
  lib_NewManager :: "ManagerOptions \<Rightarrow> goerr option"
  lib_NewRecorder :: "string \<Rightarrow> string \<Rightarrow> goerr option"
  lib_Add :: "'w runnable \<Rightarrow> goerr option"
  lib_IndexField :: "(string \<times> string) list \<Rightarrow> string \<times> string \<Rightarrow> goerr option"
  lib_Complete :: "string list \<Rightarrow> registration \<Rightarrow> goerr option"
  lib_AddHealthzCheck :: "string \<Rightarrow> goerr option"
  lib_AddReadyzCheck :: "string \<Rightarrow> goerr option"
  lib_Start :: "goerr option"
  lib_labels_Parse :: "string \<Rightarrow> goerr option"
  lib_RESTMapper :: nat
  lib_NewDynamicRESTMapper :: "goerr + nat"
  lib_NewCache :: "nat \<Rightarrow> goerr option"
  lib_NumCPU :: int
  lib_world :: 'w
  lib_lru :: "('l, string, KObject list) sized_lru_lib"

text \<open>A call that fails, or takes effect.\<close>

definition step_P :: "('p \<Rightarrow> goerr option) \<Rightarrow> ('p \<Rightarrow> 'p) \<Rightarrow> ('p, goerr option) go" where
  [go_defs]: "step_P f upd = (\<lambda>p. case f p of Some err \<Rightarrow> (Ret (Some err), p) | None \<Rightarrow> (Ret None, upd p))"

definition IndexField :: "('w, 'l) setup_lib \<Rightarrow> indexer \<Rightarrow> (('w, 'l) process, goerr option) go" where
  "IndexField L i = step_P (\<lambda>p. lib_IndexField L (map indexed (p_indexes p)) (indexed i))
     (\<lambda>p. p\<lparr>p_indexes := p_indexes p @ [i]\<rparr>)"

definition mgr_Add :: "('w, 'l) setup_lib \<Rightarrow> 'w runnable \<Rightarrow> (('w, 'l) process, goerr option) go" where
  "mgr_Add L r = step_P (\<lambda>p. lib_Add L r) (\<lambda>p. p\<lparr>p_runnables := p_runnables p @ [r]\<rparr>)"

definition complete_controller ::
  "('w, 'l) setup_lib \<Rightarrow> registration \<Rightarrow> (('w, 'l) process, goerr option) go" where
  "complete_controller L r = step_P (\<lambda>p. lib_Complete L (map reg_For (p_controllers p)) r)
     (\<lambda>p. p\<lparr>p_controllers := p_controllers p @ [r]\<rparr>)"

section \<open>API types\<close>

text \<open>
  The registrations with the builder of the scheme, made by the \<open>init\<close> functions of the package
  in the order of its files: component, deployer, replication, repository, resource.
\<close>

definition delivery_kind :: "string \<Rightarrow> GroupVersionKind" where
  "delivery_kind kind =
     \<lparr>gvk_Group = GroupVersion_Group, gvk_Version = ''v1alpha1'', gvk_Kind = kind\<rparr>"

definition scheme_registrations :: "GroupVersionKind list list" where
  "scheme_registrations = map (map delivery_kind)
     [[''Component'', ''ComponentList''], [''Deployer'', ''DeployerList''],
      [''Replication'', ''ReplicationList''], [''Repository'', ''RepositoryList''],
      [''Resource'', ''ResourceList'']]"

fun AddToScheme ::
  "('w, 'l) setup_lib \<Rightarrow> GroupVersionKind list list \<Rightarrow> (('w, 'l) process, goerr option) go" where
  "AddToScheme L [] = returnG None"
| "AddToScheme L (ks # kss) =
     checkG (step_P (\<lambda>p. lib_AddKnownTypes L (p_types p) ks) (\<lambda>p. p\<lparr>p_types := p_types p @ ks\<rparr>))
       (\<lambda>err. returnG (Some err))
     (AddToScheme L kss)"

section \<open>Metrics\<close>

text \<open>
  The metrics that the packages \<open>dynamic\<close>, \<open>cache\<close> and \<open>ocm\<close> make when they are initialised.
\<close>

definition dynamic_metrics :: "collector list" where
  "dynamic_metrics =
     [(''dynamic_informer_active_watch_tasks'', [''name'']),
      (''dynamic_informer_register_total'', [''name'', ''group'', ''version'', ''kind'', ''namespace'']),
      (''dynamic_informer_unregister_total'', [''name'', ''group'', ''version'', ''kind'', ''namespace'']),
      (''dynamic_informer_events_handled_total'', [''name'', ''event_type'']),
      (''dynamic_informer_operation_duration_seconds'', [''name'', ''operation''])]"

definition digest_cache_metrics :: "collector list" where
  "digest_cache_metrics =
     [(''cache_size'', [''name'']), (''cache_miss_total'', [''name'']), (''cache_hit_total'', [''name'']),
      (''cache_evict_total'', [''name''])]"

definition context_cache_metrics :: "collector list" where
  "context_cache_metrics = [(''session_cache_size'', [''name'']), (''context_cache_size'', [''name''])]"

text \<open>
  \<open>RegisterMetrics\<close> of each package: every metric is registered, whatever happened to the ones
  before, and the errors are joined.
\<close>

fun register_each ::
  "('w, 'l) setup_lib \<Rightarrow> collector list \<Rightarrow> goerr option list \<Rightarrow> (('w, 'l) process, goerr option) go" where
  "register_each L [] errs = returnG (errors_Join errs)"
| "register_each L (c # cs) errs =
     bindG (step_P (\<lambda>p. lib_RegisterMetric L (p_metrics p) c) (\<lambda>p. p\<lparr>p_metrics := p_metrics p @ [c]\<rparr>))
       (\<lambda>err. register_each L cs (errs @ [err]))"

definition dynamic_RegisterMetrics :: "('w, 'l) setup_lib \<Rightarrow> (('w, 'l) process, goerr option) go" where
  "dynamic_RegisterMetrics L = register_each L dynamic_metrics []"

definition digest_cache_RegisterMetrics :: "('w, 'l) setup_lib \<Rightarrow> (('w, 'l) process, goerr option) go" where
  "digest_cache_RegisterMetrics L = register_each L digest_cache_metrics []"

definition context_cache_RegisterMetrics :: "('w, 'l) setup_lib \<Rightarrow> (('w, 'l) process, goerr option) go" where
  "context_cache_RegisterMetrics L = register_each L context_cache_metrics []"

text \<open>\<open>MustRegisterMetrics\<close> and \<open>utilruntime.Must\<close>: an error is a panic.\<close>

definition mustG :: "('p, goerr option) go \<Rightarrow> ('p, unit) go" where
  [go_defs]: "mustG m = checkG m (\<lambda>err. panicG (Error_msg err)) (returnG ())"

definition dynamic_MustRegisterMetrics :: "('w, 'l) setup_lib \<Rightarrow> (('w, 'l) process, unit) go" where
  "dynamic_MustRegisterMetrics L = mustG (dynamic_RegisterMetrics L)"

definition digest_cache_MustRegisterMetrics :: "('w, 'l) setup_lib \<Rightarrow> (('w, 'l) process, unit) go" where
  "digest_cache_MustRegisterMetrics L = mustG (digest_cache_RegisterMetrics L)"

definition context_cache_MustRegisterMetrics :: "('w, 'l) setup_lib \<Rightarrow> (('w, 'l) process, unit) go" where
  "context_cache_MustRegisterMetrics L = mustG (context_cache_RegisterMetrics L)"

text \<open>The function \<open>init\<close> of the main package.\<close>

definition main_init :: "('w, 'l) setup_lib \<Rightarrow> (('w, 'l) process, unit) go" where
  "main_init L =
     thenG (mustG (returnG (lib_clientgoscheme L)))
    (thenG (mustG (AddToScheme L scheme_registrations))
    (thenG (dynamic_MustRegisterMetrics L)
    (thenG (digest_cache_MustRegisterMetrics L)
    (context_cache_MustRegisterMetrics L))))"

section \<open>Setting the controllers up\<close>

definition repository_SetupWithManager :: "('w, 'l) setup_lib \<Rightarrow> (('w, 'l) process, goerr option) go" where
  "repository_SetupWithManager L =
     checkG (IndexField L (IndexComponents repositoryKey repository_component_index))
       (\<lambda>err. returnG (Some (Errorf ''failed setting index fields'' err)))
     (complete_controller L (controller_for ''Repository'' [''Component'']))"

definition component_SetupWithManager :: "('w, 'l) setup_lib \<Rightarrow> (('w, 'l) process, goerr option) go" where
  "component_SetupWithManager L =
     checkG (IndexField L (IndexComponents ''spec.repositoryRef.name'' component_repository_index))
       (\<lambda>err. returnG (Some (Errorf ''failed setting index fields'' err)))
    (checkG (IndexField L (IndexResources ''.spec.componentRef.Name'' component_resource_index))
       (\<lambda>err. returnG (Some (Errorf ''failed setting index fields'' err)))
     (complete_controller L (controller_for ''Component'' [''Repository'', ''Resource''])))"

definition resource_SetupWithManager ::
  "('w, 'l) setup_lib \<Rightarrow> int \<Rightarrow> (('w, 'l) process, goerr option) go" where
  "resource_SetupWithManager L concurrency =
     checkG (IndexField L (IndexResources ''spec.componentRef.name'' resource_component_index))
       (\<lambda>err. returnG (Some err))
    (checkG (IndexField L (IndexDeployers deployerIndex resource_deployer_index))
       (\<lambda>err. returnG (Some (Errorf ''failed setting index fields'' err)))
     (complete_controller L ((controller_for ''Resource'' [''Component'', ''Deployer''])
        \<lparr>reg_MaxConcurrentReconciles := Some concurrency\<rparr>)))"

definition replication_SetupWithManager :: "('w, 'l) setup_lib \<Rightarrow> (('w, 'l) process, goerr option) go" where
  "replication_SetupWithManager L =
     checkG (IndexField L (IndexReplications ''spec.componentRef.name'' componentNameExtractor))
       (\<lambda>err. returnG (Some err))
    (checkG (IndexField L (IndexReplications ''spec.targetRepositoryRef.name'' targetRepoNameExtractor))
       (\<lambda>err. returnG (Some err))
     (complete_controller L (controller_for ''Replication'' [''Component'', ''Repository''])))"

text \<open>
  The informer manager of the deployer: a worker for each processor, the mapper of the manager,
  the default time for its shutdown.
\<close>

definition setupDynamicResourceWatcherWithManager ::
  "('w, 'l) setup_lib \<Rightarrow> (('w, 'l) process, goerr + 'w manager) go" where
  "setupDynamicResourceWatcherWithManager L =
     checkG (returnG (lib_labels_Parse L (managedByLabel @ ''='' @ deployerManager)))
       (\<lambda>err. returnG (Inl (Errorf ''failed to parse label selector'' err)))
    (tryG (returnG (NewInformerManager (lib_NewDynamicRESTMapper L) (lib_NewCache L)
         \<lparr>opt_RESTMapper = Some (lib_RESTMapper L), opt_Workers = lib_NumCPU L,
          opt_ShutdownTimeout = 0\<rparr> (lib_world L)))
       (\<lambda>err. returnG (Inl (Errorf ''failed to create dynamic informer deployerManager'' err)))
    (\<lambda>informerManager. checkG (mgr_Add L (InformerManagerRunnable informerManager))
       (\<lambda>err. returnG (Inl (Errorf
          ''failed to add dynamic informer deployerManager to controller deployerManager'' err)))
     (returnG (Inr informerManager))))"

definition deployer_SetupWithManager :: "('w, 'l) setup_lib \<Rightarrow> (('w, 'l) process, goerr option) go" where
  "deployer_SetupWithManager L =
     tryG (setupDynamicResourceWatcherWithManager L) (\<lambda>err. returnG (Some err))
    (\<lambda>informerManager.
     checkG (IndexField L (IndexDeployers ''.spec.resourceRef'' deployer_resource_index))
       (\<lambda>err. returnG (Some err))
     (complete_controller L ((controller_for ''Deployer'' [''Resource'']) \<lparr>reg_InformerSource := True\<rparr>)))"

section \<open>The main function\<close>

definition disableHTTP2 :: "tls_config \<Rightarrow> tls_config" where
  "disableHTTP2 c = c\<lparr>NextProtos := [''http/1.1'']\<rparr>"

definition tlsOpts :: "flags \<Rightarrow> (tls_config \<Rightarrow> tls_config) list" where
  "tlsOpts fl = (if \<not> enableHTTP2 fl then [disableHTTP2] else [])"

definition manager_options :: "flags \<Rightarrow> ManagerOptions" where
  "manager_options fl = \<lparr>mo_MetricsAddr = metricsAddr fl, mo_SecureServing = secureMetrics fl,
     mo_MetricsTLS = tlsOpts fl, mo_WebhookTLS = tlsOpts fl, mo_ProbeAddr = probeAddr fl,
     mo_LeaderElection = enableLeaderElection fl, mo_LeaderElectionID = ''56490b8c.ocm.software''\<rparr>"

text \<open>\<open>setupLog.Error(err, msg)\<close> followed by \<open>os.Exit(1)\<close>. The result of \<open>main\<close> is the exit code.\<close>

definition exit1 :: "string \<Rightarrow> goerr \<Rightarrow> (('w, 'l) process, nat) go" where
  "exit1 msg err = thenG (modifyG (\<lambda>p. p\<lparr>p_log := p_log p @ [(msg, err)]\<rparr>)) (returnG 1)"

text \<open>From the context cache to the last controller.\<close>

definition main_controllers ::
  "('w, 'l) setup_lib \<Rightarrow> flags \<Rightarrow> (('w, 'l) process, nat) go \<Rightarrow> (('w, 'l) process, nat) go" where
  "main_controllers L fl rest =
     checkG (mgr_Add L (ContextCacheRunnable ''shared_ocm_context_cache'' (ocmContextCacheSize fl)
         (ocmSessionCacheSize fl)))
       (exit1 ''unable to create ocm context cache'')
    (checkG (repository_SetupWithManager L) (exit1 ''unable to create controller'')
    (checkG (component_SetupWithManager L) (exit1 ''unable to create controller'')
    (checkG (resource_SetupWithManager L (resourceConcurrency fl)) (exit1 ''unable to create controller'')
    (checkG (replication_SetupWithManager L) (exit1 ''unable to create controller'')
    (thenG (modifyG (\<lambda>p. p\<lparr>p_downloads := Some (NewMemoryDigestObjectCache (lib_lru L)
         ''deployer_download_cache'' (deployerDownloadCacheSize fl) True)\<rparr>))
    (checkG (deployer_SetupWithManager L) (exit1 ''unable to create controller'')
     rest))))))"

text \<open>
  \<open>GetConfigOrDie\<close> exits itself. The goroutine that waits for the election does nothing else.
\<close>

definition main :: "('w, 'l) setup_lib \<Rightarrow> flags \<Rightarrow> (('w, 'l) process, nat) go" where
  "main L fl =
     checkG (returnG (lib_GetConfig L)) (\<lambda>err. returnG 1)
    (checkG (step_P (\<lambda>p. lib_NewManager L (manager_options fl)) (\<lambda>p. p\<lparr>p_manager := Some (manager_options fl)\<rparr>))
       (exit1 ''unable to start manager'')
    (checkG (returnG (lib_NewRecorder L (eventsAddr fl) ''ocm-k8s-toolkit''))
       (exit1 ''unable to create event recorder'')
    (main_controllers L fl
    (checkG (step_P (\<lambda>p. lib_AddHealthzCheck L ''healthz'') (\<lambda>p. p\<lparr>p_healthz := p_healthz p @ [''healthz'']\<rparr>))
       (exit1 ''unable to set up health check'')
    (checkG (step_P (\<lambda>p. lib_AddReadyzCheck L ''readyz'') (\<lambda>p. p\<lparr>p_readyz := p_readyz p @ [''readyz'']\<rparr>))
       (exit1 ''unable to set up ready check'')
    (checkG (thenG (modifyG (\<lambda>p. p\<lparr>p_started := True\<rparr>)) (returnG (lib_Start L)))
       (exit1 ''problem running manager'')
     (returnG 0)))))))"

definition process_run :: "('w, 'l) setup_lib \<Rightarrow> flags \<Rightarrow> nat outcome \<times> ('w, 'l) process" where
  "process_run L fl = thenG (main_init L) (main L fl) process_start"

section \<open>Lemmas\<close>

lemma step_P_result [go_wp]:
  "postG (step_P f u) p Q = (case f p of Some err \<Rightarrow> Q (Some err) p | None \<Rightarrow> Q None (u p))"
  by (simp add: postG_def step_P_def split: option.split)

lemma retG_step_P [go_ret]: "retG anyG (step_P f u) anyG"
  by (simp add: retG_def step_P_def split: option.split)

lemma invG_step_P [go_inv]: "(\<And>p. I p \<Longrightarrow> I (u p)) \<Longrightarrow> invG I (step_P f u)"
  by (simp add: invG_def step_P_def split: option.split)

lemma invG_mustG [go_inv]: "invG I m \<Longrightarrow> invG I (mustG m)"
  unfolding mustG_def by (intro go_inv)

lemmas setup_defs = repository_SetupWithManager_def component_SetupWithManager_def
  resource_SetupWithManager_def replication_SetupWithManager_def deployer_SetupWithManager_def
  setupDynamicResourceWatcherWithManager_def IndexField_def mgr_Add_def complete_controller_def

lemmas metrics_defs = dynamic_MustRegisterMetrics_def digest_cache_MustRegisterMetrics_def
  context_cache_MustRegisterMetrics_def dynamic_RegisterMetrics_def digest_cache_RegisterMetrics_def
  context_cache_RegisterMetrics_def

subsection \<open>Initialisation\<close>

lemma register_each_inv: "(\<And>p ms. I p \<Longrightarrow> I (p\<lparr>p_metrics := ms\<rparr>)) \<Longrightarrow> invG I (register_each L cs errs)"
  by (induction cs arbitrary: errs) (auto intro!: go_inv)

lemma AddToScheme_inv: "(\<And>p ts. I p \<Longrightarrow> I (p\<lparr>p_types := ts\<rparr>)) \<Longrightarrow> invG I (AddToScheme L kss)"
  by (induction kss) (auto intro!: go_inv)

text \<open>Registering returns no error only when everything has been registered.\<close>

lemma register_each_complete:
  "postG (register_each L cs errs) p (\<lambda>e p'. e = None \<longrightarrow> (\<forall>x \<in> set errs. x = None) \<and>
     p' = p\<lparr>p_metrics := p_metrics p @ cs\<rparr>)"
proof (induction cs arbitrary: errs p)
  case (Cons c cs)
  show ?case
  proof (cases "lib_RegisterMetric L (p_metrics p) c")
    case None
    show ?thesis using Cons.IH [of "errs @ [None]" "p\<lparr>p_metrics := p_metrics p @ [c]\<rparr>"]
      by (simp add: go_wp None)
  next
    case (Some e)
    show ?thesis
      unfolding register_each.simps postG_bind step_P_result Some option.case
      by (rule postG_mono [OF Cons.IH]) auto
  qed
qed (simp add: go_wp)

lemma AddToScheme_complete:
  "postG (AddToScheme L kss) p (\<lambda>e p'. e = None \<longrightarrow> p' = p\<lparr>p_types := p_types p @ concat kss\<rparr>)"
proof (induction kss arbitrary: p)
  case (Cons ks kss)
  show ?case using Cons.IH [of "p\<lparr>p_types := p_types p @ ks\<rparr>"]
    by (simp add: go_wp split: option.split)
qed (simp add: go_wp)

lemma mustG_post: "postG m p (\<lambda>e p'. e = None \<longrightarrow> Q p') \<Longrightarrow> postG (mustG m) p (\<lambda>_. Q)"
  unfolding mustG_def postG_check by (erule postG_mono) (auto simp: go_wp split: option.split)

definition all_metrics :: "collector list" where
  "all_metrics = dynamic_metrics @ digest_cache_metrics @ context_cache_metrics"

lemma metrics_complete:
  "postG (mustG (register_each L cs [])) p (\<lambda>_ p'. p' = p\<lparr>p_metrics := p_metrics p @ cs\<rparr>)"
  by (rule mustG_post) (rule postG_mono [OF register_each_complete], simp)

lemma main_init_complete:
  "postG (main_init L) p (\<lambda>_ p'. p' = p\<lparr>p_types := p_types p @ concat scheme_registrations,
     p_metrics := p_metrics p @ all_metrics\<rparr>)"
  unfolding main_init_def metrics_defs all_metrics_def postG_then
  apply (rule postG_mono [OF mustG_post [where Q = "\<lambda>p'. p' = p"]])
   apply (simp add: go_wp)
  apply (rule postG_mono [OF mustG_post [OF AddToScheme_complete]])
  apply (rule postG_mono [OF metrics_complete])+
  apply simp
  done

lemma main_init_not_started: "invG (\<lambda>p. \<not> p_started p) (main_init L)"
  unfolding main_init_def metrics_defs
  by (intro go_inv register_each_inv AddToScheme_inv) simp_all

subsection \<open>The main function\<close>

lemma main_returns: "retG anyG (main L fl) anyG"
  unfolding main_def main_controllers_def setup_defs exit1_def
  by (rule go_ret | (simp; fail))+

text \<open>What has been registered when the manager starts.\<close>

definition program_indexes :: "indexer list" where
  "program_indexes =
     [IndexComponents repositoryKey repository_component_index,
      IndexComponents ''spec.repositoryRef.name'' component_repository_index,
      IndexResources ''.spec.componentRef.Name'' component_resource_index,
      IndexResources ''spec.componentRef.name'' resource_component_index,
      IndexDeployers deployerIndex resource_deployer_index,
      IndexReplications ''spec.componentRef.name'' componentNameExtractor,
      IndexReplications ''spec.targetRepositoryRef.name'' targetRepoNameExtractor,
      IndexDeployers ''.spec.resourceRef'' deployer_resource_index]"

definition registered_indexes :: "(string \<times> string) list" where
  "registered_indexes = map indexed program_indexes"

definition complete_process :: "('w, 'l) setup_lib \<Rightarrow> flags \<Rightarrow> ('w, 'l) process \<Rightarrow> bool" where
  "complete_process L fl p \<longleftrightarrow>
     p_types p = concat scheme_registrations \<and> p_metrics p = all_metrics \<and>
     p_manager p = Some (manager_options fl) \<and> p_indexes p = program_indexes \<and>
     map (\<lambda>r. (reg_For r, reg_Watches r)) (p_controllers p) =
       [(''Repository'', [''Component'']), (''Component'', [''Repository'', ''Resource'']),
        (''Resource'', [''Component'', ''Deployer'']), (''Replication'', [''Component'', ''Repository'']),
        (''Deployer'', [''Resource''])] \<and>
     (\<exists>m mapper. p_runnables p = [ContextCacheRunnable ''shared_ocm_context_cache''
         (ocmContextCacheSize fl) (ocmSessionCacheSize fl), InformerManagerRunnable m] \<and>
       NewInformerManager (lib_NewDynamicRESTMapper L) (lib_NewCache L)
         \<lparr>opt_RESTMapper = Some mapper, opt_Workers = lib_NumCPU L, opt_ShutdownTimeout = 0\<rparr>
         (lib_world L) = Inr m) \<and>
     (\<exists>c. p_downloads p = Some c \<and> mc_cache c \<noteq> None \<and> mc_onEvict c) \<and>
     p_healthz p = [''healthz''] \<and> p_readyz p = [''readyz'']"

definition after_init :: "('w, 'l) process" where
  "after_init = process_start\<lparr>p_types := concat scheme_registrations, p_metrics := all_metrics\<rparr>"

definition run_outcome :: "('w, 'l) setup_lib \<Rightarrow> flags \<Rightarrow> nat \<Rightarrow> ('w, 'l) process \<Rightarrow> bool" where
  "run_outcome L fl code p \<longleftrightarrow>
     (if p_started p then complete_process L fl p \<and> (code = 0 \<longleftrightarrow> lib_Start L = None)
      else code = 1 \<and> (lib_GetConfig L \<noteq> None \<or> p_log p \<noteq> []))"

lemmas run_defs = run_outcome_def complete_process_def after_init_def process_start_def
  program_indexes_def controller_for_def NewMemoryDigestObjectCache_def

lemma main_outcome: "postG (main L fl) after_init (run_outcome L fl)"
  unfolding main_def main_controllers_def setup_defs
  by (simp add: postG_def go_defs exit1_def run_defs split: option.split sum.split) blast

text \<open>
  What the libraries promise: each refuses a second registration of the same thing and nothing
  else. Two collectors of one name, two indexes of one field of a kind, two controllers of one
  kind and two types of one kind are the same thing.
\<close>

definition registries_contract :: "('w, 'l) setup_lib \<Rightarrow> bool" where
  "registries_contract L \<longleftrightarrow>
     (\<forall>ts ks. set ks \<inter> set ts = {} \<longrightarrow> lib_AddKnownTypes L ts ks = None) \<and>
     (\<forall>cs c. fst c \<notin> fst ` set cs \<longrightarrow> lib_RegisterMetric L cs c = None) \<and>
     (\<forall>is i. i \<notin> set is \<longrightarrow> lib_IndexField L is i = None) \<and>
     (\<forall>cs r. reg_For r \<notin> set cs \<longrightarrow> lib_Complete L cs r = None)"

text \<open>The environment: a reachable cluster, free addresses, checks and runnables accepted.\<close>

definition environment_ok :: "('w, 'l) setup_lib \<Rightarrow> bool" where
  "environment_ok L \<longleftrightarrow> lib_clientgoscheme L = None \<and> lib_GetConfig L = None \<and>
     (\<forall>opts. lib_NewManager L opts = None) \<and> (\<forall>a c. lib_NewRecorder L a c = None) \<and>
     (\<forall>r. lib_Add L r = None) \<and> (\<forall>s. lib_labels_Parse L s = None) \<and>
     (\<forall>m. lib_NewCache L m = None) \<and>
     (\<forall>n. lib_AddHealthzCheck L n = None) \<and> (\<forall>n. lib_AddReadyzCheck L n = None)"

lemma registries_contractD:
  assumes "registries_contract L"
  shows "set ks \<inter> set ts = {} \<Longrightarrow> lib_AddKnownTypes L ts ks = None"
    and "fst c \<notin> fst ` set cs \<Longrightarrow> lib_RegisterMetric L cs c = None"
    and "i \<notin> set is \<Longrightarrow> lib_IndexField L is i = None"
    and "reg_For r \<notin> set ks' \<Longrightarrow> lib_Complete L ks' r = None"
  using assms unfolding registries_contract_def by blast+

lemma register_each_runs:
  assumes "registries_contract L" and "distinct (map fst cs)" and "fst ` set cs \<inter> fst ` set (p_metrics p) = {}"
    and "\<forall>x \<in> set errs. x = None"
  shows "register_each L cs errs p = (Ret None, p\<lparr>p_metrics := p_metrics p @ cs\<rparr>)"
  using assms(2-4)
proof (induction cs arbitrary: errs p)
  case Nil
  then show ?case by (simp add: go_defs)
next
  case (Cons c cs)
  have "lib_RegisterMetric L (p_metrics p) c = None"
    using registries_contractD(2) [OF assms(1)] Cons.prems(2) by auto
  moreover have "register_each L cs (errs @ [None]) (p\<lparr>p_metrics := p_metrics p @ [c]\<rparr>) =
      (Ret None, p\<lparr>p_metrics := p_metrics p @ c # cs\<rparr>)"
    by (subst Cons.IH) (use Cons.prems in auto)
  ultimately show ?case by (simp add: bindG_def step_P_def)
qed

lemma AddToScheme_runs:
  assumes "registries_contract L" and "distinct (concat kss)" and "set (concat kss) \<inter> set (p_types p) = {}"
  shows "AddToScheme L kss p = (Ret None, p\<lparr>p_types := p_types p @ concat kss\<rparr>)"
  using assms(2,3)
proof (induction kss arbitrary: p)
  case Nil
  then show ?case by (simp add: go_defs)
next
  case (Cons ks kss)
  have "lib_AddKnownTypes L (p_types p) ks = None"
    using registries_contractD(1) [OF assms(1)] Cons.prems(2) by auto
  moreover have "AddToScheme L kss (p\<lparr>p_types := p_types p @ ks\<rparr>) =
      (Ret None, p\<lparr>p_types := p_types p @ concat (ks # kss)\<rparr>)"
    by (subst Cons.IH) (use Cons.prems in auto)
  ultimately show ?case by (simp add: checkG_def bindG_def step_P_def)
qed

lemma names_distinct:
  "distinct (map fst all_metrics)" "distinct (concat scheme_registrations)" "distinct registered_indexes"
  by (simp_all add: all_metrics_def dynamic_metrics_def digest_cache_metrics_def context_cache_metrics_def
      scheme_registrations_def delivery_kind_def registered_indexes_def program_indexes_def repositoryKey_def deployerIndex_def)

lemma register_must_runs:
  assumes "registries_contract L" and "distinct (map fst cs)" and "fst ` set cs \<inter> fst ` set (p_metrics p) = {}"
  shows "mustG (register_each L cs []) p = (Ret (), p\<lparr>p_metrics := p_metrics p @ cs\<rparr>)"
  using register_each_runs [OF assms, of "[]"] by (simp add: mustG_def checkG_def bindG_def returnG_def)

lemma must_return: "mustG (returnG None) p = (Ret (), p)"
  by (simp add: go_defs)

lemma main_init_runs:
  assumes "registries_contract L" and "lib_clientgoscheme L = None"
  shows "main_init L process_start = (Ret (), after_init)"
proof -
  have "mustG (AddToScheme L scheme_registrations) process_start =
      (Ret (), process_start\<lparr>p_types := concat scheme_registrations\<rparr>)"
    using AddToScheme_runs [OF assms(1) names_distinct(2), of process_start]
    by (simp add: process_start_def mustG_def checkG_def bindG_def returnG_def)
  then show ?thesis
    using names_distinct(1) unfolding main_init_def metrics_defs assms(2)
    by (simp add: thenG_def bindG_def must_return register_must_runs [OF assms(1)] all_metrics_def
        after_init_def process_start_def Int_commute image_Un Int_Un_distrib)
qed

lemma main_starts:
  assumes "registries_contract L" and "environment_ok L"
  shows "p_started (snd (main L fl after_init))"
proof -
  note r = registries_contractD [OF assms(1)]
  have e: "lib_GetConfig L = None" "lib_NewManager L opts = None" "lib_NewRecorder L a c = None"
    "lib_Add L rn = None" "lib_labels_Parse L str = None" "lib_NewCache L m = None"
    "lib_AddHealthzCheck L str = None" "lib_AddReadyzCheck L str = None" for opts a c rn str m
    using assms(2) by (simp_all add: environment_ok_def)
  show ?thesis
    unfolding main_def main_controllers_def setup_defs
    by (simp add: go_defs e r after_init_def process_start_def controller_for_def repositoryKey_def
        deployerIndex_def NewInformerManager_def exit1_def split: option.split)
qed

lemma process_run_outcome:
  "case process_run L fl of
     (Ret code, p) \<Rightarrow>
       run_outcome L fl code p
   | (Panic msg, p) \<Rightarrow> \<not> p_started p"
proof (cases "main_init L process_start" rule: outcome_cases)
  case (Panic msg p)
  then have "\<not> p_started p"
    using invG_D [OF main_init_not_started _ Panic] by (simp add: process_start_def)
  with Panic show ?thesis by (simp add: process_run_def thenG_def bindG_def)
next
  case (Ret u p)
  then have p: "p = after_init"
    using postG_D [OF main_init_complete] by (fastforce simp: after_init_def process_start_def)
  obtain code p' where run: "main L fl after_init = (Ret code, p')"
    using retG_D [OF main_returns] by blast
  have "run_outcome L fl code p'" using postG_D [OF main_outcome run] .
  then show ?thesis
    using Ret run unfolding p by (simp add: process_run_def thenG_def bindG_def)
qed

lemma process_run_starts:
  assumes "registries_contract L" and "environment_ok L"
  shows "p_started (snd (process_run L fl))"
proof -
  have "lib_clientgoscheme L = None" using assms(2) by (simp add: environment_ok_def)
  from main_init_runs [OF assms(1) this] main_starts [OF assms] show ?thesis
    by (simp add: process_run_def thenG_def bindG_def)
qed

lemma main_only_complete:
  assumes "process_run L fl = (Ret code, p)" and "p_started p"
  shows "complete_process L fl p"
  using process_run_outcome [of L fl] assms by (simp add: run_outcome_def)

section \<open>Properties of the start\<close>

text \<open>
  C18: Whatever the libraries answer, the process never starts the manager half set up. Its run ends
  with the manager started after all types, metrics, indexes, the five controllers with their
  watches, the two runnables, the download cache and both checks have been registered, and the
  exit code tells whether the manager stopped without an error; or the manager was not started and
  the exit code is 1, with the error logged unless it is the one of \<open>GetConfigOrDie\<close>; or the
  initialisation panicked.
\<close>

theorem started_only_complete:
  "case process_run L fl of
     (Ret code, p) \<Rightarrow>
       if p_started p then complete_process L fl p \<and> (code = 0 \<longleftrightarrow> lib_Start L = None)
       else code = 1 \<and> (lib_GetConfig L \<noteq> None \<or> p_log p \<noteq> [])
   | (Panic msg, p) \<Rightarrow> \<not> p_started p"
  using process_run_outcome [of L fl] unfolding run_outcome_def .

text \<open>
  C19: The program's own registrations are compatible: on libraries that refuse only a second
  registration of the same thing, in a working environment, the manager is started.
\<close>

theorem startup_succeeds:
  assumes "registries_contract L" and "environment_ok L"
  shows "p_started (snd (process_run L fl))"
  by (rule process_run_starts [OF assms])

text \<open>
  A client whose cache has the given indexes only: a list by another field fails, as that of
  controller-runtime does.
\<close>

definition unindexed :: "string \<Rightarrow> ('w, goerr + 'x list) ext" where
  "unindexed field = (\<lambda>w. (Inl (ExternalError ''NoIndex''
     (''Index with name field:'' @ field @ '' does not exist'')), w))"

definition indexed_client :: "(string \<times> string) list \<Rightarrow> 'w client \<Rightarrow> 'w client" where
  "indexed_client ixs cl = cl\<lparr>
     listComponents := (\<lambda>f v. if (''Component'', f) \<in> set ixs then listComponents cl f v else unindexed f),
     listResources := (\<lambda>f v. if (''Resource'', f) \<in> set ixs then listResources cl f v else unindexed f),
     listDeployers := (\<lambda>f v. if (''Deployer'', f) \<in> set ixs then listDeployers cl f v else unindexed f),
     listReplications := (\<lambda>f v. if (''Replication'', f) \<in> set ixs then listReplications cl f v
       else unindexed f)\<rparr>"

definition indexed_env ::
  "(string \<times> string) list \<Rightarrow> ('w, 'd) controller_env \<Rightarrow> ('w, 'd) controller_env" where
  "indexed_env ixs E = E\<lparr>api := indexed_client ixs (api E)\<rparr>"

lemma k8s_api: "k8s (E\<lparr>api := cl\<rparr>) = k8s E"
  by simp

lemma deletionProtocol_api:
  "deletionProtocol (E\<lparr>api := cl\<rparr>) io sf lst nm upd fin lf bl rem = deletionProtocol E io sf lst nm upd fin lf bl rem"
  unfolding deletionProtocol_def markNotReady_def k8s_api ..

lemma indexed_lists:
  "listComponents (indexed_client registered_indexes cl) repositoryKey = listComponents cl repositoryKey"
  "listComponents (indexed_client registered_indexes cl) ''spec.repositoryRef.name'' =
     listComponents cl ''spec.repositoryRef.name''"
  "listResources (indexed_client registered_indexes cl) ''.spec.componentRef.Name'' =
     listResources cl ''.spec.componentRef.Name''"
  "listResources (indexed_client registered_indexes cl) ''spec.componentRef.name'' =
     listResources cl ''spec.componentRef.name''"
  "listDeployers (indexed_client registered_indexes cl) deployerIndex = listDeployers cl deployerIndex"
  "listDeployers (indexed_client registered_indexes cl) ''.spec.resourceRef'' =
     listDeployers cl ''.spec.resourceRef''"
  "listReplications (indexed_client registered_indexes cl) ''spec.componentRef.name'' =
     listReplications cl ''spec.componentRef.name''"
  "listReplications (indexed_client registered_indexes cl) ''spec.targetRepositoryRef.name'' =
     listReplications cl ''spec.targetRepositoryRef.name''"
  by (simp_all add: indexed_client_def registered_indexes_def program_indexes_def)

lemma indexed_env_api:
  "api (indexed_env ixs E) = indexed_client ixs (api E)" "k8s (indexed_env ixs E) = k8s E"
  "updateComponent (indexed_client ixs cl) = updateComponent cl"
  "updateRepository (indexed_client ixs cl) = updateRepository cl"
  "updateResource (indexed_client ixs cl) = updateResource cl"
  "deletionProtocol (indexed_env ixs E) = deletionProtocol E"
  by (simp_all add: indexed_env_def indexed_client_def deletionProtocol_api fun_eq_iff)

text \<open>
  C20: Every list of the controllers is by a field that the program has indexed: once the manager
  is started, a client that knows only the registered indexes behaves in the deletion protocols and
  in the functions that map a watched object to requests like one that answers every list.
\<close>

theorem watches_use_registered_indexes:
  assumes "process_run M fl = (Ret code, p)" and "p_started p"
  shows "let ixs = map indexed (p_indexes p) in
    component_reconcileDelete (indexed_env ixs E) = component_reconcileDelete E \<and>
    deleteRepository (indexed_env ixs E) = deleteRepository E \<and>
    resource_delete (indexed_env ixs E) = resource_delete E \<and>
    component_on_repository (indexed_client ixs cl) = component_on_repository cl \<and>
    resource_on_component (indexed_client ixs cl) = resource_on_component cl \<and>
    deployer_on_resource L (indexed_client ixs cl) = deployer_on_resource L cl \<and>
    replicationMapFunc (indexed_client ixs cl) = replicationMapFunc cl"
proof -
  have "complete_process M fl p"
    using main_only_complete [OF assms] .
  then have "map indexed (p_indexes p) = registered_indexes"
    by (simp add: complete_process_def registered_indexes_def)
  then show ?thesis
    unfolding Let_def component_reconcileDelete_def deleteRepository_def resource_delete_def
      component_on_repository_def resource_on_component_def deployer_on_resource_def
      replicationMapFunc_def indexed_env_api
    by (simp only: indexed_lists simp_thms)
qed

text \<open>The servers do not offer HTTP/2 unless it is enabled.\<close>

lemma http2_disabled:
  assumes "process_run L fl = (Ret code, p)" and "p_started p" and "\<not> enableHTTP2 fl"
  shows "\<exists>opts. p_manager p = Some opts \<and>
    NextProtos (fold (\<lambda>f. f) (mo_MetricsTLS opts) c) = [''http/1.1''] \<and>
    NextProtos (fold (\<lambda>f. f) (mo_WebhookTLS opts) c) = [''http/1.1'']"
  using main_only_complete [OF assms(1,2)] assms(3)
  by (auto simp: complete_process_def manager_options_def tlsOpts_def disableHTTP2_def)

section \<open>The end of the informer manager\<close>

text \<open>
  \<open>Start\<close> waits for the cache and the workers, which run until the context is done or one of them
  fails (\<open>manager_step\<close>). \<open>results\<close> are their errors in the order in which they return; the error
  group gives the first. After an error that is not the cancellation nothing is shut down.
\<close>

definition context_Canceled :: goerr where "context_Canceled = Sentinel ''context canceled''"

definition errgroup_Wait :: "goerr option list \<Rightarrow> goerr option" where
  "errgroup_Wait results = (case filter (\<lambda>r. r \<noteq> None) results of [] \<Rightarrow> None | r # _ \<Rightarrow> r)"

definition manager_Stop :: "'w informer_lib \<Rightarrow> ('w manager, goerr option) go" where
  "manager_Stop I =
     checkG (GracefulShutdown I)
       (\<lambda>err. returnG (Some (Errorf ''failed to gracefully shutdown informer manager'' err)))
     (returnG None)"

definition manager_Start ::
  "'w informer_lib \<Rightarrow> goerr option list \<Rightarrow> ('w manager, goerr option) go" where
  "manager_Start I results =
     (case errgroup_Wait results of
        Some err \<Rightarrow> if \<not> errors_Is err context_Canceled then returnG (Some err) else manager_Stop I
      | None \<Rightarrow> manager_Stop I)"

text \<open>\<open>Source\<close> binds the queue of the deployer controller when that one is started.\<close>

definition Source :: "nat \<Rightarrow> ('w manager, goerr option) go" where
  "Source queue = SetQueue queue"

text \<open>
  After a cancellation, when no two kinds of parents watch the same children, an orderly end
  leaves no watch and no queue.
\<close>

lemma start_stops_all:
  assumes "errgroup_Wait results = Some context_Canceled" and "distinct (map fst (im_tasks m))"
    and "\<forall>k \<in> set (map fst (im_tasks m)). \<forall>j \<in> set (map fst (im_tasks m)). \<not> other_parent k j"
    and "manager_Start I results m = (Ret None, m')"
  shows "im_tasks m' = [] \<and> im_queue m' = None \<and> im_closed m'"
proof -
  have "GracefulShutdown I m = (Ret None, m')"
    using assms(1,4)
    by (auto simp: manager_Start_def manager_Stop_def context_Canceled_def go_defs
        split: prod.splits outcome.splits option.splits)
  then show ?thesis by (rule shutdown_stops_all [OF assms(2,3)])
qed

lemma start_fails_without_shutdown:
  assumes "errgroup_Wait results = Some err" and "\<not> errors_Is err context_Canceled"
  shows "manager_Start I results m = (Ret (Some err), m)"
  using assms by (simp add: manager_Start_def go_defs)

section \<open>Witnesses\<close>

definition sample_conflict :: "bool \<Rightarrow> goerr option" where
  "sample_conflict free = (if free then None else Some (ErrorString ''already registered''))"

definition sample_setup :: "(nat, nat \<times> (string \<times> KObject list) list) setup_lib" where
  "sample_setup = \<lparr>lib_clientgoscheme = None,
     lib_AddKnownTypes = (\<lambda>ts ks. sample_conflict (set ks \<inter> set ts = {})),
     lib_RegisterMetric = (\<lambda>cs c. sample_conflict (fst c \<notin> fst ` set cs)),
     lib_GetConfig = None, lib_NewManager = (\<lambda>_. None), lib_NewRecorder = (\<lambda>_ _. None),
     lib_Add = (\<lambda>_. None), lib_IndexField = (\<lambda>is i. sample_conflict (i \<notin> set is)),
     lib_Complete = (\<lambda>ks r. sample_conflict (reg_For r \<notin> set ks)),
     lib_AddHealthzCheck = (\<lambda>_. None), lib_AddReadyzCheck = (\<lambda>_. None), lib_Start = None,
     lib_labels_Parse = (\<lambda>_. None), lib_RESTMapper = 0, lib_NewDynamicRESTMapper = Inr 0,
     lib_NewCache = (\<lambda>_. None), lib_NumCPU = 4, lib_world = 0, lib_lru = sample_sized_lru\<rparr>"

lemma sample_setup_ok: "registries_contract sample_setup" "environment_ok sample_setup"
  by (simp_all add: sample_setup_def registries_contract_def environment_ok_def sample_conflict_def)

theorem started_only_complete_witness:
  "complete_process sample_setup default_flags (snd (process_run sample_setup default_flags))"
  using started_only_complete [of sample_setup default_flags]
    process_run_starts [OF sample_setup_ok, of default_flags]
  by (cases "process_run sample_setup default_flags" rule: outcome_cases) simp_all

theorem startup_succeeds_witness: "p_started (snd (process_run sample_setup default_flags))"
  using startup_succeeds [OF sample_setup_ok] by blast

theorem watches_use_registered_indexes_witness:
  "deployer_on_resource sample_k8s (indexed_client
       (map indexed (p_indexes (snd (process_run sample_setup default_flags)))) empty_client) =
     deployer_on_resource sample_k8s (empty_client :: nat client)"
proof -
  have "p_started (snd (process_run sample_setup default_flags))" by (rule process_run_starts [OF sample_setup_ok])
  moreover have "case process_run sample_setup default_flags of
      (Ret code, p) \<Rightarrow> run_outcome sample_setup default_flags code p | (Panic msg, p) \<Rightarrow> \<not> p_started p"
    by (rule process_run_outcome)
  ultimately obtain code p where "process_run sample_setup default_flags = (Ret code, p)" "p_started p"
    by (cases "process_run sample_setup default_flags" rule: outcome_cases) auto
  from watches_use_registered_indexes [OF this, where cl = "empty_client :: nat client"
      and E = "deletion_env []" and L = sample_k8s] show ?thesis
    using \<open>process_run sample_setup default_flags = (Ret code, p)\<close> by (simp add: Let_def)
qed

end
