(* ===== verification/Cluster.thy ===== *)
theory Cluster
  imports Setup
begin

text \<open>
  The controllers against one API server. The objects of the server are a view of the world; the
  reconcilers change it by the calls of the client only. What is shown is that no run of a
  reconciler takes away an object that another one names: together with the edits of users this
  is a step relation on the world, of which it is an invariant that references do not dangle.
\<close>

section \<open>What a computation leaves as it is\<close>

text \<open>\<open>framed view m\<close>: the call or computation \<open>m\<close> does not change what \<open>view\<close> shows of the world.\<close>

definition framed :: "('w \<Rightarrow> 'v) \<Rightarrow> ('w \<Rightarrow> 'a \<times> 'w) \<Rightarrow> bool" where
  "framed view m \<longleftrightarrow> (\<forall>w. view (snd (m w)) = view w)"

lemma framed_inv: "framed view m \<longleftrightarrow> (\<forall>v. invG (\<lambda>w. view w = v) m)"
  by (simp add: framed_def invG_def)

lemma framedI: "(\<And>v. invG (\<lambda>w. view w = v) m) \<Longrightarrow> framed view m"
  by (simp add: framed_inv)

lemma invG_framed: "framed view m \<Longrightarrow> invG (\<lambda>w. view w = v) m"
  by (simp add: framed_inv)

lemma invG_extG [go_inv]: "framed view f \<Longrightarrow> invG (\<lambda>w. view w = v) (extG f)"
  by (simp add: framed_def invG_def extG_def)

lemma invG_case_option [go_inv]:
  "(p = None \<Longrightarrow> invG I m) \<Longrightarrow> (\<And>a. p = Some a \<Longrightarrow> invG I (k a)) \<Longrightarrow>
   invG I (case p of None \<Rightarrow> m | Some a \<Rightarrow> k a)"
  by (simp split: option.split)

lemma invG_case_prod [go_inv]:
  "(\<And>a b. p = (a, b) \<Longrightarrow> invG I (k a b)) \<Longrightarrow> invG I (case p of (a, b) \<Rightarrow> k a b)"
  by (simp split: prod.split)

lemma invG_case_list [go_inv]:
  "(p = [] \<Longrightarrow> invG I m) \<Longrightarrow> (\<And>a as. p = a # as \<Longrightarrow> invG I (k a as)) \<Longrightarrow>
   invG I (case p of [] \<Rightarrow> m | a # as \<Rightarrow> k a as)"
  by (simp split: list.split)

text \<open>
  An invariant of a reconciliation over the view of the world and a part of the object in memory.
\<close>

definition holds :: "('w \<Rightarrow> 'v) \<Rightarrow> ('o \<Rightarrow> 'i) \<Rightarrow> ('v \<Rightarrow> 'i \<Rightarrow> bool) \<Rightarrow> ('o, 'w) rstate \<Rightarrow> bool" where
  "holds view ident J s \<longleftrightarrow> J (view (world s)) (ident (obj s))"

lemma holds_call [go_inv]: "framed view f \<Longrightarrow> invG (holds view ident J) (callG f)"
  by (simp add: holds_def framed_def invG_def callG_def)

lemma holds_lift [go_inv]: "framed view m \<Longrightarrow> invG (holds view ident J) (liftG m)"
  by (auto simp: holds_def framed_def invG_def liftG_def split: prod.split) (metis snd_conv)

lemma holds_same:
  "world t = world s \<Longrightarrow> ident (obj t) = ident (obj s) \<Longrightarrow> holds view ident J t = holds view ident J s"
  by (simp add: holds_def)

lemma holds_GetReadyObject [go_inv]:
  "framed view (get key) \<Longrightarrow> invG (holds view ident J) (GetReadyObject L io get key)"
  unfolding GetReadyObject_def by (rule go_inv | (simp; fail))+

section \<open>Objects with a finalizer\<close>

text \<open>Name, finalizers and references of an object.\<close>

type_synonym 'r identity = "NamespacedName \<times> string list \<times> 'r"

definition ident :: "'o IdentifiableClientObject \<Rightarrow> ('o \<Rightarrow> 'r) \<Rightarrow> 'o \<Rightarrow> 'r identity" where
  "ident io refs x =
     (ObjectKeyFromObject (ico_ObjectMeta io x), om_Finalizers (ico_ObjectMeta io x), refs x)"

text \<open>A kind whose references are outside of the status and the finalizers.\<close>

locale referring_object =
  finalized_object io setFinalizers for io :: "'o IdentifiableClientObject" and setFinalizers +
  fixes refs :: "'o \<Rightarrow> 'r"
  assumes key_set_finalizers: "ObjectKeyFromObject (ico_ObjectMeta io (setFinalizers fs x)) =
      ObjectKeyFromObject (ico_ObjectMeta io x)"
    and refs_set_finalizers: "refs (setFinalizers fs x) = refs x"
    and refs_set_conditions: "refs (ico_SetConditions io cs x) = refs x"
    and refs_set_generation: "refs (ico_SetObservedGeneration io g x) = refs x"
begin

lemma ident_set_finalizers:
  "ident io refs (setFinalizers fs x) = (fst (ident io refs x), fs, snd (snd (ident io refs x)))"
  by (simp add: ident_def finalizers_set key_set_finalizers refs_set_finalizers)

lemma ident_frame: "status_frame io x y \<Longrightarrow> ident io refs y = ident io refs x"
  by (auto simp: status_frame_def ident_def meta_set_conditions meta_set_generation
      refs_set_conditions refs_set_generation)

lemma holds_marks:
  "holds view (ident io refs) J (MarkNotReady L io reason msg s) = holds view (ident io refs) J s"
  "holds view (ident io refs) J (MarkReady L io msg s) = holds view (ident io refs) J s"
  "holds view (ident io refs) J (record_event L io md sv msg s) = holds view (ident io refs) J s"
  by (rule holds_same; simp add: ident_frame [OF marks_frame(1)] ident_frame [OF marks_frame(2)])+

lemma holds_steps:
  "holds view (ident io refs) J (retry_step L io c s) = holds view (ident io refs) J s"
  "holds view (ident io refs) J (ready_step L io sd rq s) = holds view (ident io refs) J s"
  by (rule holds_same;
      simp add: ident_def obj_retry_step obj_ready_step meta_set_conditions meta_set_generation
        refs_set_conditions refs_set_generation)+

lemma inv_markNotReady:
  "invG (holds view (ident io refs) J) k \<Longrightarrow>
   invG (holds view (ident io refs) J) (markNotReady E io reason msg k)"
  unfolding markNotReady_def by (rule go_inv | simp add: holds_marks)+

lemma inv_markReady:
  "invG (holds view (ident io refs) J) k \<Longrightarrow>
   invG (holds view (ident io refs) J) (markReady E io msg k)"
  unfolding markReady_def by (rule go_inv | simp add: holds_marks)+

lemma inv_failWith: "invG (holds view (ident io refs) J) (failWith E io reason p err)"
  unfolding failWith_def by (rule inv_markNotReady) (rule go_inv)

lemma inv_record_event:
  "invG (holds view (ident io refs) J) (modifyG (record_event L io md sv msg))"
  by (rule go_inv) (simp add: holds_marks)

lemma inv_UpdateStatus:
  assumes "\<And>w x. J (view w) (ident io refs x) \<Longrightarrow> J (view (snd (patch x w))) (ident io refs x)"
  shows "invG (holds view (ident io refs) J) (UpdateStatus L io sd patch rq err)"
proof -
  have "holds view (ident io refs) J (snd (patch_step patch t))" if "holds view (ident io refs) J t" for t
    using assms that by (simp add: holds_def patch_step_def)
  then show ?thesis by (simp add: invG_def UpdateStatus_steps holds_steps split: option.split)
qed

lemma inv_deferStatus:
  assumes "\<And>w x. J (view w) (ident io refs x) \<Longrightarrow> J (view (snd (patch x w))) (ident io refs x)"
    and "invG (holds view (ident io refs) J) body"
  shows "invG (holds view (ident io refs) J) (deferStatus E io patch rq body)"
  unfolding deferStatus_def
  by (rule assms(2) inv_UpdateStatus go_inv | erule assms(1))+

text \<open>Updates keep the invariant, and the server answers with the object it was sent.\<close>

lemma inv_ensureFinalizer:
  assumes upd: "\<And>w x. J (view w) (ident io refs x) \<Longrightarrow> J (view (snd (update x w))) (ident io refs x)"
    and ans: "\<And>w x y. fst (update x w) = Inr y \<Longrightarrow> ident io refs y = ident io refs x"
    and more: "\<And>v k fs fs' r. J v (k, fs, r) \<Longrightarrow> set fs \<subseteq> set fs' \<Longrightarrow> J v (k, fs', r)"
    and L: "k8s_contract (k8s E)" and k: "invG (holds view (ident io refs) J) k"
  shows "invG (holds view (ident io refs) J) (ensureFinalizer E io setFinalizers update fin k)"
  unfolding invG_def
proof (intro allI impI)
  fix s
  assume s: "holds view (ident io refs) J s"
  let ?fs = "om_Finalizers (ico_ObjectMeta io (obj s))"
  obtain fs up where add: "finalizer_Add (k8s E) fin ?fs = (fs, up)" by force
  have "set ?fs \<subseteq> set fs" using k8s_finalizers [OF L, of fin ?fs] add by auto
  then have J: "J (view (world s)) (ident io refs (setFinalizers fs (obj s)))"
    unfolding ident_set_finalizers using s more by (fastforce simp: holds_def ident_def)
  let ?s = "s\<lparr>obj := setFinalizers fs (obj s)\<rparr>"
  show "holds view (ident io refs) J (snd (ensureFinalizer E io setFinalizers update fin k s))"
  proof (cases up)
    case False
    have "holds view (ident io refs) J (snd (k ?s))" using k J by (simp add: invG_def holds_def)
    with False add show ?thesis by (simp add: ensureFinalizer_def go_defs)
  next
    case True
    with add upd [OF J] ans show ?thesis
      by (auto simp: ensureFinalizer_def go_defs holds_def split: sum.split)
  qed
qed

lemma inv_deletion:
  assumes upd: "\<And>w x. J (view w) (ident io refs x) \<Longrightarrow> J (view (snd (update x w))) (ident io refs x)"
    and ans: "\<And>w x y. fst (update x w) = Inr y \<Longrightarrow> ident io refs y = ident io refs x"
    and lst: "framed view lst"
    and none: "\<And>fs. fst (lst (world s)) = Inr [] \<Longrightarrow> J (view (world s)) (ident io refs (obj s)) \<Longrightarrow>
      J (view (world s)) (ident io refs (setFinalizers fs (obj s)))"
    and s: "holds view (ident io refs) J s"
  shows "holds view (ident io refs) J
    (snd (deletionProtocol E io setFinalizers lst itemName update fin p blocked remaining s))"
proof -
  obtain r w1 where run: "lst (world s) = (r, w1)" by force
  have v: "view w1 = view (world s)" using lst run by (metis framed_def snd_conv)
  have s1: "holds view (ident io refs) J (s\<lparr>world := w1\<rparr>)" using s v by (simp add: holds_def)
  show ?thesis
  proof (cases "r = Inr []")
    case False
    then show ?thesis
      using run s1 by (auto simp: deletionProtocol_def go_defs holds_marks Let_def split: sum.split)
  next
    case True
    obtain fs up where rem: "finalizer_Remove (k8s E) fin (om_Finalizers (ico_ObjectMeta io (obj s))) = (fs, up)"
      by force
    let ?x = "setFinalizers fs (obj s)"
    have J: "J (view w1) (ident io refs ?x)" using none [of fs] True run s v by (simp add: holds_def)
    show ?thesis
      using run rem True upd [OF J] ans [of ?x w1] J
      by (auto simp: deletionProtocol_def go_defs holds_marks split: sum.split) (auto simp: holds_def)
  qed
qed

text \<open>A whole run: what holds of the fetched object holds of the world afterwards.\<close>

lemma reconcileObject_safe:
  assumes get: "framed view get" and start: "\<And>w x. fst (get w) = Inr x \<Longrightarrow> safe (view w) \<Longrightarrow> J (view w) (ident io refs x)"
    and safe: "\<And>v i. J v i \<Longrightarrow> safe v" and s: "safe (view (world s))"
    and patch: "\<And>w x y. J (view w) (ident io refs x) \<Longrightarrow> J (view (snd (patch y x w))) (ident io refs x)"
    and body: "invG (holds view (ident io refs) J) body"
  shows "safe (view (world (snd (reconcileObject E io get patch rq body s))))"
proof -
  obtain r w1 where run: "get (world s) = (r, w1)" by force
  have v: "view w1 = view (world s)" using get run by (metis framed_def snd_conv)
  show ?thesis
  proof (cases r)
    case (Inl e)
    then show ?thesis using run v s by (simp add: reconcileObject_def go_defs)
  next
    case (Inr x)
    let ?s = "s\<lparr>world := w1, obj := x\<rparr>"
    have "holds view (ident io refs) J ?s"
      using start [of "world s" x] run Inr s v by (simp add: holds_def)
    moreover have "invG (holds view (ident io refs) J) (deferStatus E io (patch x) rq body)"
      by (rule inv_deferStatus [OF _ body]) (erule patch)
    ultimately have "holds view (ident io refs) J (snd (deferStatus E io (patch x) rq body ?s))"
      by (simp add: invG_def)
    then show ?thesis using safe run Inr by (auto simp: reconcileObject_def go_defs holds_def)
  qed
qed

end

section \<open>What the libraries leave as it is\<close>

text \<open>The calls of the OCM library do not change the objects of the API server.\<close>

definition ocm_framed :: "('w \<Rightarrow> 'v) \<Rightarrow> ('w, 'd) ocm_lib \<Rightarrow> bool" where
  "ocm_framed view OL \<longleftrightarrow>
     (\<forall>octx raw. framed view (RepositorySpecForConfig OL octx raw)) \<and>
     (\<forall>spec octx. framed view (spec_Validate OL spec octx)) \<and>
     (\<forall>octx spec. framed view (RepositoryForSpec OL octx spec)) \<and>
     (\<forall>repo. framed view (repo_Close OL repo)) \<and>
     (\<forall>repo c. framed view (repo_LookupComponent OL repo c)) \<and>
     (\<forall>repo c v. framed view (repo_LookupComponentVersion OL repo c v)) \<and>
     (\<forall>ca. framed view (component_Close OL ca)) \<and>
     (\<forall>ca. framed view (component_ListVersions OL ca)) \<and>
     (\<forall>session octx spec. framed view (session_LookupRepository OL session octx spec)) \<and>
     (\<forall>session repo c v. framed view (session_LookupComponentVersion OL session repo c v)) \<and>
     (\<forall>session. framed view (close_session OL session)) \<and>
     (\<forall>cv. framed view (cv_Close OL cv)) \<and>
     (\<forall>cv repo octx. framed view (utils_Walk OL cv repo octx)) \<and>
     (\<forall>cv repo octx sigs. framed view (signing_Apply OL cv repo octx sigs))"

lemma ocm_framedD:
  assumes "ocm_framed view OL"
  shows "framed view (RepositorySpecForConfig OL octx raw)" and "framed view (spec_Validate OL spec octx)"
    and "framed view (RepositoryForSpec OL octx spec)" and "framed view (repo_Close OL repo)"
    and "framed view (repo_LookupComponent OL repo c)" and "framed view (repo_LookupComponentVersion OL repo c v)"
    and "framed view (component_Close OL ca)" and "framed view (component_ListVersions OL ca)"
    and "framed view (session_LookupRepository OL session octx spec)"
    and "framed view (session_LookupComponentVersion OL session repo c v)"
    and "framed view (close_session OL session)" and "framed view (cv_Close OL cv)"
    and "framed view (utils_Walk OL cv repo octx)" and "framed view (signing_Apply OL cv repo octx sigs)"
  using assms by (simp_all add: ocm_framed_def)

definition resource_libs_framed ::
  "('w \<Rightarrow> 'v) \<Rightarrow> ('w, 'd, 'm) ocm_res_lib \<Rightarrow> ('w, 'a, 'e, 't, 'p, 'x, 'j) resource_lib \<Rightarrow> bool" where
  "resource_libs_framed view RL A \<longleftrightarrow>
     (\<forall>cv i. framed view (cv_SelectResources RL cv i)) \<and>
     (\<forall>session repo octx c v. framed view (session_LookupResolver RL session repo octx c v)) \<and>
     (\<forall>access. framed view (access_AccessMethod RL access)) \<and>
     (\<forall>cv access acc ds. framed view (VerifyResourceDigest RL cv access acc ds)) \<and>
     (\<forall>access. framed view (access_Access A access))"

lemma resource_libs_framedD:
  assumes "resource_libs_framed view RL A"
  shows "framed view (cv_SelectResources RL cv i)" and "framed view (session_LookupResolver RL session repo octx c v)"
    and "framed view (access_AccessMethod RL access)" and "framed view (VerifyResourceDigest RL cv access acc ds)"
    and "framed view (access_Access A access)"
  using assms by (simp_all add: resource_libs_framed_def)

text \<open>The reads of the client.\<close>

definition reads_framed :: "('w \<Rightarrow> 'v) \<Rightarrow> 'w client \<Rightarrow> bool" where
  "reads_framed view cl \<longleftrightarrow>
     (\<forall>k. framed view (getRepository cl k)) \<and> (\<forall>k. framed view (getComponent cl k)) \<and>
     (\<forall>k. framed view (getResource cl k)) \<and> (\<forall>k. framed view (getDeployer cl k)) \<and>
     (\<forall>k. framed view (getReplication cl k)) \<and>
     (\<forall>f v. framed view (listComponents cl f v)) \<and> (\<forall>f v. framed view (listResources cl f v)) \<and>
     (\<forall>f v. framed view (listDeployers cl f v))"

lemma reads_framedD:
  assumes "reads_framed view cl"
  shows "framed view (getRepository cl k)" and "framed view (getComponent cl k)"
    and "framed view (getResource cl k)" and "framed view (getDeployer cl k)"
    and "framed view (getReplication cl k)"
    and "framed view (listComponents cl f v)" and "framed view (listResources cl f v)"
    and "framed view (listDeployers cl f v)"
  using assms by (simp_all add: reads_framed_def)

lemma framed_get_effective: "framed view (get k) \<Longrightarrow> framed view (get_effective get eff k)"
  by (auto simp: framed_def get_effective_def split: prod.split) (metis snd_conv)

lemma framed_effective:
  assumes "reads_framed view cl"
  shows "framed view (GetEffectiveConfig cl cp x)"
proof -
  have prov: "framed view (get key)" if "provider_for cl kind = Some get" for kind get key
    using that reads_framedD [OF assms]
    by (auto simp: provider_for_def split: if_splits intro!: framed_get_effective)
  have step: "invG (\<lambda>w. view w = v) (effective_step cl ns c)" for ns c v
    unfolding effective_step_def Let_def by (rule go_inv | erule prov)+
  have loop: "invG (\<lambda>w. view w = v) (effective_loop cl ns cs refs)" for ns cs refs v
    by (induction cs arbitrary: refs) (auto intro!: go_inv step)
  then show ?thesis unfolding GetEffectiveConfig_def Let_def by (intro framedI) (rule go_inv loop)+
qed

lemma framed_ocm:
  assumes "ocm_framed view OL"
  shows "framed view (DetermineEffectiveVersionFromLiveRepo OL V component session liveRepo)"
    and "framed view (CompareCachedAndLiveHashes OL cv liveRepo c ver n h)"
    and "framed view (VerifyComponentVersion OL cvo sigs)"
    and "framed view (ListComponentDescriptors OL cv repo octx)"
  unfolding DetermineEffectiveVersionFromLiveRepo_def effective_version_def apply_downgrade_policy_def Let_def
    CompareCachedAndLiveHashes_def VerifyComponentVersion_def ListComponentDescriptors_def
  by (rule framedI, (rule go_inv ocm_framedD [OF assms] | simp; fail)+)+

lemma framed_resource:
  assumes "ocm_framed view OL" and "resource_libs_framed view RL A"
  shows "framed view (VerifyComponentVersionAndListDescriptors OL octx cv sigs)"
    and "framed view (GetResourceAccessForComponentVersion OL RL session cv reference cds repo octx skip)"
  unfolding VerifyComponentVersionAndListDescriptors_def GetResourceAccessForComponentVersion_def
    verifyResource_def
  by (rule framedI, (rule go_inv invG_framed [OF framed_ocm(3)] invG_framed [OF framed_ocm(4)]
        assms resource_libs_framedD [OF assms(2)] | simp; fail)+)+

section \<open>The session cache\<close>

text \<open>
  The libraries of the cache do not change the objects either; then neither does \<open>GetSession\<close>,
  with the contexts it makes and configures, the keys it registers and the entries it evicts.
\<close>

definition cache_framed :: "('w \<Rightarrow> 'v) \<Rightarrow> ('lc, 'ls, 'w, 'cfg) cache_env \<Rightarrow> bool" where
  "cache_framed view C \<longleftrightarrow>
     (\<forall>k. framed view (getSecret (ce_client C) k)) \<and> (\<forall>k. framed view (getConfigMap (ce_client C) k)) \<and>
     framed view (ocm_New (ce_ocm C)) \<and>
     (\<forall>octx b. framed view (RepositoryForDockerConfig (ce_ocm C) octx b)) \<and>
     (\<forall>octx b enc. framed view (GetConfigForData (ce_ocm C) octx b enc)) \<and>
     (\<forall>octx cfg d. framed view (ApplyConfig (ce_ocm C) octx cfg d)) \<and>
     (\<forall>octx. framed view (context_Finalize (ce_ocm C) octx)) \<and>
     (\<forall>octx sess. framed view (context_CloseOnFinalize (ce_ocm C) octx sess)) \<and>
     (\<forall>octx. framed view (signing_HasRegistry (ce_ocm C) octx)) \<and>
     (\<forall>octx n k. framed view (signing_RegisterPublicKey (ce_ocm C) octx n k)) \<and>
     framed view (ocm_NewSession (ce_ocm C)) \<and>
     (\<forall>sess. framed view (session_IsClosed (ce_ocm C) sess)) \<and>
     (\<forall>sess. framed view (session_Close (ce_ocm C) sess))"

lemma cache_framedD:
  assumes "cache_framed view C"
  shows "framed view (getSecret (ce_client C) k)" and "framed view (getConfigMap (ce_client C) k)"
    and "framed view (ocm_New (ce_ocm C))" and "framed view (RepositoryForDockerConfig (ce_ocm C) octx b)"
    and "framed view (GetConfigForData (ce_ocm C) octx b enc)" and "framed view (ApplyConfig (ce_ocm C) octx cfg d)"
    and "framed view (context_Finalize (ce_ocm C) octx)"
    and "framed view (context_CloseOnFinalize (ce_ocm C) octx sess)"
    and "framed view (signing_HasRegistry (ce_ocm C) octx)"
    and "framed view (signing_RegisterPublicKey (ce_ocm C) octx n key)"
    and "framed view (ocm_NewSession (ce_ocm C))" and "framed view (session_IsClosed (ce_ocm C) sess)"
    and "framed view (session_Close (ce_ocm C) sess)"
  using assms by (simp_all add: cache_framed_def)

lemma invG_shown_onWorld: "framed view m \<Longrightarrow> invG (\<lambda>s. view (cc_world s) = v) (onWorld m)"
  by (auto simp: framed_def invG_def onWorld_def split: prod.split) (metis snd_conv)

lemma framed_evictions:
  assumes "cache_framed view C"
  shows "view (cc_world (contexts_Add C k octx s)) = view (cc_world s)"
    and "view (cc_world (sessions_Add C key sess s)) = view (cc_world s)"
proof -
  note D = cache_framedD(7,13) [OF assms, unfolded framed_def, rule_format]
  have "view (cc_world (fold (evict_context C) es s)) = view (cc_world s)" for es s
    by (induction es arbitrary: s) (simp_all add: evict_context_def D)
  moreover have "view (cc_world (fold (evict_session C) es s)) = view (cc_world s)" for es s
    by (induction es arbitrary: s) (simp_all add: evict_session_def D)
  ultimately show "view (cc_world (contexts_Add C k octx s)) = view (cc_world s)"
    "view (cc_world (sessions_Add C key sess s)) = view (cc_world s)"
    by (simp_all add: contexts_Add_def sessions_Add_def split: prod.split)
qed

lemma framed_session_parts:
  assumes "cache_framed view C"
  shows "framed view (getConfigObjects (ce_client C) cs objs)"
    and "framed view (apply_configs (ce_ocm C) octx cfgs e)"
    and "framed view (registerVerifications C octx opts)"
    and "framed view (new_session C octx)"
proof -
  note D = cache_framedD [OF assms]
  have obj: "framed view (get_config_object (ce_client C) c)" for c
    unfolding get_config_object_def Let_def by (rule framedI, (rule go_inv D | simp; fail)+)
  show "framed view (getConfigObjects (ce_client C) cs objs)"
    by (induction cs arbitrary: objs; rule framedI)
      (simp_all, (rule go_inv invG_framed [OF obj] | erule invG_framed | rule invG_framed, assumption)+)
  have conf: "framed view (ConfigureContextForSecretOrConfigMap (ce_ocm C) octx c)" for c
    unfolding ConfigureContextForSecretOrConfigMap_def ConfigureContextForSecret_def
      ConfigureContextForConfigMaps_def wrapErr_def Let_def
    by (cases c; rule framedI) (simp_all, (rule go_inv D)+)
  show "framed view (apply_configs (ce_ocm C) octx cfgs e)"
    by (induction cfgs arbitrary: e; rule framedI) (simp_all, (rule go_inv invG_framed [OF conf] | rule invG_framed, assumption)+)
  have vstep: "framed view (verification_step (ce_client C) ns x)" for ns x
    unfolding verification_step_def Let_def by (rule framedI, (rule go_inv D | simp; fail)+)
  have vloop: "framed view (verification_loop (ce_client C) ns vs acc)" for ns vs acc
    by (induction vs arbitrary: acc; rule framedI) (simp_all, (rule go_inv invG_framed [OF vstep] | rule invG_framed, assumption)+)
  have keys: "framed view (register_keys (ce_ocm C) octx vs)" for vs
    by (induction vs; rule framedI) (simp_all, (rule go_inv D | rule invG_framed, assumption)+)
  show "framed view (registerVerifications C octx opts)"
    unfolding registerVerifications_def GetVerifications_def
    by (rule framedI, (rule go_inv D invG_framed [OF vloop] invG_framed [OF keys])+)
  show "framed view (new_session C octx)"
    unfolding new_session_def by (rule framedI, (rule go_inv D)+)
qed

lemma framed_GetSession:
  assumes "cache_framed view C"
  shows "framed (view \<circ> cc_world) (GetSession C opts)"
proof (rule framedI, unfold comp_def)
  fix v
  note D = cache_framedD [OF assms] and P = framed_session_parts [OF assms] and W = invG_shown_onWorld
  have octx: "invG (\<lambda>s. view (cc_world s) = v) (getOrCreateContext C h objs)" for h objs
    unfolding getOrCreateContext_def
    by (rule W [OF P(2)] W [OF framedI [OF invG_extG [OF D(3)]]] go_inv | simp add: framed_evictions [OF assms]; fail)+
  have sess: "invG (\<lambda>s. view (cc_world s) = v) (getOrCreateSession C key octx)" for key octx
    unfolding getOrCreateSession_def
    by (rule W [OF P(4)] W [OF framedI [OF invG_extG [OF D(12)]]] go_inv | simp add: framed_evictions [OF assms]; fail)+
  show "invG (\<lambda>s. view (cc_world s) = v) (GetSession C opts)"
    unfolding GetSession_def by (rule W [OF P(1)] W [OF P(3)] octx sess go_inv)+
qed

section \<open>The three kinds that are named by others\<close>

definition component_refs :: "Component \<Rightarrow> string" where
  "component_refs c = cs_RepositoryRef_Name (comp_Spec c)"

definition resource_refs :: "Resource \<Rightarrow> string" where
  "resource_refs r = rsp_ComponentRef_Name (res_Spec r)"

interpretation repository_ref: referring_object Repository_ico Repository_setFinalizers "\<lambda>_. ()"
  by unfold_locales (simp_all add: repository_method_defs set_finalizers_defs ObjectKeyFromObject_def)

interpretation component_ref: referring_object Component_ico Component_setFinalizers component_refs
  by unfold_locales
     (simp_all add: component_method_defs set_finalizers_defs ObjectKeyFromObject_def component_refs_def)

interpretation resource_ref: referring_object Resource_ico Resource_setFinalizers resource_refs
  by unfold_locales
     (simp_all add: resource_method_defs set_finalizers_defs ObjectKeyFromObject_def resource_refs_def)

lemmas inv_calls = go_inv
  repository_ref.inv_markNotReady repository_ref.inv_markReady repository_ref.inv_failWith
  component_ref.inv_markNotReady component_ref.inv_markReady component_ref.inv_failWith
  component_ref.inv_record_event
  resource_ref.inv_markNotReady resource_ref.inv_markReady resource_ref.inv_failWith

lemma component_writes_status:
  "invG (holds view (ident Component_ico component_refs) J)
     (modifyG (\<lambda>s. s\<lparr>obj := (obj s)\<lparr>comp_Status := f (obj s)\<rparr>\<rparr>))"
  by (rule go_inv) (simp add: holds_def ident_def component_refs_def component_method_defs)

lemma repository_writes_status:
  "invG (holds view (ident Repository_ico (\<lambda>_. ())) J)
     (modifyG (\<lambda>s. s\<lparr>obj := fillRepoStatusFromSpec configs (obj s)\<rparr>))"
  by (rule go_inv) (simp add: holds_def ident_def repository_method_defs fillRepoStatusFromSpec_def)

lemma resource_writes_status:
  "invG (holds view (ident Resource_ico resource_refs) J)
     (modifyG (\<lambda>s. s\<lparr>obj := (obj s)\<lparr>res_Status := f (obj s)\<rparr>\<rparr>))"
  by (rule go_inv) (simp add: holds_def ident_def resource_refs_def resource_method_defs)

text \<open>A handler that is past the finalizer only reads, and writes its status.\<close>

lemma component_run_inv:
  assumes "reads_framed view (api E)" and "ocm_framed view (ocmlib E)" and "\<And>opts. framed view (getSession E opts)"
  shows "invG (holds view (ident Component_ico component_refs) J) (component_run E V)"
  unfolding component_run_def component_session_def component_live_def component_lookup_def
    component_compare_def component_verify_def component_finish_def
  by (rule component_writes_status inv_calls assms(3) reads_framedD [OF assms(1)] ocm_framedD [OF assms(2)]
      framed_effective [OF assms(1)] framed_ocm [OF assms(2)])+

lemma repository_run_inv:
  assumes "reads_framed view (api E)" and "ocm_framed view (ocmlib E)" and "\<And>opts. framed view (getSession E opts)"
  shows "invG (holds view (ident Repository_ico (\<lambda>_. ())) J) (repository_run E)"
  unfolding repository_run_def repository_finish_def repo_validate_def
  by (rule repository_writes_status inv_calls assms(3) reads_framedD [OF assms(1)] ocm_framedD [OF assms(2)]
      framed_effective [OF assms(1)])+

lemma resource_run_inv:
  assumes "reads_framed view (api E)" and "ocm_framed view (ocmlib E)" and "\<And>opts. framed view (getSession E opts)"
    and "resource_libs_framed view RL A"
  shows "invG (holds view (ident Resource_ico resource_refs) J) (resource_run E RL A)"
proof -
  have "invG (holds view (ident Resource_ico resource_refs) J)
      (bindG (getG (\<lambda>s. computeAdditionalStatusFields A meta spec (obj s))) (\<lambda>(err, r).
         thenG (modifyG (\<lambda>s. s\<lparr>obj := r\<rparr>)) (k err)))"
    if "\<And>err. invG (holds view (ident Resource_ico resource_refs) J) (k err)" for meta spec k
    using that
    by (auto simp: invG_def go_defs holds_def ident_def resource_refs_def resource_method_defs
        computeAdditionalStatusFields_def setAdditional_def split: sum.split prod.split)
  note add = this
  show ?thesis
    unfolding resource_run_def resource_session_def resource_resolve_def resource_finish_def
      setResourceStatus_def Let_def
    by (rule resource_writes_status add inv_calls assms(3) reads_framedD [OF assms(1)]
        ocm_framedD [OF assms(2)] resource_libs_framedD [OF assms(4)]
        framed_effective [OF assms(1)] framed_ocm [OF assms(2)] framed_resource [OF assms(2,4)])+
qed

section \<open>The objects of the API server\<close>

record cluster =
  cl_repositories :: "NamespacedName \<Rightarrow> Repository option"
  cl_components :: "NamespacedName \<Rightarrow> Component option"
  cl_resources :: "NamespacedName \<Rightarrow> Resource option"
  cl_deployers :: "NamespacedName \<Rightarrow> Deployer option"

text \<open>
  An object that is named by another. A deployer names its resource as written; one without a
  namespace is not found by the index (\<open>defaulted_reference_not_indexed\<close>) and does not count here.
\<close>

definition names_repository :: "cluster \<Rightarrow> NamespacedName \<Rightarrow> bool" where
  "names_repository v k \<longleftrightarrow> (\<exists>j c. cl_components v j = Some c \<and>
     nn_Namespace j = nn_Namespace k \<and> component_refs c = nn_Name k)"

definition names_component :: "cluster \<Rightarrow> NamespacedName \<Rightarrow> bool" where
  "names_component v k \<longleftrightarrow> (\<exists>j r. cl_resources v j = Some r \<and>
     nn_Namespace j = nn_Namespace k \<and> resource_refs r = nn_Name k)"

definition names_resource :: "cluster \<Rightarrow> NamespacedName \<Rightarrow> bool" where
  "names_resource v k \<longleftrightarrow> (\<exists>j d. cl_deployers v j = Some d \<and>
     ok_Namespace (dsp_ResourceRef (dep_Spec d)) = nn_Namespace k \<and>
     ok_Name (dsp_ResourceRef (dep_Spec d)) = nn_Name k)"

text \<open>An object that is there and has the finalizer of its controller.\<close>

definition kept :: "('o \<Rightarrow> ObjectMeta) \<Rightarrow> string \<Rightarrow> (NamespacedName \<Rightarrow> 'o option) \<Rightarrow> NamespacedName \<Rightarrow> bool" where
  "kept meta fin f k \<longleftrightarrow> (\<exists>x. f k = Some x \<and> fin \<in> set (om_Finalizers (meta x)))"

definition no_dangling :: "cluster \<Rightarrow> bool" where
  "no_dangling v \<longleftrightarrow>
     (\<forall>k. names_repository v k \<longrightarrow> kept repo_meta RepositoryFinalizer (cl_repositories v) k) \<and>
     (\<forall>k. names_component v k \<longrightarrow> kept comp_meta ComponentFinalizer (cl_components v) k) \<and>
     (\<forall>k. names_resource v k \<longrightarrow> kept res_meta ResourceFinalizer (cl_resources v) k)"

text \<open>
  A write of \<open>x\<close> to the store \<open>f\<close>: other objects stay; the object itself stays as it was (the write
  failed), or is there with finalizers and references of \<open>x\<close> or as before, or is gone, when \<open>x\<close>
  has no finalizer. An object that is not there is not made.
\<close>

definition stored_write ::
  "('o \<Rightarrow> ObjectMeta) \<Rightarrow> ('o \<Rightarrow> 'r) \<Rightarrow> (NamespacedName \<Rightarrow> 'o option) \<Rightarrow> (NamespacedName \<Rightarrow> 'o option) \<Rightarrow>
   'o \<Rightarrow> bool" where
  "stored_write meta refs f f' x \<longleftrightarrow>
     (let key = ObjectKeyFromObject (meta x) in
      (\<forall>k. k \<noteq> key \<longrightarrow> f' k = f k) \<and>
      (f' key = f key \<or> (\<exists>z. f key = Some z \<and>
         (case f' key of
            None \<Rightarrow> om_Finalizers (meta x) = []
          | Some y \<Rightarrow> ObjectKeyFromObject (meta y) = key \<and>
              om_Finalizers (meta y) \<in> {om_Finalizers (meta x), om_Finalizers (meta z)} \<and>
              refs y \<in> {refs x, refs z}))))"

text \<open>
  What is relied on of the server and the client: reads show the objects and do not change
  them, a list by an index has every object with the value, and writes are as above. (Reads are
  current: a client whose cache lags behind is not one of these.)
\<close>

definition api_reads :: "indexer list \<Rightarrow> ('w \<Rightarrow> cluster) \<Rightarrow> 'w client \<Rightarrow> bool" where
  "api_reads ixs view cl \<longleftrightarrow> reads_framed view cl \<and>
     (\<forall>k w x. fst (getRepository cl k w) = Inr x \<longrightarrow> cl_repositories (view w) k = Some x) \<and>
     (\<forall>k w x. fst (getComponent cl k w) = Inr x \<longrightarrow> cl_components (view w) k = Some x) \<and>
     (\<forall>k w x. fst (getResource cl k w) = Inr x \<longrightarrow> cl_resources (view w) k = Some x) \<and>
     (\<forall>k w x. cl_repositories (view w) k = Some x \<longrightarrow> ObjectKeyFromObject (repo_meta x) = k) \<and>
     (\<forall>k w x. cl_components (view w) k = Some x \<longrightarrow> ObjectKeyFromObject (comp_meta x) = k) \<and>
     (\<forall>k w x. cl_resources (view w) k = Some x \<longrightarrow> ObjectKeyFromObject (res_meta x) = k) \<and>
     (\<forall>f g val w xs k x. IndexComponents f g \<in> set ixs \<longrightarrow> fst (listComponents cl f val w) = Inr xs \<longrightarrow>
        cl_components (view w) k = Some x \<longrightarrow> val \<in> set (g x) \<longrightarrow> x \<in> set xs) \<and>
     (\<forall>f g val w xs k x. IndexResources f g \<in> set ixs \<longrightarrow> fst (listResources cl f val w) = Inr xs \<longrightarrow>
        cl_resources (view w) k = Some x \<longrightarrow> val \<in> set (g x) \<longrightarrow> x \<in> set xs) \<and>
     (\<forall>f g val w xs k x. IndexDeployers f g \<in> set ixs \<longrightarrow> fst (listDeployers cl f val w) = Inr xs \<longrightarrow>
        cl_deployers (view w) k = Some x \<longrightarrow> val \<in> set (g x) \<longrightarrow> x \<in> set xs)"

definition api_writes :: "('w \<Rightarrow> cluster) \<Rightarrow> 'w client \<Rightarrow> bool" where
  "api_writes view cl \<longleftrightarrow>
     (\<forall>x w. \<exists>f. view (snd (updateRepository cl x w)) = (view w)\<lparr>cl_repositories := f\<rparr> \<and>
        stored_write repo_meta (\<lambda>_. ()) (cl_repositories (view w)) f x) \<and>
     (\<forall>x w. \<exists>f. view (snd (updateComponent cl x w)) = (view w)\<lparr>cl_components := f\<rparr> \<and>
        stored_write comp_meta component_refs (cl_components (view w)) f x) \<and>
     (\<forall>x w. \<exists>f. view (snd (updateResource cl x w)) = (view w)\<lparr>cl_resources := f\<rparr> \<and>
        stored_write res_meta resource_refs (cl_resources (view w)) f x) \<and>
     (\<forall>o1 x w. \<exists>f. view (snd (patchRepository cl o1 x w)) = (view w)\<lparr>cl_repositories := f\<rparr> \<and>
        stored_write repo_meta (\<lambda>_. ()) (cl_repositories (view w)) f x) \<and>
     (\<forall>o1 x w. \<exists>f. view (snd (patchComponent cl o1 x w)) = (view w)\<lparr>cl_components := f\<rparr> \<and>
        stored_write comp_meta component_refs (cl_components (view w)) f x) \<and>
     (\<forall>o1 x w. \<exists>f. view (snd (patchResource cl o1 x w)) = (view w)\<lparr>cl_resources := f\<rparr> \<and>
        stored_write res_meta resource_refs (cl_resources (view w)) f x) \<and>
     (\<forall>x w y. fst (updateRepository cl x w) = Inr y \<longrightarrow>
        ident Repository_ico (\<lambda>_. ()) y = ident Repository_ico (\<lambda>_. ()) x) \<and>
     (\<forall>x w y. fst (updateComponent cl x w) = Inr y \<longrightarrow>
        ident Component_ico component_refs y = ident Component_ico component_refs x) \<and>
     (\<forall>x w y. fst (updateResource cl x w) = Inr y \<longrightarrow>
        ident Resource_ico resource_refs y = ident Resource_ico resource_refs x)"

section \<open>Writes keep references\<close>

lemma stored_write_cases:
  assumes "stored_write meta refs f f' x"
  obtains (unchanged) "f' k = f k"
    | (written) z y where "k = ObjectKeyFromObject (meta x)" "f k = Some z" "f' k = Some y"
        "om_Finalizers (meta y) = om_Finalizers (meta x) \<or> om_Finalizers (meta y) = om_Finalizers (meta z)"
        "refs y = refs x \<or> refs y = refs z"
    | (removed) z where "k = ObjectKeyFromObject (meta x)" "f k = Some z" "f' k = None"
        "om_Finalizers (meta x) = []"
proof (cases "f' k = f k")
  case True
  then show thesis by (rule unchanged)
next
  case False
  then have k: "k = ObjectKeyFromObject (meta x)"
    using assms unfolding stored_write_def Let_def by blast
  have "f' k = f k \<or> (\<exists>z. f k = Some z \<and> (case f' k of
      None \<Rightarrow> om_Finalizers (meta x) = []
    | Some y \<Rightarrow> ObjectKeyFromObject (meta y) = k \<and>
        om_Finalizers (meta y) \<in> {om_Finalizers (meta x), om_Finalizers (meta z)} \<and>
        refs y \<in> {refs x, refs z}))"
    using assms unfolding stored_write_def Let_def k by blast
  with False obtain z where z: "f k = Some z" and c: "case f' k of
      None \<Rightarrow> om_Finalizers (meta x) = []
    | Some y \<Rightarrow> ObjectKeyFromObject (meta y) = k \<and>
        om_Finalizers (meta y) \<in> {om_Finalizers (meta x), om_Finalizers (meta z)} \<and>
        refs y \<in> {refs x, refs z}" by blast
  show thesis
  proof (cases "f' k")
    case None
    with c show thesis by (intro removed [OF k z]) simp_all
  next
    case (Some y)
    with c show thesis by (intro written [OF k z Some]) simp_all
  qed
qed

lemma stored_write_kept:
  assumes "stored_write meta refs f f' x" and k: "kept meta fin f k"
    and fin: "ObjectKeyFromObject (meta x) = k \<Longrightarrow> fin \<in> set (om_Finalizers (meta x))"
  shows "kept meta fin f' k"
  using assms(1)
proof (cases rule: stored_write_cases [where k = k])
  case unchanged
  with k show ?thesis by (simp add: kept_def)
next
  case (written z y)
  with k fin show ?thesis by (auto simp: kept_def)
next
  case (removed z)
  with fin show ?thesis by simp
qed

lemma stored_write_refs:
  assumes "stored_write meta refs f f' x"
    and same: "\<And>z. f (ObjectKeyFromObject (meta x)) = Some z \<Longrightarrow> refs z = refs x" and j: "f' j = Some y"
  shows "\<exists>z. f j = Some z \<and> refs z = refs y"
  using assms(1)
proof (cases rule: stored_write_cases [where k = j])
  case unchanged
  with j show ?thesis by simp
next
  case (written z y')
  with j same [of z] show ?thesis by auto
next
  case (removed z)
  with j show ?thesis by simp
qed

text \<open>The invariants of a reconciliation of each kind.\<close>

definition repository_inv :: "cluster \<Rightarrow> unit identity \<Rightarrow> bool" where
  "repository_inv v i \<longleftrightarrow> no_dangling v \<and>
     (names_repository v (fst i) \<longrightarrow> RepositoryFinalizer \<in> set (fst (snd i)))"

definition component_inv :: "cluster \<Rightarrow> string identity \<Rightarrow> bool" where
  "component_inv v i \<longleftrightarrow> no_dangling v \<and>
     (names_component v (fst i) \<longrightarrow> ComponentFinalizer \<in> set (fst (snd i))) \<and>
     (\<forall>z. cl_components v (fst i) = Some z \<longrightarrow> component_refs z = snd (snd i))"

definition resource_inv :: "cluster \<Rightarrow> string identity \<Rightarrow> bool" where
  "resource_inv v i \<longleftrightarrow> no_dangling v \<and>
     (names_resource v (fst i) \<longrightarrow> ResourceFinalizer \<in> set (fst (snd i))) \<and>
     (\<forall>z. cl_resources v (fst i) = Some z \<longrightarrow> resource_refs z = snd (snd i))"

lemmas names_defs = names_repository_def names_component_def names_resource_def

lemma repository_write:
  assumes "stored_write repo_meta (\<lambda>_. ()) (cl_repositories v) f x"
    and "repository_inv v (ident Repository_ico (\<lambda>_. ()) x)"
  shows "repository_inv (v\<lparr>cl_repositories := f\<rparr>) (ident Repository_ico (\<lambda>_. ()) x)"
  using assms stored_write_kept [OF assms(1)]
  by (auto simp: repository_inv_def no_dangling_def names_defs ident_def repository_method_defs)

lemma component_write:
  assumes w: "stored_write comp_meta component_refs (cl_components v) f x"
    and inv: "component_inv v (ident Component_ico component_refs x)"
  shows "component_inv (v\<lparr>cl_components := f\<rparr>) (ident Component_ico component_refs x)"
proof -
  let ?v = "v\<lparr>cl_components := f\<rparr>" and ?k = "ObjectKeyFromObject (comp_meta x)"
  have i: "no_dangling v" "names_component v ?k \<Longrightarrow> ComponentFinalizer \<in> set (om_Finalizers (comp_meta x))"
    "\<And>z. cl_components v ?k = Some z \<Longrightarrow> component_refs z = component_refs x"
    using inv by (auto simp: component_inv_def ident_def component_method_defs)
  have refs: "\<exists>z. cl_components v j = Some z \<and> component_refs z = component_refs y" if "f j = Some y" for j y
    using stored_write_refs [OF w i(3) that] by simp
  have "names_repository ?v k \<Longrightarrow> names_repository v k" for k
    using refs by (fastforce simp: names_repository_def)
  moreover have "kept comp_meta ComponentFinalizer f k" if "names_component v k" for k
    using stored_write_kept [OF w] i(1,2) that by (auto simp: no_dangling_def)
  moreover have "names_component ?v = names_component v" "names_resource ?v = names_resource v"
    by (simp_all add: names_defs fun_eq_iff)
  moreover have "component_refs y = component_refs x" if "f ?k = Some y" for y
    using refs [OF that] i(3) by auto
  ultimately show ?thesis
    using i(1,2) by (auto simp: component_inv_def no_dangling_def ident_def component_method_defs)
qed

lemma resource_write:
  assumes w: "stored_write res_meta resource_refs (cl_resources v) f x"
    and inv: "resource_inv v (ident Resource_ico resource_refs x)"
  shows "resource_inv (v\<lparr>cl_resources := f\<rparr>) (ident Resource_ico resource_refs x)"
proof -
  let ?v = "v\<lparr>cl_resources := f\<rparr>" and ?k = "ObjectKeyFromObject (res_meta x)"
  have i: "no_dangling v" "names_resource v ?k \<Longrightarrow> ResourceFinalizer \<in> set (om_Finalizers (res_meta x))"
    "\<And>z. cl_resources v ?k = Some z \<Longrightarrow> resource_refs z = resource_refs x"
    using inv by (auto simp: resource_inv_def ident_def resource_method_defs)
  have refs: "\<exists>z. cl_resources v j = Some z \<and> resource_refs z = resource_refs y" if "f j = Some y" for j y
    using stored_write_refs [OF w i(3) that] by simp
  have "names_component ?v k \<Longrightarrow> names_component v k" for k
    using refs by (fastforce simp: names_component_def)
  moreover have "kept res_meta ResourceFinalizer f k" if "names_resource v k" for k
    using stored_write_kept [OF w] i(1,2) that by (auto simp: no_dangling_def)
  moreover have "names_repository ?v = names_repository v" "names_resource ?v = names_resource v"
    by (simp_all add: names_defs fun_eq_iff)
  moreover have "resource_refs y = resource_refs x" if "f ?k = Some y" for y
    using refs [OF that] i(3) by auto
  ultimately show ?thesis
    using i(1,2) by (auto simp: resource_inv_def no_dangling_def ident_def resource_method_defs)
qed

section \<open>Reconciliations keep references\<close>

text \<open>What a run relies on: the client and the libraries as above, and sessions that leave the objects alone.\<close>

definition framed_env ::
  "indexer list \<Rightarrow> ('w \<Rightarrow> cluster) \<Rightarrow> ('w, 'd) controller_env \<Rightarrow> ('w, 'd, 'm) ocm_res_lib \<Rightarrow>
   ('w, 'a, 'e, 't, 'p, 'x, 'j) resource_lib \<Rightarrow> bool" where
  "framed_env ixs view E RL A \<longleftrightarrow> k8s_contract (k8s E) \<and> api_reads ixs view (api E) \<and>
     api_writes view (api E) \<and> ocm_framed view (ocmlib E) \<and> (\<forall>opts. framed view (getSession E opts)) \<and>
     resource_libs_framed view RL A"

lemma api_readsD:
  assumes "api_reads ixs view cl"
  shows "reads_framed view cl"
    and "fst (getRepository cl k w) = Inr x \<Longrightarrow> cl_repositories (view w) k = Some x"
    and "fst (getComponent cl k w) = Inr y \<Longrightarrow> cl_components (view w) k = Some y"
    and "fst (getResource cl k w) = Inr z \<Longrightarrow> cl_resources (view w) k = Some z"
    and "cl_repositories (view w) k = Some x \<Longrightarrow> ObjectKeyFromObject (repo_meta x) = k"
    and "cl_components (view w) k = Some y \<Longrightarrow> ObjectKeyFromObject (comp_meta y) = k"
    and "cl_resources (view w) k = Some z \<Longrightarrow> ObjectKeyFromObject (res_meta z) = k"
    and "IndexComponents f gc \<in> set ixs \<Longrightarrow> fst (listComponents cl f val w) = Inr [] \<Longrightarrow>
      cl_components (view w) k = Some y \<Longrightarrow> val \<notin> set (gc y)"
    and "IndexResources f gr \<in> set ixs \<Longrightarrow> fst (listResources cl f val w) = Inr [] \<Longrightarrow>
      cl_resources (view w) k = Some z \<Longrightarrow> val \<notin> set (gr z)"
    and "IndexDeployers f gd \<in> set ixs \<Longrightarrow> fst (listDeployers cl f val w) = Inr [] \<Longrightarrow>
      cl_deployers (view w) k = Some d \<Longrightarrow> val \<notin> set (gd d)"
proof -
  note r = assms [unfolded api_reads_def]
  note r1 = r [THEN conjunct2] note r2 = r1 [THEN conjunct2] note r3 = r2 [THEN conjunct2]
  note r4 = r3 [THEN conjunct2] note r5 = r4 [THEN conjunct2] note r6 = r5 [THEN conjunct2]
  note r7 = r6 [THEN conjunct2] note r8 = r7 [THEN conjunct2]
  show "reads_framed view cl" by (rule r [THEN conjunct1])
  show "fst (getRepository cl k w) = Inr x \<Longrightarrow> cl_repositories (view w) k = Some x"
    by (rule r1 [THEN conjunct1, rule_format])
  show "fst (getComponent cl k w) = Inr y \<Longrightarrow> cl_components (view w) k = Some y"
    by (rule r2 [THEN conjunct1, rule_format])
  show "fst (getResource cl k w) = Inr z \<Longrightarrow> cl_resources (view w) k = Some z"
    by (rule r3 [THEN conjunct1, rule_format])
  show "cl_repositories (view w) k = Some x \<Longrightarrow> ObjectKeyFromObject (repo_meta x) = k"
    by (rule r4 [THEN conjunct1, rule_format])
  show "cl_components (view w) k = Some y \<Longrightarrow> ObjectKeyFromObject (comp_meta y) = k"
    by (rule r5 [THEN conjunct1, rule_format])
  show "cl_resources (view w) k = Some z \<Longrightarrow> ObjectKeyFromObject (res_meta z) = k"
    by (rule r6 [THEN conjunct1, rule_format])
  show "IndexComponents f gc \<in> set ixs \<Longrightarrow> fst (listComponents cl f val w) = Inr [] \<Longrightarrow>
      cl_components (view w) k = Some y \<Longrightarrow> val \<notin> set (gc y)"
    using r7 [THEN conjunct1, rule_format, of f gc val w "[]" k y] by auto
  show "IndexResources f gr \<in> set ixs \<Longrightarrow> fst (listResources cl f val w) = Inr [] \<Longrightarrow>
      cl_resources (view w) k = Some z \<Longrightarrow> val \<notin> set (gr z)"
    using r8 [THEN conjunct1, rule_format, of f gr val w "[]" k z] by auto
  show "IndexDeployers f gd \<in> set ixs \<Longrightarrow> fst (listDeployers cl f val w) = Inr [] \<Longrightarrow>
      cl_deployers (view w) k = Some d \<Longrightarrow> val \<notin> set (gd d)"
    using r8 [THEN conjunct2, rule_format, of f gd val w "[]" k d] by auto
qed

lemma api_writesD:
  assumes "api_writes view cl"
  shows "repository_inv (view w) (ident Repository_ico (\<lambda>_. ()) x) \<Longrightarrow>
      repository_inv (view (snd (updateRepository cl x w))) (ident Repository_ico (\<lambda>_. ()) x)"
    and "component_inv (view w) (ident Component_ico component_refs y) \<Longrightarrow>
      component_inv (view (snd (updateComponent cl y w))) (ident Component_ico component_refs y)"
    and "resource_inv (view w) (ident Resource_ico resource_refs z) \<Longrightarrow>
      resource_inv (view (snd (updateResource cl z w))) (ident Resource_ico resource_refs z)"
    and "repository_inv (view w) (ident Repository_ico (\<lambda>_. ()) x) \<Longrightarrow>
      repository_inv (view (snd (patchRepository cl x0 x w))) (ident Repository_ico (\<lambda>_. ()) x)"
    and "component_inv (view w) (ident Component_ico component_refs y) \<Longrightarrow>
      component_inv (view (snd (patchComponent cl y0 y w))) (ident Component_ico component_refs y)"
    and "resource_inv (view w) (ident Resource_ico resource_refs z) \<Longrightarrow>
      resource_inv (view (snd (patchResource cl z0 z w))) (ident Resource_ico resource_refs z)"
    and "fst (updateRepository cl x w) = Inr x' \<Longrightarrow>
      ident Repository_ico (\<lambda>_. ()) x' = ident Repository_ico (\<lambda>_. ()) x"
    and "fst (updateComponent cl y w) = Inr y' \<Longrightarrow>
      ident Component_ico component_refs y' = ident Component_ico component_refs y"
    and "fst (updateResource cl z w) = Inr z' \<Longrightarrow>
      ident Resource_ico resource_refs z' = ident Resource_ico resource_refs z"
  using assms repository_write component_write resource_write unfolding api_writes_def by metis+

lemma invG_obj: "(\<And>s. I s \<Longrightarrow> I (snd (k (obj s) s))) \<Longrightarrow> invG I (bindG (getG obj) k)"
  by (simp add: invG_def go_defs)

lemma inv_more_finalizers:
  "repository_inv v (k, fs, u) \<Longrightarrow> set fs \<subseteq> set fs' \<Longrightarrow> repository_inv v (k, fs', u)"
  "component_inv v (k, fs, r) \<Longrightarrow> set fs \<subseteq> set fs' \<Longrightarrow> component_inv v (k, fs', r)"
  "resource_inv v (k, fs, r) \<Longrightarrow> set fs \<subseteq> set fs' \<Longrightarrow> resource_inv v (k, fs', r)"
  by (auto simp: repository_inv_def component_inv_def resource_inv_def)

lemma component_body_inv:
  assumes env: "framed_env program_indexes view E RL A"
  shows "invG (holds view (ident Component_ico component_refs) component_inv) (component_body E V)"
proof -
  have L: "k8s_contract (k8s E)" and R: "api_reads program_indexes view (api E)" and W: "api_writes view (api E)"
    and O: "ocm_framed view (ocmlib E)" and S: "\<And>opts. framed view (getSession E opts)"
    using env by (simp_all add: framed_env_def)
  have del: "invG (holds view (ident Component_ico component_refs) component_inv) (component_reconcileDelete E)"
    unfolding component_reconcileDelete_def
  proof (rule invG_obj, rule component_ref.inv_deletion
      [where J = component_inv and view = view and update = "updateComponent (api E)",
       OF api_writesD(2) [OF W] api_writesD(8) [OF W]])
    fix s and fs
    assume none: "fst (listResources (api E) ''.spec.componentRef.Name''
          (nn_Name (ObjectKeyFromObject (comp_meta (obj s)))) (world s)) = Inr []"
      and inv: "component_inv (view (world s)) (ident Component_ico component_refs (obj s))"
    have "IndexResources ''.spec.componentRef.Name'' component_resource_index \<in> set program_indexes"
      by (simp add: program_indexes_def)
    from api_readsD(9) [OF R this none]
    have "\<not> names_component (view (world s)) (ObjectKeyFromObject (comp_meta (obj s)))"
      by (fastforce simp: names_component_def component_resource_index_def resource_refs_def)
    with inv show "component_inv (view (world s))
        (ident Component_ico component_refs (Component_setFinalizers fs (obj s)))"
      unfolding component_ref.ident_set_finalizers
      by (simp add: component_inv_def ident_def component_method_defs)
  qed (use reads_framedD [OF api_readsD(1) [OF R]] in simp_all)
  show ?thesis
    unfolding component_body_def
    by (rule del go_inv component_ref.inv_ensureFinalizer
      [where J = component_inv and view = view and update = "updateComponent (api E)",
       OF api_writesD(2) [OF W] api_writesD(8) [OF W] _ L]
        component_run_inv [OF api_readsD(1) [OF R] O S] | erule (1) inv_more_finalizers | assumption)+
qed

lemma repository_body_inv:
  assumes env: "framed_env program_indexes view E RL A"
  shows "invG (holds view (ident Repository_ico (\<lambda>_. ())) repository_inv) (repository_body E)"
proof -
  have L: "k8s_contract (k8s E)" and R: "api_reads program_indexes view (api E)" and W: "api_writes view (api E)"
    and O: "ocm_framed view (ocmlib E)" and S: "\<And>opts. framed view (getSession E opts)"
    using env by (simp_all add: framed_env_def)
  have del: "invG (holds view (ident Repository_ico (\<lambda>_. ())) repository_inv) (deleteRepository E)"
    unfolding deleteRepository_def
  proof (rule invG_obj, rule repository_ref.inv_deletion
      [where J = repository_inv and view = view and update = "updateRepository (api E)",
       OF api_writesD(1) [OF W] api_writesD(7) [OF W]])
    fix s and fs
    assume none: "fst (listComponents (api E) repositoryKey
          (nn_Name (ObjectKeyFromObject (repo_meta (obj s)))) (world s)) = Inr []"
      and inv: "repository_inv (view (world s)) (ident Repository_ico (\<lambda>_. ()) (obj s))"
    have "IndexComponents repositoryKey repository_component_index \<in> set program_indexes"
      by (simp add: program_indexes_def)
    from api_readsD(8) [OF R this none]
    have "\<not> names_repository (view (world s)) (ObjectKeyFromObject (repo_meta (obj s)))"
      by (fastforce simp: names_repository_def repository_component_index_def component_refs_def)
    with inv show "repository_inv (view (world s))
        (ident Repository_ico (\<lambda>_. ()) (Repository_setFinalizers fs (obj s)))"
      unfolding repository_ref.ident_set_finalizers
      by (simp add: repository_inv_def ident_def repository_method_defs)
  qed (use reads_framedD [OF api_readsD(1) [OF R]] in simp_all)
  show ?thesis
    unfolding repository_body_def
    by (rule del inv_calls repository_ref.inv_ensureFinalizer
      [where J = repository_inv and view = view and update = "updateRepository (api E)",
       OF api_writesD(1) [OF W] api_writesD(7) [OF W] _ L]
        repository_run_inv [OF api_readsD(1) [OF R] O S] | erule (1) inv_more_finalizers | assumption)+
qed

lemma resource_body_inv:
  assumes env: "framed_env program_indexes view E RL A"
  shows "invG (holds view (ident Resource_ico resource_refs) resource_inv) (resource_body E RL A)"
proof -
  have L: "k8s_contract (k8s E)" and R: "api_reads program_indexes view (api E)" and W: "api_writes view (api E)"
    and O: "ocm_framed view (ocmlib E)" and S: "\<And>opts. framed view (getSession E opts)"
    and X: "resource_libs_framed view RL A"
    using env by (simp_all add: framed_env_def)
  have del: "invG (holds view (ident Resource_ico resource_refs) resource_inv) (resource_delete E)"
    unfolding resource_delete_def
  proof (rule invG_obj, rule resource_ref.inv_deletion
      [where J = resource_inv and view = view and update = "updateResource (api E)",
       OF api_writesD(3) [OF W] api_writesD(9) [OF W]])
    fix s and fs
    assume none: "fst (listDeployers (api E) deployerIndex
          (NamespacedName_String (k8s E) (ObjectKeyFromObject (res_meta (obj s)))) (world s)) = Inr []"
      and inv: "resource_inv (view (world s)) (ident Resource_ico resource_refs (obj s))"
    have "IndexDeployers deployerIndex resource_deployer_index \<in> set program_indexes"
      by (simp add: program_indexes_def)
    from api_readsD(10) [OF R this none]
    have "\<not> names_resource (view (world s)) (ObjectKeyFromObject (res_meta (obj s)))"
      by (fastforce simp: names_resource_def resource_deployer_index_def k8s_key_string [OF L])
    with inv show "resource_inv (view (world s))
        (ident Resource_ico resource_refs (Resource_setFinalizers fs (obj s)))"
      unfolding resource_ref.ident_set_finalizers
      by (simp add: resource_inv_def ident_def resource_method_defs)
  qed (use reads_framedD [OF api_readsD(1) [OF R]] in simp_all)
  show ?thesis
    unfolding resource_body_def
    by (rule del go_inv resource_ref.inv_ensureFinalizer
      [where J = resource_inv and view = view and update = "updateResource (api E)",
       OF api_writesD(3) [OF W] api_writesD(9) [OF W] _ L]
        resource_run_inv [OF api_readsD(1) [OF R] O S X] | erule (1) inv_more_finalizers | assumption)+
qed

text \<open>A run of a reconciler, whatever its outcome, leaves no reference dangling.\<close>

lemma component_Reconcile_safe:
  assumes env: "framed_env program_indexes view E RL A" and s: "no_dangling (view (world s))"
  shows "no_dangling (view (world (snd (component_Reconcile E V req s))))"
proof -
  have R: "api_reads program_indexes view (api E)" and W: "api_writes view (api E)"
    using env by (simp_all add: framed_env_def)
  show ?thesis
    unfolding component_Reconcile_def
  proof (rule component_ref.reconcileObject_safe [where J = component_inv and safe = no_dangling,
        OF _ _ _ s api_writesD(5) [OF W] component_body_inv [OF env]])
    show "framed view (getComponent (api E) req)" using reads_framedD(2) [OF api_readsD(1) [OF R]] .
    show "no_dangling v" if "component_inv v i" for v i using that by (simp add: component_inv_def)
    fix w x
    assume "fst (getComponent (api E) req w) = Inr x" and "no_dangling (view w)"
    moreover from this(1) have "cl_components (view w) req = Some x" by (rule api_readsD(3) [OF R])
    moreover from this have "ObjectKeyFromObject (comp_meta x) = req" by (rule api_readsD(6) [OF R])
    ultimately show "component_inv (view w) (ident Component_ico component_refs x)"
      by (auto simp: component_inv_def no_dangling_def kept_def ident_def component_method_defs)
  qed
qed

lemma repository_Reconcile_safe:
  assumes env: "framed_env program_indexes view E RL A" and s: "no_dangling (view (world s))"
  shows "no_dangling (view (world (snd (repository_Reconcile E req s))))"
proof -
  have R: "api_reads program_indexes view (api E)" and W: "api_writes view (api E)"
    using env by (simp_all add: framed_env_def)
  show ?thesis
    unfolding repository_Reconcile_def
  proof (rule repository_ref.reconcileObject_safe [where J = repository_inv and safe = no_dangling,
        OF _ _ _ s api_writesD(4) [OF W] repository_body_inv [OF env]])
    show "framed view (getRepository (api E) req)" using reads_framedD(1) [OF api_readsD(1) [OF R]] .
    show "no_dangling v" if "repository_inv v i" for v i using that by (simp add: repository_inv_def)
    fix w x
    assume "fst (getRepository (api E) req w) = Inr x" and "no_dangling (view w)"
    moreover from this(1) have "cl_repositories (view w) req = Some x" by (rule api_readsD(2) [OF R])
    moreover from this have "ObjectKeyFromObject (repo_meta x) = req" by (rule api_readsD(5) [OF R])
    ultimately show "repository_inv (view w) (ident Repository_ico (\<lambda>_. ()) x)"
      by (auto simp: repository_inv_def no_dangling_def kept_def ident_def repository_method_defs)
  qed
qed

lemma resource_Reconcile_safe:
  assumes env: "framed_env program_indexes view E RL A" and s: "no_dangling (view (world s))"
  shows "no_dangling (view (world (snd (resource_Reconcile E RL A req s))))"
proof -
  have R: "api_reads program_indexes view (api E)" and W: "api_writes view (api E)"
    using env by (simp_all add: framed_env_def)
  show ?thesis
    unfolding resource_Reconcile_def
  proof (rule resource_ref.reconcileObject_safe [where J = resource_inv and safe = no_dangling,
        OF _ _ _ s api_writesD(6) [OF W] resource_body_inv [OF env]])
    show "framed view (getResource (api E) req)" using reads_framedD(3) [OF api_readsD(1) [OF R]] .
    show "no_dangling v" if "resource_inv v i" for v i using that by (simp add: resource_inv_def)
    fix w x
    assume "fst (getResource (api E) req w) = Inr x" and "no_dangling (view w)"
    moreover from this(1) have "cl_resources (view w) req = Some x" by (rule api_readsD(4) [OF R])
    moreover from this have "ObjectKeyFromObject (res_meta x) = req" by (rule api_readsD(7) [OF R])
    ultimately show "resource_inv (view w) (ident Resource_ico resource_refs x)"
      by (auto simp: resource_inv_def no_dangling_def kept_def ident_def resource_method_defs)
  qed
qed

section \<open>The cluster over time\<close>

text \<open>
  What users do, as far as they keep to the order of the chain: an object is made, or its
  reference changed, only when what it names is there and held by its finalizer; finalizers are
  left alone; an object without finalizers goes when it is deleted.
\<close>

inductive user_edit :: "cluster \<Rightarrow> cluster \<Rightarrow> bool" where
  put_repository:
    "(\<And>x. cl_repositories v k = Some x \<Longrightarrow> om_Finalizers (repo_meta y) = om_Finalizers (repo_meta x)) \<Longrightarrow>
     user_edit v (v\<lparr>cl_repositories := (cl_repositories v)(k \<mapsto> y)\<rparr>)"
| remove_repository:
    "cl_repositories v k = Some x \<Longrightarrow> om_Finalizers (repo_meta x) = [] \<Longrightarrow>
     user_edit v (v\<lparr>cl_repositories := (cl_repositories v)(k := None)\<rparr>)"
| put_component:
    "(\<And>x. cl_components v k = Some x \<Longrightarrow> om_Finalizers (comp_meta y) = om_Finalizers (comp_meta x)) \<Longrightarrow>
     kept repo_meta RepositoryFinalizer (cl_repositories v)
       \<lparr>nn_Namespace = nn_Namespace k, nn_Name = component_refs y\<rparr> \<Longrightarrow>
     user_edit v (v\<lparr>cl_components := (cl_components v)(k \<mapsto> y)\<rparr>)"
| remove_component:
    "cl_components v k = Some x \<Longrightarrow> om_Finalizers (comp_meta x) = [] \<Longrightarrow>
     user_edit v (v\<lparr>cl_components := (cl_components v)(k := None)\<rparr>)"
| put_resource:
    "(\<And>x. cl_resources v k = Some x \<Longrightarrow> om_Finalizers (res_meta y) = om_Finalizers (res_meta x)) \<Longrightarrow>
     kept comp_meta ComponentFinalizer (cl_components v)
       \<lparr>nn_Namespace = nn_Namespace k, nn_Name = resource_refs y\<rparr> \<Longrightarrow>
     user_edit v (v\<lparr>cl_resources := (cl_resources v)(k \<mapsto> y)\<rparr>)"
| remove_resource:
    "cl_resources v k = Some x \<Longrightarrow> om_Finalizers (res_meta x) = [] \<Longrightarrow>
     user_edit v (v\<lparr>cl_resources := (cl_resources v)(k := None)\<rparr>)"
| put_deployer:
    "kept res_meta ResourceFinalizer (cl_resources v)
       \<lparr>nn_Namespace = ok_Namespace (dsp_ResourceRef (dep_Spec y)), nn_Name = ok_Name (dsp_ResourceRef (dep_Spec y))\<rparr> \<Longrightarrow>
     user_edit v (v\<lparr>cl_deployers := (cl_deployers v)(k \<mapsto> y)\<rparr>)"
| remove_deployer: "user_edit v (v\<lparr>cl_deployers := (cl_deployers v)(k := None)\<rparr>)"

text \<open>One event: an edit, a change elsewhere, or a run of a reconciler on some request.\<close>

inductive cluster_step ::
  "('w \<Rightarrow> cluster) \<Rightarrow> ('w, 'd) controller_env \<Rightarrow> ('v, 'c) version_libs \<Rightarrow> ('w, 'd, 'm) ocm_res_lib \<Rightarrow>
   ('w, 'a, 'e, 't, 'p, 'x, 'j) resource_lib \<Rightarrow> 'w \<Rightarrow> 'w \<Rightarrow> bool"
  for view E V RL A where
  user: "user_edit (view w) (view w') \<Longrightarrow> cluster_step view E V RL A w w'"
| elsewhere: "view w' = view w \<Longrightarrow> cluster_step view E V RL A w w'"
| repository: "cluster_step view E V RL A (world s) (world (snd (repository_Reconcile E req s)))"
| component: "cluster_step view E V RL A (world s) (world (snd (component_Reconcile E V req s)))"
| resource: "cluster_step view E V RL A (world s) (world (snd (resource_Reconcile E RL A req s)))"

inductive cluster_reachable ::
  "('w \<Rightarrow> cluster) \<Rightarrow> ('w, 'd) controller_env \<Rightarrow> ('v, 'c) version_libs \<Rightarrow> ('w, 'd, 'm) ocm_res_lib \<Rightarrow>
   ('w, 'a, 'e, 't, 'p, 'x, 'j) resource_lib \<Rightarrow> 'w \<Rightarrow> 'w \<Rightarrow> bool"
  for view E V RL A w0 where
  start: "cluster_reachable view E V RL A w0 w0"
| step: "cluster_reachable view E V RL A w0 w \<Longrightarrow> cluster_step view E V RL A w w' \<Longrightarrow>
    cluster_reachable view E V RL A w0 w'"

lemma kept_put:
  "kept meta fin f j \<Longrightarrow> (\<And>x. f k = Some x \<Longrightarrow> om_Finalizers (meta y) = om_Finalizers (meta x)) \<Longrightarrow>
   kept meta fin (f(k \<mapsto> y)) j"
  by (auto simp: kept_def)

lemma kept_remove: "kept meta fin f j \<Longrightarrow> f k = Some x \<Longrightarrow> om_Finalizers (meta x) = [] \<Longrightarrow> kept meta fin (f(k := None)) j"
  by (auto simp: kept_def)

lemma key_eta: "(\<lparr>nn_Namespace = nn_Namespace k, nn_Name = nn_Name k\<rparr> :: NamespacedName) = k"
  by simp

lemma user_edit_safe: "user_edit v v' \<Longrightarrow> no_dangling v \<Longrightarrow> no_dangling v'"
proof (induction rule: user_edit.induct)
  case (put_repository v k y)
  then show ?case by (auto simp: no_dangling_def names_defs intro!: kept_put)
next
  case (remove_repository v k x)
  then show ?case by (auto simp: no_dangling_def names_defs intro!: kept_remove)
next
  case (put_component v k y)
  then show ?case
    by (auto simp: no_dangling_def names_defs key_eta split: if_splits intro!: kept_put) blast+
next
  case (remove_component v k x)
  then show ?case by (auto simp: no_dangling_def names_defs split: if_splits intro!: kept_remove) blast+
next
  case (put_resource v k y)
  then show ?case
    by (auto simp: no_dangling_def names_defs key_eta split: if_splits intro!: kept_put) (blast | fastforce)+
next
  case (remove_resource v k x)
  then show ?case by (auto simp: no_dangling_def names_defs split: if_splits intro!: kept_remove) (blast | fastforce)+
next
  case (put_deployer v y k)
  then show ?case
    by (auto simp: no_dangling_def names_defs key_eta split: if_splits) (blast | fastforce)+
next
  case (remove_deployer v k)
  then show ?case by (auto simp: no_dangling_def names_defs split: if_splits) (blast | fastforce)+
qed

lemma cluster_step_safe:
  assumes "cluster_step view E V RL A w w'" and "framed_env program_indexes view E RL A"
    and "no_dangling (view w)"
  shows "no_dangling (view w')"
  using assms
  by (cases rule: cluster_step.cases)
    (simp_all add: user_edit_safe repository_Reconcile_safe component_Reconcile_safe resource_Reconcile_safe)

lemma cluster_reachable_safe:
  assumes "cluster_reachable view E V RL A w0 w" and "framed_env program_indexes view E RL A"
    and "no_dangling (view w0)"
  shows "no_dangling (view w)"
  using assms by (induction rule: cluster_reachable.induct) (auto intro: cluster_step_safe)

text \<open>
  The cluster: the world of the controllers is the session cache of the model and the outside
  world, of which \<open>view\<close> shows the objects; a session is what \<open>GetSession\<close> gives.
\<close>

definition cluster_env ::
  "indexer list \<Rightarrow> ('w \<Rightarrow> cluster) \<Rightarrow> (('lc, 'ls, 'w) cache_state, 'd) controller_env \<Rightarrow>
   ('lc, 'ls, 'w, 'cfg) cache_env \<Rightarrow> (('lc, 'ls, 'w) cache_state, 'd, 'm) ocm_res_lib \<Rightarrow>
   (('lc, 'ls, 'w) cache_state, 'a, 'e, 't, 'p, 'x, 'j) resource_lib \<Rightarrow> bool" where
  "cluster_env ixs view E C RL A \<longleftrightarrow> k8s_contract (k8s E) \<and> api_reads ixs (view \<circ> cc_world) (api E) \<and>
     api_writes (view \<circ> cc_world) (api E) \<and> ocm_framed (view \<circ> cc_world) (ocmlib E) \<and>
     resource_libs_framed (view \<circ> cc_world) RL A \<and> getSession E = GetSession C \<and> cache_framed view C"

lemma cluster_framed: "cluster_env ixs view E C RL A \<Longrightarrow> framed_env ixs (view \<circ> cc_world) E RL A"
  by (simp add: cluster_env_def framed_env_def framed_GetSession)

section \<open>Properties\<close>

text \<open>
  C15: While the manager that \<open>main\<close> sets up runs, no object is left naming one that is gone. Start
  from a cluster in which every repository named by a component, every component named by a
  resource and every resource named by a deployer is there with the finalizer of its controller.
  Let the lists that the deletions ask for be answered from the field indexes that this process
  has registered. Then after any sequence of user edits that keep the order of the chain, events
  elsewhere, and reconciliations of repositories, components and resources, in any order and
  whatever the libraries answer, it is still so: a finalizer goes only from an object nothing names.
\<close>

theorem references_never_dangle:
  assumes "process_run M fl = (Ret code, p)" and "p_started p"
    and "cluster_env (p_indexes p) view E C RL A"
    and "cluster_reachable (view \<circ> cc_world) E V RL A w0 w"
    and "no_dangling (view (cc_world w0))"
  shows "no_dangling (view (cc_world w))"
proof -
  have "framed_env program_indexes (view \<circ> cc_world) E RL A"
    using cluster_framed [OF assms(3)] main_only_complete [OF assms(1,2)] by (simp add: complete_process_def)
  from cluster_reachable_safe [OF assms(4) this] assms(5) show ?thesis by simp
qed

section \<open>Witnesses\<close>

text \<open>
  A server with room for one repository, one component and one resource. An object that is not
  there is not found; an object in deletion goes when it is updated without finalizers.
\<close>

record sole_objects =
  so_repository :: "Repository option"
  so_component :: "Component option"
  so_resource :: "Resource option"

definition cell :: "('o \<Rightarrow> ObjectMeta) \<Rightarrow> 'o option \<Rightarrow> NamespacedName \<Rightarrow> 'o option" where
  "cell meta c k = (case c of None \<Rightarrow> None | Some x \<Rightarrow> if k = ObjectKeyFromObject (meta x) then Some x else None)"

definition cell_update :: "('o \<Rightarrow> ObjectMeta) \<Rightarrow> 'o \<Rightarrow> 'o option \<Rightarrow> (goerr + 'o) \<times> 'o option" where
  "cell_update meta x c = (case c of
       None \<Rightarrow> (Inl (ExternalError ''NotFound'' ''not found''), c)
     | Some z \<Rightarrow>
         if ObjectKeyFromObject (meta x) \<noteq> ObjectKeyFromObject (meta z)
         then (Inl (ExternalError ''NotFound'' ''not found''), c)
         else (Inr x, if om_Finalizers (meta x) = [] \<and> \<not> IsZero_time (om_DeletionTimestamp (meta z))
                      then None else Some x))"

definition cell_get ::
  "('o \<Rightarrow> ObjectMeta) \<Rightarrow> ('w \<Rightarrow> 'o option) \<Rightarrow> NamespacedName \<Rightarrow> ('w, goerr + 'o) ext" where
  "cell_get meta at k w = (case cell meta (at w) k of Some x \<Rightarrow> (Inr x, w) | None \<Rightarrow> not_found k w)"

definition cell_list :: "('o \<Rightarrow> string) \<Rightarrow> ('w \<Rightarrow> 'o option) \<Rightarrow> string \<Rightarrow> ('w, goerr + 'o list) ext" where
  "cell_list refs at val w =
     (Inr (case at w of None \<Rightarrow> [] | Some x \<Rightarrow> if val = refs x then [x] else []), w)"

type_synonym sole_world =
  "(nat \<times> (string \<times> nat) list, nat \<times> (sessionKey \<times> nat) list, sole_objects) cache_state"

definition sole_view :: "sole_objects \<Rightarrow> cluster" where
  "sole_view w = \<lparr>cl_repositories = cell repo_meta (so_repository w), cl_components = cell comp_meta (so_component w),
     cl_resources = cell res_meta (so_resource w), cl_deployers = Map.empty\<rparr>"

definition sole_client :: "sole_world client" where
  "sole_client = empty_client\<lparr>
     getRepository := cell_get repo_meta (so_repository \<circ> cc_world),
     getComponent := cell_get comp_meta (so_component \<circ> cc_world),
     getResource := cell_get res_meta (so_resource \<circ> cc_world),
     listComponents := (\<lambda>_. cell_list component_refs (so_component \<circ> cc_world)),
     listResources := (\<lambda>_. cell_list resource_refs (so_resource \<circ> cc_world)),
     updateRepository := (\<lambda>x w. case cell_update repo_meta x (so_repository (cc_world w)) of
       (r, c) \<Rightarrow> (r, w\<lparr>cc_world := (cc_world w)\<lparr>so_repository := c\<rparr>\<rparr>)),
     updateComponent := (\<lambda>x w. case cell_update comp_meta x (so_component (cc_world w)) of
       (r, c) \<Rightarrow> (r, w\<lparr>cc_world := (cc_world w)\<lparr>so_component := c\<rparr>\<rparr>)),
     updateResource := (\<lambda>x w. case cell_update res_meta x (so_resource (cc_world w)) of
       (r, c) \<Rightarrow> (r, w\<lparr>cc_world := (cc_world w)\<lparr>so_resource := c\<rparr>\<rparr>))\<rparr>"

definition sole_cache_env ::
  "(nat \<times> (string \<times> nat) list, nat \<times> (sessionKey \<times> nat) list, sole_objects, unit) cache_env" where
  "sole_cache_env = \<lparr>ce_client = empty_client,
     ce_ocm = \<lparr>ocm_New = (\<lambda>w. (0, w)), RepositoryForDockerConfig = (\<lambda>c d w. (None, w)),
       GetConfigForData = (\<lambda>c d e w. (Inr (), w)), ApplyConfig = (\<lambda>c d n w. (None, w)),
       context_Finalize = (\<lambda>c w. (None, w)), context_CloseOnFinalize = (\<lambda>c s w. ((), w)),
       signing_HasRegistry = (\<lambda>c w. (True, w)), signing_RegisterPublicKey = (\<lambda>c n k w. ((), w)),
       ocm_NewSession = (\<lambda>w. (0, w)), session_IsClosed = (\<lambda>s w. (False, w)), session_Close = (\<lambda>s w. (None, w))\<rparr>,
     ce_sha = pad32, ce_contextLRU = sample_lru, ce_sessionLRU = sample_lru\<rparr>"

definition sole_env :: "(sole_world, string) controller_env" where
  "sole_env = \<lparr>k8s = sample_k8s, api = sole_client, ocmlib = empty_ocm_lib [],
     getSession = GetSession sole_cache_env, showDuration = (\<lambda>_. [])\<rparr>"

definition sole_resource_lib :: "('w, string, unit, string, string, string, unit) resource_lib" where
  "sole_resource_lib = \<lparr>
     access_Meta = access_Meta sample_resource_lib, access_Access = (\<lambda>_ w. (Inr ''ref'', w)),
     marshal_Access = (\<lambda>a. Inr a), marshal_Resource = (\<lambda>_ a. Inr a), unmarshal_Map = (\<lambda>_. Inr ()),
     marshal_Val = (\<lambda>v. Inr v), digest_String = (\<lambda>_. []), cel_BaseEnv = Inr (), cel_Extend = (\<lambda>e. Inr e),
     cel_Compile = (\<lambda>_ t. Inr t), cel_Program = (\<lambda>_ t. Inr t), cel_Eval = (\<lambda>p _. Inr p)\<rparr>"

lemma framed_same: "(\<And>w. snd (m w) = w) \<Longrightarrow> framed view m"
  by (simp add: framed_def)

lemma cell_key: "cell meta c k = Some x \<Longrightarrow> c = Some x \<and> ObjectKeyFromObject (meta x) = k"
  by (auto simp: cell_def split: option.splits if_splits)

lemma cell_shown: "fst (cell_get meta at k w) = Inr x \<longleftrightarrow> cell meta (at w) k = Some x"
  by (auto simp: cell_get_def not_found_def split: option.splits)

lemma cell_reads: "snd (cell_get meta at k w) = w" "snd (cell_list refs at val w) = w"
  by (auto simp: cell_get_def cell_list_def not_found_def split: option.splits)

lemma sole_reads: "api_reads program_indexes (sole_view \<circ> cc_world) sole_client"
proof -
  have "reads_framed (sole_view \<circ> cc_world) sole_client"
    unfolding reads_framed_def
    by (auto intro!: framed_same simp: sole_client_def empty_client_def not_found_def cell_reads)
  then show ?thesis
    unfolding api_reads_def program_indexes_def
    by (auto simp: sole_client_def sole_view_def empty_client_def cell_shown cell_list_def
        component_resource_index_def component_repository_index_def repository_component_index_def
        resource_component_index_def component_refs_def resource_refs_def dest!: cell_key)
qed

lemma stored_write_refl: "stored_write meta refs f f x"
  by (simp add: stored_write_def)

lemma cell_update_stores: "stored_write meta refs (cell meta c) (cell meta (snd (cell_update meta x c))) x"
  by (auto simp: cell_update_def cell_def stored_write_def Let_def split: option.split)

lemma cell_update_answer: "fst (cell_update meta x c) = Inr y \<Longrightarrow> y = x"
  by (auto simp: cell_update_def split: option.splits if_splits)

lemma sole_updates:
  "updateRepository sole_client x w = (fst (cell_update repo_meta x (so_repository (cc_world w))),
     w\<lparr>cc_world := (cc_world w)\<lparr>so_repository := snd (cell_update repo_meta x (so_repository (cc_world w)))\<rparr>\<rparr>)"
  "updateComponent sole_client y w = (fst (cell_update comp_meta y (so_component (cc_world w))),
     w\<lparr>cc_world := (cc_world w)\<lparr>so_component := snd (cell_update comp_meta y (so_component (cc_world w)))\<rparr>\<rparr>)"
  "updateResource sole_client z w = (fst (cell_update res_meta z (so_resource (cc_world w))),
     w\<lparr>cc_world := (cc_world w)\<lparr>so_resource := snd (cell_update res_meta z (so_resource (cc_world w)))\<rparr>\<rparr>)"
  by (simp_all add: sole_client_def case_prod_beta)

lemma sole_writes: "api_writes (sole_view \<circ> cc_world) sole_client"
proof -
  have patches: "patchRepository sole_client a b w = (None, w)" "patchComponent sole_client c d w = (None, w)"
    "patchResource sole_client e g w = (None, w)" for a b c d e g w
    by (simp_all add: sole_client_def empty_client_def)
  show ?thesis
    unfolding api_writes_def
    by (auto simp: sole_updates patches sole_view_def cell_update_stores stored_write_refl
        dest!: cell_update_answer)
qed

lemma sole_cluster: "cluster_env program_indexes sole_view sole_env sole_cache_env deployer_res_lib sole_resource_lib"
proof -
  have "cache_framed sole_view sole_cache_env"
    unfolding cache_framed_def by (auto simp: sole_cache_env_def empty_client_def not_found_def intro!: framed_same)
  then show ?thesis
    unfolding cluster_env_def ocm_framed_def resource_libs_framed_def
    by (auto simp: sole_env_def sample_k8s_contract sole_reads sole_writes empty_ocm_lib_def ocm_fail_def
        deployer_res_lib_def sole_resource_lib_def intro!: framed_same)
qed

lemma sample_process:
  obtains code p where "process_run sample_setup default_flags = (Ret code, p)" and "p_started p"
    and "p_indexes p = program_indexes"
proof -
  have "p_started (snd (process_run sample_setup default_flags))" by (rule process_run_starts [OF sample_setup_ok])
  then obtain code p where run: "process_run sample_setup default_flags = (Ret code, p)" "p_started p"
    using process_run_outcome [of sample_setup default_flags]
    by (cases "process_run sample_setup default_flags" rule: outcome_cases) auto
  with main_only_complete [OF this] that show thesis by (simp add: complete_process_def)
qed

definition sole_start :: "Repository option \<Rightarrow> Component option \<Rightarrow> Resource option \<Rightarrow> sole_world" where
  "sole_start r c q = NewContextCache sole_cache_env ''cache'' 1 1 \<lparr>so_repository = r, so_component = c, so_resource = q\<rparr>"

lemma sole_start_world: "cc_world (sole_start r c q) = \<lparr>so_repository = r, so_component = c, so_resource = q\<rparr>"
  by (simp add: sole_start_def NewContextCache_def)

text \<open>A component in deletion, its repository, and a resource that names it.\<close>

definition sole_repository :: Repository where
  "sole_repository = Repository_zero\<lparr>repo_meta := ObjectMeta_zero\<lparr>om_Finalizers := [RepositoryFinalizer]\<rparr>\<rparr>"

definition naming_resource :: Resource where
  "naming_resource = Resource_zero\<lparr>res_Spec := (res_Spec Resource_zero)\<lparr>rsp_ComponentRef_Name := ''c''\<rparr>\<rparr>"

abbreviation naming_start :: sole_world where
  "naming_start \<equiv> sole_start (Some sole_repository) (Some deleted_component) (Some naming_resource)"

lemma naming_no_dangling: "no_dangling (sole_view (cc_world naming_start))"
  by (auto simp: no_dangling_def names_defs kept_def cell_def sole_view_def sole_start_world deleted_component_def
      sole_repository_def naming_resource_def component_refs_def resource_refs_def
      stored_component_def zero_defs ObjectKeyFromObject_def split: if_splits)

theorem references_never_dangle_witness:
  "no_dangling (sole_view (cc_world (world (snd (component_Reconcile sole_env sample_libs
     \<lparr>nn_Namespace = [], nn_Name = ''c''\<rparr> \<lparr>obj = Component_zero, events = [], world = naming_start\<rparr>)))))"
proof -
  obtain code p where run: "process_run sample_setup default_flags = (Ret code, p)" and p: "p_started p"
    and ixs: "p_indexes p = program_indexes" by (rule sample_process)
  have env: "cluster_env (p_indexes p) sole_view sole_env sole_cache_env deployer_res_lib sole_resource_lib"
    using sole_cluster by (simp add: ixs)
  let ?s = "\<lparr>obj = Component_zero, events = [], world = naming_start\<rparr>"
  have "cluster_reachable (sole_view \<circ> cc_world) sole_env sample_libs deployer_res_lib sole_resource_lib (world ?s)
      (world (snd (component_Reconcile sole_env sample_libs \<lparr>nn_Namespace = [], nn_Name = ''c''\<rparr> ?s)))"
    by (rule cluster_reachable.step [OF cluster_reachable.start cluster_step.component])
  from references_never_dangle [OF run p env this] naming_no_dangling show ?thesis by simp
qed

end
