(* ===== verification/Unwind.thy ===== *)
theory Unwind
  imports Cluster
begin

text \<open>
  The end of the chain: what becomes of objects that are being deleted. With a server that accepts
  the updates of the reconcilers and forgets an object in deletion with its last finalizer, one
  reconciliation of each resource, then of each component, then of each repository clears the
  cluster.
\<close>

section \<open>A server that cooperates\<close>

text \<open>
  \<open>serves\<close>: what is there can be read, and an object in deletion, as it is stored but without
  finalizers, is accepted and goes. \<open>lists\<close>: a list by an index has nothing but the objects with
  the value.
\<close>

definition in_deletion :: "ObjectMeta \<Rightarrow> string \<Rightarrow> bool" where
  "in_deletion m fin \<longleftrightarrow> \<not> IsZero_time (om_DeletionTimestamp m) \<and> set (om_Finalizers m) = {fin}"

definition serves ::
  "('w \<Rightarrow> NamespacedName \<Rightarrow> 'o option) \<Rightarrow> ('o \<Rightarrow> ObjectMeta) \<Rightarrow> (string list \<Rightarrow> 'o \<Rightarrow> 'o) \<Rightarrow> string \<Rightarrow>
   (NamespacedName \<Rightarrow> ('w, goerr + 'o) ext) \<Rightarrow> ('o \<Rightarrow> ('w, goerr + 'o) ext) \<Rightarrow> bool" where
  "serves store meta setFinalizers fin get update \<longleftrightarrow>
     (\<forall>k w x. store w k = Some x \<longrightarrow> fst (get k w) = Inr x) \<and>
     (\<forall>k w x. store w k = Some x \<longrightarrow> in_deletion (meta x) fin \<longrightarrow>
        (\<exists>y. fst (update (setFinalizers [] x) w) = Inr y) \<and> store (snd (update (setFinalizers [] x) w)) k = None)"

definition lists ::
  "('w \<Rightarrow> NamespacedName \<Rightarrow> 'o option) \<Rightarrow> ('o \<Rightarrow> string list) \<Rightarrow> (string \<Rightarrow> ('w, goerr + 'o list) ext) \<Rightarrow> bool" where
  "lists store index lst \<longleftrightarrow>
     (\<forall>val w. \<exists>xs. fst (lst val w) = Inr xs \<and> (\<forall>x \<in> set xs. \<exists>k. store w k = Some x \<and> val \<in> set (index x)))"

definition api_cooperates :: "indexer list \<Rightarrow> ('w \<Rightarrow> cluster) \<Rightarrow> 'w client \<Rightarrow> bool" where
  "api_cooperates ixs view cl \<longleftrightarrow>
     serves (cl_repositories \<circ> view) repo_meta Repository_setFinalizers RepositoryFinalizer
       (getRepository cl) (updateRepository cl) \<and>
     serves (cl_components \<circ> view) comp_meta Component_setFinalizers ComponentFinalizer
       (getComponent cl) (updateComponent cl) \<and>
     serves (cl_resources \<circ> view) res_meta Resource_setFinalizers ResourceFinalizer
       (getResource cl) (updateResource cl) \<and>
     (\<forall>f g. IndexComponents f g \<in> set ixs \<longrightarrow> lists (cl_components \<circ> view) g (listComponents cl f)) \<and>
     (\<forall>f g. IndexResources f g \<in> set ixs \<longrightarrow> lists (cl_resources \<circ> view) g (listResources cl f)) \<and>
     (\<forall>f g. IndexDeployers f g \<in> set ixs \<longrightarrow> lists (cl_deployers \<circ> view) g (listDeployers cl f))"

lemma servesD:
  assumes "serves store meta setFinalizers fin get update" and "store w k = Some x"
  shows "fst (get k w) = Inr x"
    and "in_deletion (meta x) fin \<Longrightarrow> \<exists>y. fst (update (setFinalizers [] x) w) = Inr y"
    and "in_deletion (meta x) fin \<Longrightarrow> store (snd (update (setFinalizers [] x) w)) k = None"
  using assms by (auto simp: serves_def)

lemma lists_nothing:
  assumes "lists store index lst" and "\<And>k x. store w k = Some x \<Longrightarrow> val \<notin> set (index x)"
  shows "fst (lst val w) = Inr []"
proof -
  obtain xs where xs: "fst (lst val w) = Inr xs" "\<forall>x \<in> set xs. \<exists>k. store w k = Some x \<and> val \<in> set (index x)"
    using assms(1) unfolding lists_def by metis
  have "x \<notin> set xs" for x using xs(2) assms(2) by blast
  then have "xs = []" by (cases xs) auto
  with xs(1) show ?thesis by simp
qed

section \<open>One object\<close>

lemma stored_write_remove:
  "stored_write meta refs f f' x \<Longrightarrow> f' (ObjectKeyFromObject (meta x)) = None \<Longrightarrow>
   f' = f(ObjectKeyFromObject (meta x) := None)"
  by (rule ext) (auto simp: stored_write_def Let_def)

lemma stored_write_absent:
  assumes "stored_write meta refs f f' x" and "f (ObjectKeyFromObject (meta x)) = None"
  shows "f' = f"
proof
  fix k
  show "f' k = f k"
    using assms(1) by (rule stored_write_cases [of meta refs f f' x k]) (use assms(2) in simp_all)
qed

text \<open>A run on an object that has gone already changes nothing.\<close>

lemma reconcile_absent:
  assumes "framed view get" and "\<And>x. fst (get (world s)) \<noteq> Inr x"
  shows "view (world (snd (reconcileObject E io get patch rq body s))) = view (world s)"
proof -
  obtain r w where run: "get (world s) = (r, w)" by force
  have "view w = view (world s)" using assms(1) run by (metis framed_def snd_conv)
  then show ?thesis using run assms(2) by (cases r) (auto simp: reconcileObject_def go_defs)
qed

context referring_object
begin

lemma deletion_removes:
  assumes L: "k8s_contract (k8s E)" and get: "get (world s) = (Inr x, w)" and lst: "lst w = (Inr [], w1)"
    and fin: "in_deletion (ico_ObjectMeta io x) fin"
    and upd: "update (setFinalizers [] x) w1 = (Inr y, w2)"
    and ans: "\<And>w x y. fst (update x w) = Inr y \<Longrightarrow> ident io refs y = ident io refs x"
    and body: "\<And>t u. obj t = x \<Longrightarrow>
      deletionProtocol E io setFinalizers lst itemName update fin p blocked remaining t = (Ret None, u) \<Longrightarrow>
      body t = (Ret (Result_zero, None), u)"
  shows "\<exists>z. world (snd (reconcileObject E io get patch rq body s)) = snd (patch x z w2) \<and>
    ObjectKeyFromObject (ico_ObjectMeta io z) = ObjectKeyFromObject (ico_ObjectMeta io x)"
proof -
  let ?t = "s\<lparr>world := w, obj := x\<rparr>"
  have "lst (world ?t) = (Inr [], w1)" and "fin \<in> set (om_Finalizers (ico_ObjectMeta io (obj ?t)))"
    using lst fin by (simp_all add: in_deletion_def)
  from deletion_update [where lst = lst and s = ?t and fin = fin and update = update and itemName = itemName and p = p and blocked = blocked
      and remaining = remaining, OF L this]
  obtain fs where fs: "set fs = set (om_Finalizers (ico_ObjectMeta io x)) - {fin}"
    and run: "deletionProtocol E io setFinalizers lst itemName update fin p blocked remaining ?t =
       (case update (setFinalizers fs x) w1 of
          (Inr y, w2) \<Rightarrow> (Ret None, ?t\<lparr>obj := y, world := w2\<rparr>)
        | (Inl err, w2) \<Rightarrow> (Ret (Some (Errorf ''failed to remove finalizer'' err)),
            MarkNotReady (k8s E) io DeletionFailedReason (Error_msg err) (?t\<lparr>obj := setFinalizers fs x, world := w2\<rparr>)))"
    by auto
  have "fs = []" using fs fin by (simp add: in_deletion_def)
  with run upd have ended: "body ?t = (Ret (Result_zero, None), ?t\<lparr>obj := y, world := w2\<rparr>)"
    by (intro body) simp_all
  show ?thesis
  proof (rule reconcileObject_ret [where get = get and s = s and body = body and patch = patch and requeueAfter = rq, OF L get ended])
    fix z s2
    assume "reconcileObject E io get patch rq body s = (Ret (fst (Result_zero, None),
        errors_Join [snd (Result_zero, None), fst (patch x z (world (?t\<lparr>obj := y, world := w2\<rparr>)))]), s2)"
      and "status_frame io (obj (?t\<lparr>obj := y, world := w2\<rparr>)) z"
      and "world s2 = snd (patch x z (world (?t\<lparr>obj := y, world := w2\<rparr>)))"
    moreover from this(2) have "ident io refs z = ident io refs (setFinalizers [] x)"
      using ans [of "setFinalizers [] x" w1 y] upd by (simp add: ident_frame)
    ultimately show ?thesis
      by (intro exI [of _ z]) (simp add: ident_set_finalizers, simp add: ident_def)
  qed
qed

text \<open>
  A run on an object in deletion that nothing names takes it away and touches nothing else.
  \<open>store\<close> and \<open>put\<close> are the objects of the kind in the cluster and their update.
\<close>

lemma object_goes:
  fixes store :: "'v \<Rightarrow> NamespacedName \<Rightarrow> 'o option" and view :: "'w \<Rightarrow> 'v"
  assumes L: "k8s_contract (k8s E)"
    and store: "\<And>f v. store (put f v) = f" "\<And>f g v. put f (put g v) = put f v" "\<And>v. put (store v) v = v"
    and framed: "framed view (get k)" "framed view lst"
    and shown: "\<And>w x. fst (get k w) = Inr x \<Longrightarrow> store (view w) k = Some x"
    and keys: "\<And>w x. store (view w) k = Some x \<Longrightarrow> ObjectKeyFromObject (ico_ObjectMeta io x) = k"
    and upd: "\<And>x w. \<exists>f. view (snd (update x w)) = put f (view w) \<and>
      stored_write (ico_ObjectMeta io) refs (store (view w)) f x"
    and pat: "\<And>x0 x w. \<exists>f. view (snd (patch x0 x w)) = put f (view w) \<and>
      stored_write (ico_ObjectMeta io) refs (store (view w)) f x"
    and ans: "\<And>w x y. fst (update x w) = Inr y \<Longrightarrow> ident io refs y = ident io refs x"
    and S: "serves (store \<circ> view) (ico_ObjectMeta io) setFinalizers fin get update"
    and del: "\<And>x. store (view (world s)) k = Some x \<Longrightarrow> in_deletion (ico_ObjectMeta io x) fin"
    and none: "\<And>w. view w = view (world s) \<Longrightarrow> fst (lst w) = Inr []"
    and body: "\<And>x t u. store (view (world s)) k = Some x \<Longrightarrow> obj t = x \<Longrightarrow>
      deletionProtocol E io setFinalizers lst itemName update fin p blocked remaining t = (Ret None, u) \<Longrightarrow>
      body t = (Ret (Result_zero, None), u)"
  shows "view (world (snd (reconcileObject E io (get k) patch rq body s))) =
    put ((store (view (world s)))(k := None)) (view (world s))"
proof (cases "store (view (world s)) k")
  case None
  have "view (world (snd (reconcileObject E io (get k) patch rq body s))) = view (world s)"
    by (rule reconcile_absent [OF framed(1)]) (use shown [of "world s"] None in auto)
  moreover have "(store (view (world s)))(k := None) = store (view (world s))" using None by auto
  ultimately show ?thesis by (simp add: store)
next
  case (Some x)
  note F = framed [unfolded framed_def, rule_format]
  let ?v = "view (world s)" and ?x = "setFinalizers [] x"
  have key: "ObjectKeyFromObject (ico_ObjectMeta io x) = k" using keys Some .
  have d: "in_deletion (ico_ObjectMeta io x) fin" using del Some .
  obtain w where get: "get k (world s) = (Inr x, w)"
    using servesD(1) [OF S, of "world s" k x] Some by (cases "get k (world s)") auto
  then have w: "view w = ?v" using F(1) [of "world s"] by simp
  obtain w1 where lst: "lst w = (Inr [], w1)" using none [OF w] by (cases "lst w") auto
  then have w1: "view w1 = ?v" using F(2) [of w] w by simp
  have at: "(store \<circ> view) w1 k = Some x" using w1 Some by simp
  from servesD(2) [OF S at d] obtain y w2 where u: "update ?x w1 = (Inr y, w2)" by (cases "update ?x w1") auto
  have gone: "store (view w2) k = None" using servesD(3) [OF S at d] u by simp
  have v2: "view w2 = put ((store ?v)(k := None)) ?v"
  proof -
    obtain f where f: "view w2 = put f ?v" and sw: "stored_write (ico_ObjectMeta io) refs (store ?v) f ?x"
      using upd [of ?x w1] u w1 by auto
    then show ?thesis using stored_write_remove [OF sw] gone key by (simp add: store key_set_finalizers)
  qed
  have "\<exists>z. world (snd (reconcileObject E io (get k) patch rq body s)) = snd (patch x z w2) \<and>
      ObjectKeyFromObject (ico_ObjectMeta io z) = ObjectKeyFromObject (ico_ObjectMeta io x)"
    by (rule deletion_removes [where s = s and get = "get k" and lst = lst and update = update and fin = fin
      and x = x and body = body and itemName = itemName and p = p and blocked = blocked and remaining = remaining
      and patch = patch and rq = rq, OF L get lst d u], erule ans, erule (1) body [OF Some])
  then obtain z where run: "world (snd (reconcileObject E io (get k) patch rq body s)) = snd (patch x z w2)"
    and kz: "ObjectKeyFromObject (ico_ObjectMeta io z) = k" using key by auto
  obtain g where g: "view (snd (patch x z w2)) = put g (view w2)"
    and gw: "stored_write (ico_ObjectMeta io) refs (store (view w2)) g z" using pat by blast
  have "g = store (view w2)" using stored_write_absent [OF gw] gone kz by simp
  with run g v2 show ?thesis by (simp add: store)
qed

end

section \<open>One reconciliation\<close>

lemma api_writes_stores:
  assumes "api_writes view cl"
  shows "\<exists>f. view (snd (updateRepository cl x w)) = (view w)\<lparr>cl_repositories := f\<rparr> \<and>
      stored_write repo_meta (\<lambda>_. ()) (cl_repositories (view w)) f x"
    and "\<exists>f. view (snd (updateComponent cl y w)) = (view w)\<lparr>cl_components := f\<rparr> \<and>
      stored_write comp_meta component_refs (cl_components (view w)) f y"
    and "\<exists>f. view (snd (updateResource cl z w)) = (view w)\<lparr>cl_resources := f\<rparr> \<and>
      stored_write res_meta resource_refs (cl_resources (view w)) f z"
    and "\<exists>f. view (snd (patchRepository cl x0 x w)) = (view w)\<lparr>cl_repositories := f\<rparr> \<and>
      stored_write repo_meta (\<lambda>_. ()) (cl_repositories (view w)) f x"
    and "\<exists>f. view (snd (patchComponent cl y0 y w)) = (view w)\<lparr>cl_components := f\<rparr> \<and>
      stored_write comp_meta component_refs (cl_components (view w)) f y"
    and "\<exists>f. view (snd (patchResource cl z0 z w)) = (view w)\<lparr>cl_resources := f\<rparr> \<and>
      stored_write res_meta resource_refs (cl_resources (view w)) f z"
  using assms unfolding api_writes_def by simp_all

lemma component_goes:
  assumes env: "framed_env program_indexes view E RL A" and coop: "api_cooperates program_indexes view (api E)"
    and del: "\<And>x. cl_components (view (world s)) k = Some x \<Longrightarrow> in_deletion (comp_meta x) ComponentFinalizer"
    and none: "\<And>j y. cl_resources (view (world s)) j = Some y \<Longrightarrow> resource_refs y \<noteq> nn_Name k"
  shows "view (world (snd (component_Reconcile E V k s))) =
    (view (world s))\<lparr>cl_components := (cl_components (view (world s)))(k := None)\<rparr>"
proof -
  have L: "k8s_contract (k8s E)" and R: "api_reads program_indexes view (api E)" and W: "api_writes view (api E)"
    using env by (simp_all add: framed_env_def)
  note F = reads_framedD [OF api_readsD(1) [OF R]]
  have S: "serves (cl_components \<circ> view) comp_meta Component_setFinalizers ComponentFinalizer
      (getComponent (api E)) (updateComponent (api E))"
    and I: "lists (cl_resources \<circ> view) component_resource_index (listResources (api E) ''.spec.componentRef.Name'')"
    using coop by (auto simp: api_cooperates_def program_indexes_def)
  have meta: "ico_ObjectMeta Component_ico = comp_meta" by (simp add: component_method_defs)
  show ?thesis
    unfolding component_Reconcile_def
  proof (rule component_ref.object_goes [where store = cl_components and fin = ComponentFinalizer
        and put = "\<lambda>f v. v\<lparr>cl_components := f\<rparr>" and update = "updateComponent (api E)"
        and lst = "listResources (api E) ''.spec.componentRef.Name'' (nn_Name k)", unfolded meta,
        OF L _ _ _ F(2) F(7) api_readsD(3) [OF R] api_readsD(6) [OF R] api_writes_stores(2,5) [OF W] api_writesD(8) [OF W] S del])
    show "fst (listResources (api E) ''.spec.componentRef.Name'' (nn_Name k) w) = Inr []" if "view w = view (world s)" for w
      by (rule lists_nothing [OF I])
        (use none that in \<open>force simp: component_resource_index_def resource_refs_def\<close>)
    show "component_body E V t = (Ret (Result_zero, None), u)"
      if "cl_components (view (world s)) k = Some x" "obj t = x" and
        "deletionProtocol E Component_ico Component_setFinalizers
          (listResources (api E) ''.spec.componentRef.Name'' (nn_Name k))
          (\<lambda>res. om_Namespace (res_meta res) @ ''/'' @ om_Name (res_meta res)) (updateComponent (api E)) ComponentFinalizer
          ''failed to list resource'' ''component cannot be removed as resources are still referencing it: ''
          ''component is being deleted and still has existing finalizers'' t = (Ret None, u)" for x t u
      using that del api_readsD(6) [OF R]
      by (simp add: component_body_def component_reconcileDelete_def in_deletion_def go_defs)
  qed simp_all
qed

lemma repository_goes:
  assumes env: "framed_env program_indexes view E RL A" and coop: "api_cooperates program_indexes view (api E)"
    and del: "\<And>x. cl_repositories (view (world s)) k = Some x \<Longrightarrow> in_deletion (repo_meta x) RepositoryFinalizer"
    and none: "\<And>j y. cl_components (view (world s)) j = Some y \<Longrightarrow> component_refs y \<noteq> nn_Name k"
  shows "view (world (snd (repository_Reconcile E k s))) =
    (view (world s))\<lparr>cl_repositories := (cl_repositories (view (world s)))(k := None)\<rparr>"
proof -
  have L: "k8s_contract (k8s E)" and R: "api_reads program_indexes view (api E)" and W: "api_writes view (api E)"
    using env by (simp_all add: framed_env_def)
  note F = reads_framedD [OF api_readsD(1) [OF R]]
  have S: "serves (cl_repositories \<circ> view) repo_meta Repository_setFinalizers RepositoryFinalizer
      (getRepository (api E)) (updateRepository (api E))"
    and I: "lists (cl_components \<circ> view) repository_component_index (listComponents (api E) repositoryKey)"
    using coop by (auto simp: api_cooperates_def program_indexes_def)
  have meta: "ico_ObjectMeta Repository_ico = repo_meta" by (simp add: repository_method_defs)
  show ?thesis
    unfolding repository_Reconcile_def
  proof (rule repository_ref.object_goes [where store = cl_repositories and fin = RepositoryFinalizer
        and put = "\<lambda>f v. v\<lparr>cl_repositories := f\<rparr>" and update = "updateRepository (api E)"
        and lst = "listComponents (api E) repositoryKey (nn_Name k)", unfolded meta,
        OF L _ _ _ F(1) F(6) api_readsD(2) [OF R] api_readsD(5) [OF R] api_writes_stores(1,4) [OF W]
          api_writesD(7) [OF W] S])
    show "fst (listComponents (api E) repositoryKey (nn_Name k) w) = Inr []" if "view w = view (world s)" for w
      by (rule lists_nothing [OF I]) (use none that in \<open>force simp: repository_component_index_def component_refs_def\<close>)
    show "in_deletion (repo_meta x) RepositoryFinalizer" if "cl_repositories (view (world s)) k = Some x" for x
      using del that by simp
    show "repository_body E t = (Ret (Result_zero, None), u)"
      if "cl_repositories (view (world s)) k = Some x" "obj t = x" and
        "deletionProtocol E Repository_ico Repository_setFinalizers
          (listComponents (api E) repositoryKey (nn_Name k))
          (\<lambda>c. om_Namespace (comp_meta c) @ ''/'' @ om_Name (comp_meta c)) (updateRepository (api E)) RepositoryFinalizer
          ''failed to list components'' ''OCM repository cannot be removed as components are still referencing it: ''
          ''OCM repository is being deleted and still has existing finalizers'' t = (Ret None, u)" for x t u
      using that del api_readsD(5) [OF R] k8s_finalizers [OF L]
      by (simp add: repository_body_def deleteRepository_def in_deletion_def go_defs)
  qed simp_all
qed

lemma resource_goes:
  assumes env: "framed_env program_indexes view E RL A" and coop: "api_cooperates program_indexes view (api E)"
    and del: "\<And>x. cl_resources (view (world s)) k = Some x \<Longrightarrow> in_deletion (res_meta x) ResourceFinalizer \<and> \<not> rsp_Suspend (res_Spec x)"
    and none: "cl_deployers (view (world s)) = Map.empty"
  shows "view (world (snd (resource_Reconcile E RL A k s))) =
    (view (world s))\<lparr>cl_resources := (cl_resources (view (world s)))(k := None)\<rparr>"
proof -
  have L: "k8s_contract (k8s E)" and R: "api_reads program_indexes view (api E)" and W: "api_writes view (api E)"
    using env by (simp_all add: framed_env_def)
  note F = reads_framedD [OF api_readsD(1) [OF R]]
  have S: "serves (cl_resources \<circ> view) res_meta Resource_setFinalizers ResourceFinalizer
      (getResource (api E)) (updateResource (api E))"
    and I: "lists (cl_deployers \<circ> view) resource_deployer_index (listDeployers (api E) deployerIndex)"
    using coop by (auto simp: api_cooperates_def program_indexes_def)
  have meta: "ico_ObjectMeta Resource_ico = res_meta" by (simp add: resource_method_defs)
  show ?thesis
    unfolding resource_Reconcile_def
  proof (rule resource_ref.object_goes [where store = cl_resources and fin = ResourceFinalizer
        and put = "\<lambda>f v. v\<lparr>cl_resources := f\<rparr>" and update = "updateResource (api E)"
        and lst = "listDeployers (api E) deployerIndex (NamespacedName_String (k8s E) k)", unfolded meta,
        OF L _ _ _ F(3) F(8) api_readsD(4) [OF R] api_readsD(7) [OF R] api_writes_stores(3,6) [OF W]
          api_writesD(9) [OF W] S])
    show "fst (listDeployers (api E) deployerIndex (NamespacedName_String (k8s E) k) w) = Inr []" if "view w = view (world s)" for w
      by (rule lists_nothing [OF I]) (use none that in \<open>simp\<close>)
    show "in_deletion (res_meta x) ResourceFinalizer" if "cl_resources (view (world s)) k = Some x" for x
      using del that by simp
    show "resource_body E RL A t = (Ret (Result_zero, None), u)"
      if "cl_resources (view (world s)) k = Some x" "obj t = x" and
        "deletionProtocol E Resource_ico Resource_setFinalizers
          (listDeployers (api E) deployerIndex (NamespacedName_String (k8s E) k))
          (\<lambda>deployer. om_Name (dep_meta deployer)) (updateResource (api E)) ResourceFinalizer
          ''failed to list deployers'' ''resource cannot be removed as deployers are still referencing it: ''
          ''resource is being deleted and still has existing finalizers'' t = (Ret None, u)" for x t u
      using that del api_readsD(7) [OF R]
      by (simp add: resource_body_def resource_delete_def in_deletion_def go_defs)
  qed simp_all
qed

section \<open>All of them\<close>

text \<open>The world after a reconciliation of the request \<open>k\<close>.\<close>

definition run_on :: "(NamespacedName \<Rightarrow> (('o, 'w) rstate, 'a) go) \<Rightarrow> 'o \<Rightarrow> NamespacedName \<Rightarrow> 'w \<Rightarrow> 'w" where
  "run_on R x k w = world (snd (R k \<lparr>obj = x, events = [], world = w\<rparr>))"

lemma fold_clears:
  assumes store: "\<And>f v. store (put f v) = f" "\<And>f g v. put f (put g v) = put f v" "\<And>v. put (store v) v = v"
    and step: "\<And>w k. good (view w) \<Longrightarrow> view (f k w) = put ((store (view w))(k := None)) (view w)"
    and good: "\<And>v k. good v \<Longrightarrow> good (put ((store v)(k := None)) v)"
    and w: "good (view w)"
  shows "view (fold f ks w) = put (\<lambda>k. if k \<in> set ks then None else store (view w) k) (view w)"
  using w
proof (induction ks arbitrary: w)
  case Nil
  show ?case by (simp add: store)
next
  case (Cons k ks)
  have v: "view (f k w) = put ((store (view w))(k := None)) (view w)" using step Cons.prems .
  then have "good (view (f k w))" using good Cons.prems by simp
  from Cons.IH [OF this] have "view (fold f (k # ks) w) =
      put (\<lambda>j. if j \<in> set ks then None else ((store (view w))(k := None)) j) (view w)"
    unfolding v store by simp
  also have "(\<lambda>j. if j \<in> set ks then None else ((store (view w))(k := None)) j) =
      (\<lambda>j. if j \<in> set (k # ks) then None else store (view w) j)" by auto
  finally show ?case .
qed

definition deleted_repositories :: "cluster \<Rightarrow> bool" where
  "deleted_repositories v \<longleftrightarrow> (\<forall>k x. cl_repositories v k = Some x \<longrightarrow> in_deletion (repo_meta x) RepositoryFinalizer)"

definition deleted_components :: "cluster \<Rightarrow> bool" where
  "deleted_components v \<longleftrightarrow> (\<forall>k x. cl_components v k = Some x \<longrightarrow> in_deletion (comp_meta x) ComponentFinalizer)"

definition deleted_resources :: "cluster \<Rightarrow> bool" where
  "deleted_resources v \<longleftrightarrow> (\<forall>k x. cl_resources v k = Some x \<longrightarrow>
     in_deletion (res_meta x) ResourceFinalizer \<and> \<not> rsp_Suspend (res_Spec x))"

lemma resources_cleared:
  assumes "framed_env program_indexes view E RL A" and "api_cooperates program_indexes view (api E)"
    and "deleted_resources (view w)" and "cl_deployers (view w) = Map.empty" and "dom (cl_resources (view w)) \<subseteq> set ks"
  shows "view (fold (run_on (resource_Reconcile E RL A) x) ks w) = (view w)\<lparr>cl_resources := Map.empty\<rparr>"
proof -
  have "view (fold (run_on (resource_Reconcile E RL A) x) ks w) =
      (view w)\<lparr>cl_resources := (\<lambda>k. if k \<in> set ks then None else cl_resources (view w) k)\<rparr>"
  proof (rule fold_clears [where good = "\<lambda>v. deleted_resources v \<and> cl_deployers v = Map.empty"])
    show "view (run_on (resource_Reconcile E RL A) x k u) = (view u)\<lparr>cl_resources := (cl_resources (view u))(k := None)\<rparr>"
      if "deleted_resources (view u) \<and> cl_deployers (view u) = Map.empty" for u k
      using resource_goes [OF assms(1,2), of "\<lparr>obj = x, events = [], world = u\<rparr>"] that
      by (simp add: run_on_def deleted_resources_def)
  qed (use assms(3,4) in \<open>auto simp: deleted_resources_def\<close>)
  moreover have "(\<lambda>k. if k \<in> set ks then None else cl_resources (view w) k) = Map.empty" using assms(5) by fastforce
  ultimately show ?thesis by simp
qed

lemma components_cleared:
  assumes "framed_env program_indexes view E RL A" and "api_cooperates program_indexes view (api E)"
    and "deleted_components (view w)" and "cl_resources (view w) = Map.empty" and "dom (cl_components (view w)) \<subseteq> set ks"
  shows "view (fold (run_on (component_Reconcile E V) x) ks w) = (view w)\<lparr>cl_components := Map.empty\<rparr>"
proof -
  have "view (fold (run_on (component_Reconcile E V) x) ks w) =
      (view w)\<lparr>cl_components := (\<lambda>k. if k \<in> set ks then None else cl_components (view w) k)\<rparr>"
  proof (rule fold_clears [where good = "\<lambda>v. deleted_components v \<and> cl_resources v = Map.empty"])
    show "view (run_on (component_Reconcile E V) x k u) = (view u)\<lparr>cl_components := (cl_components (view u))(k := None)\<rparr>"
      if "deleted_components (view u) \<and> cl_resources (view u) = Map.empty" for u k
      using component_goes [OF assms(1,2), of "\<lparr>obj = x, events = [], world = u\<rparr>"] that
      by (simp add: run_on_def deleted_components_def)
  qed (use assms(3,4) in \<open>auto simp: deleted_components_def\<close>)
  moreover have "(\<lambda>k. if k \<in> set ks then None else cl_components (view w) k) = Map.empty" using assms(5) by fastforce
  ultimately show ?thesis by simp
qed

lemma repositories_cleared:
  assumes "framed_env program_indexes view E RL A" and "api_cooperates program_indexes view (api E)"
    and "deleted_repositories (view w)" and "cl_components (view w) = Map.empty" and "dom (cl_repositories (view w)) \<subseteq> set ks"
  shows "view (fold (run_on (repository_Reconcile E) x) ks w) = (view w)\<lparr>cl_repositories := Map.empty\<rparr>"
proof -
  have "view (fold (run_on (repository_Reconcile E) x) ks w) =
      (view w)\<lparr>cl_repositories := (\<lambda>k. if k \<in> set ks then None else cl_repositories (view w) k)\<rparr>"
  proof (rule fold_clears [where good = "\<lambda>v. deleted_repositories v \<and> cl_components v = Map.empty"])
    show "view (run_on (repository_Reconcile E) x k u) = (view u)\<lparr>cl_repositories := (cl_repositories (view u))(k := None)\<rparr>"
      if "deleted_repositories (view u) \<and> cl_components (view u) = Map.empty" for u k
      using repository_goes [OF assms(1,2), of "\<lparr>obj = x, events = [], world = u\<rparr>"] that
      by (simp add: run_on_def deleted_repositories_def)
  qed (use assms(3,4) in \<open>auto simp: deleted_repositories_def\<close>)
  moreover have "(\<lambda>k. if k \<in> set ks then None else cl_repositories (view w) k) = Map.empty" using assms(5) by fastforce
  ultimately show ?thesis by simp
qed

section \<open>Properties\<close>

text \<open>
  C16: What is deleted goes. Let all repositories, components and resources be in deletion, each with
  no finalizer but that of its controller, no resource suspended, and no deployer left. With the
  indexes the process has registered, and a server that accepts the updates, one reconciliation of
  each resource, then of each component, then of each repository (in any order within a kind, more
  than once, and of names that are not there too) leaves no object in the cluster.
\<close>

theorem everything_deleted_goes:
  assumes "process_run M fl = (Ret code, p)" and "p_started p"
    and "cluster_env (p_indexes p) view E C RL A"
    and "api_cooperates (p_indexes p) (view \<circ> cc_world) (api E)"
    and "deleted_repositories v" "deleted_components v" "deleted_resources v" "cl_deployers v = Map.empty"
    and "v = view (cc_world w)"
    and "dom (cl_repositories v) \<subseteq> set ps" "dom (cl_components v) \<subseteq> set cs" "dom (cl_resources v) \<subseteq> set rs"
  shows "view (cc_world (fold (run_on (repository_Reconcile E) x) ps
      (fold (run_on (component_Reconcile E V) y) cs
      (fold (run_on (resource_Reconcile E RL A) z) rs w)))) =
    v\<lparr>cl_repositories := Map.empty, cl_components := Map.empty, cl_resources := Map.empty\<rparr>"
proof -
  let ?view = "view \<circ> cc_world"
  let ?w1 = "fold (run_on (resource_Reconcile E RL A) z) rs w"
  let ?w2 = "fold (run_on (component_Reconcile E V) y) cs ?w1"
  have P: "p_indexes p = program_indexes" using main_only_complete [OF assms(1,2)] by (simp add: complete_process_def)
  note env = cluster_framed [OF assms(3), unfolded P] and coop = assms(4) [unfolded P]
  have w: "?view w = v" using assms(9) by simp
  have 1: "?view ?w1 = v\<lparr>cl_resources := Map.empty\<rparr>"
    using resources_cleared [OF env coop, of w rs z] assms(7,8,12) unfolding w by blast
  have 2: "?view ?w2 = v\<lparr>cl_resources := Map.empty, cl_components := Map.empty\<rparr>"
    using components_cleared [OF env coop, of ?w1 cs V y] assms(6,11) unfolding 1 by (simp add: deleted_components_def)
  show ?thesis
    using repositories_cleared [OF env coop, of ?w2 ps x] assms(5,10) unfolding 2 by (simp add: deleted_repositories_def)
qed

section \<open>Witness\<close>

text \<open>The chain of one repository, component and resource, all in deletion.\<close>

definition doomed :: "string \<Rightarrow> string \<Rightarrow> ObjectMeta" where
  "doomed name fin = ObjectMeta_zero\<lparr>om_Name := name, om_Finalizers := [fin], om_DeletionTimestamp := Some 1\<rparr>"

definition doomed_start :: sole_world where
  "doomed_start = sole_start (Some (Repository_zero\<lparr>repo_meta := doomed [] RepositoryFinalizer\<rparr>)) (Some deleted_component)
     (Some (naming_resource\<lparr>res_meta := doomed ''r'' ResourceFinalizer\<rparr>))"

lemma cell_serves:
  assumes "\<And>x. ObjectKeyFromObject (meta (setFinalizers [] x)) = ObjectKeyFromObject (meta x)"
    and "\<And>x. om_Finalizers (meta (setFinalizers [] x)) = []"
    and "\<And>w. store w = cell meta (at w)" and "get = cell_get meta at"
    and "\<And>x w. fst (update x w) = fst (cell_update meta x (at w))"
    and "\<And>x w. at (snd (update x w)) = snd (cell_update meta x (at w))"
  shows "serves store meta setFinalizers fin get update"
  unfolding serves_def using assms
  by (auto simp: cell_shown cell_update_def in_deletion_def cell_def dest!: cell_key split: option.splits if_splits)

lemma cell_lists:
  assumes "\<And>w. store w = cell meta (at w)" and "\<And>x. index x = [refs x]"
  shows "lists store index (cell_list refs at)"
  unfolding lists_def using assms by (auto simp: cell_list_def cell_def split: option.split)

lemma sole_cooperates: "api_cooperates program_indexes (sole_view \<circ> cc_world) (api sole_env)"
proof -
  have c: "api sole_env = sole_client" by (simp add: sole_env_def)
  note sets = Repository_setFinalizers_def Component_setFinalizers_def Resource_setFinalizers_def ObjectKeyFromObject_def
  note gets = sole_client_def empty_client_def
  have "serves (cl_repositories \<circ> (sole_view \<circ> cc_world)) repo_meta Repository_setFinalizers RepositoryFinalizer
      (getRepository sole_client) (updateRepository sole_client)"
    by (rule cell_serves [where at = "so_repository \<circ> cc_world"]) (simp_all add: sets sole_view_def sole_updates, simp add: gets)
  moreover have "serves (cl_components \<circ> (sole_view \<circ> cc_world)) comp_meta Component_setFinalizers ComponentFinalizer
      (getComponent sole_client) (updateComponent sole_client)"
    by (rule cell_serves [where at = "so_component \<circ> cc_world"]) (simp_all add: sets sole_view_def sole_updates, simp add: gets)
  moreover have "serves (cl_resources \<circ> (sole_view \<circ> cc_world)) res_meta Resource_setFinalizers ResourceFinalizer
      (getResource sole_client) (updateResource sole_client)"
    by (rule cell_serves [where at = "so_resource \<circ> cc_world"]) (simp_all add: sets sole_view_def sole_updates, simp add: gets)
  moreover have "lists (cl_components \<circ> (sole_view \<circ> cc_world)) g (listComponents sole_client f)"
    if "IndexComponents f g \<in> set program_indexes" for f g
  proof -
    have "g x = [component_refs x]" for x using that by (auto simp: program_indexes_def component_refs_def
        component_repository_index_def repository_component_index_def)
    then have "lists (cl_components \<circ> (sole_view \<circ> cc_world)) g (cell_list component_refs (so_component \<circ> cc_world))"
      by (intro cell_lists [where meta = comp_meta]) (simp_all add: sole_view_def)
    then show ?thesis by (simp add: gets)
  qed
  moreover have "lists (cl_resources \<circ> (sole_view \<circ> cc_world)) g (listResources sole_client f)"
    if "IndexResources f g \<in> set program_indexes" for f g
  proof -
    have "g x = [resource_refs x]" for x using that by (auto simp: program_indexes_def resource_refs_def
        component_resource_index_def resource_component_index_def)
    then have "lists (cl_resources \<circ> (sole_view \<circ> cc_world)) g (cell_list resource_refs (so_resource \<circ> cc_world))"
      by (intro cell_lists [where meta = res_meta]) (simp_all add: sole_view_def)
    then show ?thesis by (simp add: gets)
  qed
  moreover have "lists (cl_deployers \<circ> (sole_view \<circ> cc_world)) g (listDeployers sole_client f)" for f g
    by (simp add: lists_def gets sole_view_def)
  ultimately show ?thesis unfolding api_cooperates_def c by blast
qed

theorem everything_deleted_goes_witness:
  "sole_view (cc_world
     (fold (run_on (repository_Reconcile sole_env) Repository_zero) [\<lparr>nn_Namespace = [], nn_Name = []\<rparr>]
     (fold (run_on (component_Reconcile sole_env sample_libs) Component_zero) [\<lparr>nn_Namespace = [], nn_Name = ''c''\<rparr>]
     (fold (run_on (resource_Reconcile sole_env deployer_res_lib sole_resource_lib) Resource_zero)
        [\<lparr>nn_Namespace = [], nn_Name = ''r''\<rparr>] doomed_start)))) =
   \<lparr>cl_repositories = Map.empty, cl_components = Map.empty, cl_resources = Map.empty, cl_deployers = Map.empty\<rparr>"
proof -
  obtain code p where run: "process_run sample_setup default_flags = (Ret code, p)" and p: "p_started p"
    and ixs: "p_indexes p = program_indexes" by (rule sample_process)
  note env = sole_cluster [folded ixs] and coop = sole_cooperates [folded ixs]
  let ?v = "sole_view (cc_world doomed_start)"
  note defs = doomed_start_def sole_start_world sole_view_def doomed_def in_deletion_def IsZero_time_def
    deleted_component_def stored_component_def naming_resource_def zero_defs
  have gone: "deleted_repositories ?v" "deleted_components ?v" "deleted_resources ?v"
    by (auto simp: deleted_repositories_def deleted_components_def deleted_resources_def defs dest!: cell_key)
  have none: "cl_deployers ?v = Map.empty" by (simp add: defs)
  have all: "dom (cl_repositories ?v) \<subseteq> set [\<lparr>nn_Namespace = [], nn_Name = []\<rparr>]"
    "dom (cl_components ?v) \<subseteq> set [\<lparr>nn_Namespace = [], nn_Name = ''c''\<rparr>]"
    "dom (cl_resources ?v) \<subseteq> set [\<lparr>nn_Namespace = [], nn_Name = ''r''\<rparr>]"
    by (auto simp: defs ObjectKeyFromObject_def dest!: cell_key)
  from everything_deleted_goes [OF run p env coop gone none refl all] show ?thesis
    using none by (simp del: fold.simps add: sole_view_def)
qed

end
