(* ===== verification/CelFunctions.thy ===== *)
theory CelFunctions
  imports GoErrors
begin

text \<open>
  \<open>internal/cel/functions/oci.go\<close>: the CEL function \<open>toOCI\<close>, which takes an image reference, or
  an access that holds one, apart. The parser of references is \<open>oci.ParseRef\<close> of the OCM
  library.
\<close>

section \<open>Values\<close>

text \<open>
  What \<open>ref.Val.Value()\<close> gives, as far as the code looks into it: strings, maps, and values of
  other types, with the name of the type. \<open>map_text\<close> is the text of a map under the verb \<open>%v\<close>.
\<close>

datatype go_any = AnyString string | AnyOther string

datatype cel_input = InString string | InMap "(string \<times> go_any) list" | InOther string

fun any_type :: "go_any \<Rightarrow> string" where
  "any_type (AnyString s) = ''string''"
| "any_type (AnyOther t) = t"

text \<open>The result: an error value, or a map whose entries are computed when they are read.\<close>

datatype cel_result = CelErr string | CelMap "(string \<times> string) list"

record oci_ref =
  ref_Host :: string
  ref_Repository :: string
  ref_Tag :: "string option"
  ref_Digest :: "string option"

record oci_lib =
  oci_ParseRef :: "string \<Rightarrow> goerr + oci_ref"
  map_text :: "(string \<times> go_any) list \<Rightarrow> string"

section \<open>toOCI\<close>

definition ToOCIFunctionName :: string where "ToOCIFunctionName = ''toOCI''"

text \<open>\<open>strings.TrimLeft(s, "/")\<close>.\<close>

definition trim_slashes :: "string \<Rightarrow> string" where
  "trim_slashes s = dropWhile (\<lambda>c. c = CHR ''/'') s"

definition reference_of :: "oci_lib \<Rightarrow> cel_input \<Rightarrow> string + string" where
  "reference_of P lhs =
     (case lhs of
        InString v \<Rightarrow> Inr v
      | InMap v \<Rightarrow>
          (case map_of v ''imageReference'' of
             None \<Rightarrow> Inl (''expected map with key 'imageReference', got '' @ map_text P v)
           | Some (AnyString s) \<Rightarrow> Inr s
           | Some other \<Rightarrow>
               Inl (''expected map with key 'imageReference' to be a string, got '' @ any_type other))
      | InOther t \<Rightarrow> Inl (''expected string or map with key 'imageReference', got '' @ t))"

definition reference_string :: "oci_ref \<Rightarrow> string" where
  "reference_string r =
     (case (ref_Tag r, ref_Digest r) of
        (Some t, Some d) \<Rightarrow> t @ ''@'' @ d
      | (Some t, None) \<Rightarrow> t
      | (None, Some d) \<Rightarrow> d
      | (None, None) \<Rightarrow> [])"

definition BindingToOCI :: "oci_lib \<Rightarrow> cel_input \<Rightarrow> cel_result" where
  "BindingToOCI P lhs =
     (case reference_of P lhs of
        Inl msg \<Rightarrow> CelErr msg
      | Inr reference \<Rightarrow>
      (case oci_ParseRef P reference of
        Inl err \<Rightarrow> CelErr (Error_msg err)
      | Inr r \<Rightarrow>
      (let tag = (case ref_Tag r of None \<Rightarrow> [] | Some t \<Rightarrow> t);
           digest = (case ref_Digest r of None \<Rightarrow> [] | Some d \<Rightarrow> d)
       in CelMap
        [(''host'', ref_Host r), (''registry'', ref_Host r),
         (''repository'', trim_slashes (ref_Repository r)),
         (''reference'', reference_string r), (''digest'', digest), (''tag'', tag)])))"

section \<open>The environment\<close>

text \<open>
  \<open>internal/cel/base.go\<close>. An option of an environment is one of the extensions of the library, or a
  function with its overloads and the Go function they are bound to. \<open>cel.NewEnv\<close> is a parameter.
\<close>

datatype cel_type = DynType | StringType | MapType cel_type cel_type

datatype cel_overload =
    MemberOverload string "cel_type list" cel_type
  | Overload string "cel_type list" cel_type

datatype env_option =
    ext_Lists | ext_Sets | ext_Strings | ext_Math | ext_Encoders | ext_Bindings | OptionalTypes
  | Function string "cel_overload list" "cel_input \<Rightarrow> cel_result"

definition ToOCI :: "oci_lib \<Rightarrow> env_option" where
  "ToOCI P = Function ToOCIFunctionName
     [MemberOverload ''toOCI_dyn_member'' [DynType] (MapType StringType StringType),
      Overload ''toOCI_dyn'' [DynType] (MapType StringType StringType)]
     (BindingToOCI P)"

text \<open>\<open>sync.OnceValues(f)\<close>: the state holds what \<open>f\<close> returned when it was called first.\<close>

definition OnceValues :: "('w \<Rightarrow> 'a \<times> 'w) \<Rightarrow> ('a option \<times> 'w, 'a) go" where
  "OnceValues f = (\<lambda>(cell, w). case cell of
       Some a \<Rightarrow> (Ret a, (Some a, w))
     | None \<Rightarrow> (case f w of (a, w') \<Rightarrow> (Ret a, (Some a, w'))))"

definition BaseEnv ::
  "(env_option list \<Rightarrow> 'w \<Rightarrow> (goerr + 'e) \<times> 'w) \<Rightarrow> oci_lib \<Rightarrow> ((goerr + 'e) option \<times> 'w, goerr + 'e) go" where
  "BaseEnv NewEnv P = OnceValues (NewEnv
     [ext_Lists, ext_Sets, ext_Strings, ext_Math, ext_Encoders, ext_Bindings, OptionalTypes, ToOCI P])"

text \<open>
  Whatever happens in between, all calls give what the first one gave, without another call of the
  library: the environment of the resource controller is one value (\<open>cel_BaseEnv\<close> there).
\<close>

lemma BaseEnv_once:
  assumes "BaseEnv NewEnv P s = (r, (cell, w))"
  shows "BaseEnv NewEnv P (cell, w') = (r, (cell, w'))"
  using assms by (cases s) (auto simp: BaseEnv_def OnceValues_def split: option.splits prod.splits)

section \<open>Properties\<close>

text \<open>The keys that the documentation of \<open>toOCI\<close> names.\<close>

definition oci_keys :: "string list" where
  "oci_keys = [''host'', ''registry'', ''repository'', ''reference'', ''digest'', ''tag'']"

text \<open>
  C28: The type of \<open>toOCI\<close>: its value is an error or a map of strings with exactly the six
  documented keys, and it is a map exactly for a string, or a map with a string under
  \<open>imageReference\<close>, that the parser accepts. The repository never starts with a slash, and the
  reference is the tag and the digest, joined by an at sign when there are both.
\<close>

theorem toOCI_type:
  "(\<exists>ps. BindingToOCI P lhs = CelMap ps) =
     (\<exists>s r. (lhs = InString s \<or> (\<exists>m. lhs = InMap m \<and> map_of m ''imageReference'' = Some (AnyString s))) \<and>
       oci_ParseRef P s = Inr r)
   \<and> (case BindingToOCI P lhs of
       CelErr msg \<Rightarrow> True
     | CelMap ps \<Rightarrow> map fst ps = oci_keys \<and>
         (\<exists>p. map_of ps ''repository'' = Some p \<and> take 1 p \<noteq> ''/'') \<and>
         (\<exists>t d rf. map_of ps ''tag'' = Some t \<and> map_of ps ''digest'' = Some d \<and> map_of ps ''reference'' = Some rf \<and>
           (rf = t @ ''@'' @ d \<or> d = [] \<and> rf = t \<or> t = [] \<and> rf = d)))"
proof
  have ref: "(reference_of P lhs = Inr s) =
      (lhs = InString s \<or> (\<exists>m. lhs = InMap m \<and> map_of m ''imageReference'' = Some (AnyString s)))" for s
    by (auto simp: reference_of_def split: cel_input.splits option.splits go_any.splits)
  have "(\<exists>ps. BindingToOCI P lhs = CelMap ps) = (\<exists>s r. reference_of P lhs = Inr s \<and> oci_ParseRef P s = Inr r)"
    by (auto simp: BindingToOCI_def Let_def split: sum.splits)
  then show "(\<exists>ps. BindingToOCI P lhs = CelMap ps) =
     (\<exists>s r. (lhs = InString s \<or> (\<exists>m. lhs = InMap m \<and> map_of m ''imageReference'' = Some (AnyString s))) \<and>
       oci_ParseRef P s = Inr r)"
    by (simp only: ref)
next
  have slash: "take 1 (trim_slashes s) \<noteq> ''/''" for s
    by (induction s) (simp_all add: trim_slashes_def)
  show "case BindingToOCI P lhs of
       CelErr msg \<Rightarrow> True
     | CelMap ps \<Rightarrow> map fst ps = oci_keys \<and>
         (\<exists>p. map_of ps ''repository'' = Some p \<and> take 1 p \<noteq> ''/'') \<and>
         (\<exists>t d rf. map_of ps ''tag'' = Some t \<and> map_of ps ''digest'' = Some d \<and> map_of ps ''reference'' = Some rf \<and>
           (rf = t @ ''@'' @ d \<or> d = [] \<and> rf = t \<or> t = [] \<and> rf = d))"
    using slash
    by (auto simp: BindingToOCI_def Let_def oci_keys_def reference_string_def
        split: sum.splits option.splits)
qed

end
