(* ===== verification/Memory.thy ===== *)
theory Memory
  imports Prelude "HOL-Library.AList" "HOL-Library.Sublist"
begin

text \<open>
  Go values with references, in a memory. Elsewhere in the development an object is a value;
  here pointers, slices and maps are addresses, so that what two objects share can be said. A
  memory is a list of cells, an address an index, and what is allocated goes to the end. A cell
  holds what one allocation of the code makes: the target of a pointer, the array of a slice or
  the entries of a map. All cells have one type \<open>'c\<close>; a \<open>gotype\<close> embeds the contents of one kind
  of allocation in it. The second part is what a deep copy is, and how deep copies of the parts
  make the deep copy of a pointer, a slice, a map or a structure.
\<close>

section \<open>Memory\<close>

type_synonym address = nat

record ('c, 'a) gotype =
  wrap :: "'a \<Rightarrow> 'c"
  unwrap :: "'c \<Rightarrow> 'a option"

definition gotype_ok :: "('c, 'a) gotype \<Rightarrow> bool" where
  "gotype_ok K \<longleftrightarrow> (\<forall>x. unwrap K (wrap K x) = Some x)"

text \<open>Reading, writing and allocating. An address that is not of the type would be a panic.\<close>

definition readG :: "('c, 'a) gotype \<Rightarrow> address \<Rightarrow> ('c list, 'a) go" where
  "readG K a = (\<lambda>mem. if a < length mem
     then (case unwrap K (mem ! a) of Some x \<Rightarrow> (Ret x, mem) | None \<Rightarrow> (Panic ''invalid memory address'', mem))
     else (Panic ''invalid memory address'', mem))"

definition writeG :: "('c, 'a) gotype \<Rightarrow> address \<Rightarrow> 'a \<Rightarrow> ('c list, unit) go" where
  "writeG K a x = (\<lambda>mem. if a < length mem then (Ret (), mem[a := wrap K x])
     else (Panic ''invalid memory address'', mem))"

definition newG :: "('c, 'a) gotype \<Rightarrow> 'a \<Rightarrow> ('c list, address) go" where
  "newG K x = (\<lambda>mem. (Ret (length mem), mem @ [wrap K x]))"

section \<open>The code that copies\<close>

text \<open>\<open>*out = new(T); (*in).DeepCopyInto(*out)\<close>, when the pointer is not nil; \<open>z\<close> is the zero of \<open>T\<close>.\<close>

definition copy_pointer ::
  "('c, 'a) gotype \<Rightarrow> 'a \<Rightarrow> ('a \<Rightarrow> ('c list, 'a) go) \<Rightarrow> address option \<Rightarrow> ('c list, address option) go" where
  "copy_pointer K z c p = (case p of
       None \<Rightarrow> returnG None
     | Some a \<Rightarrow> bindG (readG K a) (\<lambda>x. bindG (newG K z) (\<lambda>b.
         bindG (c x) (\<lambda>y. thenG (writeG K b y) (returnG (Some b))))))"

text \<open>\<open>*out = make([]T, len(*in)); copy(*out, *in)\<close>.\<close>

definition copy_slice ::
  "('c, 'a list) gotype \<Rightarrow> 'a \<Rightarrow> address option \<Rightarrow> ('c list, address option) go" where
  "copy_slice K z p = (case p of
       None \<Rightarrow> returnG None
     | Some a \<Rightarrow> bindG (readG K a) (\<lambda>xs. bindG (newG K (replicate (length xs) z)) (\<lambda>b.
         thenG (writeG K b xs) (returnG (Some b)))))"

text \<open>
  The loops over a slice or a map: each value is copied and put into the new array or map at \<open>b\<close>.
\<close>

fun copy_each ::
  "('c, 'e) gotype \<Rightarrow> ('a \<Rightarrow> ('c list, 'a) go) \<Rightarrow> address \<Rightarrow> ('k \<Rightarrow> 'a \<Rightarrow> 'e \<Rightarrow> 'e) \<Rightarrow> ('k \<times> 'a) list \<Rightarrow>
   ('c list, unit) go" where
  "copy_each K c b put [] = returnG ()"
| "copy_each K c b put ((k, x) # kxs) =
     bindG (c x) (\<lambda>y. bindG (readG K b) (\<lambda>e.
       thenG (writeG K b (put k y e)) (copy_each K c b put kxs)))"

text \<open>\<open>*out = make([]T, len(*in)); for i := range *in { (*in)[i].DeepCopyInto(&(*out)[i]) }\<close>.\<close>

definition copy_slice_each ::
  "('c, 'a list) gotype \<Rightarrow> 'a \<Rightarrow> ('a \<Rightarrow> ('c list, 'a) go) \<Rightarrow> address option \<Rightarrow>
   ('c list, address option) go" where
  "copy_slice_each K z c p = (case p of
       None \<Rightarrow> returnG None
     | Some a \<Rightarrow> bindG (readG K a) (\<lambda>xs. bindG (newG K (replicate (length xs) z)) (\<lambda>b.
         thenG (copy_each K c b (\<lambda>i y ys. ys[i := y]) (enumerate 0 xs)) (returnG (Some b)))))"

text \<open>\<open>*out = make(map[K]V, len(*in)); for key, val := range *in { (*out)[key] = val }\<close>, with a copy of \<open>val\<close>.\<close>

definition copy_map ::
  "('c, ('k \<times> 'a) list) gotype \<Rightarrow> ('a \<Rightarrow> ('c list, 'a) go) \<Rightarrow> address option \<Rightarrow> ('c list, address option) go" where
  "copy_map K c p = (case p of
       None \<Rightarrow> returnG None
     | Some a \<Rightarrow> bindG (readG K a) (\<lambda>kvs. bindG (newG K []) (\<lambda>b.
         thenG (copy_each K c b AList.update kvs) (returnG (Some b)))))"

text \<open>
  The methods \<open>DeepCopy\<close>: nil for a nil pointer, or a new structure that \<open>DeepCopyInto\<close> fills. The
  structure a pointer leads to is passed as it is, a nil pointer is \<open>None\<close>.
\<close>

definition copy_new :: "('a \<Rightarrow> ('c list, 'a) go) \<Rightarrow> 'a option \<Rightarrow> ('c list, 'a option) go" where
  "copy_new c p = (case p of None \<Rightarrow> returnG None | Some x \<Rightarrow> bindG (c x) (\<lambda>y. returnG (Some y)))"

section \<open>What is read off a memory\<close>

text \<open>
  A representation \<open>rep mem S x v\<close>: \<open>x\<close>, with what it refers to in \<open>mem\<close>, is the value \<open>v\<close>, and
  all the addresses it refers to are in \<open>S\<close>.
\<close>

type_synonym ('c, 'a, 'v) representation = "'c list \<Rightarrow> address set \<Rightarrow> 'a \<Rightarrow> 'v \<Rightarrow> bool"

definition flat :: "('c, 'a, 'a) representation" where
  "flat mem S x v \<longleftrightarrow> x = v"

definition cell_at :: "('c, 'a) gotype \<Rightarrow> 'c list \<Rightarrow> address set \<Rightarrow> address \<Rightarrow> 'a \<Rightarrow> bool" where
  "cell_at K mem S a x \<longleftrightarrow> a \<in> S \<and> a < length mem \<and> unwrap K (mem ! a) = Some x"

definition pointer_at ::
  "('c, 'a) gotype \<Rightarrow> ('c, 'a, 'v) representation \<Rightarrow> ('c, address option, 'v option) representation" where
  "pointer_at K r mem S p v \<longleftrightarrow> (case p of
       None \<Rightarrow> v = None
     | Some a \<Rightarrow> \<exists>x y. cell_at K mem S a x \<and> v = Some y \<and> r mem S x y)"

definition slice_at ::
  "('c, 'a list) gotype \<Rightarrow> ('c, 'a, 'v) representation \<Rightarrow> ('c, address option, 'v list) representation" where
  "slice_at K r mem S p vs \<longleftrightarrow> (case p of
       None \<Rightarrow> vs = []
     | Some a \<Rightarrow> \<exists>xs. cell_at K mem S a xs \<and> list_all2 (r mem S) xs vs)"

text \<open>A map is an association list with distinct keys; the value of a nil map is \<open>None\<close>.\<close>

definition entries_at ::
  "('c, ('k \<times> 'a) list) gotype \<Rightarrow> ('c, 'a, 'v) representation \<Rightarrow>
   ('c, address option, ('k \<times> 'v) list option) representation" where
  "entries_at K r mem S p v \<longleftrightarrow> (case p of
       None \<Rightarrow> v = None
     | Some a \<Rightarrow> \<exists>kvs es. cell_at K mem S a kvs \<and> distinct (map fst kvs) \<and> v = Some es \<and>
         map fst es = map fst kvs \<and> list_all2 (r mem S) (map snd kvs) (map snd es))"

text \<open>Values that the rest of the development has in another form.\<close>

definition assoc_at ::
  "('c, ('k \<times> 'a) list) gotype \<Rightarrow> ('c, address option, ('k \<times> 'a) list) representation" where
  "assoc_at K mem S p v \<longleftrightarrow> (\<exists>es. entries_at K flat mem S p es \<and> v = (case es of None \<Rightarrow> [] | Some kvs \<Rightarrow> kvs))"

definition table_at ::
  "('c, ('k \<times> 'a) list) gotype \<Rightarrow> ('c, 'a, 'v) representation \<Rightarrow>
   ('c, address option, ('k \<rightharpoonup> 'v) option) representation" where
  "table_at K r mem S p v \<longleftrightarrow> (\<exists>es. entries_at K r mem S p es \<and> v = map_option map_of es)"

section \<open>Deep copies\<close>

text \<open>\<open>agree S mem mem'\<close>: the memories have the same in the cells \<open>S\<close> that the first one has.\<close>

definition agree :: "address set \<Rightarrow> 'c list \<Rightarrow> 'c list \<Rightarrow> bool" where
  "agree S mem mem' \<longleftrightarrow> (\<forall>a \<in> S. a < length mem \<longrightarrow> a < length mem' \<and> mem' ! a = mem ! a)"

text \<open>
  The contract of a deep copy: it returns, only adds to the memory, and the copy has the value
  of the original in new cells. A representation depends on the cells it names only.
\<close>

locale deep_copy =
  fixes rep :: "('c, 'a, 'v) representation" and copy :: "'a \<Rightarrow> ('c list, 'a) go"
  assumes stable: "rep mem S x v \<Longrightarrow> S \<subseteq> S' \<Longrightarrow> agree S mem mem' \<Longrightarrow> rep mem' S' x v"
    and copies: "rep mem S x v \<Longrightarrow> S \<subseteq> {..<length mem} \<Longrightarrow>
      \<exists>y mem'. copy x mem = (Ret y, mem') \<and> prefix mem mem' \<and> rep mem' {length mem..<length mem'} y v"
begin

text \<open>Afterwards the original and the copy do not see what is written through the other one.\<close>

lemma independent:
  assumes "rep mem S x v" and "S \<subseteq> {..<length mem}"
  obtains y mem' where "copy x mem = (Ret y, mem')"
    and "\<And>mem''. agree {length mem..<length mem'} mem' mem'' \<Longrightarrow> rep mem'' {length mem..<length mem'} y v"
    and "\<And>mem''. agree S mem' mem'' \<Longrightarrow> rep mem'' S x v"
    and "S \<inter> {length mem..<length mem'} = {}"
proof -
  obtain y mem' where run: "copy x mem = (Ret y, mem')" and p: "prefix mem mem'"
    and y: "rep mem' {length mem..<length mem'} y v"
    using copies [OF assms] by blast
  have "agree S mem mem'" using p assms(2) by (auto simp: agree_def prefix_def nth_append)
  then have x: "rep mem' S x v" using stable [OF assms(1)] by blast
  show thesis
  proof (rule that [OF run])
    show "rep mem'' {length mem..<length mem'} y v" if "agree {length mem..<length mem'} mem' mem''" for mem''
      by (rule stable [OF y subset_refl that])
    show "rep mem'' S x v" if "agree S mem' mem''" for mem'' by (rule stable [OF x subset_refl that])
    show "S \<inter> {length mem..<length mem'} = {}" using assms(2) by auto
  qed
qed

end

lemma agree_prefix: "prefix mem mem' \<Longrightarrow> agree S mem mem'"
  by (auto simp: agree_def prefix_def nth_append)

lemma deep_copy_moves:
  assumes "deep_copy r c" and "r mem S x v" and "S \<subseteq> S'" and "prefix mem mem'"
  shows "r mem' S' x v"
  using deep_copy.stable [OF assms(1,2,3) agree_prefix [OF assms(4)]] .

lemma cell_at_stable: "cell_at K mem S a x \<Longrightarrow> S \<subseteq> S' \<Longrightarrow> agree S mem mem' \<Longrightarrow> cell_at K mem' S' a x"
  by (auto simp: cell_at_def agree_def)

lemma list_all2_stable:
  "list_all2 (r mem S) xs vs \<Longrightarrow> deep_copy r c \<Longrightarrow> S \<subseteq> S' \<Longrightarrow> agree S mem mem' \<Longrightarrow> list_all2 (r mem' S') xs vs"
  by (erule list_all2_mono) (rule deep_copy.stable)

text \<open>How the primitive operations run.\<close>

lemma readG_run: "cell_at K mem S a x \<Longrightarrow> readG K a mem = (Ret x, mem)"
  by (simp add: cell_at_def readG_def)

lemma newG_run:
  assumes "gotype_ok K"
  shows "newG K x mem = (Ret (length mem), mem @ [wrap K x])"
    and "cell_at K (mem @ [wrap K x]) {length mem} (length mem) x"
  using assms by (simp_all add: newG_def cell_at_def gotype_ok_def nth_append)

lemma writeG_run:
  assumes "gotype_ok K" and "a < length mem"
  shows "writeG K a x mem = (Ret (), mem[a := wrap K x])"
    and "cell_at K (mem[a := wrap K x]) {a} a x"
    and "a \<notin> S \<Longrightarrow> agree S mem (mem[a := wrap K x])"
  using assms by (auto simp: writeG_def cell_at_def gotype_ok_def agree_def nth_list_update)

lemma prefix_update: "prefix mem mem' \<Longrightarrow> length mem \<le> a \<Longrightarrow> prefix mem (mem'[a := c])"
  by (auto simp: prefix_def list_update_append)

lemma deep_copy_flat: "deep_copy flat returnG"
  by unfold_locales (auto simp: flat_def returnG_def)

lemma deep_copy_pointer:
  fixes r :: "('c, 'a, 'v) representation"
  assumes K: "gotype_ok K" and c: "deep_copy r c"
  shows "deep_copy (pointer_at K r) (copy_pointer K z c)"
proof
  fix mem mem' :: "'c list" and S S' p v
  show "pointer_at K r mem' S' p v" if "pointer_at K r mem S p v" "S \<subseteq> S'" "agree S mem mem'"
    using that cell_at_stable [of K mem S _ _ S' mem'] deep_copy.stable [OF c, of mem S _ _ S' mem']
    by (fastforce simp: pointer_at_def split: option.splits)
next
  fix mem :: "'c list" and S p v
  assume p: "pointer_at K r mem S p v" and S: "S \<subseteq> {..<length mem}"
  show "\<exists>q mem'. copy_pointer K z c p mem = (Ret q, mem') \<and> prefix mem mem' \<and>
      pointer_at K r mem' {length mem..<length mem'} q v"
  proof (cases p)
    case None
    then show ?thesis using p by (simp add: copy_pointer_def pointer_at_def returnG_def)
  next
    case (Some a)
    then obtain x w where x: "cell_at K mem S a x" "v = Some w" "r mem S x w" using p by (auto simp: pointer_at_def)
    let ?b = "length mem" and ?m1 = "mem @ [wrap K z]"
    have "r ?m1 S x w" by (rule deep_copy_moves [OF c x(3)]) simp_all
    from deep_copy.copies [OF c this] S obtain y m2 where run: "c x ?m1 = (Ret y, m2)" "prefix ?m1 m2"
      and y: "r m2 {length ?m1..<length m2} y w" by fastforce
    have b: "?b < length m2" using run(2) by (auto simp: prefix_def)
    note w = writeG_run [OF K b, where x = y]
    have "r (m2[?b := wrap K y]) {?b..<length m2} y w"
      by (rule deep_copy.stable [OF c y]) (auto intro: w(3))
    moreover have "cell_at K (m2[?b := wrap K y]) {?b..<length m2} ?b y" using w(2) b by (auto simp: cell_at_def)
    moreover have "prefix mem (m2[?b := wrap K y])" using run(2) by (auto intro: prefix_update append_prefixD)
    ultimately show ?thesis
      using Some x run(1) w(1) readG_run [OF x(1)] newG_run(1) [OF K]
      by (simp add: copy_pointer_def pointer_at_def bindG_def thenG_def returnG_def) blast
  qed
qed

subsection \<open>Slices and maps\<close>

lemma agree_trans: "agree S m1 m2 \<Longrightarrow> agree S m2 m3 \<Longrightarrow> agree S m1 m3"
  by (auto simp: agree_def)

lemma agree_subset: "agree S mem mem' \<Longrightarrow> T \<subseteq> S \<Longrightarrow> agree T mem mem'"
  by (auto simp: agree_def)

lemma prefix_agree:
  assumes "agree {..<length mem} mem mem'" and "length mem \<le> length mem'"
  shows "prefix mem mem'"
proof -
  have "mem = take (length mem) mem'"
    by (rule nth_equalityI) (use assms in \<open>auto simp: agree_def\<close>)
  then show ?thesis by (metis take_is_prefix)
qed

lemma copy_each_run:
  fixes r :: "('c, 'a, 'v) representation"
  assumes K: "gotype_ok K" and c: "deep_copy r c" and S: "S \<subseteq> {..<b}"
  shows "list_all2 (r mem S) (map snd kxs) vs \<Longrightarrow> cell_at K mem {b} b e \<Longrightarrow>
    \<exists>mem' ys. copy_each K c b put kxs mem = (Ret (), mem') \<and> length mem \<le> length mem' \<and> agree (- {b}) mem mem' \<and>
      cell_at K mem' {b} b (fold (\<lambda>(k, y). put k y) (zip (map fst kxs) ys) e) \<and>
      list_all2 (r mem' {Suc b..<length mem'}) ys vs"
proof (induction kxs arbitrary: mem vs e)
  case Nil
  then show ?case by (auto simp: returnG_def agree_def)
next
  case (Cons kx kxs)
  obtain k x where kx: "kx = (k, x)" by force
  obtain v ws where vs: "vs = v # ws" and x: "r mem S x v" and xs: "list_all2 (r mem S) (map snd kxs) ws"
    using Cons.prems(1) kx by (cases vs) auto
  have b: "b < length mem" using Cons.prems(2) by (simp add: cell_at_def)
  obtain y m1 where run: "c x mem = (Ret y, m1)" and p: "prefix mem m1" and y: "r m1 {length mem..<length m1} y v"
    using deep_copy.copies [OF c x] S b by fastforce
  have b1: "b < length m1" and e: "cell_at K m1 {b} b e"
    using p b Cons.prems(2) cell_at_stable [OF _ subset_refl agree_prefix [OF p]] by (auto simp: prefix_def)
  let ?m2 = "m1[b := wrap K (put k y e)]"
  note w = writeG_run [OF K b1, where x = "put k y e"]
  have a: "agree (- {b}) mem ?m2" by (rule agree_trans [OF agree_prefix [OF p] w(3)]) simp
  have "list_all2 (r ?m2 S) (map snd kxs) ws"
    by (rule list_all2_stable [OF xs c subset_refl agree_subset [OF a]]) (use S in auto)
  from Cons.IH [OF this w(2)] obtain m3 ys where
    run3: "copy_each K c b put kxs ?m2 = (Ret (), m3)" "length ?m2 \<le> length m3" "agree (- {b}) ?m2 m3"
      "cell_at K m3 {b} b (fold (\<lambda>(k, y). put k y) (zip (map fst kxs) ys) (put k y e))"
      "list_all2 (r m3 {Suc b..<length m3}) ys ws" by blast
  have "agree {length mem..<length m1} m1 m3"
    by (rule agree_trans [OF w(3) agree_subset [OF run3(3)]]) (use b in auto)
  then have "r m3 {Suc b..<length m3} y v"
    by (rule deep_copy.stable [OF c y, rotated]) (use b run3(2) in auto)
  moreover have "length mem \<le> length m3" using p run3(2) by (auto simp: prefix_def)
  ultimately show ?case
    using run run3 readG_run [OF e] w(1) agree_trans [OF a run3(3)] vs kx
    by (intro exI [of _ m3] exI [of _ "y # ys"]) (simp add: bindG_def thenG_def)
qed

lemma fold_enumerate:
  "length xs = length ys \<Longrightarrow> length zs = length ys \<Longrightarrow>
   fold (\<lambda>(i, y) ys. ys[i := y]) (zip (map fst (enumerate (length as) xs)) ys) (as @ zs) = as @ ys"
proof (induction ys arbitrary: as zs xs)
  case (Cons y ys)
  obtain x xs' where xs: "xs = x # xs'" using Cons.prems by (cases xs) auto
  obtain z zs' where zs: "zs = z # zs'" using Cons.prems by (cases zs) auto
  have "fold (\<lambda>(i, y) ys. ys[i := y]) (zip (map fst (enumerate (length (as @ [y])) xs')) ys) ((as @ [y]) @ zs') = (as @ [y]) @ ys"
    by (rule Cons.IH) (use Cons.prems xs zs in auto)
  then show ?case by (simp add: xs zs)
qed simp

lemma update_fresh: "k \<notin> set (map fst es) \<Longrightarrow> AList.update k y es = es @ [(k, y)]"
  by (induction es) auto

lemma fold_update:
  "distinct (map fst es @ ks) \<Longrightarrow> length ys = length ks \<Longrightarrow>
   fold (\<lambda>(k, y). AList.update k y) (zip ks ys) es = es @ zip ks ys"
proof (induction ks arbitrary: es ys)
  case (Cons k ks)
  obtain y ys' where ys: "ys = y # ys'" using Cons.prems by (cases ys) auto
  have "fold (\<lambda>(k, y). AList.update k y) (zip ks ys') (es @ [(k, y)]) = (es @ [(k, y)]) @ zip ks ys'"
    by (rule Cons.IH) (use Cons.prems ys in auto)
  then show ?case using Cons.prems by (simp add: ys update_fresh)
qed simp

text \<open>What the loop leaves in a new cell.\<close>

lemma copy_new_cell:
  fixes r :: "('c, 'a, 'v) representation"
  assumes K: "gotype_ok K" and c: "deep_copy r c" and S: "S \<subseteq> {..<length mem}"
    and xs: "list_all2 (r mem S) (map snd kxs) vs"
  obtains m2 ys where "copy_each K c (length mem) put kxs (mem @ [wrap K e]) = (Ret (), m2)" and "prefix mem m2"
    and "cell_at K m2 {length mem..<length m2} (length mem) (fold (\<lambda>(k, y). put k y) (zip (map fst kxs) ys) e)"
    and "list_all2 (r m2 {length mem..<length m2}) ys vs"
proof -
  let ?m1 = "mem @ [wrap K e]"
  have "list_all2 (r ?m1 S) (map snd kxs) vs"
    by (rule list_all2_stable [OF xs c subset_refl agree_prefix]) simp
  from copy_each_run [OF K c S this newG_run(2) [OF K], of put] obtain m2 ys where
    run: "copy_each K c (length mem) put kxs ?m1 = (Ret (), m2)" "length ?m1 \<le> length m2" "agree (- {length mem}) ?m1 m2"
      "cell_at K m2 {length mem} (length mem) (fold (\<lambda>(k, y). put k y) (zip (map fst kxs) ys) e)"
      "list_all2 (r m2 {Suc (length mem)..<length m2}) ys vs" by blast
  have "prefix mem m2"
    by (rule prefix_agree [OF agree_trans [OF agree_prefix agree_subset [OF run(3)]]]) (use run(2) in auto)
  moreover have "list_all2 (r m2 {length mem..<length m2}) ys vs"
    by (rule list_all2_stable [OF run(5) c]) (auto simp: agree_def)
  moreover have "cell_at K m2 {length mem..<length m2} (length mem) (fold (\<lambda>(k, y). put k y) (zip (map fst kxs) ys) e)"
    using run(2,4) by (auto simp: cell_at_def)
  ultimately show thesis using run(1) that by blast
qed

lemma list_all2_flat: "list_all2 (flat mem S) xs vs \<longleftrightarrow> xs = vs"
  by (simp add: flat_def [abs_def] list.rel_eq)

lemma deep_copy_slice:
  assumes K: "gotype_ok K"
  shows "deep_copy (slice_at K flat) (copy_slice K z)"
proof
  fix mem mem' and S S' p v
  show "slice_at K flat mem' S' p v" if "slice_at K flat mem S p v" "S \<subseteq> S'" "agree S mem mem'"
    using that cell_at_stable [of K mem S _ _ S' mem'] by (fastforce simp: slice_at_def list_all2_flat split: option.splits)
next
  fix mem and S p v
  assume p: "slice_at K flat mem S p v"
  show "\<exists>q mem'. copy_slice K z p mem = (Ret q, mem') \<and> prefix mem mem' \<and>
      slice_at K flat mem' {length mem..<length mem'} q v"
  proof (cases p)
    case None
    then show ?thesis using p by (simp add: copy_slice_def slice_at_def returnG_def)
  next
    case (Some a)
    then have x: "cell_at K mem S a v" using p by (auto simp: slice_at_def list_all2_flat)
    have "cell_at K (mem @ [wrap K v]) {length mem..<Suc (length mem)} (length mem) v"
      using newG_run(2) [OF K, of mem v] by (auto simp: cell_at_def)
    then show ?thesis
      using Some x readG_run [OF x] newG_run(1) [OF K]
      by (simp add: copy_slice_def slice_at_def list_all2_flat writeG_def bindG_def thenG_def returnG_def)
  qed
qed

lemma deep_copy_slice_each:
  fixes r :: "('c, 'a, 'v) representation"
  assumes K: "gotype_ok K" and c: "deep_copy r c"
  shows "deep_copy (slice_at K r) (copy_slice_each K z c)"
proof
  fix mem mem' :: "'c list" and S S' p v
  show "slice_at K r mem' S' p v" if "slice_at K r mem S p v" "S \<subseteq> S'" "agree S mem mem'"
    using that cell_at_stable [of K mem S _ _ S' mem'] list_all2_stable [where r = r, OF _ c, of mem S _ _ S' mem']
    by (fastforce simp: slice_at_def split: option.splits)
next
  fix mem :: "'c list" and S p v
  assume p: "slice_at K r mem S p v" and S: "S \<subseteq> {..<length mem}"
  show "\<exists>q mem'. copy_slice_each K z c p mem = (Ret q, mem') \<and> prefix mem mem' \<and>
      slice_at K r mem' {length mem..<length mem'} q v"
  proof (cases p)
    case None
    then show ?thesis using p by (simp add: copy_slice_each_def slice_at_def returnG_def)
  next
    case (Some a)
    then obtain xs where x: "cell_at K mem S a xs" and xs: "list_all2 (r mem S) xs v"
      using p by (auto simp: slice_at_def)
    have "list_all2 (r mem S) (map snd (enumerate 0 xs)) v" using xs by simp
    note new = copy_new_cell [where put = "\<lambda>i y ys. ys[i := y]" and e = "replicate (length xs) z", OF K c S this]
    obtain m2 ys where
      run: "copy_each K c (length mem) (\<lambda>i y ys. ys[i := y]) (enumerate 0 xs) (mem @ [wrap K (replicate (length xs) z)]) = (Ret (), m2)"
      and m2: "prefix mem m2" "list_all2 (r m2 {length mem..<length m2}) ys v"
      and e: "cell_at K m2 {length mem..<length m2} (length mem)
        (fold (\<lambda>(k, y) ys. ys[k := y]) (zip (map fst (enumerate 0 xs)) ys) (replicate (length xs) z))" by (rule new)
    have l: "length xs = length ys" using xs m2(2) by (metis list_all2_lengthD)
    have "cell_at K m2 {length mem..<length m2} (length mem) ys"
      using e fold_enumerate [OF l, where zs = "replicate (length xs) z" and as = "[]"] l
      by (simp only: length_replicate append_Nil list.size)
    with m2(2) have "slice_at K r m2 {length mem..<length m2} (Some (length mem)) v" by (auto simp: slice_at_def)
    with m2(1) show ?thesis
      using Some readG_run [OF x] newG_run(1) [OF K] run
      by (auto simp: copy_slice_each_def bindG_def thenG_def returnG_def)
  qed
qed

lemma deep_copy_entries:
  fixes r :: "('c, 'a, 'v) representation"
  assumes K: "gotype_ok K" and c: "deep_copy r c"
  shows "deep_copy (entries_at K r) (copy_map K c)"
proof
  fix mem mem' :: "'c list" and S S' p v
  show "entries_at K r mem' S' p v" if "entries_at K r mem S p v" "S \<subseteq> S'" "agree S mem mem'"
    using that cell_at_stable [of K mem S _ _ S' mem'] list_all2_stable [where r = r, OF _ c, of mem S _ _ S' mem']
    by (fastforce simp: entries_at_def split: option.splits)
next
  fix mem :: "'c list" and S p v
  assume p: "entries_at K r mem S p v" and S: "S \<subseteq> {..<length mem}"
  show "\<exists>q mem'. copy_map K c p mem = (Ret q, mem') \<and> prefix mem mem' \<and>
      entries_at K r mem' {length mem..<length mem'} q v"
  proof (cases p)
    case None
    then show ?thesis using p by (simp add: copy_map_def entries_at_def returnG_def)
  next
    case (Some a)
    then obtain kvs es where x: "cell_at K mem S a kvs" and d: "distinct (map fst kvs)" and v: "v = Some es"
      and ks: "map fst es = map fst kvs" and xs: "list_all2 (r mem S) (map snd kvs) (map snd es)"
      using p by (auto simp: entries_at_def)
    from copy_new_cell [OF K c S xs, of AList.update "[]"] obtain m2 ys where
      run: "copy_each K c (length mem) AList.update kvs (mem @ [wrap K []]) = (Ret (), m2)"
      and m2: "prefix mem m2" "list_all2 (r m2 {length mem..<length m2}) ys (map snd es)"
      and e: "cell_at K m2 {length mem..<length m2} (length mem)
        (fold (\<lambda>(k, y). AList.update k y) (zip (map fst kvs) ys) [])" by metis
    have l: "length ys = length kvs" using xs m2(2) by (metis length_map list_all2_lengthD)
    with e have "cell_at K m2 {length mem..<length m2} (length mem) (zip (map fst kvs) ys)"
      using fold_update [of "[]" "map fst kvs" ys] d by simp
    then have "entries_at K r m2 {length mem..<length m2} (Some (length mem)) v"
      using d ks m2(2) l v by (auto simp: entries_at_def intro!: exI [of _ "zip (map fst kvs) ys"])
    with m2(1) show ?thesis
      using Some readG_run [OF x] newG_run(1) [OF K] run
      by (auto simp: copy_map_def bindG_def thenG_def returnG_def)
  qed
qed

text \<open>A map has the same value in the forms of the API types.\<close>

lemma deep_copy_value:
  assumes c: "deep_copy r c"
  shows "deep_copy (\<lambda>mem S x v. \<exists>w. r mem S x w \<and> v = f w) c"
  by unfold_locales (blast intro: deep_copy.stable [OF c], blast dest: deep_copy.copies [OF c])

lemma deep_copy_table: "gotype_ok K \<Longrightarrow> deep_copy r c \<Longrightarrow> deep_copy (table_at K r) (copy_map K c)"
  unfolding table_at_def [abs_def] by (rule deep_copy_value) (rule deep_copy_entries)

lemma deep_copy_assoc: "gotype_ok K \<Longrightarrow> deep_copy (assoc_at K) (copy_map K returnG)"
  unfolding assoc_at_def [abs_def] by (rule deep_copy_value) (intro deep_copy_entries deep_copy_flat)

subsection \<open>Structures\<close>

text \<open>
  \<open>DeepCopyInto\<close> of a structure copies the fields with references one after the other. \<open>runs\<close>: a
  computation returns, only adds to the memory, and leaves \<open>Q\<close>. What a field was copied to stays
  a copy of it when the memory grows further.
\<close>

definition runs :: "('c list, 'a) go \<Rightarrow> 'c list \<Rightarrow> ('a \<Rightarrow> 'c list \<Rightarrow> bool) \<Rightarrow> bool" where
  "runs m mem Q \<longleftrightarrow> (\<exists>y mem'. m mem = (Ret y, mem') \<and> prefix mem mem' \<and> Q y mem')"

lemma runs_return: "Q y mem \<Longrightarrow> runs (returnG y) mem Q"
  by (simp add: runs_def returnG_def)

lemma runs_copy:
  assumes c: "deep_copy r c" and x: "r mem0 S x v" and S: "S \<subseteq> {..<length mem0}" and p: "prefix mem0 mem"
    and k: "\<And>y mem'. prefix mem0 mem' \<Longrightarrow> prefix mem mem' \<Longrightarrow>
      (\<And>mem''. prefix mem' mem'' \<Longrightarrow> r mem'' {length mem0..<length mem''} y v) \<Longrightarrow> runs (k y) mem' Q"
  shows "runs (bindG (c x) k) mem Q"
proof -
  have l: "length mem0 \<le> length mem" using p by (auto simp: prefix_def)
  have "r mem S x v" by (rule deep_copy_moves [OF c x subset_refl p])
  then obtain y m1 where run: "c x mem = (Ret y, m1)" and p1: "prefix mem m1" and y: "r m1 {length mem..<length m1} y v"
    using deep_copy.copies [OF c, of mem S x v] S l by force
  have "r m2 {length mem0..<length m2} y v" if "prefix m1 m2" for m2
    by (rule deep_copy_moves [OF c y _ that]) (use that l in \<open>auto simp: prefix_def\<close>)
  from k [OF prefix_order.trans [OF p p1] p1 this] obtain z m3 where "k y m1 = (Ret z, m3)" "prefix m1 m3" "Q z m3"
    by (auto simp: runs_def)
  with run p1 show ?thesis by (auto simp: runs_def bindG_def)
qed

lemma deep_copyI:
  assumes "\<And>mem S x v S' mem'. rep mem S x v \<Longrightarrow> S \<subseteq> S' \<Longrightarrow> agree S mem mem' \<Longrightarrow> rep mem' S' x v"
    and "\<And>mem S x v. rep mem S x v \<Longrightarrow> S \<subseteq> {..<length mem} \<Longrightarrow>
      runs (copy x) mem (\<lambda>y mem'. rep mem' {length mem..<length mem'} y v)"
  shows "deep_copy rep copy"
  by unfold_locales (use assms in \<open>auto simp: runs_def\<close>)

end
