(* ===== verification/DeepCopies.thy ===== *)
theory DeepCopies
  imports Memory ApiKinds
begin

text \<open>
  The generated deep copies of the API types (\<open>api/v1alpha1/zz_generated.deepcopy.go\<close>). Each type is here as
  it lies in memory, \<open>T_mem\<close>: pointers, slices and maps are addresses. \<open>T_DeepCopyInto\<close> gives what the
  method leaves in \<open>out\<close>, \<open>T_DeepCopy\<close> and \<open>T_DeepCopyObject\<close> are the methods with these names, and
  \<open>T_at\<close> (\<open>DeepCopyValues\<close>) says which value of \<open>ApiTypes\<close> and \<open>ApiKinds\<close> a structure in memory has. A type without
  references is its own value. The copies of the types of other modules are parameters: the metadata
  \<open>'o\<close> of objects and \<open>'l\<close> of lists and the JSON \<open>'j\<close> are structures of the library, which may lead to
  cells \<open>'x\<close> of its own. That all these methods are deep copies is what allows the rest of the
  development to treat an object as a value.
\<close>

section \<open>The types in memory\<close>

record 'j MergeAlgorithmSpecification_mem =
  m_ma_Algorithm :: string
  m_ma_Config :: "'j"

record 'j Label_mem =
  m_lb_Name :: string
  m_lb_Value :: "'j"
  m_lb_Version :: string
  m_lb_Signing :: bool
  m_lb_Merge :: "address option"

record ResourceReference_mem =
  m_rr_Resource :: "address option"
  m_rr_ReferencePath :: "address option"

record ResourceID_mem =
  m_ByReference :: ResourceReference_mem

record ComponentInfo_mem =
  m_ci_RepositorySpec :: "address option"
  m_ci_Component :: string
  m_ci_Version :: string
  m_ci_Digest :: "address option"

record 'j ResourceInfo_mem =
  m_ri_Name :: string
  m_ri_Type :: string
  m_ri_Version :: string
  m_ri_ExtraIdentity :: "address option"
  m_ri_Access :: "'j"
  m_ri_Digest :: string
  m_ri_Labels :: "address option"

record RepositorySpec_mem =
  m_rs_RepositorySpec :: "address option"
  m_rs_OCMConfig :: "address option"
  m_rs_Interval :: int
  m_rs_Suspend :: bool

record RepositoryStatus_mem =
  m_rst_ObservedGeneration :: int
  m_rst_Conditions :: "address option"
  m_rst_EffectiveOCMConfig :: "address option"

record ComponentSpec_mem =
  m_cs_RepositoryRef_Name :: string
  m_cs_Component :: string
  m_cs_DowngradePolicy :: string
  m_cs_Semver :: string
  m_cs_SemverFilter :: string
  m_cs_Verify :: "address option"
  m_cs_OCMConfig :: "address option"
  m_cs_Interval :: int
  m_cs_Suspend :: bool

record ComponentStatus_mem =
  m_cst_ObservedGeneration :: int
  m_cst_Conditions :: "address option"
  m_cst_Component :: ComponentInfo_mem
  m_cst_EffectiveOCMConfig :: "address option"

record ResourceSpec_mem =
  m_rsp_ComponentRef_Name :: string
  m_rsp_Resource :: ResourceID_mem
  m_rsp_OCMConfig :: "address option"
  m_rsp_SkipVerify :: bool
  m_rsp_Interval :: int
  m_rsp_Suspend :: bool
  m_rsp_AdditionalStatusFields :: "address option"

record ResourceStatus_mem =
  m_rss_ObservedGeneration :: int
  m_rss_Conditions :: "address option"
  m_rss_Resource :: "address option"
  m_rss_Component :: "address option"
  m_rss_EffectiveOCMConfig :: "address option"
  m_rss_Additional :: "address option"

record DeployerSpec_mem =
  m_dsp_ResourceRef :: ObjectKey
  m_dsp_OCMConfig :: "address option"
  m_dsp_Suspend :: bool

record DeployerStatus_mem =
  m_dst_ObservedGeneration :: int
  m_dst_Conditions :: "address option"
  m_dst_EffectiveOCMConfig :: "address option"
  m_dst_Deployed :: "address option"

record ReplicationSpec_mem =
  m_rpl_ComponentRef :: ObjectKey
  m_rpl_TargetRepositoryRef :: ObjectKey
  m_rpl_Interval :: int
  m_rpl_Suspend :: bool
  m_rpl_HistoryCapacity :: int
  m_rpl_Verify :: "address option"
  m_rpl_OCMConfig :: "address option"

record ReplicationStatus_mem =
  m_rpt_History :: "address option"
  m_rpt_ObservedGeneration :: int
  m_rpt_Conditions :: "address option"
  m_rpt_EffectiveOCMConfig :: "address option"

record 'o Component_mem =
  m_comp_TypeMeta :: TypeMeta
  m_comp_meta :: 'o
  m_comp_Spec :: ComponentSpec_mem
  m_comp_Status :: ComponentStatus_mem

record 'o Deployer_mem =
  m_dep_TypeMeta :: TypeMeta
  m_dep_meta :: 'o
  m_dep_Spec :: DeployerSpec_mem
  m_dep_Status :: DeployerStatus_mem

record 'o Replication_mem =
  m_repl_TypeMeta :: TypeMeta
  m_repl_meta :: 'o
  m_repl_Spec :: ReplicationSpec_mem
  m_repl_Status :: ReplicationStatus_mem

record 'o Repository_mem =
  m_repo_TypeMeta :: TypeMeta
  m_repo_meta :: 'o
  m_repo_Spec :: RepositorySpec_mem
  m_repo_Status :: RepositoryStatus_mem

record 'o Resource_mem =
  m_res_TypeMeta :: TypeMeta
  m_res_meta :: 'o
  m_res_Spec :: ResourceSpec_mem
  m_res_Status :: ResourceStatus_mem

record 'l ComponentList_mem =
  m_compl_TypeMeta :: TypeMeta
  m_compl_meta :: 'l
  m_compl_Items :: "address option"

record 'l DeployerList_mem =
  m_depl_TypeMeta :: TypeMeta
  m_depl_meta :: 'l
  m_depl_Items :: "address option"

record 'l ReplicationList_mem =
  m_repll_TypeMeta :: TypeMeta
  m_repll_meta :: 'l
  m_repll_Items :: "address option"

record 'l RepositoryList_mem =
  m_repol_TypeMeta :: TypeMeta
  m_repol_meta :: 'l
  m_repol_Items :: "address option"

record 'l ResourceList_mem =
  m_resl_TypeMeta :: TypeMeta
  m_resl_meta :: 'l
  m_resl_Items :: "address option"

text \<open>What one allocation of the code makes.\<close>

datatype ('o, 'j, 'x) cell =
    LibCell 'x
  | Digest_cell DigestSpec
  | JSON_cell 'j
  | Merge_cell "'j MergeAlgorithmSpecification_mem"
  | StringMap_cell "(string \<times> string) list"
  | JSONMap_cell "(string \<times> 'j) list"
  | Identities_cell "address option list"
  | Configs_cell "OCMConfiguration list"
  | Verifications_cell "Verification list"
  | Conditions_cell "Condition list"
  | References_cell "DeployedObjectReference list"
  | History_cell "TransferStatus list"
  | Labels_cell "'j Label_mem list"
  | ResourceInfo_cell "'j ResourceInfo_mem"
  | ComponentInfo_cell ComponentInfo_mem
  | Components_cell "'o Component_mem list"
  | Deployers_cell "'o Deployer_mem list"
  | Replications_cell "'o Replication_mem list"
  | Repositories_cell "'o Repository_mem list"
  | Resources_cell "'o Resource_mem list"

definition Digests :: "(('o, 'j, 'x) cell, DigestSpec) gotype" where
  "Digests = \<lparr>wrap = Digest_cell,
     unwrap = (\<lambda>c. case c of Digest_cell x \<Rightarrow> Some x | _ \<Rightarrow> None)\<rparr>"

definition JSONs :: "(('o, 'j, 'x) cell, 'j) gotype" where
  "JSONs = \<lparr>wrap = JSON_cell,
     unwrap = (\<lambda>c. case c of JSON_cell x \<Rightarrow> Some x | _ \<Rightarrow> None)\<rparr>"

definition Merges :: "(('o, 'j, 'x) cell, 'j MergeAlgorithmSpecification_mem) gotype" where
  "Merges = \<lparr>wrap = Merge_cell,
     unwrap = (\<lambda>c. case c of Merge_cell x \<Rightarrow> Some x | _ \<Rightarrow> None)\<rparr>"

definition StringMaps :: "(('o, 'j, 'x) cell, (string \<times> string) list) gotype" where
  "StringMaps = \<lparr>wrap = StringMap_cell,
     unwrap = (\<lambda>c. case c of StringMap_cell x \<Rightarrow> Some x | _ \<Rightarrow> None)\<rparr>"

definition JSONMaps :: "(('o, 'j, 'x) cell, (string \<times> 'j) list) gotype" where
  "JSONMaps = \<lparr>wrap = JSONMap_cell,
     unwrap = (\<lambda>c. case c of JSONMap_cell x \<Rightarrow> Some x | _ \<Rightarrow> None)\<rparr>"

definition Identities :: "(('o, 'j, 'x) cell, address option list) gotype" where
  "Identities = \<lparr>wrap = Identities_cell,
     unwrap = (\<lambda>c. case c of Identities_cell x \<Rightarrow> Some x | _ \<Rightarrow> None)\<rparr>"

definition Configs :: "(('o, 'j, 'x) cell, OCMConfiguration list) gotype" where
  "Configs = \<lparr>wrap = Configs_cell,
     unwrap = (\<lambda>c. case c of Configs_cell x \<Rightarrow> Some x | _ \<Rightarrow> None)\<rparr>"

definition Verifications :: "(('o, 'j, 'x) cell, Verification list) gotype" where
  "Verifications = \<lparr>wrap = Verifications_cell,
     unwrap = (\<lambda>c. case c of Verifications_cell x \<Rightarrow> Some x | _ \<Rightarrow> None)\<rparr>"

definition Conditions :: "(('o, 'j, 'x) cell, Condition list) gotype" where
  "Conditions = \<lparr>wrap = Conditions_cell,
     unwrap = (\<lambda>c. case c of Conditions_cell x \<Rightarrow> Some x | _ \<Rightarrow> None)\<rparr>"

definition References :: "(('o, 'j, 'x) cell, DeployedObjectReference list) gotype" where
  "References = \<lparr>wrap = References_cell,
     unwrap = (\<lambda>c. case c of References_cell x \<Rightarrow> Some x | _ \<Rightarrow> None)\<rparr>"

definition Histories :: "(('o, 'j, 'x) cell, TransferStatus list) gotype" where
  "Histories = \<lparr>wrap = History_cell,
     unwrap = (\<lambda>c. case c of History_cell x \<Rightarrow> Some x | _ \<Rightarrow> None)\<rparr>"

definition Labels :: "(('o, 'j, 'x) cell, 'j Label_mem list) gotype" where
  "Labels = \<lparr>wrap = Labels_cell,
     unwrap = (\<lambda>c. case c of Labels_cell x \<Rightarrow> Some x | _ \<Rightarrow> None)\<rparr>"

definition ResourceInfos :: "(('o, 'j, 'x) cell, 'j ResourceInfo_mem) gotype" where
  "ResourceInfos = \<lparr>wrap = ResourceInfo_cell,
     unwrap = (\<lambda>c. case c of ResourceInfo_cell x \<Rightarrow> Some x | _ \<Rightarrow> None)\<rparr>"

definition ComponentInfos :: "(('o, 'j, 'x) cell, ComponentInfo_mem) gotype" where
  "ComponentInfos = \<lparr>wrap = ComponentInfo_cell,
     unwrap = (\<lambda>c. case c of ComponentInfo_cell x \<Rightarrow> Some x | _ \<Rightarrow> None)\<rparr>"

definition Components :: "(('o, 'j, 'x) cell, 'o Component_mem list) gotype" where
  "Components = \<lparr>wrap = Components_cell,
     unwrap = (\<lambda>c. case c of Components_cell x \<Rightarrow> Some x | _ \<Rightarrow> None)\<rparr>"

definition Deployers :: "(('o, 'j, 'x) cell, 'o Deployer_mem list) gotype" where
  "Deployers = \<lparr>wrap = Deployers_cell,
     unwrap = (\<lambda>c. case c of Deployers_cell x \<Rightarrow> Some x | _ \<Rightarrow> None)\<rparr>"

definition Replications :: "(('o, 'j, 'x) cell, 'o Replication_mem list) gotype" where
  "Replications = \<lparr>wrap = Replications_cell,
     unwrap = (\<lambda>c. case c of Replications_cell x \<Rightarrow> Some x | _ \<Rightarrow> None)\<rparr>"

definition Repositories :: "(('o, 'j, 'x) cell, 'o Repository_mem list) gotype" where
  "Repositories = \<lparr>wrap = Repositories_cell,
     unwrap = (\<lambda>c. case c of Repositories_cell x \<Rightarrow> Some x | _ \<Rightarrow> None)\<rparr>"

definition Resources :: "(('o, 'j, 'x) cell, 'o Resource_mem list) gotype" where
  "Resources = \<lparr>wrap = Resources_cell,
     unwrap = (\<lambda>c. case c of Resources_cell x \<Rightarrow> Some x | _ \<Rightarrow> None)\<rparr>"

lemma gotypes_ok:
  "gotype_ok Digests"
  "gotype_ok JSONs"
  "gotype_ok Merges"
  "gotype_ok StringMaps"
  "gotype_ok JSONMaps"
  "gotype_ok Identities"
  "gotype_ok Configs"
  "gotype_ok Verifications"
  "gotype_ok Conditions"
  "gotype_ok References"
  "gotype_ok Histories"
  "gotype_ok Labels"
  "gotype_ok ResourceInfos"
  "gotype_ok ComponentInfos"
  "gotype_ok Components"
  "gotype_ok Deployers"
  "gotype_ok Replications"
  "gotype_ok Repositories"
  "gotype_ok Resources"
  by (simp_all add: gotype_ok_def Digests_def JSONs_def Merges_def StringMaps_def JSONMaps_def
      Identities_def Configs_def Verifications_def Conditions_def References_def Histories_def
      Labels_def ResourceInfos_def ComponentInfos_def Components_def Deployers_def
      Replications_def Repositories_def Resources_def)

section \<open>Zero values\<close>

text \<open>What \<open>new\<close> and \<open>make\<close> fill a cell with before the copy is written there.\<close>

definition DigestSpec_zero :: DigestSpec where
  "DigestSpec_zero = \<lparr>ds_HashAlgorithm = [], ds_NormalisationAlgorithm = [], ds_Value = []\<rparr>"

definition OCMConfiguration_zero :: OCMConfiguration where
  "OCMConfiguration_zero =
     \<lparr>cfg_APIVersion = [], cfg_Kind = [], cfg_Name = [], cfg_Namespace = [], cfg_Policy = []\<rparr>"

definition Verification_zero :: Verification where
  "Verification_zero = \<lparr>ver_Signature = [], ver_SecretRef_Name = [], ver_Value = []\<rparr>"

text \<open>A zero condition has an empty status, which is none of the three; it is overwritten at once.\<close>

definition Condition_zero :: Condition where
  "Condition_zero = \<lparr>cond_Type = [], cond_Status = ConditionUnknown, cond_ObservedGeneration = 0,
     cond_Reason = [], cond_Message = []\<rparr>"

definition DeployedObjectReference_zero :: DeployedObjectReference where
  "DeployedObjectReference_zero =
     \<lparr>do_APIVersion = [], do_Kind = [], do_Name = [], do_Namespace = [], do_UID = []\<rparr>"

definition TransferStatus_zero :: TransferStatus where
  "TransferStatus_zero = \<lparr>ts_Component = [], ts_Version = [], ts_SourceRepositorySpec = [],
     ts_TargetRepositorySpec = [], ts_StartTime = 0, ts_EndTime = 0, ts_Error = [], ts_Success = False\<rparr>"

definition TypeMeta_zero :: TypeMeta where
  "TypeMeta_zero = \<lparr>tm_Kind = [], tm_APIVersion = []\<rparr>"

definition MergeAlgorithmSpecification_mem_zero :: "'j \<Rightarrow> 'j MergeAlgorithmSpecification_mem" where
  "MergeAlgorithmSpecification_mem_zero j =
     \<lparr>m_ma_Algorithm = [], m_ma_Config = j\<rparr>"

definition Label_mem_zero :: "'j \<Rightarrow> 'j Label_mem" where
  "Label_mem_zero j =
     \<lparr>m_lb_Name = [], m_lb_Value = j, m_lb_Version = [], m_lb_Signing = False,
       m_lb_Merge = None\<rparr>"

definition ResourceReference_mem_zero :: ResourceReference_mem where
  "ResourceReference_mem_zero =
     \<lparr>m_rr_Resource = None, m_rr_ReferencePath = None\<rparr>"

definition ResourceID_mem_zero :: ResourceID_mem where
  "ResourceID_mem_zero =
     \<lparr>m_ByReference = ResourceReference_mem_zero\<rparr>"

definition ComponentInfo_mem_zero :: ComponentInfo_mem where
  "ComponentInfo_mem_zero =
     \<lparr>m_ci_RepositorySpec = None, m_ci_Component = [], m_ci_Version = [],
       m_ci_Digest = None\<rparr>"

definition ResourceInfo_mem_zero :: "'j \<Rightarrow> 'j ResourceInfo_mem" where
  "ResourceInfo_mem_zero j =
     \<lparr>m_ri_Name = [], m_ri_Type = [], m_ri_Version = [], m_ri_ExtraIdentity = None,
       m_ri_Access = j, m_ri_Digest = [], m_ri_Labels = None\<rparr>"

definition RepositorySpec_mem_zero :: RepositorySpec_mem where
  "RepositorySpec_mem_zero =
     \<lparr>m_rs_RepositorySpec = None, m_rs_OCMConfig = None, m_rs_Interval = 0,
       m_rs_Suspend = False\<rparr>"

definition RepositoryStatus_mem_zero :: RepositoryStatus_mem where
  "RepositoryStatus_mem_zero =
     \<lparr>m_rst_ObservedGeneration = 0, m_rst_Conditions = None,
       m_rst_EffectiveOCMConfig = None\<rparr>"

definition ComponentSpec_mem_zero :: ComponentSpec_mem where
  "ComponentSpec_mem_zero =
     \<lparr>m_cs_RepositoryRef_Name = [], m_cs_Component = [], m_cs_DowngradePolicy = [],
       m_cs_Semver = [], m_cs_SemverFilter = [], m_cs_Verify = None, m_cs_OCMConfig = None,
       m_cs_Interval = 0, m_cs_Suspend = False\<rparr>"

definition ComponentStatus_mem_zero :: ComponentStatus_mem where
  "ComponentStatus_mem_zero =
     \<lparr>m_cst_ObservedGeneration = 0, m_cst_Conditions = None,
       m_cst_Component = ComponentInfo_mem_zero, m_cst_EffectiveOCMConfig = None\<rparr>"

definition ResourceSpec_mem_zero :: ResourceSpec_mem where
  "ResourceSpec_mem_zero =
     \<lparr>m_rsp_ComponentRef_Name = [], m_rsp_Resource = ResourceID_mem_zero,
       m_rsp_OCMConfig = None, m_rsp_SkipVerify = False, m_rsp_Interval = 0, m_rsp_Suspend = False,
       m_rsp_AdditionalStatusFields = None\<rparr>"

definition ResourceStatus_mem_zero :: ResourceStatus_mem where
  "ResourceStatus_mem_zero =
     \<lparr>m_rss_ObservedGeneration = 0, m_rss_Conditions = None, m_rss_Resource = None,
       m_rss_Component = None, m_rss_EffectiveOCMConfig = None, m_rss_Additional = None\<rparr>"

definition DeployerSpec_mem_zero :: DeployerSpec_mem where
  "DeployerSpec_mem_zero =
     \<lparr>m_dsp_ResourceRef = ObjectKey_zero, m_dsp_OCMConfig = None, m_dsp_Suspend = False\<rparr>"

definition DeployerStatus_mem_zero :: DeployerStatus_mem where
  "DeployerStatus_mem_zero =
     \<lparr>m_dst_ObservedGeneration = 0, m_dst_Conditions = None, m_dst_EffectiveOCMConfig = None,
       m_dst_Deployed = None\<rparr>"

definition ReplicationSpec_mem_zero :: ReplicationSpec_mem where
  "ReplicationSpec_mem_zero =
     \<lparr>m_rpl_ComponentRef = ObjectKey_zero, m_rpl_TargetRepositoryRef = ObjectKey_zero,
       m_rpl_Interval = 0, m_rpl_Suspend = False, m_rpl_HistoryCapacity = 0, m_rpl_Verify = None,
       m_rpl_OCMConfig = None\<rparr>"

definition ReplicationStatus_mem_zero :: ReplicationStatus_mem where
  "ReplicationStatus_mem_zero =
     \<lparr>m_rpt_History = None, m_rpt_ObservedGeneration = 0, m_rpt_Conditions = None,
       m_rpt_EffectiveOCMConfig = None\<rparr>"

definition Component_mem_zero :: "'o \<Rightarrow> 'o Component_mem" where
  "Component_mem_zero m = \<lparr>m_comp_TypeMeta = TypeMeta_zero, m_comp_meta = m,
     m_comp_Spec = ComponentSpec_mem_zero, m_comp_Status = ComponentStatus_mem_zero\<rparr>"

definition Deployer_mem_zero :: "'o \<Rightarrow> 'o Deployer_mem" where
  "Deployer_mem_zero m = \<lparr>m_dep_TypeMeta = TypeMeta_zero, m_dep_meta = m,
     m_dep_Spec = DeployerSpec_mem_zero, m_dep_Status = DeployerStatus_mem_zero\<rparr>"

definition Replication_mem_zero :: "'o \<Rightarrow> 'o Replication_mem" where
  "Replication_mem_zero m = \<lparr>m_repl_TypeMeta = TypeMeta_zero, m_repl_meta = m,
     m_repl_Spec = ReplicationSpec_mem_zero, m_repl_Status = ReplicationStatus_mem_zero\<rparr>"

definition Repository_mem_zero :: "'o \<Rightarrow> 'o Repository_mem" where
  "Repository_mem_zero m = \<lparr>m_repo_TypeMeta = TypeMeta_zero, m_repo_meta = m,
     m_repo_Spec = RepositorySpec_mem_zero, m_repo_Status = RepositoryStatus_mem_zero\<rparr>"

definition Resource_mem_zero :: "'o \<Rightarrow> 'o Resource_mem" where
  "Resource_mem_zero m = \<lparr>m_res_TypeMeta = TypeMeta_zero, m_res_meta = m,
     m_res_Spec = ResourceSpec_mem_zero, m_res_Status = ResourceStatus_mem_zero\<rparr>"

section \<open>DeepCopyInto\<close>

text \<open>The copies of the types of other modules, and their zero values.\<close>

record ('c, 'o, 'l, 'j) copy_lib =
  ObjectMeta_DeepCopyInto :: "'o \<Rightarrow> ('c list, 'o) go"
  ListMeta_DeepCopyInto :: "'l \<Rightarrow> ('c list, 'l) go"
  JSON_DeepCopyInto :: "'j \<Rightarrow> ('c list, 'j) go"
  JSON_DeepCopy :: "'j \<Rightarrow> ('c list, 'j) go"
  Condition_DeepCopyInto :: "Condition \<Rightarrow> ('c list, Condition) go"
  Time_DeepCopyInto :: "int \<Rightarrow> ('c list, int) go"
  ObjectMeta_mem_zero :: 'o
  JSON_zero :: 'j

type_synonym ('o, 'l, 'j, 'x) library = "(('o, 'j, 'x) cell, 'o, 'l, 'j) copy_lib"
type_synonym ('o, 'j, 'x, 'a) copying = "(('o, 'j, 'x) cell list, 'a) go"

text \<open>Types without references: \<open>*out = *in\<close> is all there is to do.\<close>

definition OCMConfiguration_DeepCopyInto ::
  "OCMConfiguration \<Rightarrow> ('o, 'j, 'x, OCMConfiguration) copying" where
  "OCMConfiguration_DeepCopyInto x = returnG x"

definition ObjectKey_DeepCopyInto :: "ObjectKey \<Rightarrow> ('o, 'j, 'x, ObjectKey) copying" where
  "ObjectKey_DeepCopyInto x = returnG x"

definition Verification_DeepCopyInto :: "Verification \<Rightarrow> ('o, 'j, 'x, Verification) copying" where
  "Verification_DeepCopyInto x = returnG x"

definition DeployedObjectReference_DeepCopyInto ::
  "DeployedObjectReference \<Rightarrow> ('o, 'j, 'x, DeployedObjectReference) copying" where
  "DeployedObjectReference_DeepCopyInto x = returnG x"

definition TransferStatus_DeepCopyInto ::
  "('o, 'l, 'j, 'x) library \<Rightarrow> TransferStatus \<Rightarrow> ('o, 'j, 'x, TransferStatus) copying" where
  "TransferStatus_DeepCopyInto L x =
     bindG (Time_DeepCopyInto L (ts_StartTime x)) (\<lambda>start.
     bindG (Time_DeepCopyInto L (ts_EndTime x)) (\<lambda>finish.
     returnG (x\<lparr>ts_StartTime := start, ts_EndTime := finish\<rparr>)))"

text \<open>Structures. \<open>*out = *in\<close> gives \<open>x\<close>; then the fields with references are copied.\<close>

definition MergeAlgorithmSpecification_DeepCopyInto ::
  "('o, 'l, 'j, 'x) library \<Rightarrow> 'j MergeAlgorithmSpecification_mem \<Rightarrow>
   ('o, 'j, 'x, 'j MergeAlgorithmSpecification_mem) copying" where
  "MergeAlgorithmSpecification_DeepCopyInto L x =
     bindG (JSON_DeepCopyInto L (m_ma_Config x)) (\<lambda>config.
     returnG (x\<lparr>m_ma_Config := config\<rparr>))"

definition Label_DeepCopyInto ::
  "('o, 'l, 'j, 'x) library \<Rightarrow> 'j Label_mem \<Rightarrow> ('o, 'j, 'x, 'j Label_mem) copying" where
  "Label_DeepCopyInto L x =
     bindG (JSON_DeepCopyInto L (m_lb_Value x)) (\<lambda>val.
     bindG (copy_pointer Merges (MergeAlgorithmSpecification_mem_zero (JSON_zero L)) (MergeAlgorithmSpecification_DeepCopyInto L)
       (m_lb_Merge x))
       (\<lambda>merge.
     returnG (x\<lparr>m_lb_Value := val, m_lb_Merge := merge\<rparr>)))"

definition ResourceReference_DeepCopyInto ::
  "ResourceReference_mem \<Rightarrow> ('o, 'j, 'x, ResourceReference_mem) copying" where
  "ResourceReference_DeepCopyInto x =
     bindG (copy_map StringMaps returnG (m_rr_Resource x)) (\<lambda>resource.
     bindG (copy_slice_each Identities None (copy_map StringMaps returnG) (m_rr_ReferencePath x))
       (\<lambda>referencePath.
     returnG (x\<lparr>m_rr_Resource := resource, m_rr_ReferencePath := referencePath\<rparr>)))"

definition ResourceID_DeepCopyInto ::
  "ResourceID_mem \<Rightarrow> ('o, 'j, 'x, ResourceID_mem) copying" where
  "ResourceID_DeepCopyInto x =
     bindG (ResourceReference_DeepCopyInto (m_ByReference x)) (\<lambda>byReference.
     returnG (x\<lparr>m_ByReference := byReference\<rparr>))"

definition ComponentInfo_DeepCopyInto ::
  "('o, 'l, 'j, 'x) library \<Rightarrow> ComponentInfo_mem \<Rightarrow> ('o, 'j, 'x, ComponentInfo_mem) copying" where
  "ComponentInfo_DeepCopyInto L x =
     bindG (copy_pointer JSONs (JSON_zero L) (JSON_DeepCopyInto L) (m_ci_RepositorySpec x))
       (\<lambda>repositorySpec.
     bindG (copy_pointer Digests DigestSpec_zero returnG (m_ci_Digest x)) (\<lambda>digest.
     returnG (x\<lparr>m_ci_RepositorySpec := repositorySpec, m_ci_Digest := digest\<rparr>)))"

definition ResourceInfo_DeepCopyInto ::
  "('o, 'l, 'j, 'x) library \<Rightarrow> 'j ResourceInfo_mem \<Rightarrow> ('o, 'j, 'x, 'j ResourceInfo_mem) copying" where
  "ResourceInfo_DeepCopyInto L x =
     bindG (copy_map StringMaps returnG (m_ri_ExtraIdentity x)) (\<lambda>extraIdentity.
     bindG (JSON_DeepCopyInto L (m_ri_Access x)) (\<lambda>access.
     bindG (copy_slice_each Labels (Label_mem_zero (JSON_zero L)) (Label_DeepCopyInto L)
       (m_ri_Labels x))
       (\<lambda>labels.
     returnG (x\<lparr>m_ri_ExtraIdentity := extraIdentity, m_ri_Access := access,
       m_ri_Labels := labels\<rparr>))))"

definition RepositorySpec_DeepCopyInto ::
  "('o, 'l, 'j, 'x) library \<Rightarrow> RepositorySpec_mem \<Rightarrow> ('o, 'j, 'x, RepositorySpec_mem) copying" where
  "RepositorySpec_DeepCopyInto L x =
     bindG (copy_pointer JSONs (JSON_zero L) (JSON_DeepCopyInto L) (m_rs_RepositorySpec x))
       (\<lambda>repositorySpec.
     bindG (copy_slice Configs OCMConfiguration_zero (m_rs_OCMConfig x)) (\<lambda>ocmConfig.
     returnG (x\<lparr>m_rs_RepositorySpec := repositorySpec, m_rs_OCMConfig := ocmConfig\<rparr>)))"

definition RepositoryStatus_DeepCopyInto ::
  "('o, 'l, 'j, 'x) library \<Rightarrow> RepositoryStatus_mem \<Rightarrow> ('o, 'j, 'x, RepositoryStatus_mem) copying" where
  "RepositoryStatus_DeepCopyInto L x =
     bindG (copy_slice_each Conditions Condition_zero (Condition_DeepCopyInto L) (m_rst_Conditions x))
       (\<lambda>conditions.
     bindG (copy_slice Configs OCMConfiguration_zero (m_rst_EffectiveOCMConfig x))
       (\<lambda>effectiveOCMConfig.
     returnG (x\<lparr>m_rst_Conditions := conditions,
       m_rst_EffectiveOCMConfig := effectiveOCMConfig\<rparr>)))"

definition ComponentSpec_DeepCopyInto ::
  "ComponentSpec_mem \<Rightarrow> ('o, 'j, 'x, ComponentSpec_mem) copying" where
  "ComponentSpec_DeepCopyInto x =
     bindG (copy_slice Verifications Verification_zero (m_cs_Verify x)) (\<lambda>verify.
     bindG (copy_slice Configs OCMConfiguration_zero (m_cs_OCMConfig x)) (\<lambda>ocmConfig.
     returnG (x\<lparr>m_cs_Verify := verify, m_cs_OCMConfig := ocmConfig\<rparr>)))"

definition ComponentStatus_DeepCopyInto ::
  "('o, 'l, 'j, 'x) library \<Rightarrow> ComponentStatus_mem \<Rightarrow> ('o, 'j, 'x, ComponentStatus_mem) copying" where
  "ComponentStatus_DeepCopyInto L x =
     bindG (copy_slice_each Conditions Condition_zero (Condition_DeepCopyInto L) (m_cst_Conditions x))
       (\<lambda>conditions.
     bindG (ComponentInfo_DeepCopyInto L (m_cst_Component x)) (\<lambda>component.
     bindG (copy_slice Configs OCMConfiguration_zero (m_cst_EffectiveOCMConfig x))
       (\<lambda>effectiveOCMConfig.
     returnG (x\<lparr>m_cst_Conditions := conditions, m_cst_Component := component,
       m_cst_EffectiveOCMConfig := effectiveOCMConfig\<rparr>))))"

definition ResourceSpec_DeepCopyInto ::
  "ResourceSpec_mem \<Rightarrow> ('o, 'j, 'x, ResourceSpec_mem) copying" where
  "ResourceSpec_DeepCopyInto x =
     bindG (ResourceID_DeepCopyInto (m_rsp_Resource x)) (\<lambda>resource.
     bindG (copy_slice Configs OCMConfiguration_zero (m_rsp_OCMConfig x)) (\<lambda>ocmConfig.
     bindG (copy_map StringMaps returnG (m_rsp_AdditionalStatusFields x))
       (\<lambda>additionalStatusFields.
     returnG (x\<lparr>m_rsp_Resource := resource, m_rsp_OCMConfig := ocmConfig,
       m_rsp_AdditionalStatusFields := additionalStatusFields\<rparr>))))"

definition ResourceStatus_DeepCopyInto ::
  "('o, 'l, 'j, 'x) library \<Rightarrow> ResourceStatus_mem \<Rightarrow> ('o, 'j, 'x, ResourceStatus_mem) copying" where
  "ResourceStatus_DeepCopyInto L x =
     bindG (copy_slice_each Conditions Condition_zero (Condition_DeepCopyInto L) (m_rss_Conditions x))
       (\<lambda>conditions.
     bindG (copy_pointer ResourceInfos (ResourceInfo_mem_zero (JSON_zero L)) (ResourceInfo_DeepCopyInto L)
       (m_rss_Resource x))
       (\<lambda>resource.
     bindG (copy_pointer ComponentInfos ComponentInfo_mem_zero (ComponentInfo_DeepCopyInto L)
       (m_rss_Component x))
       (\<lambda>component.
     bindG (copy_slice Configs OCMConfiguration_zero (m_rss_EffectiveOCMConfig x))
       (\<lambda>effectiveOCMConfig.
     bindG (copy_map JSONMaps (JSON_DeepCopy L) (m_rss_Additional x)) (\<lambda>additional.
     returnG (x\<lparr>m_rss_Conditions := conditions, m_rss_Resource := resource,
       m_rss_Component := component, m_rss_EffectiveOCMConfig := effectiveOCMConfig,
       m_rss_Additional := additional\<rparr>))))))"

definition DeployerSpec_DeepCopyInto ::
  "DeployerSpec_mem \<Rightarrow> ('o, 'j, 'x, DeployerSpec_mem) copying" where
  "DeployerSpec_DeepCopyInto x =
     bindG (copy_slice Configs OCMConfiguration_zero (m_dsp_OCMConfig x)) (\<lambda>ocmConfig.
     returnG (x\<lparr>m_dsp_OCMConfig := ocmConfig\<rparr>))"

definition DeployerStatus_DeepCopyInto ::
  "('o, 'l, 'j, 'x) library \<Rightarrow> DeployerStatus_mem \<Rightarrow> ('o, 'j, 'x, DeployerStatus_mem) copying" where
  "DeployerStatus_DeepCopyInto L x =
     bindG (copy_slice_each Conditions Condition_zero (Condition_DeepCopyInto L) (m_dst_Conditions x))
       (\<lambda>conditions.
     bindG (copy_slice Configs OCMConfiguration_zero (m_dst_EffectiveOCMConfig x))
       (\<lambda>effectiveOCMConfig.
     bindG (copy_slice References DeployedObjectReference_zero (m_dst_Deployed x)) (\<lambda>deployed.
     returnG (x\<lparr>m_dst_Conditions := conditions, m_dst_EffectiveOCMConfig := effectiveOCMConfig,
       m_dst_Deployed := deployed\<rparr>))))"

definition ReplicationSpec_DeepCopyInto ::
  "ReplicationSpec_mem \<Rightarrow> ('o, 'j, 'x, ReplicationSpec_mem) copying" where
  "ReplicationSpec_DeepCopyInto x =
     bindG (copy_slice Verifications Verification_zero (m_rpl_Verify x)) (\<lambda>verify.
     bindG (copy_slice Configs OCMConfiguration_zero (m_rpl_OCMConfig x)) (\<lambda>ocmConfig.
     returnG (x\<lparr>m_rpl_Verify := verify, m_rpl_OCMConfig := ocmConfig\<rparr>)))"

definition ReplicationStatus_DeepCopyInto ::
  "('o, 'l, 'j, 'x) library \<Rightarrow> ReplicationStatus_mem \<Rightarrow> ('o, 'j, 'x, ReplicationStatus_mem) copying" where
  "ReplicationStatus_DeepCopyInto L x =
     bindG (copy_slice_each Histories TransferStatus_zero (TransferStatus_DeepCopyInto L)
       (m_rpt_History x))
       (\<lambda>history.
     bindG (copy_slice_each Conditions Condition_zero (Condition_DeepCopyInto L) (m_rpt_Conditions x))
       (\<lambda>conditions.
     bindG (copy_slice Configs OCMConfiguration_zero (m_rpt_EffectiveOCMConfig x))
       (\<lambda>effectiveOCMConfig.
     returnG (x\<lparr>m_rpt_History := history, m_rpt_Conditions := conditions,
       m_rpt_EffectiveOCMConfig := effectiveOCMConfig\<rparr>))))"

definition Component_DeepCopyInto ::
  "('o, 'l, 'j, 'x) library \<Rightarrow> 'o Component_mem \<Rightarrow> ('o, 'j, 'x, 'o Component_mem) copying" where
  "Component_DeepCopyInto L x =
     bindG (ObjectMeta_DeepCopyInto L (m_comp_meta x)) (\<lambda>meta.
     bindG (ComponentSpec_DeepCopyInto (m_comp_Spec x)) (\<lambda>spec.
     bindG (ComponentStatus_DeepCopyInto L (m_comp_Status x)) (\<lambda>status.
     returnG (x\<lparr>m_comp_meta := meta, m_comp_Spec := spec, m_comp_Status := status\<rparr>))))"

definition Deployer_DeepCopyInto ::
  "('o, 'l, 'j, 'x) library \<Rightarrow> 'o Deployer_mem \<Rightarrow> ('o, 'j, 'x, 'o Deployer_mem) copying" where
  "Deployer_DeepCopyInto L x =
     bindG (ObjectMeta_DeepCopyInto L (m_dep_meta x)) (\<lambda>meta.
     bindG (DeployerSpec_DeepCopyInto (m_dep_Spec x)) (\<lambda>spec.
     bindG (DeployerStatus_DeepCopyInto L (m_dep_Status x)) (\<lambda>status.
     returnG (x\<lparr>m_dep_meta := meta, m_dep_Spec := spec, m_dep_Status := status\<rparr>))))"

definition Replication_DeepCopyInto ::
  "('o, 'l, 'j, 'x) library \<Rightarrow> 'o Replication_mem \<Rightarrow> ('o, 'j, 'x, 'o Replication_mem) copying" where
  "Replication_DeepCopyInto L x =
     bindG (ObjectMeta_DeepCopyInto L (m_repl_meta x)) (\<lambda>meta.
     bindG (ReplicationSpec_DeepCopyInto (m_repl_Spec x)) (\<lambda>spec.
     bindG (ReplicationStatus_DeepCopyInto L (m_repl_Status x)) (\<lambda>status.
     returnG (x\<lparr>m_repl_meta := meta, m_repl_Spec := spec, m_repl_Status := status\<rparr>))))"

definition Repository_DeepCopyInto ::
  "('o, 'l, 'j, 'x) library \<Rightarrow> 'o Repository_mem \<Rightarrow> ('o, 'j, 'x, 'o Repository_mem) copying" where
  "Repository_DeepCopyInto L x =
     bindG (ObjectMeta_DeepCopyInto L (m_repo_meta x)) (\<lambda>meta.
     bindG (RepositorySpec_DeepCopyInto L (m_repo_Spec x)) (\<lambda>spec.
     bindG (RepositoryStatus_DeepCopyInto L (m_repo_Status x)) (\<lambda>status.
     returnG (x\<lparr>m_repo_meta := meta, m_repo_Spec := spec, m_repo_Status := status\<rparr>))))"

definition Resource_DeepCopyInto ::
  "('o, 'l, 'j, 'x) library \<Rightarrow> 'o Resource_mem \<Rightarrow> ('o, 'j, 'x, 'o Resource_mem) copying" where
  "Resource_DeepCopyInto L x =
     bindG (ObjectMeta_DeepCopyInto L (m_res_meta x)) (\<lambda>meta.
     bindG (ResourceSpec_DeepCopyInto (m_res_Spec x)) (\<lambda>spec.
     bindG (ResourceStatus_DeepCopyInto L (m_res_Status x)) (\<lambda>status.
     returnG (x\<lparr>m_res_meta := meta, m_res_Spec := spec, m_res_Status := status\<rparr>))))"

definition ComponentList_DeepCopyInto ::
  "('o, 'l, 'j, 'x) library \<Rightarrow> 'l ComponentList_mem \<Rightarrow> ('o, 'j, 'x, 'l ComponentList_mem) copying" where
  "ComponentList_DeepCopyInto L x =
     bindG (ListMeta_DeepCopyInto L (m_compl_meta x)) (\<lambda>meta.
     bindG (copy_slice_each Components (Component_mem_zero (ObjectMeta_mem_zero L)) (Component_DeepCopyInto L)
       (m_compl_Items x)) (\<lambda>items.
     returnG (x\<lparr>m_compl_meta := meta, m_compl_Items := items\<rparr>)))"

definition DeployerList_DeepCopyInto ::
  "('o, 'l, 'j, 'x) library \<Rightarrow> 'l DeployerList_mem \<Rightarrow> ('o, 'j, 'x, 'l DeployerList_mem) copying" where
  "DeployerList_DeepCopyInto L x =
     bindG (ListMeta_DeepCopyInto L (m_depl_meta x)) (\<lambda>meta.
     bindG (copy_slice_each Deployers (Deployer_mem_zero (ObjectMeta_mem_zero L)) (Deployer_DeepCopyInto L)
       (m_depl_Items x)) (\<lambda>items.
     returnG (x\<lparr>m_depl_meta := meta, m_depl_Items := items\<rparr>)))"

definition ReplicationList_DeepCopyInto ::
  "('o, 'l, 'j, 'x) library \<Rightarrow> 'l ReplicationList_mem \<Rightarrow>
   ('o, 'j, 'x, 'l ReplicationList_mem) copying" where
  "ReplicationList_DeepCopyInto L x =
     bindG (ListMeta_DeepCopyInto L (m_repll_meta x)) (\<lambda>meta.
     bindG (copy_slice_each Replications (Replication_mem_zero (ObjectMeta_mem_zero L)) (Replication_DeepCopyInto L)
       (m_repll_Items x)) (\<lambda>items.
     returnG (x\<lparr>m_repll_meta := meta, m_repll_Items := items\<rparr>)))"

definition RepositoryList_DeepCopyInto ::
  "('o, 'l, 'j, 'x) library \<Rightarrow> 'l RepositoryList_mem \<Rightarrow> ('o, 'j, 'x, 'l RepositoryList_mem) copying" where
  "RepositoryList_DeepCopyInto L x =
     bindG (ListMeta_DeepCopyInto L (m_repol_meta x)) (\<lambda>meta.
     bindG (copy_slice_each Repositories (Repository_mem_zero (ObjectMeta_mem_zero L)) (Repository_DeepCopyInto L)
       (m_repol_Items x)) (\<lambda>items.
     returnG (x\<lparr>m_repol_meta := meta, m_repol_Items := items\<rparr>)))"

definition ResourceList_DeepCopyInto ::
  "('o, 'l, 'j, 'x) library \<Rightarrow> 'l ResourceList_mem \<Rightarrow> ('o, 'j, 'x, 'l ResourceList_mem) copying" where
  "ResourceList_DeepCopyInto L x =
     bindG (ListMeta_DeepCopyInto L (m_resl_meta x)) (\<lambda>meta.
     bindG (copy_slice_each Resources (Resource_mem_zero (ObjectMeta_mem_zero L)) (Resource_DeepCopyInto L)
       (m_resl_Items x)) (\<lambda>items.
     returnG (x\<lparr>m_resl_meta := meta, m_resl_Items := items\<rparr>)))"

section \<open>DeepCopy and DeepCopyObject\<close>

definition OCMConfiguration_DeepCopy ::
  "OCMConfiguration option \<Rightarrow> ('o, 'j, 'x, OCMConfiguration option) copying" where
  "OCMConfiguration_DeepCopy = copy_new (OCMConfiguration_DeepCopyInto)"

definition ObjectKey_DeepCopy :: "ObjectKey option \<Rightarrow> ('o, 'j, 'x, ObjectKey option) copying" where
  "ObjectKey_DeepCopy = copy_new (ObjectKey_DeepCopyInto)"

definition Verification_DeepCopy ::
  "Verification option \<Rightarrow> ('o, 'j, 'x, Verification option) copying" where
  "Verification_DeepCopy = copy_new (Verification_DeepCopyInto)"

definition DeployedObjectReference_DeepCopy ::
  "DeployedObjectReference option \<Rightarrow> ('o, 'j, 'x, DeployedObjectReference option) copying" where
  "DeployedObjectReference_DeepCopy = copy_new (DeployedObjectReference_DeepCopyInto)"

definition TransferStatus_DeepCopy ::
  "('o, 'l, 'j, 'x) library \<Rightarrow> TransferStatus option \<Rightarrow> ('o, 'j, 'x, TransferStatus option) copying" where
  "TransferStatus_DeepCopy L = copy_new (TransferStatus_DeepCopyInto L)"

definition MergeAlgorithmSpecification_DeepCopy ::
  "('o, 'l, 'j, 'x) library \<Rightarrow> 'j MergeAlgorithmSpecification_mem option \<Rightarrow>
   ('o, 'j, 'x, 'j MergeAlgorithmSpecification_mem option) copying" where
  "MergeAlgorithmSpecification_DeepCopy L = copy_new (MergeAlgorithmSpecification_DeepCopyInto L)"

definition Label_DeepCopy ::
  "('o, 'l, 'j, 'x) library \<Rightarrow> 'j Label_mem option \<Rightarrow> ('o, 'j, 'x, 'j Label_mem option) copying" where
  "Label_DeepCopy L = copy_new (Label_DeepCopyInto L)"

definition ResourceReference_DeepCopy ::
  "ResourceReference_mem option \<Rightarrow> ('o, 'j, 'x, ResourceReference_mem option) copying" where
  "ResourceReference_DeepCopy = copy_new (ResourceReference_DeepCopyInto)"

definition ResourceID_DeepCopy ::
  "ResourceID_mem option \<Rightarrow> ('o, 'j, 'x, ResourceID_mem option) copying" where
  "ResourceID_DeepCopy = copy_new (ResourceID_DeepCopyInto)"

definition ComponentInfo_DeepCopy ::
  "('o, 'l, 'j, 'x) library \<Rightarrow> ComponentInfo_mem option \<Rightarrow>
   ('o, 'j, 'x, ComponentInfo_mem option) copying" where
  "ComponentInfo_DeepCopy L = copy_new (ComponentInfo_DeepCopyInto L)"

definition ResourceInfo_DeepCopy ::
  "('o, 'l, 'j, 'x) library \<Rightarrow> 'j ResourceInfo_mem option \<Rightarrow>
   ('o, 'j, 'x, 'j ResourceInfo_mem option) copying" where
  "ResourceInfo_DeepCopy L = copy_new (ResourceInfo_DeepCopyInto L)"

definition RepositorySpec_DeepCopy ::
  "('o, 'l, 'j, 'x) library \<Rightarrow> RepositorySpec_mem option \<Rightarrow>
   ('o, 'j, 'x, RepositorySpec_mem option) copying" where
  "RepositorySpec_DeepCopy L = copy_new (RepositorySpec_DeepCopyInto L)"

definition RepositoryStatus_DeepCopy ::
  "('o, 'l, 'j, 'x) library \<Rightarrow> RepositoryStatus_mem option \<Rightarrow>
   ('o, 'j, 'x, RepositoryStatus_mem option) copying" where
  "RepositoryStatus_DeepCopy L = copy_new (RepositoryStatus_DeepCopyInto L)"

definition ComponentSpec_DeepCopy ::
  "ComponentSpec_mem option \<Rightarrow> ('o, 'j, 'x, ComponentSpec_mem option) copying" where
  "ComponentSpec_DeepCopy = copy_new (ComponentSpec_DeepCopyInto)"

definition ComponentStatus_DeepCopy ::
  "('o, 'l, 'j, 'x) library \<Rightarrow> ComponentStatus_mem option \<Rightarrow>
   ('o, 'j, 'x, ComponentStatus_mem option) copying" where
  "ComponentStatus_DeepCopy L = copy_new (ComponentStatus_DeepCopyInto L)"

definition ResourceSpec_DeepCopy ::
  "ResourceSpec_mem option \<Rightarrow> ('o, 'j, 'x, ResourceSpec_mem option) copying" where
  "ResourceSpec_DeepCopy = copy_new (ResourceSpec_DeepCopyInto)"

definition ResourceStatus_DeepCopy ::
  "('o, 'l, 'j, 'x) library \<Rightarrow> ResourceStatus_mem option \<Rightarrow>
   ('o, 'j, 'x, ResourceStatus_mem option) copying" where
  "ResourceStatus_DeepCopy L = copy_new (ResourceStatus_DeepCopyInto L)"

definition DeployerSpec_DeepCopy ::
  "DeployerSpec_mem option \<Rightarrow> ('o, 'j, 'x, DeployerSpec_mem option) copying" where
  "DeployerSpec_DeepCopy = copy_new (DeployerSpec_DeepCopyInto)"

definition DeployerStatus_DeepCopy ::
  "('o, 'l, 'j, 'x) library \<Rightarrow> DeployerStatus_mem option \<Rightarrow>
   ('o, 'j, 'x, DeployerStatus_mem option) copying" where
  "DeployerStatus_DeepCopy L = copy_new (DeployerStatus_DeepCopyInto L)"

definition ReplicationSpec_DeepCopy ::
  "ReplicationSpec_mem option \<Rightarrow> ('o, 'j, 'x, ReplicationSpec_mem option) copying" where
  "ReplicationSpec_DeepCopy = copy_new (ReplicationSpec_DeepCopyInto)"

definition ReplicationStatus_DeepCopy ::
  "('o, 'l, 'j, 'x) library \<Rightarrow> ReplicationStatus_mem option \<Rightarrow>
   ('o, 'j, 'x, ReplicationStatus_mem option) copying" where
  "ReplicationStatus_DeepCopy L = copy_new (ReplicationStatus_DeepCopyInto L)"

definition Component_DeepCopy ::
  "('o, 'l, 'j, 'x) library \<Rightarrow> 'o Component_mem option \<Rightarrow>
   ('o, 'j, 'x, 'o Component_mem option) copying" where
  "Component_DeepCopy L = copy_new (Component_DeepCopyInto L)"

definition Deployer_DeepCopy ::
  "('o, 'l, 'j, 'x) library \<Rightarrow> 'o Deployer_mem option \<Rightarrow>
   ('o, 'j, 'x, 'o Deployer_mem option) copying" where
  "Deployer_DeepCopy L = copy_new (Deployer_DeepCopyInto L)"

definition Replication_DeepCopy ::
  "('o, 'l, 'j, 'x) library \<Rightarrow> 'o Replication_mem option \<Rightarrow>
   ('o, 'j, 'x, 'o Replication_mem option) copying" where
  "Replication_DeepCopy L = copy_new (Replication_DeepCopyInto L)"

definition Repository_DeepCopy ::
  "('o, 'l, 'j, 'x) library \<Rightarrow> 'o Repository_mem option \<Rightarrow>
   ('o, 'j, 'x, 'o Repository_mem option) copying" where
  "Repository_DeepCopy L = copy_new (Repository_DeepCopyInto L)"

definition Resource_DeepCopy ::
  "('o, 'l, 'j, 'x) library \<Rightarrow> 'o Resource_mem option \<Rightarrow>
   ('o, 'j, 'x, 'o Resource_mem option) copying" where
  "Resource_DeepCopy L = copy_new (Resource_DeepCopyInto L)"

definition ComponentList_DeepCopy ::
  "('o, 'l, 'j, 'x) library \<Rightarrow> 'l ComponentList_mem option \<Rightarrow>
   ('o, 'j, 'x, 'l ComponentList_mem option) copying" where
  "ComponentList_DeepCopy L = copy_new (ComponentList_DeepCopyInto L)"

definition DeployerList_DeepCopy ::
  "('o, 'l, 'j, 'x) library \<Rightarrow> 'l DeployerList_mem option \<Rightarrow>
   ('o, 'j, 'x, 'l DeployerList_mem option) copying" where
  "DeployerList_DeepCopy L = copy_new (DeployerList_DeepCopyInto L)"

definition ReplicationList_DeepCopy ::
  "('o, 'l, 'j, 'x) library \<Rightarrow> 'l ReplicationList_mem option \<Rightarrow>
   ('o, 'j, 'x, 'l ReplicationList_mem option) copying" where
  "ReplicationList_DeepCopy L = copy_new (ReplicationList_DeepCopyInto L)"

definition RepositoryList_DeepCopy ::
  "('o, 'l, 'j, 'x) library \<Rightarrow> 'l RepositoryList_mem option \<Rightarrow>
   ('o, 'j, 'x, 'l RepositoryList_mem option) copying" where
  "RepositoryList_DeepCopy L = copy_new (RepositoryList_DeepCopyInto L)"

definition ResourceList_DeepCopy ::
  "('o, 'l, 'j, 'x) library \<Rightarrow> 'l ResourceList_mem option \<Rightarrow>
   ('o, 'j, 'x, 'l ResourceList_mem option) copying" where
  "ResourceList_DeepCopy L = copy_new (ResourceList_DeepCopyInto L)"

text \<open>A \<open>runtime.Object\<close> of this package, with its dynamic type; the nil interface is \<open>None\<close>.\<close>

datatype ('o, 'l) runtime_object =
    Component_object "'o Component_mem"
  | Deployer_object "'o Deployer_mem"
  | Replication_object "'o Replication_mem"
  | Repository_object "'o Repository_mem"
  | Resource_object "'o Resource_mem"
  | ComponentList_object "'l ComponentList_mem"
  | DeployerList_object "'l DeployerList_mem"
  | ReplicationList_object "'l ReplicationList_mem"
  | RepositoryList_object "'l RepositoryList_mem"
  | ResourceList_object "'l ResourceList_mem"

text \<open>
  \<open>if c := in.DeepCopy(); c != nil { return c }; return nil\<close>: a nil pointer gives the nil interface, not an
  interface that holds a nil pointer.
\<close>

definition Component_DeepCopyObject ::
  "('o, 'l, 'j, 'x) library \<Rightarrow> 'o Component_mem option \<Rightarrow>
   ('o, 'j, 'x, ('o, 'l) runtime_object option) copying" where
  "Component_DeepCopyObject L p = bindG (Component_DeepCopy L p)
     (\<lambda>c. case c of Some y \<Rightarrow> returnG (Some (Component_object y)) | None \<Rightarrow> returnG None)"

definition Deployer_DeepCopyObject ::
  "('o, 'l, 'j, 'x) library \<Rightarrow> 'o Deployer_mem option \<Rightarrow>
   ('o, 'j, 'x, ('o, 'l) runtime_object option) copying" where
  "Deployer_DeepCopyObject L p = bindG (Deployer_DeepCopy L p)
     (\<lambda>c. case c of Some y \<Rightarrow> returnG (Some (Deployer_object y)) | None \<Rightarrow> returnG None)"

definition Replication_DeepCopyObject ::
  "('o, 'l, 'j, 'x) library \<Rightarrow> 'o Replication_mem option \<Rightarrow>
   ('o, 'j, 'x, ('o, 'l) runtime_object option) copying" where
  "Replication_DeepCopyObject L p = bindG (Replication_DeepCopy L p)
     (\<lambda>c. case c of Some y \<Rightarrow> returnG (Some (Replication_object y)) | None \<Rightarrow> returnG None)"

definition Repository_DeepCopyObject ::
  "('o, 'l, 'j, 'x) library \<Rightarrow> 'o Repository_mem option \<Rightarrow>
   ('o, 'j, 'x, ('o, 'l) runtime_object option) copying" where
  "Repository_DeepCopyObject L p = bindG (Repository_DeepCopy L p)
     (\<lambda>c. case c of Some y \<Rightarrow> returnG (Some (Repository_object y)) | None \<Rightarrow> returnG None)"

definition Resource_DeepCopyObject ::
  "('o, 'l, 'j, 'x) library \<Rightarrow> 'o Resource_mem option \<Rightarrow>
   ('o, 'j, 'x, ('o, 'l) runtime_object option) copying" where
  "Resource_DeepCopyObject L p = bindG (Resource_DeepCopy L p)
     (\<lambda>c. case c of Some y \<Rightarrow> returnG (Some (Resource_object y)) | None \<Rightarrow> returnG None)"

definition ComponentList_DeepCopyObject ::
  "('o, 'l, 'j, 'x) library \<Rightarrow> 'l ComponentList_mem option \<Rightarrow>
   ('o, 'j, 'x, ('o, 'l) runtime_object option) copying" where
  "ComponentList_DeepCopyObject L p = bindG (ComponentList_DeepCopy L p)
     (\<lambda>c. case c of Some y \<Rightarrow> returnG (Some (ComponentList_object y)) | None \<Rightarrow> returnG None)"

definition DeployerList_DeepCopyObject ::
  "('o, 'l, 'j, 'x) library \<Rightarrow> 'l DeployerList_mem option \<Rightarrow>
   ('o, 'j, 'x, ('o, 'l) runtime_object option) copying" where
  "DeployerList_DeepCopyObject L p = bindG (DeployerList_DeepCopy L p)
     (\<lambda>c. case c of Some y \<Rightarrow> returnG (Some (DeployerList_object y)) | None \<Rightarrow> returnG None)"

definition ReplicationList_DeepCopyObject ::
  "('o, 'l, 'j, 'x) library \<Rightarrow> 'l ReplicationList_mem option \<Rightarrow>
   ('o, 'j, 'x, ('o, 'l) runtime_object option) copying" where
  "ReplicationList_DeepCopyObject L p = bindG (ReplicationList_DeepCopy L p)
     (\<lambda>c. case c of Some y \<Rightarrow> returnG (Some (ReplicationList_object y)) | None \<Rightarrow> returnG None)"

definition RepositoryList_DeepCopyObject ::
  "('o, 'l, 'j, 'x) library \<Rightarrow> 'l RepositoryList_mem option \<Rightarrow>
   ('o, 'j, 'x, ('o, 'l) runtime_object option) copying" where
  "RepositoryList_DeepCopyObject L p = bindG (RepositoryList_DeepCopy L p)
     (\<lambda>c. case c of Some y \<Rightarrow> returnG (Some (RepositoryList_object y)) | None \<Rightarrow> returnG None)"

definition ResourceList_DeepCopyObject ::
  "('o, 'l, 'j, 'x) library \<Rightarrow> 'l ResourceList_mem option \<Rightarrow>
   ('o, 'j, 'x, ('o, 'l) runtime_object option) copying" where
  "ResourceList_DeepCopyObject L p = bindG (ResourceList_DeepCopy L p)
     (\<lambda>c. case c of Some y \<Rightarrow> returnG (Some (ResourceList_object y)) | None \<Rightarrow> returnG None)"

end
