(* ===== verification/DeepCopyValues.thy ===== *)
theory DeepCopyValues
  imports DeepCopies
begin

text \<open>
  What the generated deep copies achieve: the value a structure in memory has (\<open>T_at\<close>), and that each
  \<open>T_DeepCopyInto\<close> is a deep copy of it, an instance of the locale \<open>deep_copy\<close>, when the copies of the
  library are (\<open>copy_contract\<close>). One proof serves all structures. A nil slice has the value of an empty
  one, as elsewhere in the development.
\<close>

section \<open>The values\<close>

type_synonym ('o, 'j, 'x, 'a, 'v) value_of = "(('o, 'j, 'x) cell, 'a, 'v) representation"

text \<open>An object or a list with its \<open>TypeMeta\<close>.\<close>

record 'v typed =
  td_TypeMeta :: TypeMeta
  td_value :: 'v

record ('m, 'v) typed_list =
  tl_TypeMeta :: TypeMeta
  tl_meta :: 'm
  tl_Items :: "'v list"

definition MergeAlgorithmSpecification_at ::
  "('o, 'j, 'x, 'j, JSON) value_of \<Rightarrow>
   ('o, 'j, 'x, 'j MergeAlgorithmSpecification_mem, MergeAlgorithmSpecification) value_of" where
  "MergeAlgorithmSpecification_at J mem S x v \<longleftrightarrow>
     m_ma_Algorithm x = ma_Algorithm v \<and>
     J mem S (m_ma_Config x) (ma_Config v)"

definition Label_at ::
  "('o, 'j, 'x, 'j, JSON) value_of \<Rightarrow> ('o, 'j, 'x, 'j Label_mem, Label) value_of" where
  "Label_at J mem S x v \<longleftrightarrow>
     m_lb_Name x = lb_Name v \<and>
     J mem S (m_lb_Value x) (lb_Value v) \<and>
     m_lb_Version x = lb_Version v \<and>
     m_lb_Signing x = lb_Signing v \<and>
     pointer_at Merges (MergeAlgorithmSpecification_at J) mem S (m_lb_Merge x) (lb_Merge v)"

definition ResourceReference_at ::
  "('o, 'j, 'x, ResourceReference_mem, ResourceReference) value_of" where
  "ResourceReference_at mem S x v \<longleftrightarrow>
     assoc_at StringMaps mem S (m_rr_Resource x) (rr_Resource v) \<and>
     slice_at Identities (assoc_at StringMaps) mem S (m_rr_ReferencePath x) (rr_ReferencePath v)"

definition ResourceID_at :: "('o, 'j, 'x, ResourceID_mem, ResourceID) value_of" where
  "ResourceID_at mem S x v \<longleftrightarrow>
     ResourceReference_at mem S (m_ByReference x) (ByReference v)"

definition ComponentInfo_at ::
  "('o, 'j, 'x, 'j, JSON) value_of \<Rightarrow> ('o, 'j, 'x, ComponentInfo_mem, ComponentInfo) value_of" where
  "ComponentInfo_at J mem S x v \<longleftrightarrow>
     pointer_at JSONs J mem S (m_ci_RepositorySpec x) (ci_RepositorySpec v) \<and>
     m_ci_Component x = ci_Component v \<and>
     m_ci_Version x = ci_Version v \<and>
     pointer_at Digests flat mem S (m_ci_Digest x) (ci_Digest v)"

definition ResourceInfo_at ::
  "('o, 'j, 'x, 'j, JSON) value_of \<Rightarrow> ('o, 'j, 'x, 'j ResourceInfo_mem, ResourceInfo) value_of" where
  "ResourceInfo_at J mem S x v \<longleftrightarrow>
     m_ri_Name x = ri_Name v \<and>
     m_ri_Type x = ri_Type v \<and>
     m_ri_Version x = ri_Version v \<and>
     assoc_at StringMaps mem S (m_ri_ExtraIdentity x) (ri_ExtraIdentity v) \<and>
     J mem S (m_ri_Access x) (ri_Access v) \<and>
     m_ri_Digest x = ri_Digest v \<and>
     slice_at Labels (Label_at J) mem S (m_ri_Labels x) (ri_Labels v)"

definition RepositorySpec_at ::
  "('o, 'j, 'x, 'j, JSON) value_of \<Rightarrow> ('o, 'j, 'x, RepositorySpec_mem, RepositorySpec) value_of" where
  "RepositorySpec_at J mem S x v \<longleftrightarrow>
     pointer_at JSONs J mem S (m_rs_RepositorySpec x) (rs_RepositorySpec v) \<and>
     slice_at Configs flat mem S (m_rs_OCMConfig x) (rs_OCMConfig v) \<and>
     m_rs_Interval x = rs_Interval v \<and>
     m_rs_Suspend x = rs_Suspend v"

definition RepositoryStatus_at ::
  "('o, 'j, 'x, RepositoryStatus_mem, RepositoryStatus) value_of" where
  "RepositoryStatus_at mem S x v \<longleftrightarrow>
     m_rst_ObservedGeneration x = rst_ObservedGeneration v \<and>
     slice_at Conditions flat mem S (m_rst_Conditions x) (rst_Conditions v) \<and>
     slice_at Configs flat mem S (m_rst_EffectiveOCMConfig x) (rst_EffectiveOCMConfig v)"

definition ComponentSpec_at :: "('o, 'j, 'x, ComponentSpec_mem, ComponentSpec) value_of" where
  "ComponentSpec_at mem S x v \<longleftrightarrow>
     m_cs_RepositoryRef_Name x = cs_RepositoryRef_Name v \<and>
     m_cs_Component x = cs_Component v \<and>
     m_cs_DowngradePolicy x = cs_DowngradePolicy v \<and>
     m_cs_Semver x = cs_Semver v \<and>
     m_cs_SemverFilter x = cs_SemverFilter v \<and>
     slice_at Verifications flat mem S (m_cs_Verify x) (cs_Verify v) \<and>
     slice_at Configs flat mem S (m_cs_OCMConfig x) (cs_OCMConfig v) \<and>
     m_cs_Interval x = cs_Interval v \<and>
     m_cs_Suspend x = cs_Suspend v"

definition ComponentStatus_at ::
  "('o, 'j, 'x, 'j, JSON) value_of \<Rightarrow> ('o, 'j, 'x, ComponentStatus_mem, ComponentStatus) value_of" where
  "ComponentStatus_at J mem S x v \<longleftrightarrow>
     m_cst_ObservedGeneration x = cst_ObservedGeneration v \<and>
     slice_at Conditions flat mem S (m_cst_Conditions x) (cst_Conditions v) \<and>
     ComponentInfo_at J mem S (m_cst_Component x) (cst_Component v) \<and>
     slice_at Configs flat mem S (m_cst_EffectiveOCMConfig x) (cst_EffectiveOCMConfig v)"

definition ResourceSpec_at :: "('o, 'j, 'x, ResourceSpec_mem, ResourceSpec) value_of" where
  "ResourceSpec_at mem S x v \<longleftrightarrow>
     m_rsp_ComponentRef_Name x = rsp_ComponentRef_Name v \<and>
     ResourceID_at mem S (m_rsp_Resource x) (rsp_Resource v) \<and>
     slice_at Configs flat mem S (m_rsp_OCMConfig x) (rsp_OCMConfig v) \<and>
     m_rsp_SkipVerify x = rsp_SkipVerify v \<and>
     m_rsp_Interval x = rsp_Interval v \<and>
     m_rsp_Suspend x = rsp_Suspend v \<and>
     assoc_at StringMaps mem S (m_rsp_AdditionalStatusFields x) (rsp_AdditionalStatusFields v)"

definition ResourceStatus_at ::
  "('o, 'j, 'x, 'j, JSON) value_of \<Rightarrow> ('o, 'j, 'x, ResourceStatus_mem, ResourceStatus) value_of" where
  "ResourceStatus_at J mem S x v \<longleftrightarrow>
     m_rss_ObservedGeneration x = rss_ObservedGeneration v \<and>
     slice_at Conditions flat mem S (m_rss_Conditions x) (rss_Conditions v) \<and>
     pointer_at ResourceInfos (ResourceInfo_at J) mem S (m_rss_Resource x) (rss_Resource v) \<and>
     pointer_at ComponentInfos (ComponentInfo_at J) mem S (m_rss_Component x) (rss_Component v) \<and>
     slice_at Configs flat mem S (m_rss_EffectiveOCMConfig x) (rss_EffectiveOCMConfig v) \<and>
     table_at JSONMaps J mem S (m_rss_Additional x) (rss_Additional v)"

definition DeployerSpec_at :: "('o, 'j, 'x, DeployerSpec_mem, DeployerSpec) value_of" where
  "DeployerSpec_at mem S x v \<longleftrightarrow>
     m_dsp_ResourceRef x = dsp_ResourceRef v \<and>
     slice_at Configs flat mem S (m_dsp_OCMConfig x) (dsp_OCMConfig v) \<and>
     m_dsp_Suspend x = dsp_Suspend v"

definition DeployerStatus_at :: "('o, 'j, 'x, DeployerStatus_mem, DeployerStatus) value_of" where
  "DeployerStatus_at mem S x v \<longleftrightarrow>
     m_dst_ObservedGeneration x = dst_ObservedGeneration v \<and>
     slice_at Conditions flat mem S (m_dst_Conditions x) (dst_Conditions v) \<and>
     slice_at Configs flat mem S (m_dst_EffectiveOCMConfig x) (dst_EffectiveOCMConfig v) \<and>
     slice_at References flat mem S (m_dst_Deployed x) (dst_Deployed v)"

definition ReplicationSpec_at ::
  "('o, 'j, 'x, ReplicationSpec_mem, ReplicationSpec) value_of" where
  "ReplicationSpec_at mem S x v \<longleftrightarrow>
     m_rpl_ComponentRef x = rpl_ComponentRef v \<and>
     m_rpl_TargetRepositoryRef x = rpl_TargetRepositoryRef v \<and>
     m_rpl_Interval x = rpl_Interval v \<and>
     m_rpl_Suspend x = rpl_Suspend v \<and>
     m_rpl_HistoryCapacity x = rpl_HistoryCapacity v \<and>
     slice_at Verifications flat mem S (m_rpl_Verify x) (rpl_Verify v) \<and>
     slice_at Configs flat mem S (m_rpl_OCMConfig x) (rpl_OCMConfig v)"

definition ReplicationStatus_at ::
  "('o, 'j, 'x, ReplicationStatus_mem, ReplicationStatus) value_of" where
  "ReplicationStatus_at mem S x v \<longleftrightarrow>
     slice_at Histories flat mem S (m_rpt_History x) (rpt_History v) \<and>
     m_rpt_ObservedGeneration x = rpt_ObservedGeneration v \<and>
     slice_at Conditions flat mem S (m_rpt_Conditions x) (rpt_Conditions v) \<and>
     slice_at Configs flat mem S (m_rpt_EffectiveOCMConfig x) (rpt_EffectiveOCMConfig v)"

definition Component_at ::
  "('o, 'j, 'x, 'o, ObjectMeta) value_of \<Rightarrow> ('o, 'j, 'x, 'j, JSON) value_of \<Rightarrow>
   ('o, 'j, 'x, 'o Component_mem, Component typed) value_of" where
  "Component_at OM J mem S x v \<longleftrightarrow>
     m_comp_TypeMeta x = td_TypeMeta v \<and>
     OM mem S (m_comp_meta x) (comp_meta (td_value v)) \<and>
     ComponentSpec_at mem S (m_comp_Spec x) (comp_Spec (td_value v)) \<and>
     ComponentStatus_at J mem S (m_comp_Status x) (comp_Status (td_value v))"

definition Deployer_at ::
  "('o, 'j, 'x, 'o, ObjectMeta) value_of \<Rightarrow> ('o, 'j, 'x, 'o Deployer_mem, Deployer typed) value_of" where
  "Deployer_at OM mem S x v \<longleftrightarrow>
     m_dep_TypeMeta x = td_TypeMeta v \<and>
     OM mem S (m_dep_meta x) (dep_meta (td_value v)) \<and>
     DeployerSpec_at mem S (m_dep_Spec x) (dep_Spec (td_value v)) \<and>
     DeployerStatus_at mem S (m_dep_Status x) (dep_Status (td_value v))"

definition Replication_at ::
  "('o, 'j, 'x, 'o, ObjectMeta) value_of \<Rightarrow>
   ('o, 'j, 'x, 'o Replication_mem, Replication typed) value_of" where
  "Replication_at OM mem S x v \<longleftrightarrow>
     m_repl_TypeMeta x = td_TypeMeta v \<and>
     OM mem S (m_repl_meta x) (repl_meta (td_value v)) \<and>
     ReplicationSpec_at mem S (m_repl_Spec x) (repl_Spec (td_value v)) \<and>
     ReplicationStatus_at mem S (m_repl_Status x) (repl_Status (td_value v))"

definition Repository_at ::
  "('o, 'j, 'x, 'o, ObjectMeta) value_of \<Rightarrow> ('o, 'j, 'x, 'j, JSON) value_of \<Rightarrow>
   ('o, 'j, 'x, 'o Repository_mem, Repository typed) value_of" where
  "Repository_at OM J mem S x v \<longleftrightarrow>
     m_repo_TypeMeta x = td_TypeMeta v \<and>
     OM mem S (m_repo_meta x) (repo_meta (td_value v)) \<and>
     RepositorySpec_at J mem S (m_repo_Spec x) (repo_Spec (td_value v)) \<and>
     RepositoryStatus_at mem S (m_repo_Status x) (repo_Status (td_value v))"

definition Resource_at ::
  "('o, 'j, 'x, 'o, ObjectMeta) value_of \<Rightarrow> ('o, 'j, 'x, 'j, JSON) value_of \<Rightarrow>
   ('o, 'j, 'x, 'o Resource_mem, Resource typed) value_of" where
  "Resource_at OM J mem S x v \<longleftrightarrow>
     m_res_TypeMeta x = td_TypeMeta v \<and>
     OM mem S (m_res_meta x) (res_meta (td_value v)) \<and>
     ResourceSpec_at mem S (m_res_Spec x) (res_Spec (td_value v)) \<and>
     ResourceStatus_at J mem S (m_res_Status x) (res_Status (td_value v))"

definition ComponentList_at ::
  "('o, 'j, 'x, 'o, ObjectMeta) value_of \<Rightarrow> ('o, 'j, 'x, 'l, 'm) value_of \<Rightarrow> ('o, 'j, 'x, 'j, JSON) value_of \<Rightarrow>
   ('o, 'j, 'x, 'l ComponentList_mem, ('m, Component typed) typed_list) value_of" where
  "ComponentList_at OM LM J mem S x v \<longleftrightarrow>
     m_compl_TypeMeta x = tl_TypeMeta v \<and>
     LM mem S (m_compl_meta x) (tl_meta v) \<and>
     slice_at Components (Component_at OM J) mem S (m_compl_Items x) (tl_Items v)"

definition DeployerList_at ::
  "('o, 'j, 'x, 'o, ObjectMeta) value_of \<Rightarrow> ('o, 'j, 'x, 'l, 'm) value_of \<Rightarrow>
   ('o, 'j, 'x, 'l DeployerList_mem, ('m, Deployer typed) typed_list) value_of" where
  "DeployerList_at OM LM mem S x v \<longleftrightarrow>
     m_depl_TypeMeta x = tl_TypeMeta v \<and>
     LM mem S (m_depl_meta x) (tl_meta v) \<and>
     slice_at Deployers (Deployer_at OM) mem S (m_depl_Items x) (tl_Items v)"

definition ReplicationList_at ::
  "('o, 'j, 'x, 'o, ObjectMeta) value_of \<Rightarrow> ('o, 'j, 'x, 'l, 'm) value_of \<Rightarrow>
   ('o, 'j, 'x, 'l ReplicationList_mem, ('m, Replication typed) typed_list) value_of" where
  "ReplicationList_at OM LM mem S x v \<longleftrightarrow>
     m_repll_TypeMeta x = tl_TypeMeta v \<and>
     LM mem S (m_repll_meta x) (tl_meta v) \<and>
     slice_at Replications (Replication_at OM) mem S (m_repll_Items x) (tl_Items v)"

definition RepositoryList_at ::
  "('o, 'j, 'x, 'o, ObjectMeta) value_of \<Rightarrow> ('o, 'j, 'x, 'l, 'm) value_of \<Rightarrow> ('o, 'j, 'x, 'j, JSON) value_of \<Rightarrow>
   ('o, 'j, 'x, 'l RepositoryList_mem, ('m, Repository typed) typed_list) value_of" where
  "RepositoryList_at OM LM J mem S x v \<longleftrightarrow>
     m_repol_TypeMeta x = tl_TypeMeta v \<and>
     LM mem S (m_repol_meta x) (tl_meta v) \<and>
     slice_at Repositories (Repository_at OM J) mem S (m_repol_Items x) (tl_Items v)"

definition ResourceList_at ::
  "('o, 'j, 'x, 'o, ObjectMeta) value_of \<Rightarrow> ('o, 'j, 'x, 'l, 'm) value_of \<Rightarrow> ('o, 'j, 'x, 'j, JSON) value_of \<Rightarrow>
   ('o, 'j, 'x, 'l ResourceList_mem, ('m, Resource typed) typed_list) value_of" where
  "ResourceList_at OM LM J mem S x v \<longleftrightarrow>
     m_resl_TypeMeta x = tl_TypeMeta v \<and>
     LM mem S (m_resl_meta x) (tl_meta v) \<and>
     slice_at Resources (Resource_at OM J) mem S (m_resl_Items x) (tl_Items v)"

section \<open>They are deep copies\<close>

text \<open>
  What the library promises: its methods are deep copies of their types. A condition and a time
  have no references that could be written through.
\<close>

definition copy_contract ::
  "('o, 'l, 'j, 'x) library \<Rightarrow> ('o, 'j, 'x, 'o, ObjectMeta) value_of \<Rightarrow> ('o, 'j, 'x, 'l, 'm) value_of \<Rightarrow>
   ('o, 'j, 'x, 'j, JSON) value_of \<Rightarrow> bool" where
  "copy_contract L OM LM J \<longleftrightarrow>
     deep_copy OM (ObjectMeta_DeepCopyInto L) \<and> deep_copy LM (ListMeta_DeepCopyInto L) \<and>
     deep_copy J (JSON_DeepCopyInto L) \<and> deep_copy J (JSON_DeepCopy L) \<and>
     deep_copy flat (Condition_DeepCopyInto L) \<and> deep_copy flat (Time_DeepCopyInto L)"

lemma contract_copies:
  assumes "copy_contract L OM LM J"
  shows "deep_copy OM (ObjectMeta_DeepCopyInto L)" "deep_copy LM (ListMeta_DeepCopyInto L)"
    "deep_copy J (JSON_DeepCopyInto L)" "deep_copy J (JSON_DeepCopy L)"
    "deep_copy flat (Condition_DeepCopyInto L)" "deep_copy flat (Time_DeepCopyInto L)"
  using assms by (simp_all add: copy_contract_def)

lemmas contract_stables = contract_copies [THEN deep_copy.stable]

named_theorems copies "what is a deep copy of what"
named_theorems stables "representations depend on the cells they name only"

declare gotypes_ok [copies] deep_copy_flat [copies] deep_copy_pointer [copies] deep_copy_slice [copies]
  deep_copy_slice_each [copies] deep_copy_assoc [copies] deep_copy_table [copies]

declare deep_copy.stable [OF deep_copy_pointer, stables] deep_copy.stable [OF deep_copy_slice, stables]
  deep_copy.stable [OF deep_copy_slice_each, stables] deep_copy.stable [OF deep_copy_assoc, stables]
  deep_copy.stable [OF deep_copy_table, stables]

text \<open>
  A structure: its value does not change with cells elsewhere, by the same of its fields, and the
  fields are copied one after the other.
\<close>

lemma deep_copy_TransferStatus [copies]:
  assumes "copy_contract L OM LM J"
  shows "deep_copy flat (TransferStatus_DeepCopyInto L)"
  unfolding TransferStatus_DeepCopyInto_def
  by (rule deep_copyI)
     (simp add: flat_def, (rule runs_copy, rule contract_copies [OF assms], simp (no_asm) add: flat_def,
        assumption, (assumption | rule prefix_order.refl))+, rule runs_return, simp add: flat_def,
      (drule meta_spec, drule meta_mp, rule prefix_order.refl)+, simp)

lemma flat_copied [copies]:
  "deep_copy flat OCMConfiguration_DeepCopyInto"
  "deep_copy flat ObjectKey_DeepCopyInto"
  "deep_copy flat Verification_DeepCopyInto"
  "deep_copy flat DeployedObjectReference_DeepCopyInto"
  unfolding OCMConfiguration_DeepCopyInto_def [abs_def] ObjectKey_DeepCopyInto_def [abs_def]
    Verification_DeepCopyInto_def [abs_def] DeployedObjectReference_DeepCopyInto_def [abs_def] by (rule deep_copy_flat)+

text \<open>The structures in the order in which they contain each other.\<close>

lemma references_copied [copies]:
  "deep_copy ResourceReference_at ResourceReference_DeepCopyInto"
  unfolding ResourceReference_at_def [abs_def] ResourceReference_DeepCopyInto_def
  by (rule deep_copyI, (elim conjE)?, (intro conjI)?, (assumption | rule stables copies)+,
      (elim conjE)?, (rule runs_copy, (rule copies)+, assumption, assumption,
        (assumption | rule prefix_order.refl))+, rule runs_return, simp)+

declare references_copied [THEN deep_copy.stable, stables]

lemma identifiers_copied [copies]:
  "deep_copy ResourceID_at ResourceID_DeepCopyInto"
  unfolding ResourceID_at_def [abs_def] ResourceID_DeepCopyInto_def
  by (rule deep_copyI, (elim conjE)?, (intro conjI)?, (assumption | rule stables copies)+,
      (elim conjE)?, (rule runs_copy, (rule copies)+, assumption, assumption,
        (assumption | rule prefix_order.refl))+, rule runs_return, simp)+

declare identifiers_copied [THEN deep_copy.stable, stables]

lemma specs_copied [copies]:
  "deep_copy ComponentSpec_at ComponentSpec_DeepCopyInto"
  "deep_copy ResourceSpec_at ResourceSpec_DeepCopyInto"
  "deep_copy DeployerSpec_at DeployerSpec_DeepCopyInto"
  "deep_copy ReplicationSpec_at ReplicationSpec_DeepCopyInto"
  unfolding ComponentSpec_at_def [abs_def] ComponentSpec_DeepCopyInto_def ResourceSpec_at_def [abs_def]
    ResourceSpec_DeepCopyInto_def DeployerSpec_at_def [abs_def] DeployerSpec_DeepCopyInto_def
    ReplicationSpec_at_def [abs_def] ReplicationSpec_DeepCopyInto_def
  by (rule deep_copyI, (elim conjE)?, (intro conjI)?, (assumption | rule stables copies)+,
      (elim conjE)?, (rule runs_copy, (rule copies)+, assumption, assumption,
        (assumption | rule prefix_order.refl))+, rule runs_return, simp)+

declare specs_copied [THEN deep_copy.stable, stables]

lemma infos_copied [copies]:
  assumes "copy_contract L OM LM J"
  shows "deep_copy (MergeAlgorithmSpecification_at J) (MergeAlgorithmSpecification_DeepCopyInto L)"
    "deep_copy (ComponentInfo_at J) (ComponentInfo_DeepCopyInto L)"
    "deep_copy (RepositorySpec_at J) (RepositorySpec_DeepCopyInto L)"
  unfolding MergeAlgorithmSpecification_at_def [abs_def] MergeAlgorithmSpecification_DeepCopyInto_def
    ComponentInfo_at_def [abs_def] ComponentInfo_DeepCopyInto_def RepositorySpec_at_def [abs_def]
    RepositorySpec_DeepCopyInto_def
  by (rule deep_copyI, (elim conjE)?, (intro conjI)?, (assumption | rule stables copies assms contract_copies [OF assms] contract_stables [OF assms])+,
      (elim conjE)?, (rule runs_copy, (rule copies assms contract_copies [OF assms])+, assumption, assumption,
        (assumption | rule prefix_order.refl))+, rule runs_return, simp)+

declare infos_copied [THEN deep_copy.stable, stables]

lemma labels_copied [copies]:
  assumes "copy_contract L OM LM J"
  shows "deep_copy (Label_at J) (Label_DeepCopyInto L)"
  unfolding Label_at_def [abs_def] Label_DeepCopyInto_def
  by (rule deep_copyI, (elim conjE)?, (intro conjI)?, (assumption | rule stables copies assms contract_copies [OF assms] contract_stables [OF assms])+,
      (elim conjE)?, (rule runs_copy, (rule copies assms contract_copies [OF assms])+, assumption, assumption,
        (assumption | rule prefix_order.refl))+, rule runs_return, simp)+

declare labels_copied [THEN deep_copy.stable, stables]

lemma resource_info_copied [copies]:
  assumes "copy_contract L OM LM J"
  shows "deep_copy (ResourceInfo_at J) (ResourceInfo_DeepCopyInto L)"
  unfolding ResourceInfo_at_def [abs_def] ResourceInfo_DeepCopyInto_def
  by (rule deep_copyI, (elim conjE)?, (intro conjI)?, (assumption | rule stables copies assms contract_copies [OF assms] contract_stables [OF assms])+,
      (elim conjE)?, (rule runs_copy, (rule copies assms contract_copies [OF assms])+, assumption, assumption,
        (assumption | rule prefix_order.refl))+, rule runs_return, simp)+

declare resource_info_copied [THEN deep_copy.stable, stables]

lemma statuses_copied [copies]:
  assumes "copy_contract L OM LM J"
  shows "deep_copy (ComponentStatus_at J) (ComponentStatus_DeepCopyInto L)"
    "deep_copy (ResourceStatus_at J) (ResourceStatus_DeepCopyInto L)"
    "deep_copy DeployerStatus_at (DeployerStatus_DeepCopyInto L)"
    "deep_copy ReplicationStatus_at (ReplicationStatus_DeepCopyInto L)"
    "deep_copy RepositoryStatus_at (RepositoryStatus_DeepCopyInto L)"
  unfolding ComponentStatus_at_def [abs_def] ComponentStatus_DeepCopyInto_def ResourceStatus_at_def
    [abs_def] ResourceStatus_DeepCopyInto_def DeployerStatus_at_def [abs_def]
    DeployerStatus_DeepCopyInto_def ReplicationStatus_at_def [abs_def]
    ReplicationStatus_DeepCopyInto_def RepositoryStatus_at_def [abs_def]
    RepositoryStatus_DeepCopyInto_def
  by (rule deep_copyI, (elim conjE)?, (intro conjI)?, (assumption | rule stables copies assms contract_copies [OF assms] contract_stables [OF assms])+,
      (elim conjE)?, (rule runs_copy, (rule copies assms contract_copies [OF assms])+, assumption, assumption,
        (assumption | rule prefix_order.refl))+, rule runs_return, simp)+

declare statuses_copied [THEN deep_copy.stable, stables]

lemma objects_copied [copies]:
  assumes "copy_contract L OM LM J"
  shows "deep_copy (Component_at OM J) (Component_DeepCopyInto L)"
    "deep_copy (Deployer_at OM) (Deployer_DeepCopyInto L)"
    "deep_copy (Replication_at OM) (Replication_DeepCopyInto L)"
    "deep_copy (Repository_at OM J) (Repository_DeepCopyInto L)"
    "deep_copy (Resource_at OM J) (Resource_DeepCopyInto L)"
  unfolding Component_at_def [abs_def] Component_DeepCopyInto_def Deployer_at_def [abs_def]
    Deployer_DeepCopyInto_def Replication_at_def [abs_def] Replication_DeepCopyInto_def
    Repository_at_def [abs_def] Repository_DeepCopyInto_def Resource_at_def [abs_def]
    Resource_DeepCopyInto_def
  by (rule deep_copyI, (elim conjE)?, (intro conjI)?, (assumption | rule stables copies assms contract_copies [OF assms] contract_stables [OF assms])+,
      (elim conjE)?, (rule runs_copy, (rule copies assms contract_copies [OF assms])+, assumption, assumption,
        (assumption | rule prefix_order.refl))+, rule runs_return, simp)+

declare objects_copied [THEN deep_copy.stable, stables]

lemma lists_copied [copies]:
  assumes "copy_contract L OM LM J"
  shows "deep_copy (ComponentList_at OM LM J) (ComponentList_DeepCopyInto L)"
    "deep_copy (DeployerList_at OM LM) (DeployerList_DeepCopyInto L)"
    "deep_copy (ReplicationList_at OM LM) (ReplicationList_DeepCopyInto L)"
    "deep_copy (RepositoryList_at OM LM J) (RepositoryList_DeepCopyInto L)"
    "deep_copy (ResourceList_at OM LM J) (ResourceList_DeepCopyInto L)"
  unfolding ComponentList_at_def [abs_def] ComponentList_DeepCopyInto_def DeployerList_at_def [abs_def]
    DeployerList_DeepCopyInto_def ReplicationList_at_def [abs_def] ReplicationList_DeepCopyInto_def
    RepositoryList_at_def [abs_def] RepositoryList_DeepCopyInto_def ResourceList_at_def [abs_def]
    ResourceList_DeepCopyInto_def
  by (rule deep_copyI, (elim conjE)?, (intro conjI)?, (assumption | rule stables copies assms contract_copies [OF assms] contract_stables [OF assms])+,
      (elim conjE)?, (rule runs_copy, (rule copies assms contract_copies [OF assms])+, assumption, assumption,
        (assumption | rule prefix_order.refl))+, rule runs_return, simp)+

text \<open>The structures that need nothing of the library are deep copies as they are.\<close>

interpretation configuration_copy: deep_copy flat OCMConfiguration_DeepCopyInto
  by (rule flat_copied)

interpretation component_spec_copy: deep_copy ComponentSpec_at ComponentSpec_DeepCopyInto
  by (rule specs_copied)

interpretation resource_spec_copy: deep_copy ResourceSpec_at ResourceSpec_DeepCopyInto
  by (rule specs_copied)

interpretation deployer_spec_copy: deep_copy DeployerSpec_at DeployerSpec_DeepCopyInto
  by (rule specs_copied)

interpretation replication_spec_copy: deep_copy ReplicationSpec_at ReplicationSpec_DeepCopyInto
  by (rule specs_copied)

section \<open>Copies and originals are separate\<close>

text \<open>
  \<open>separate_copies r copy obj\<close>: \<open>copy\<close> gives nil for nil; otherwise it returns an \<open>obj\<close> with the value of
  the original, which lies in cells \<open>T\<close> that the original does not have. Whatever is written later
  outside of \<open>T\<close>, so through the original, leaves the value of the copy, and whatever is written
  outside of \<open>S\<close>, so through the copy, leaves that of the original.
\<close>

definition separate_copies ::
  "('c, 'a, 'v) representation \<Rightarrow> ('a option \<Rightarrow> ('c list, 'b option) go) \<Rightarrow> ('a \<Rightarrow> 'b) \<Rightarrow> bool" where
  "separate_copies r copy obj \<longleftrightarrow> (\<forall>mem. copy None mem = (Ret None, mem)) \<and>
     (\<forall>mem S x v. r mem S x v \<longrightarrow> S \<subseteq> {..<length mem} \<longrightarrow>
       (\<exists>y mem' T. copy (Some x) mem = (Ret (Some (obj y)), mem') \<and> S \<inter> T = {} \<and>
          (\<forall>mem''. agree T mem' mem'' \<longrightarrow> r mem'' T y v) \<and>
          (\<forall>mem''. agree S mem' mem'' \<longrightarrow> r mem'' S x v)))"

lemma separate_copiesI:
  assumes c: "deep_copy r c"
    and copy: "\<And>p. copy p = bindG (copy_new c p)
      (\<lambda>q. case q of Some y \<Rightarrow> returnG (Some (obj y)) | None \<Rightarrow> returnG None)"
  shows "separate_copies r copy obj"
  unfolding separate_copies_def
proof (intro conjI allI impI)
  show "copy None mem = (Ret None, mem)" for mem
    by (simp add: copy copy_new_def bindG_def returnG_def)
next
  fix mem S x v
  assume x: "r mem S x v" and S: "S \<subseteq> {..<length mem}"
  show "\<exists>y mem' T. copy (Some x) mem = (Ret (Some (obj y)), mem') \<and> S \<inter> T = {} \<and>
      (\<forall>mem''. agree T mem' mem'' \<longrightarrow> r mem'' T y v) \<and> (\<forall>mem''. agree S mem' mem'' \<longrightarrow> r mem'' S x v)"
  proof (rule deep_copy.independent [OF c x S])
    fix y mem'
    assume run: "c x mem = (Ret y, mem')"
      and y: "\<And>mem''. agree {length mem..<length mem'} mem' mem'' \<Longrightarrow> r mem'' {length mem..<length mem'} y v"
      and o: "\<And>mem''. agree S mem' mem'' \<Longrightarrow> r mem'' S x v" and d: "S \<inter> {length mem..<length mem'} = {}"
    from run have "copy (Some x) mem = (Ret (Some (obj y)), mem')"
      by (simp add: copy copy_new_def bindG_def returnG_def)
    with y o d show ?thesis by blast
  qed
qed

lemma separate_copiesE:
  assumes "separate_copies r copy obj" and "r mem S x v" and "S \<subseteq> {..<length mem}"
  obtains y mem' T where "copy (Some x) mem = (Ret (Some (obj y)), mem')" and "S \<inter> T = {}"
    and "\<And>mem''. agree T mem' mem'' \<Longrightarrow> r mem'' T y v" and "\<And>mem''. agree S mem' mem'' \<Longrightarrow> r mem'' S x v"
proof -
  have "\<exists>y mem' T. copy (Some x) mem = (Ret (Some (obj y)), mem') \<and> S \<inter> T = {} \<and>
      (\<forall>mem''. agree T mem' mem'' \<longrightarrow> r mem'' T y v) \<and> (\<forall>mem''. agree S mem' mem'' \<longrightarrow> r mem'' S x v)"
    using assms by (simp add: separate_copies_def)
  then show thesis by (elim exE conjE) (rule that, assumption, assumption, (erule allE, erule mp, assumption)+)
qed

text \<open>\<open>DeepCopy\<close> of the structures that objects are made of.\<close>

lemma copy_new_separate: "deep_copy r c \<Longrightarrow> separate_copies r (copy_new c) (\<lambda>y. y)"
  by (rule separate_copiesI) (auto simp: bindG_def returnG_def fun_eq_iff split: prod.splits outcome.splits option.splits)

lemma structures_are_separate:
  assumes "copy_contract L OM LM J"
  shows "separate_copies flat OCMConfiguration_DeepCopy (\<lambda>y. y)"
    "separate_copies flat ObjectKey_DeepCopy (\<lambda>y. y)"
    "separate_copies flat Verification_DeepCopy (\<lambda>y. y)"
    "separate_copies flat DeployedObjectReference_DeepCopy (\<lambda>y. y)"
    "separate_copies flat (TransferStatus_DeepCopy L) (\<lambda>y. y)"
    "separate_copies (MergeAlgorithmSpecification_at J) (MergeAlgorithmSpecification_DeepCopy L) (\<lambda>y. y)"
    "separate_copies (Label_at J) (Label_DeepCopy L) (\<lambda>y. y)"
    "separate_copies ResourceReference_at ResourceReference_DeepCopy (\<lambda>y. y)"
    "separate_copies ResourceID_at ResourceID_DeepCopy (\<lambda>y. y)"
    "separate_copies (ComponentInfo_at J) (ComponentInfo_DeepCopy L) (\<lambda>y. y)"
    "separate_copies (ResourceInfo_at J) (ResourceInfo_DeepCopy L) (\<lambda>y. y)"
    "separate_copies (RepositorySpec_at J) (RepositorySpec_DeepCopy L) (\<lambda>y. y)"
    "separate_copies RepositoryStatus_at (RepositoryStatus_DeepCopy L) (\<lambda>y. y)"
    "separate_copies ComponentSpec_at ComponentSpec_DeepCopy (\<lambda>y. y)"
    "separate_copies (ComponentStatus_at J) (ComponentStatus_DeepCopy L) (\<lambda>y. y)"
    "separate_copies ResourceSpec_at ResourceSpec_DeepCopy (\<lambda>y. y)"
    "separate_copies (ResourceStatus_at J) (ResourceStatus_DeepCopy L) (\<lambda>y. y)"
    "separate_copies DeployerSpec_at DeployerSpec_DeepCopy (\<lambda>y. y)"
    "separate_copies DeployerStatus_at (DeployerStatus_DeepCopy L) (\<lambda>y. y)"
    "separate_copies ReplicationSpec_at ReplicationSpec_DeepCopy (\<lambda>y. y)"
    "separate_copies ReplicationStatus_at (ReplicationStatus_DeepCopy L) (\<lambda>y. y)"
  unfolding OCMConfiguration_DeepCopy_def ObjectKey_DeepCopy_def Verification_DeepCopy_def
    DeployedObjectReference_DeepCopy_def TransferStatus_DeepCopy_def
    MergeAlgorithmSpecification_DeepCopy_def Label_DeepCopy_def ResourceReference_DeepCopy_def
    ResourceID_DeepCopy_def ComponentInfo_DeepCopy_def ResourceInfo_DeepCopy_def
    RepositorySpec_DeepCopy_def RepositoryStatus_DeepCopy_def ComponentSpec_DeepCopy_def
    ComponentStatus_DeepCopy_def ResourceSpec_DeepCopy_def ResourceStatus_DeepCopy_def
    DeployerSpec_DeepCopy_def DeployerStatus_DeepCopy_def ReplicationSpec_DeepCopy_def
    ReplicationStatus_DeepCopy_def
  by (rule copy_new_separate, (rule copies assms)+)+

lemmas DeepCopyObject_defs =
    Component_DeepCopyObject_def Component_DeepCopy_def Deployer_DeepCopyObject_def
    Deployer_DeepCopy_def Replication_DeepCopyObject_def Replication_DeepCopy_def
    Repository_DeepCopyObject_def Repository_DeepCopy_def Resource_DeepCopyObject_def
    Resource_DeepCopy_def ComponentList_DeepCopyObject_def ComponentList_DeepCopy_def
    DeployerList_DeepCopyObject_def DeployerList_DeepCopy_def ReplicationList_DeepCopyObject_def
    ReplicationList_DeepCopy_def RepositoryList_DeepCopyObject_def RepositoryList_DeepCopy_def
    ResourceList_DeepCopyObject_def ResourceList_DeepCopy_def

text \<open>
  C21: Nothing is shared between an object and its deep copy. For each of the five kinds and their
  lists, \<open>DeepCopyObject\<close> returns for nil the nil interface, and otherwise a new object of the same type with
  the same value: what is written later through the original, in its specification, its status or
  its metadata, does not change the copy, and the other way round. The library is assumed to do the
  same for the types it defines.
\<close>

theorem deep_copies_are_separate:
  assumes "copy_contract L OM LM J"
  shows "separate_copies (Component_at OM J) (Component_DeepCopyObject L) Component_object \<and>
    separate_copies (Deployer_at OM) (Deployer_DeepCopyObject L) Deployer_object \<and>
    separate_copies (Replication_at OM) (Replication_DeepCopyObject L) Replication_object \<and>
    separate_copies (Repository_at OM J) (Repository_DeepCopyObject L) Repository_object \<and>
    separate_copies (Resource_at OM J) (Resource_DeepCopyObject L) Resource_object \<and>
    separate_copies (ComponentList_at OM LM J) (ComponentList_DeepCopyObject L) ComponentList_object \<and>
    separate_copies (DeployerList_at OM LM) (DeployerList_DeepCopyObject L) DeployerList_object \<and>
    separate_copies (ReplicationList_at OM LM) (ReplicationList_DeepCopyObject L) ReplicationList_object \<and>
    separate_copies (RepositoryList_at OM LM J) (RepositoryList_DeepCopyObject L) RepositoryList_object \<and>
    separate_copies (ResourceList_at OM LM J) (ResourceList_DeepCopyObject L) ResourceList_object"
  by (intro conjI; rule separate_copiesI, (rule copies assms)+, simp only: DeepCopyObject_defs)

text \<open>
  An example of the library: the metadata of an object has a slice of finalizers, that of a list is its
  resource version, and JSON is a slice of bytes.
\<close>

type_synonym cell_example = "(address option, address option, string list + string) cell"

definition finalizers_example :: "(cell_example, string list) gotype" where
  "finalizers_example = \<lparr>wrap = LibCell \<circ> Inl,
     unwrap = (\<lambda>c. case c of LibCell (Inl x) \<Rightarrow> Some x | _ \<Rightarrow> None)\<rparr>"

definition bytes_example :: "(cell_example, string) gotype" where
  "bytes_example = \<lparr>wrap = LibCell \<circ> Inr,
     unwrap = (\<lambda>c. case c of LibCell (Inr x) \<Rightarrow> Some x | _ \<Rightarrow> None)\<rparr>"

definition copies_example ::
  "(address option, string, address option, string list + string) library" where
  "copies_example = \<lparr>ObjectMeta_DeepCopyInto = copy_slice finalizers_example [],
     ListMeta_DeepCopyInto = returnG, JSON_DeepCopyInto = copy_slice bytes_example (CHR 0x00),
     JSON_DeepCopy = copy_slice bytes_example (CHR 0x00), Condition_DeepCopyInto = returnG,
     Time_DeepCopyInto = returnG, ObjectMeta_mem_zero = None, JSON_zero = None\<rparr>"

definition meta_example :: "(cell_example, address option, ObjectMeta) representation" where
  "meta_example mem S x v \<longleftrightarrow>
     (\<exists>fs. slice_at finalizers_example flat mem S x fs \<and> v = ObjectMeta_zero\<lparr>om_Finalizers := fs\<rparr>)"

definition json_example :: "(cell_example, address option, JSON) representation" where
  "json_example mem S x v \<longleftrightarrow> (\<exists>bs. slice_at bytes_example flat mem S x bs \<and> v = \<lparr>Raw = Some bs\<rparr>)"

lemma copy_contract_example: "copy_contract copies_example meta_example flat json_example"
proof -
  have "gotype_ok finalizers_example" "gotype_ok bytes_example"
    by (simp_all add: gotype_ok_def finalizers_example_def bytes_example_def)
  then show ?thesis
    by (auto simp: copy_contract_def copies_example_def meta_example_def [abs_def] json_example_def [abs_def]
      intro!: deep_copy_value deep_copy_slice deep_copy_flat)
qed

definition object_example :: "address option Component_mem" where
  "object_example = (Component_mem_zero (Some 0))
     \<lparr>m_comp_Spec := ComponentSpec_mem_zero\<lparr>m_cs_Component := ''c'', m_cs_OCMConfig := Some 1\<rparr>\<rparr>"

definition value_example :: "Component typed" where
  "value_example = \<lparr>td_TypeMeta = TypeMeta_zero, td_value = Component_zero
     \<lparr>comp_meta := ObjectMeta_zero\<lparr>om_Finalizers := [''f'']\<rparr>,
      comp_Spec := (comp_Spec Component_zero)\<lparr>cs_Component := ''c'', cs_OCMConfig := [OCMConfiguration_zero]\<rparr>\<rparr>\<rparr>"

definition memory_example :: "cell_example list" where
  "memory_example = [LibCell (Inl [''f'']), Configs_cell [OCMConfiguration_zero]]"

lemma object_example_at: "Component_at meta_example json_example memory_example {0, 1} object_example value_example"
  by (simp add: Component_at_def ComponentSpec_at_def ComponentStatus_at_def ComponentInfo_at_def meta_example_def
    slice_at_def list_all2_flat pointer_at_def cell_at_def object_example_def value_example_def memory_example_def
    Component_mem_zero_def ComponentSpec_mem_zero_def ComponentStatus_mem_zero_def ComponentInfo_mem_zero_def
    Component_zero_def ComponentInfo_zero_def finalizers_example_def Configs_def)

text \<open>There, the finalizers of the original are emptied after the copy, and the copy keeps them.\<close>

theorem deep_copies_are_separate_witness:
  "\<exists>y mem' T. Component_DeepCopyObject copies_example (Some object_example) memory_example =
       (Ret (Some (Component_object y)), mem') \<and> {0, 1} \<inter> T = {} \<and>
     Component_at meta_example json_example mem' {0, 1} object_example value_example \<and>
     Component_at meta_example json_example (mem'[0 := LibCell (Inl [])]) T y value_example"
proof -
  note separate = deep_copies_are_separate [OF copy_contract_example, THEN conjunct1]
  have S: "{0, 1} \<subseteq> {..<length memory_example}" by (simp add: memory_example_def)
  obtain y mem' T where
    run: "Component_DeepCopyObject copies_example (Some object_example) memory_example =
      (Ret (Some (Component_object y)), mem')" and T: "{0, 1} \<inter> T = {}"
    and y: "\<And>mem''. agree T mem' mem'' \<Longrightarrow> Component_at meta_example json_example mem'' T y value_example"
    and o: "\<And>mem''. agree {0, 1} mem' mem'' \<Longrightarrow>
      Component_at meta_example json_example mem'' {0, 1} object_example value_example"
    by (rule separate_copiesE [OF separate object_example_at S]) (rule that)
  have "agree T mem' (mem'[0 := LibCell (Inl [])])" using T by (auto simp: agree_def intro!: nth_list_update_neq)
  from y [OF this] o [of mem'] run T show ?thesis by (auto simp: agree_def)
qed

end
