(* ===== verification/DeployerDeletion.thy ===== *)
theory DeployerDeletion
  imports DeployerController
begin

text \<open>
  The deletion of a deployer, from the request to stop its watches to the end of its finalizer. It
  takes two runs of \<open>Reconcile\<close> and, in between, a worker of the informer manager: the first
  run sends the requests (\<open>deployer_controller.go\<close>), the worker handles them (\<open>informer_manager.go\<close>), and
  the second run finds no running watch.
\<close>

section \<open>A worker handles the requests\<close>

text \<open>The branch of \<open>work\<close> that unregisters, for all that is buffered in the channel.\<close>

fun handle_unregister :: "'w informer_lib \<Rightarrow> watch_event list \<Rightarrow> 'w manager \<Rightarrow> 'w manager" where
  "handle_unregister I [] m = m"
| "handle_unregister I (e # es) m =
     handle_unregister I es (snd (Unregister I (we_Parent e) (we_Child e) (m\<lparr>im_unregister := es\<rparr>)))"

definition drain_unregister :: "'w informer_lib \<Rightarrow> 'w manager \<Rightarrow> 'w manager" where
  "drain_unregister I m = handle_unregister I (im_unregister m) m"

text \<open>
  The cache of informers stops what it is asked to stop, and what is stopped stays so. The calls of
  the API client do not touch the informer manager.
\<close>

definition stops_informers :: "'w informer_lib \<Rightarrow> bool" where
  "stops_informers I \<longleftrightarrow>
     (\<forall>i r w. fst (RemoveEventHandler I i r w) = None \<and>
        (\<forall>j. informer_IsStopped I j w \<longrightarrow> informer_IsStopped I j (snd (RemoveEventHandler I i r w)))) \<and>
     (\<forall>g w. fst (RemoveInformer I g w) = None \<and>
        (\<forall>j. informer_IsStopped I j w \<longrightarrow> informer_IsStopped I j (snd (RemoveInformer I g w))))"

definition leaves_manager :: "'w informer_lib \<Rightarrow> ('w manager, 'a) ext \<Rightarrow> bool" where
  "leaves_manager I f \<longleftrightarrow> (\<forall>m. \<exists>w. snd (f m) = m\<lparr>im_world := w\<rparr> \<and>
     (\<forall>i. informer_IsStopped I i (im_world m) \<longrightarrow> informer_IsStopped I i w))"

lemma Unregister_run:
  assumes lib: "stops_informers I" and run: "Unregister I p c m = (r, m')"
  shows "im_tasks m' = (if isLastWatch (task_key p c) (im_tasks m) then delete_task (task_key p c) (im_tasks m)
      else im_tasks m) \<and> im_unregister m' = im_unregister m \<and> im_inflight m' = im_inflight m \<and>
    im_workers m' = im_workers m \<and>
    (\<forall>i. informer_IsStopped I i (im_world m) \<longrightarrow> informer_IsStopped I i (im_world m'))"
proof (cases "map_of (im_tasks m) (task_key p c)")
  case None
  then have "delete_task (task_key p c) (im_tasks m) = im_tasks m"
    by (force simp: delete_task_def filter_id_conv map_of_eq_None_iff)
  with None run show ?thesis by (simp add: Unregister_eq)
next
  case (Some t)
  let ?k = "task_key p c"
  obtain w1 where h: "RemoveEventHandler I (wt_informer t) (wt_registration t) (im_world m) = (None, w1)"
      "\<And>j. informer_IsStopped I j (im_world m) \<Longrightarrow> informer_IsStopped I j w1"
    using lib unfolding stops_informers_def by (metis prod.collapse)
  obtain w2 where i: "RemoveInformer I (wk_gvk ?k) w1 = (None, w2)"
      "\<And>j. informer_IsStopped I j w1 \<Longrightarrow> informer_IsStopped I j w2"
    using lib unfolding stops_informers_def by (metis prod.collapse)
  have stays: "informer_IsStopped I j w2" if "informer_IsStopped I j (im_world m)" for j
    by (rule i(2) [OF h(2) [OF that]])
  show ?thesis
  proof (cases "isLastWatch ?k (im_tasks m)")
    case True
    then have "stopTask I ?k t m = (Ret None, m\<lparr>im_world := w2, im_tasks := delete_task ?k (im_tasks m),
        im_activeTasks := im_activeTasks m - 1\<rparr>)"
      using h(1) i(1) by (simp add: stopTask_def go_defs)
    with True Some run show ?thesis by (auto simp: Unregister_eq stays)
  next
    case False
    then have "stopTask I ?k t m = (Ret None, m)" by (simp add: stopTask_def go_defs)
    with False Some run show ?thesis by (auto simp: Unregister_eq)
  qed
qed

text \<open>
  What the first run leaves: each watch of a deployer is the only one of its objects, and it is stopped
  or requested to be.
\<close>

definition stopping :: "'w informer_lib \<Rightarrow> GroupVersionKind \<Rightarrow> 'w manager \<Rightarrow> bool" where
  "stopping I g m \<longleftrightarrow> (\<forall>k \<in> set (task_keys m). wk_parent k = g \<longrightarrow>
     (\<forall>j \<in> set (task_keys m). \<not> other_parent k j) \<and>
     (k \<in> event_key ` set (im_unregister m) \<or>
      (\<exists>t. map_of (im_tasks m) k = Some t \<and> informer_IsStopped I (wt_informer t) (im_world m))))"

lemma stoppingD:
  assumes "stopping I g m" and "k \<in> set (task_keys m)" and "wk_parent k = g"
  shows "\<forall>j \<in> set (task_keys m). \<not> other_parent k j"
    and "k \<in> event_key ` set (im_unregister m) \<or>
      (\<exists>t. map_of (im_tasks m) k = Some t \<and> informer_IsStopped I (wt_informer t) (im_world m))"
  using assms unfolding stopping_def by blast+

lemma Unregister_stopping:
  assumes lib: "stops_informers I" and s: "stopping I g m" and e: "im_unregister m = e # es"
    and run: "Unregister I (we_Parent e) (we_Child e) (m\<lparr>im_unregister := es\<rparr>) = (r, m')"
  shows "stopping I g m'" and "im_unregister m' = es"
    and "im_inflight m' = im_inflight m" and "im_workers m' = im_workers m"
proof -
  let ?k = "event_key e"
  note m' = Unregister_run [OF lib run, simplified]
  then have tasks: "im_tasks m' = (if isLastWatch ?k (im_tasks m) then delete_task ?k (im_tasks m) else im_tasks m)"
    and stays: "\<And>i. informer_IsStopped I i (im_world m) \<Longrightarrow> informer_IsStopped I i (im_world m')"
    by simp_all
  show "im_unregister m' = es" "im_inflight m' = im_inflight m" "im_workers m' = im_workers m"
    using m' by simp_all
  have keys: "set (task_keys m') \<subseteq> set (task_keys m)" by (auto simp: tasks delete_task_def)
  show "stopping I g m'"
    unfolding stopping_def
  proof (intro ballI impI)
    fix k assume k: "k \<in> set (task_keys m')" and g: "wk_parent k = g"
    then have single: "\<forall>j \<in> set (task_keys m). \<not> other_parent k j"
      and "k \<in> event_key ` set (e # es) \<or>
        (\<exists>t. map_of (im_tasks m) k = Some t \<and> informer_IsStopped I (wt_informer t) (im_world m))"
      using stoppingD [OF s subsetD [OF keys k] g] unfolding e by simp_all
    moreover have other: "k \<noteq> ?k"
    proof
      assume "k = ?k"
      with single have "isLastWatch ?k (im_tasks m)" by (simp add: isLastWatch_iff)
      with k \<open>k = ?k\<close> show False by (auto simp: tasks delete_task_def)
    qed
    moreover have "map_of (im_tasks m') k = map_of (im_tasks m) k"
      using other by (simp add: tasks map_of_delete_other)
    ultimately have "k \<in> event_key ` set es \<or>
        (\<exists>t. map_of (im_tasks m') k = Some t \<and> informer_IsStopped I (wt_informer t) (im_world m'))"
      using stays by auto
    moreover have "\<forall>j \<in> set (task_keys m'). \<not> other_parent k j" using single keys by blast
    ultimately show "(\<forall>j \<in> set (task_keys m'). \<not> other_parent k j) \<and>
        (k \<in> event_key ` set (im_unregister m') \<or>
         (\<exists>t. map_of (im_tasks m') k = Some t \<and> informer_IsStopped I (wt_informer t) (im_world m')))"
      using \<open>im_unregister m' = es\<close> by simp
  qed
qed

lemma drain_run:
  assumes lib: "stops_informers I"
  shows "stopping I g m \<Longrightarrow> length (im_inflight m) < im_workers m \<Longrightarrow>
    stopping I g (drain_unregister I m) \<and> im_unregister (drain_unregister I m) = [] \<and>
    (manager_step I)\<^sup>*\<^sup>* m (drain_unregister I m)"
proof (induction "im_unregister m" arbitrary: m)
  case Nil
  then show ?case by (simp add: drain_unregister_def)
next
  case (Cons e es)
  obtain r m' where run: "Unregister I (we_Parent e) (we_Child e) (m\<lparr>im_unregister := es\<rparr>) = (r, m')" by force
  note m' = Unregister_stopping [OF lib Cons.prems(1) Cons.hyps(2) [symmetric] run]
  have "drain_unregister I m = drain_unregister I m'"
    by (simp add: drain_unregister_def Cons.hyps(2) [symmetric] m'(2) run)
  moreover have "manager_step I m m'"
    by (rule manager_step.unregister [OF Cons.hyps(2) [symmetric] Cons.prems(2) run])
  ultimately show ?case
    using Cons.hyps(1) [OF m'(2) [symmetric] m'(1)] Cons.prems(2) m'(3,4)
    by (simp add: converse_rtranclp_into_rtranclp)
qed

text \<open>When all requests are handled, no watch of a deployer runs.\<close>

lemma listed_iff: "IsStopped I m p c \<longleftrightarrow>
    (\<exists>t. map_of (im_tasks m) (task_key p c) = Some t \<and> informer_IsStopped I (wt_informer t) (im_world m))"
  by (simp add: IsStopped_def getTask_def split: option.split)

lemma ActiveForParent_keys:
  "c \<in> set (ActiveForParent m p) \<Longrightarrow> task_key p c \<in> set (task_keys m) \<and> wk_parent (task_key p c) = ko_GVK p"
  by (force simp: ActiveForParent_def task_key_def PartialObject_def ObjectMeta_zero_def)

lemma stopping_done:
  assumes "stopping I (ko_GVK p) m" and "im_unregister m = []"
  shows "list_all (IsStopped I m p) (ActiveForParent m p)"
  unfolding list_all_iff
proof
  fix c assume "c \<in> set (ActiveForParent m p)"
  with assms ActiveForParent_keys [OF this] show "IsStopped I m p c" by (auto simp: stopping_def listed_iff)
qed

section \<open>The first run\<close>

lemma keys_active:
  "k \<in> set (task_keys m) \<Longrightarrow> wk_parent k = ko_GVK p \<Longrightarrow> \<exists>c \<in> set (ActiveForParent m p). task_key p c = k"
  by (force simp: ActiveForParent_def task_key_def PartialObject_def ObjectMeta_zero_def)

text \<open>After the first run, and the patch of the status that ends it.\<close>

lemma stopping_start:
  assumes alone: "\<forall>k \<in> set (task_keys w). wk_parent k = ko_GVK p \<longrightarrow> (\<forall>j \<in> set (task_keys w). \<not> other_parent k j)"
    and m: "m = w\<lparr>im_unregister := im_unregister w @ map (\<lambda>c. \<lparr>we_Parent = p, we_Child = c\<rparr>)
      (filter (\<lambda>c. \<not> IsStopped I w p c) (ActiveForParent w p)), im_world := v\<rparr>"
    and v: "\<And>i. informer_IsStopped I i (im_world w) \<Longrightarrow> informer_IsStopped I i v"
  shows "stopping I (ko_GVK p) m"
  unfolding stopping_def
proof (intro ballI impI)
  fix k assume "k \<in> set (task_keys m)" and g: "wk_parent k = ko_GVK p"
  then have k: "k \<in> set (task_keys w)" by (simp add: m)
  then obtain c where c: "c \<in> set (ActiveForParent w p)" "task_key p c = k" using keys_active [OF k g] by blast
  have "k \<in> event_key ` set (im_unregister m)" if "\<not> IsStopped I w p c"
    using c that by (force simp: m)
  moreover have "\<exists>t. map_of (im_tasks m) k = Some t \<and> informer_IsStopped I (wt_informer t) (im_world m)"
    if "IsStopped I w p c"
    using that v c(2) by (auto simp: m listed_iff)
  moreover have "\<forall>j \<in> set (task_keys m). \<not> other_parent k j"
    using alone [rule_format, OF k g] by (simp add: m)
  ultimately show "(\<forall>j \<in> set (task_keys m). \<not> other_parent k j) \<and> (k \<in> event_key ` set (im_unregister m) \<or>
      (\<exists>t. map_of (im_tasks m) k = Some t \<and> informer_IsStopped I (wt_informer t) (im_world m)))" by blast
qed

lemma stopping_left:
  assumes "leaves_manager I f" and "stopping I g m" and "im_unregister m = []"
  shows "stopping I g (snd (f m)) \<and> im_unregister (snd (f m)) = []"
proof -
  obtain w where "snd (f m) = m\<lparr>im_world := w\<rparr>" "\<forall>i. informer_IsStopped I i (im_world m) \<longrightarrow> informer_IsStopped I i w"
    using assms(1) unfolding leaves_manager_def by blast
  with assms(2,3) show ?thesis by (fastforce simp: stopping_def)
qed

lemma leaves_managerD:
  assumes "leaves_manager I f"
  obtains w where "snd (f m) = m\<lparr>im_world := w\<rparr>"
    and "\<And>i. informer_IsStopped I i (im_world m) \<Longrightarrow> informer_IsStopped I i w"
  using assms unfolding leaves_manager_def by blast

lemma leaves_manager_same:
  assumes "\<And>m. snd (f m) = m"
  shows "leaves_manager I f"
  unfolding leaves_manager_def
proof
  fix m show "\<exists>w. snd (f m) = m\<lparr>im_world := w\<rparr> \<and>
      (\<forall>i. informer_IsStopped I i (im_world m) \<longrightarrow> informer_IsStopped I i w)"
    by (rule exI [of _ "im_world m"]) (simp add: assms)
qed

text \<open>A run on a deployer that is being deleted.\<close>

lemma deletion_reconciled:
  assumes L: "k8s_contract (k8s E)" and api: "\<And>x y. leaves_manager I (patchDeployer (api E) x y)"
    and get: "getDeployer (api E) req (world s) = (Inr x, w)"
    and x: "\<not> dsp_Suspend (dep_Spec x)" "\<not> IsZero_time (om_DeletionTimestamp (dep_meta x))"
    and opened: "im_closed w \<longrightarrow>
      list_all (IsStopped I w (deployer_object D x)) (ActiveForParent w (deployer_object D x))"
  obtains err s1 v where "deployer_Reconcile E RL M (setupDynamicResourceWatcher I D) load req s =
      (Ret (Result_zero, Some err), s1)"
    and "list_all (IsStopped I w (deployer_object D x)) (ActiveForParent w (deployer_object D x)) \<Longrightarrow>
      set (om_Finalizers (dep_meta (obj s1))) = set (om_Finalizers (dep_meta x)) - {resourceWatchFinalizer}"
    and "world s1 = w\<lparr>im_unregister := im_unregister w @ map (\<lambda>c. \<lparr>we_Parent = deployer_object D x, we_Child = c\<rparr>)
      (filter (\<lambda>c. \<not> IsStopped I w (deployer_object D x) c) (ActiveForParent w (deployer_object D x))), im_world := v\<rparr>"
    and "\<And>i. informer_IsStopped I i (im_world w) \<Longrightarrow> informer_IsStopped I i v"
proof -
  let ?p = "deployer_object D x"
  let ?w = "w\<lparr>im_unregister := im_unregister w @ map (\<lambda>c. \<lparr>we_Parent = ?p, we_Child = c\<rparr>)
      (filter (\<lambda>c. \<not> IsStopped I w ?p c) (ActiveForParent w ?p))\<rparr>"
  obtain err s1 where run: "deployer_Reconcile E RL M (setupDynamicResourceWatcher I D) load req s =
      (Ret (Result_zero, Some err), s1)"
    and fin: "if list_all (IsStopped I w ?p) (ActiveForParent w ?p)
      then set (om_Finalizers (dep_meta (obj s1))) = set (om_Finalizers (dep_meta x)) - {resourceWatchFinalizer}
      else dep_meta (obj s1) = dep_meta x"
    and patch: "\<exists>y. world s1 = snd (patchDeployer (api E) x y ?w)"
    by (rule deletion_reconcile [OF L get x opened]) (rule that)
  then obtain y where y: "world s1 = snd (patchDeployer (api E) x y ?w)" by blast
  obtain v where v: "snd (patchDeployer (api E) x y ?w) = ?w\<lparr>im_world := v\<rparr>"
      "\<And>i. informer_IsStopped I i (im_world ?w) \<Longrightarrow> informer_IsStopped I i v"
    by (rule leaves_managerD [OF api, of x y ?w]) (rule that)
  show thesis
  proof (rule that [OF run])
    show "world s1 = w\<lparr>im_unregister := im_unregister w @ map (\<lambda>c. \<lparr>we_Parent = ?p, we_Child = c\<rparr>)
      (filter (\<lambda>c. \<not> IsStopped I w ?p c) (ActiveForParent w ?p)), im_world := v\<rparr>"
      using y v(1) by simp
    show "informer_IsStopped I i v" if "informer_IsStopped I i (im_world w)" for i
      by (rule v(2)) (use that in simp)
  qed (use fin in simp)
qed

section \<open>Properties\<close>

text \<open>
  C14: The deletion of a deployer comes to its end. When no other kind of parent watches what deployers
  watch and the cache of informers stops what it is asked to, a \<open>Reconcile\<close> of a deployer that is
  being deleted returns an error to be retried, and a free worker of the informer manager then
  handles all requests that are sent. After that \<open>Reconcile\<close> takes the finalizer off the deployer, and
  off every other one that is being deleted.
\<close>

theorem deployer_deletion_completes:
  assumes L: "k8s_contract (k8s E)" and api: "\<And>x y. leaves_manager I (patchDeployer (api E) x y)"
      "\<And>req. leaves_manager I (getDeployer (api E) req)"
    and lib: "stops_informers I"
    and get: "getDeployer (api E) req (world s) = (Inr x, w)"
    and x: "\<not> dsp_Suspend (dep_Spec x)" "\<not> IsZero_time (om_DeletionTimestamp (dep_meta x))"
    and alone: "\<forall>k \<in> set (task_keys w). wk_parent k = deployer_GVK D \<longrightarrow> (\<forall>j \<in> set (task_keys w). \<not> other_parent k j)"
    and free: "length (im_inflight w) < im_workers w" and opened: "\<not> im_closed w"
  shows "\<exists>err s1. deployer_Reconcile E RL M (setupDynamicResourceWatcher I D) load req s =
      (Ret (Result_zero, Some err), s1) \<and>
    (manager_step I)\<^sup>*\<^sup>* (world s1) (drain_unregister I (world s1)) \<and>
    im_unregister (drain_unregister I (world s1)) = [] \<and>
    (\<forall>req' t x' w'. world t = drain_unregister I (world s1) \<longrightarrow>
      getDeployer (api E) req' (world t) = (Inr x', w') \<longrightarrow>
      \<not> dsp_Suspend (dep_Spec x') \<longrightarrow> \<not> IsZero_time (om_DeletionTimestamp (dep_meta x')) \<longrightarrow>
      (\<exists>err' t'. deployer_Reconcile E RL M (setupDynamicResourceWatcher I D) load req' t =
          (Ret (Result_zero, Some err'), t') \<and>
        set (om_Finalizers (dep_meta (obj t'))) = set (om_Finalizers (dep_meta x')) - {resourceWatchFinalizer}))"
proof -
  let ?p = "deployer_object D x"
  have sends: "im_closed w \<longrightarrow> list_all (IsStopped I w ?p) (ActiveForParent w ?p)" using opened by simp
  obtain err s1 v where run: "deployer_Reconcile E RL M (setupDynamicResourceWatcher I D) load req s =
      (Ret (Result_zero, Some err), s1)"
    and "list_all (IsStopped I w ?p) (ActiveForParent w ?p) \<Longrightarrow>
      set (om_Finalizers (dep_meta (obj s1))) = set (om_Finalizers (dep_meta x)) - {resourceWatchFinalizer}"
    and w1: "world s1 = w\<lparr>im_unregister := im_unregister w @ map (\<lambda>c. \<lparr>we_Parent = ?p, we_Child = c\<rparr>)
      (filter (\<lambda>c. \<not> IsStopped I w ?p c) (ActiveForParent w ?p)), im_world := v\<rparr>"
    and v: "\<And>i. informer_IsStopped I i (im_world w) \<Longrightarrow> informer_IsStopped I i v"
    by (rule deletion_reconciled [OF L api(1) get x sends]) (rule that)
  have s1: "stopping I (deployer_GVK D) (world s1)"
    using stopping_start [where p = ?p, OF _ w1 v] alone by (simp add: deployer_object_def)
  let ?m = "drain_unregister I (world s1)"
  have drain: "stopping I (deployer_GVK D) ?m" "im_unregister ?m = []" "(manager_step I)\<^sup>*\<^sup>* (world s1) ?m"
    using drain_run [OF lib s1] w1 free by simp_all
  have last: "\<exists>err' t'. deployer_Reconcile E RL M (setupDynamicResourceWatcher I D) load req' t =
        (Ret (Result_zero, Some err'), t') \<and>
      set (om_Finalizers (dep_meta (obj t'))) = set (om_Finalizers (dep_meta x')) - {resourceWatchFinalizer}"
    if t: "world t = ?m" and g: "getDeployer (api E) req' (world t) = (Inr x', w')"
      and x': "\<not> dsp_Suspend (dep_Spec x')" "\<not> IsZero_time (om_DeletionTimestamp (dep_meta x'))" for req' t x' w'
  proof -
    have "stopping I (deployer_GVK D) w'" "im_unregister w' = []"
      using stopping_left [OF api(2) drain(1,2), of req'] g t by simp_all
    then have stopped: "list_all (IsStopped I w' (deployer_object D x')) (ActiveForParent w' (deployer_object D x'))"
      by (intro stopping_done) (simp_all add: deployer_object_def)
    show ?thesis
      by (rule deletion_reconciled [where load = load and RL = RL and M = M, OF L api(1) g x' impI [OF stopped]])
         (use stopped in blast)
  qed
  show ?thesis
    by (intro exI [of _ err] exI [of _ s1] conjI allI impI run drain last)
qed

section \<open>Witness\<close>

abbreviation watched_start :: "(Deployer, GroupVersionKind list manager) rstate" where
  "watched_start \<equiv> \<lparr>obj = Deployer_zero, events = [], world = sample_manager [sample_task ''Deployer'' ''a'']\<rparr>"

abbreviation reconcile_deleted ::
  "(Deployer, GroupVersionKind list manager) rstate \<Rightarrow> reconcile_result outcome \<times> (Deployer, GroupVersionKind list manager) rstate" where
  "reconcile_deleted \<equiv> deployer_Reconcile (deployer_env deleted_deployer) deployer_res_lib (sample_manifests [])
     (setupDynamicResourceWatcher sample_informers sample_deployer_lib) (\<lambda>_ f. f) deployer_req"

text \<open>A deployer that watches config maps in one namespace.\<close>

theorem deployer_deletion_completes_witness:
  "\<exists>err s1 err' t'. reconcile_deleted watched_start = (Ret (Result_zero, Some err), s1) \<and>
     reconcile_deleted \<lparr>obj = Deployer_zero, events = [], world = drain_unregister sample_informers (world s1)\<rparr> =
       (Ret (Result_zero, Some err'), t') \<and>
     om_Finalizers (dep_meta deleted_deployer) = [resourceWatchFinalizer] \<and> om_Finalizers (dep_meta (obj t')) = []"
proof -
  let ?E = "deployer_env deleted_deployer :: (GroupVersionKind list manager, string) controller_env"
  have x: "\<not> dsp_Suspend (dep_Spec deleted_deployer)"
    "\<not> IsZero_time (om_DeletionTimestamp (dep_meta deleted_deployer))"
    by (simp_all add: deleted_deployer_def zero_defs IsZero_time_def)
  have api: "leaves_manager sample_informers (patchDeployer (api ?E) y z)"
    "leaves_manager sample_informers (getDeployer (api ?E) req)" for y z req
    by (rule leaves_manager_same, simp add: deployer_env_def empty_client_def)+
  have lib: "stops_informers sample_informers" by (simp add: stops_informers_def sample_informers_def)
  have alone: "\<forall>k \<in> set (task_keys (world watched_start)). wk_parent k = deployer_GVK sample_deployer_lib \<longrightarrow>
      (\<forall>j \<in> set (task_keys (world watched_start)). \<not> other_parent k j)"
    and free: "length (im_inflight (world watched_start)) < im_workers (world watched_start)"
    and opened: "\<not> im_closed (world watched_start)"
    by (simp_all add: sample_manager_def other_parent_def)
  from deployer_deletion_completes [where load = "\<lambda>_ f. f" and RL = deployer_res_lib and M = "sample_manifests []"
      and D = sample_deployer_lib and req = deployer_req, OF deployer_env_facts(1) api lib deployer_env_facts(3) x alone free opened]
  obtain err s1 where run: "reconcile_deleted watched_start = (Ret (Result_zero, Some err), s1)"
    and again: "\<And>t. world t = drain_unregister sample_informers (world s1) \<Longrightarrow>
      \<exists>err' t'. reconcile_deleted t = (Ret (Result_zero, Some err'), t') \<and>
        set (om_Finalizers (dep_meta (obj t'))) = set (om_Finalizers (dep_meta deleted_deployer)) - {resourceWatchFinalizer}"
    using x deployer_env_facts(3) by metis
  obtain err' t' where "reconcile_deleted \<lparr>obj = Deployer_zero, events = [],
        world = drain_unregister sample_informers (world s1)\<rparr> = (Ret (Result_zero, Some err'), t')"
    and "set (om_Finalizers (dep_meta (obj t'))) = set (om_Finalizers (dep_meta deleted_deployer)) - {resourceWatchFinalizer}"
    using again [of "\<lparr>obj = Deployer_zero, events = [], world = drain_unregister sample_informers (world s1)\<rparr>"] by auto
  moreover have "om_Finalizers (dep_meta deleted_deployer) = [resourceWatchFinalizer]" by (simp add: deleted_deployer_def)
  ultimately show ?thesis using run by auto
qed

end
