(* ===== verification/Spec2Isabelle.thy ===== *)
theory Spec2Isabelle
  imports Unwind CelFunctions DeepCopyValues DeployerDeletion
begin

text \<open>
  The OCM Kubernetes toolkit (\<open>ocm-k8s-toolkit\<close>): controllers that bring software described by
  OCM component versions into a cluster. Five kinds of objects (\<open>api/v1alpha1\<close>) form a chain.
  A Repository says where component versions are; a Component chooses and verifies a version in a
  ready repository; a Resource resolves and verifies one resource of a ready component; a Deployer
  downloads the manifest of a ready resource and applies its objects; a Replication transfers
  the version of a ready component to another repository and keeps a history of its transfers.
  Each kind has one reconciler (\<open>internal/controller/*/*_controller.go\<close>). An object is kept from
  being deleted by its finalizer while an object of the next kind names it. The reconcilers share
  \<open>internal/status\<close> (conditions and events, the deferred update), \<open>internal/util\<close> (the look-up of a
  ready object), \<open>internal/ocm\<close> (effective configuration, versions, hashes, verification and the cache
  of OCM contexts and sessions). The deployer adds a cache of decoded manifests
  (\<open>deployer/cache\<close>) and a manager of dynamic informers (\<open>deployer/dynamic\<close>) that watches what was
  deployed.

  \<^bold>\<open>How Go is modelled.\<close> A Go function that may panic or has effects is a state passing computation
  \<open>('s, 'a) go\<close> with the outcome \<open>Ret\<close> or \<open>Panic\<close> (\<open>Prelude\<close>); the combinators are the Go idioms
  (\<open>tryG\<close> for \<open>x, err :=\<close>, \<open>checkG\<close> for \<open>if err :=\<close>, \<open>derefG\<close> for reading through a pointer, \<open>deferG\<close>
  for \<open>defer\<close>). A result with an error is a sum, a nil error is \<open>None\<close>, errors are the datatype
  \<open>goerr\<close> with \<open>errors.Is\<close>, \<open>Join\<close> and \<open>%w\<close> (\<open>GoErrors\<close>). A pointer is an option, a map that the code
  ranges over an association list in iteration order, a string its bytes. The state of a
  reconciliation is \<open>rstate\<close>: the object in memory, the events recorded, and the world outside,
  on which every library call works. What is not under \<open>src/\<close> is a record of parameters: the
  conditions of Flux and the finalizer helpers (\<open>K8sLib\<close>), the API client (\<open>Client\<close>), the OCM and
  semver libraries (\<open>OcmLib\<close>), LRU caches, informers, CEL, YAML and JSON. What the properties need
  of it is a named predicate of documented behaviour (\<open>k8s_contract\<close>, \<open>lru_contract\<close>,
  \<open>semver_contract\<close>, \<open>codec_contract\<close>, \<open>foreign_get\<close>, \<open>decoder_progress\<close>, ...), for which the witnesses
  give an instance.

  \<^bold>\<open>The theories.\<close>
  \<^item> \<open>Prelude\<close>: computations, and three calculi for them, each a collection of rules: postconditions
    (\<open>postG\<close>, \<open>go_wp\<close>), invariants (\<open>invG\<close>, \<open>go_inv\<close>), and returning without a panic (\<open>retG\<close>, \<open>go_ret\<close>).
  \<^item> \<open>GoErrors\<close>, \<open>ApiTypes\<close>, \<open>ApiKinds\<close>, \<open>ApiInterfaces\<close>: the errors, the types of \<open>api/v1alpha1/*_types.go\<close>,
    and the Go interfaces by which the kinds are used, as locales with the five kinds as
    interpretations.
  \<^item> \<open>K8sLib\<close>, \<open>Status\<close>, \<open>K8sUtil\<close>, \<open>Client\<close>: \<open>internal/event\<close>, \<open>internal/status\<close> (\<open>MarkNotReady\<close>,
    \<open>MarkReady\<close>, \<open>UpdateStatus\<close>) and \<open>internal/util/k8s.go\<close> (\<open>GetReadyObject\<close>), and the API client.
  \<^item> \<open>OcmConfig\<close>, \<open>OcmVersions\<close> (\<open>internal/ocm/ocm.go\<close>), \<open>Hashing\<close> (\<open>hash.go\<close>), \<open>Verification\<close>
    (\<open>verification.go\<close>, \<open>resource.go\<close>, \<open>descriptors.go\<close>), \<open>ContextCache\<close> (\<open>context_cache.go\<close>, with the
    operations of the cache as a step relation).
  \<^item> \<open>Controller\<close>: what the reconcilers share: fetching the object with the deferred status update
    (\<open>reconcileObject\<close>), finalizers, the deletion protocol, requests from watched objects.
  \<^item> \<open>ComponentController\<close>, \<open>RepositoryController\<close>, \<open>ReplicationController\<close> with \<open>ReplicationHistory\<close>,
    \<open>ResourceController\<close>: the reconcilers. A handler is cut into the steps in which it goes on,
    \<open>*_Reconcile\<close>, \<open>*_body\<close>, \<open>*_run\<close> and so on to \<open>*_finish\<close>, each taking what the earlier ones
    found.
  \<^item> \<open>InformerManager\<close>: \<open>deployer/dynamic\<close>. The workers that register and unregister watches are the
    step relation \<open>manager_step\<close>; a registration in flight is part of the state.
  \<^item> \<open>DigestCache\<close>: \<open>deployer/cache\<close>. The cache lies behind a pointer, as a cell of the state.
  \<^item> \<open>Ownership\<close> (\<open>labels.go\<close>, \<open>annotations.go\<close>, \<open>digestSpec\<close>), \<open>ManifestDownload\<close>, \<open>DeployedObjects\<close> and
    \<open>DeployerController\<close>: \<open>deployer_controller.go\<close>, the download and decoding of the manifest, applying,
    tracking and untracking its objects, the references in the status, and \<open>Reconcile\<close>. \<open>DeployerDeletion\<close>
    runs \<open>Reconcile\<close> and a worker of the informer manager together.
  \<^item> \<open>CelFunctions\<close>: \<open>internal/cel/functions/oci.go\<close> and the environment of \<open>internal/cel/base.go\<close>.
  \<^item> \<open>Setup\<close>: \<open>cmd/main.go\<close>, the functions \<open>SetupWithManager\<close>, the metrics and the scheme, and the end of
    the informer manager. The state is what the process has registered.
  \<^item> \<open>Memory\<close>, \<open>DeepCopies\<close>, \<open>DeepCopyValues\<close>: \<open>api/v1alpha1/zz_generated.deepcopy.go\<close>. Here the types of the
    API lie in a memory of cells, and pointers, slices and maps are addresses; all else in the
    development takes an object as its value, which is what these copies are for.
  \<^item> \<open>Cluster\<close>: the reconcilers of repositories, components and resources against one API server,
    with the edits of users and changes elsewhere, as the step relation \<open>cluster_step\<close> on the world.
    \<open>Unwind\<close>: what becomes of objects in deletion there.

  \<^bold>\<open>What is shown.\<close> For each reconciler: how a run ends. It leaves the object ready only when the
  work was done (a version chosen by the policy, equal hashes, accepted signatures; a repository
  found; a version transferred or in the history; a resource resolved and verified; every object
  applied and watched), and otherwise returns an error with the recorded status untouched; and it
  does not panic unless a named condition on what it reads fails. That the conditions on the
  objects are kept by the controllers themselves is the property in this theory. Deletion: the
  finalizer stays while the object is referenced (or watched) and goes when it is not; a deployer gets
  there by what it asks of the informer manager (\<open>deployer_deletion_completes\<close>). For the
  parts: the effective configuration and the latest version against their specification, the
  hash as an equivalence on contents, the round trips of descriptors and of digests, the bound
  of the history, the cache as a refinement of a partial map, termination of the decoder, the
  invariant of the watches with one worker and the races with more. For the start of the process:
  the manager is never started half set up, its registrations do not conflict, and every list of
  the controllers is by a registered index. For the chain as a whole: as long as users keep to its
  order, and whatever the reconcilers do, a repository, component or resource that another object
  names is there with its finalizer (\<open>references_never_dangle\<close>); the reads of the client are taken to
  be current and a reconciliation as one step. And when everything is deleted, one reconciliation of
  each object, bottom up, leaves the cluster empty (\<open>everything_deleted_goes\<close>). An object and its deep
  copy share nothing that could be written through (\<open>deep_copies_are_separate\<close>). Several theorems state
  behaviour that the code can hardly mean: errors that are never recognised, filters that do not
  filter, watches that stop for others or never, references that collapse, indexes that miss a
  defaulted namespace, a panic when a deployer is deleted after the informer manager has shut down.

  \<^bold>\<open>Locales.\<close> \<open>identifiable_client_object\<close>, \<open>config_ref_provider\<close>, \<open>ocm_k8s_object\<close> and
  \<open>finalized_object\<close> are interpreted for each kind; \<open>digest_object_cache\<close> and \<open>object_cache\<close> by \<open>Load\<close>;
  \<open>deep_copy\<close> by the generated copies; \<open>deployer_cache\<close> by the cache in the world of a deployer;
  \<open>watch_registry\<close> by the queries of the
  informer manager; \<open>referring_object\<close> (references are outside of status and finalizers) by the three
  kinds that others name.

  \<^bold>\<open>Loops, bounds and schedules.\<close> Loops over lists are structural recursion. The one loop without a
  bound, over the documents of a manifest, is a partial function with value \<open>None\<close> when it does not
  end, and terminates for a decoder that makes progress. There is no fuel. Integers are
  unbounded where the code uses \<open>int\<close> for sizes that a slice bounds; generations and durations
  are only compared and passed on. Goroutines of an \<open>errgroup\<close> run in the order of a schedule,
  any permutation, each as one step; the workers of the informer manager interleave at the
  two accesses of a registration.

  \<^bold>\<open>Not modelled.\<close> The parsing of the flags and what the manager of controller-runtime does once it is
  started (queues, leader election); sizes of caches are taken as not negative. Logging,
  the lifetime of contexts apart from cancellation by a failed goroutine, and the helpers of the
  tests.
\<close>

section \<open>Properties that span components\<close>

text \<open>The session cache of the model is one on which the controllers can rely.\<close>

lemma session_returns_GetSession: "getSession E = GetSession C \<Longrightarrow> session_returns E"
  by (simp add: session_returns_def retG_GetSession)

lemma described_filled: "described E A x access rcv y \<Longrightarrow> filled_resource y"
  by (auto simp: described_def filled_resource_def)

text \<open>
  C17: The controllers establish what they rely on. With the session cache of the model and an API
  server whose objects are filled, \<open>Reconcile\<close> of a component and of a resource returns without a
  panic, and an object it leaves ready is filled: a component has the specification of its
  repository, if it had it while it was ready before, and a resource has its resource and its
  component with a specification. These are the fields that the resource, replication and
  deployer controllers read through pointers.
\<close>

theorem ready_objects_are_filled:
  assumes L: "k8s_contract (k8s E)" and A: "filled_api (k8s E) (api E)" and C: "getSession E = GetSession C"
    and F: "foreign_get (getComponent (api E))"
    and c: "getComponent (api E) creq (world s) = (Inr c, w)" "IsZero_time (om_DeletionTimestamp (comp_meta c))"
      "ComponentFinalizer \<in> set (om_Finalizers (comp_meta c))"
      "ready_status (k8s E) Component_ico c ConditionTrue \<longrightarrow> filled_component c"
    and r: "getResource (api E) rreq (world t) = (Inr r, v)" "\<not> rsp_Suspend (res_Spec r)"
      "IsZero_time (om_DeletionTimestamp (res_meta r))" "ResourceFinalizer \<in> set (om_Finalizers (res_meta r))"
  shows "(\<exists>q s'. component_Reconcile E V creq s = (Ret q, s') \<and>
      (ready_status (k8s E) Component_ico (obj s') ConditionTrue \<longrightarrow> filled_component (obj s'))) \<and>
    (\<exists>q t'. resource_Reconcile E RL RA rreq t = (Ret q, t') \<and>
      (ready_status (k8s E) Resource_ico (obj t') ConditionTrue \<longrightarrow> filled_resource (obj t')))"
proof
  note S = session_returns_GetSession [OF C]
  show "\<exists>q s'. component_Reconcile E V creq s = (Ret q, s') \<and>
      (ready_status (k8s E) Component_ico (obj s') ConditionTrue \<longrightarrow> filled_component (obj s'))"
    using component_returns [where V = V, OF L A S c(1-3)] c(4) by (auto simp: component_kept_def)
  obtain q t' where run: "resource_Reconcile E RL RA rreq t = (Ret q, t')"
    using resource_returns [OF L A S r] by blast
  have "ready_status (k8s E) Resource_ico (obj t') ConditionTrue \<longrightarrow> filled_resource (obj t')"
    using postG_D [OF resource_Reconcile_settled [OF L F r] run] described_filled by (auto simp: res_settled_def)
  with run show "\<exists>q t'. resource_Reconcile E RL RA rreq t = (Ret q, t') \<and>
      (ready_status (k8s E) Resource_ico (obj t') ConditionTrue \<longrightarrow> filled_resource (obj t'))" by blast
qed

section \<open>Witness\<close>

type_synonym chain_world = "(nat \<times> (string \<times> nat) list, nat \<times> (sessionKey \<times> nat) list, nat) cache_state"

text \<open>The world of the environment is the session cache; the repository lists one version.\<close>

definition chain_env :: "(chain_world, string) controller_env" where
  "chain_env = \<lparr>k8s = sample_k8s,
     api = empty_client\<lparr>getRepository := (\<lambda>_ w. (Inr stored_repository, w)),
       getComponent := (\<lambda>_ w. (Inr (stored_component DowngradePolicyDeny []), w)),
       getResource := (\<lambda>_ w. (Inr live_resource, w))\<rparr>,
     ocmlib = (empty_ocm_lib ''d'')\<lparr>
       RepositorySpecForConfig := (\<lambda>_ _ w. (Inr 0, w)), RepositoryForSpec := (\<lambda>_ _ w. (Inr 0, w)),
       repo_LookupComponent := (\<lambda>_ _ w. (Inr 0, w)), repo_LookupComponentVersion := (\<lambda>_ _ _ w. (Inr 0, w)),
       component_ListVersions := (\<lambda>_ w. (Inr [''1''], w)), session_LookupRepository := (\<lambda>_ _ _ w. (Inr 0, w)),
       session_LookupComponentVersion := (\<lambda>_ _ _ _ w. (Inr 0, w)), compdesc_Hash := (\<lambda>_ _ _. Inr ''digest'')\<rparr>,
     getSession = GetSession sample_env, showDuration = (\<lambda>_. [])\<rparr>"

definition chain_resource_lib :: "(chain_world, unit, unit, unit, unit, unit, unit) resource_lib" where
  "chain_resource_lib = \<lparr>
     access_Meta = (\<lambda>_. \<lparr>rm_Name = [], rm_Type = [], rm_Version = [], rm_ExtraIdentity = [],
       rm_Digest = None, rm_Labels = []\<rparr>),
     access_Access = (\<lambda>_ w. (Inr (), w)), marshal_Access = (\<lambda>_. Inr []), marshal_Resource = (\<lambda>_ _. Inr []),
     unmarshal_Map = (\<lambda>_. Inr ()), marshal_Val = (\<lambda>_. Inr []), digest_String = (\<lambda>_. []), cel_BaseEnv = Inr (),
     cel_Extend = Inr, cel_Compile = (\<lambda>_ _. Inr ()), cel_Program = (\<lambda>_. Inr), cel_Eval = (\<lambda>_. Inr)\<rparr>"

definition chain_start :: "'o \<Rightarrow> ('o, chain_world) rstate" where
  "chain_start x = \<lparr>obj = x, events = [], world = sample_cache\<rparr>"

lemma sample_not_ready:
  "\<not> cond_IsReady sample_k8s (cst_Conditions (comp_Status (stored_component p v)))"
  "\<not> cond_IsReady sample_k8s (rss_Conditions (res_Status live_resource))"
  "\<not> ready_status sample_k8s Component_ico (stored_component p v) ConditionTrue"
  by (simp_all add: stored_component_def live_resource_def zero_defs sample_k8s_def ready_status_def
      component_method_defs sample_true_def)

lemma chain_filled: "filled_api (k8s chain_env) (api chain_env)"
  using sample_not_ready
  by (simp add: filled_api_def chain_env_def stored_repository_def empty_client_def zero_defs
      ready_object_def component_method_defs resource_method_defs)

theorem ready_objects_are_filled_witness:
  "(\<exists>q s'. component_Reconcile chain_env sample_libs \<lparr>nn_Namespace = [], nn_Name = ''c''\<rparr>
      (chain_start Component_zero) = (Ret q, s')) \<and>
   (\<exists>q t'. resource_Reconcile chain_env deployer_res_lib chain_resource_lib \<lparr>nn_Namespace = [], nn_Name = ''r''\<rparr>
      (chain_start Resource_zero) = (Ret q, t'))"
proof -
  let ?c = "stored_component DowngradePolicyDeny []" and ?v = sample_cache
  have env: "k8s chain_env = sample_k8s" "getSession chain_env = GetSession sample_env"
    by (simp_all add: chain_env_def)
  have L: "k8s_contract (k8s chain_env)" using sample_k8s_contract by (simp add: env)
  have F: "foreign_get (getComponent (api chain_env))" by (simp add: chain_env_def foreign_get_def)
  have c: "getComponent (api chain_env) \<lparr>nn_Namespace = [], nn_Name = ''c''\<rparr> (world (chain_start Component_zero)) = (Inr ?c, ?v)"
    "IsZero_time (om_DeletionTimestamp (comp_meta ?c))" "ComponentFinalizer \<in> set (om_Finalizers (comp_meta ?c))"
    "ready_status (k8s chain_env) Component_ico ?c ConditionTrue \<longrightarrow> filled_component ?c"
    using sample_not_ready(3)
    by (simp_all add: env) (simp_all add: chain_env_def chain_start_def stored_component_def zero_defs IsZero_time_def)
  have r: "getResource (api chain_env) req (world (chain_start Resource_zero)) = (Inr live_resource, ?v)"
    "\<not> rsp_Suspend (res_Spec live_resource)" "IsZero_time (om_DeletionTimestamp (res_meta live_resource))"
    "ResourceFinalizer \<in> set (om_Finalizers (res_meta live_resource))" for req
    by (simp_all add: chain_env_def chain_start_def live_resource_def zero_defs IsZero_time_def)
  from ready_objects_are_filled [OF L chain_filled env(2) F c r, of sample_libs deployer_res_lib chain_resource_lib]
  show ?thesis by blast
qed

end
